(* ===== verification/Prelude.thy ===== *)
theory Prelude
  imports Main "HOL-Library.AList"
begin

text \<open>
  What every component shares.

  \<^item> The effect type of the model: a computation takes a state and returns the exception it raised
    or its result, together with the state it left behind. The state survives an exception, as the
    attributes a Python method assigned before it raised do.
  \<^item> Weakest preconditions for that type, with one equation per combinator, so that a property of a
    handler is computed by the simplifier.
  \<^item> Python's insertion-ordered dictionaries as association lists.
  \<^item> The few string operations of the standard library that the code uses.
\<close>

named_theorems wp "weakest-precondition equations"
named_theorems eff_defs "definitions that unfold into the effect combinators"

section \<open>Effects\<close>

type_synonym ('s, 'e, 'a) eff = "'s \<Rightarrow> ('e + 'a) \<times> 's"

definition ret :: "'a \<Rightarrow> ('s, 'e, 'a) eff" where
  "ret x = (\<lambda>s. (Inr x, s))"

definition raise :: "'e \<Rightarrow> ('s, 'e, 'a) eff" where
  "raise e = (\<lambda>s. (Inl e, s))"

definition bindE :: "('s, 'e, 'a) eff \<Rightarrow> ('a \<Rightarrow> ('s, 'e, 'b) eff) \<Rightarrow> ('s, 'e, 'b) eff" where
  "bindE m f = (\<lambda>s. case m s of (Inl e, t) \<Rightarrow> (Inl e, t) | (Inr x, t) \<Rightarrow> f x t)"

text \<open>\<open>try: m except Exception as e: h e\<close>. The handler sees the state \<open>m\<close> left behind.\<close>

definition catchE :: "('s, 'e, 'a) eff \<Rightarrow> ('e \<Rightarrow> ('s, 'f, 'a) eff) \<Rightarrow> ('s, 'f, 'a) eff" where
  "catchE m h = (\<lambda>s. case m s of (Inl e, t) \<Rightarrow> h e t | (Inr x, t) \<Rightarrow> (Inr x, t))"

text \<open>A \<open>try\<close> whose outcome is inspected later, as in \<open>try: done = ... except A: ... except B: ...\<close>.\<close>

definition tryE :: "('s, 'e, 'a) eff \<Rightarrow> ('s, 'f, 'e + 'a) eff" where
  "tryE m = (\<lambda>s. case m s of (r, t) \<Rightarrow> (Inr r, t))"

definition getS :: "('s, 'e, 's) eff" where
  "getS = (\<lambda>s. (Inr s, s))"

definition modifyS :: "('s \<Rightarrow> 's) \<Rightarrow> ('s, 'e, unit) eff" where
  "modifyS f = (\<lambda>s. (Inr (), f s))"

definition thenE :: "('s, 'e, 'a) eff \<Rightarrow> ('s, 'e, 'b) eff \<Rightarrow> ('s, 'e, 'b) eff" where
  "thenE m n = bindE m (\<lambda>_. n)"

definition whenE :: "bool \<Rightarrow> ('s, 'e, unit) eff \<Rightarrow> ('s, 'e, unit) eff" where
  "whenE b m = (if b then m else ret ())"

definition assertE :: "'e \<Rightarrow> bool \<Rightarrow> ('s, 'e, unit) eff" where
  "assertE e b = (if b then ret () else raise e)"

text \<open>A pure computation that may fail, as an effect.\<close>

definition liftE :: "'e + 'a \<Rightarrow> ('s, 'e, 'a) eff" where
  "liftE r = (\<lambda>s. (r, s))"

fun foldE :: "('a \<Rightarrow> 'b \<Rightarrow> ('s, 'e, 'b) eff) \<Rightarrow> 'a list \<Rightarrow> 'b \<Rightarrow> ('s, 'e, 'b) eff" where
  "foldE f [] b = ret b"
| "foldE f (x # xs) b = bindE (f x b) (foldE f xs)"

lemmas eff_basic = ret_def raise_def bindE_def catchE_def tryE_def getS_def modifyS_def
  thenE_def whenE_def assertE_def liftE_def

section \<open>Weakest preconditions\<close>

text \<open>\<open>wpE m Q E s\<close>: run from \<open>s\<close>, \<open>m\<close> either returns and \<open>Q\<close> holds of the result and the
  final state, or raises and \<open>E\<close> holds of the exception and the final state.\<close>

definition wpE :: "('s, 'e, 'a) eff \<Rightarrow> ('a \<Rightarrow> 's \<Rightarrow> bool) \<Rightarrow> ('e \<Rightarrow> 's \<Rightarrow> bool) \<Rightarrow> 's \<Rightarrow> bool" where
  "wpE m Q E s = (case m s of (Inl e, t) \<Rightarrow> E e t | (Inr x, t) \<Rightarrow> Q x t)"

text \<open>The equations are between functions of the state, so they rewrite under binders too.\<close>

lemma wp_ret [wp]: "wpE (ret x) Q E = Q x"
  by (simp add: fun_eq_iff wpE_def ret_def)

lemma wp_raise [wp]: "wpE (raise e) Q E = E e"
  by (simp add: fun_eq_iff wpE_def raise_def)

lemma wp_bind [wp]: "wpE (bindE m f) Q E = wpE m (\<lambda>x. wpE (f x) Q E) E"
  by (auto simp: fun_eq_iff wpE_def bindE_def split: prod.splits sum.splits)

lemma wp_catch [wp]: "wpE (catchE m h) Q E = wpE m Q (\<lambda>e. wpE (h e) Q E)"
  by (auto simp: fun_eq_iff wpE_def catchE_def split: prod.splits sum.splits)

lemma wp_try [wp]: "wpE (tryE m) Q E = wpE m (\<lambda>x. Q (Inr x)) (\<lambda>e. Q (Inl e))"
  by (auto simp: fun_eq_iff wpE_def tryE_def split: prod.splits sum.splits)

lemma wp_getS [wp]: "wpE getS Q E = (\<lambda>s. Q s s)"
  by (simp add: fun_eq_iff wpE_def getS_def)

lemma wp_modifyS [wp]: "wpE (modifyS f) Q E = (\<lambda>s. Q () (f s))"
  by (simp add: fun_eq_iff wpE_def modifyS_def)

lemma wp_then [wp]: "wpE (thenE m n) Q E = wpE m (\<lambda>_. wpE n Q E) E"
  by (simp add: thenE_def wp)

lemma wp_when [wp]: "wpE (whenE b m) Q E = (\<lambda>s. if b then wpE m Q E s else Q () s)"
  by (simp add: fun_eq_iff whenE_def wp)

lemma wp_assert [wp]: "wpE (assertE e b) Q E = (\<lambda>s. if b then Q () s else E e s)"
  by (simp add: fun_eq_iff assertE_def wp)

lemma wp_lift [wp]: "wpE (liftE r) Q E = (\<lambda>s. case r of Inl e \<Rightarrow> E e s | Inr x \<Rightarrow> Q x s)"
  by (simp add: fun_eq_iff wpE_def liftE_def split: sum.split)

lemma wp_if [wp]: "wpE (if b then m else n) Q E = (\<lambda>s. if b then wpE m Q E s else wpE n Q E s)"
  by (simp add: fun_eq_iff)

lemma wp_case_option [wp]:
  "wpE (case x of None \<Rightarrow> m | Some y \<Rightarrow> f y) Q E =
     (\<lambda>s. case x of None \<Rightarrow> wpE m Q E s | Some y \<Rightarrow> wpE (f y) Q E s)"
  by (simp add: fun_eq_iff split: option.split)

lemma wp_case_sum [wp]:
  "wpE (case x of Inl a \<Rightarrow> f a | Inr b \<Rightarrow> g b) Q E =
     (\<lambda>s. case x of Inl a \<Rightarrow> wpE (f a) Q E s | Inr b \<Rightarrow> wpE (g b) Q E s)"
  by (simp add: fun_eq_iff split: sum.split)

lemma wp_case_bool [wp]:
  "wpE (case b of True \<Rightarrow> m | False \<Rightarrow> n) Q E = (\<lambda>s. if b then wpE m Q E s else wpE n Q E s)"
  by (simp add: fun_eq_iff split: bool.split)

lemma wp_True [simp]: "wpE m (\<lambda>_ _. True) (\<lambda>_ _. True) = (\<lambda>_. True)"
  by (simp add: fun_eq_iff wpE_def split: prod.split sum.split)

lemma wp_mono:
  assumes "wpE m Q E s"
    and "\<And>x t. Q x t \<Longrightarrow> Q' x t"
    and "\<And>e t. E e t \<Longrightarrow> E' e t"
  shows "wpE m Q' E' s"
  using assms by (auto simp: wpE_def split: prod.splits sum.splits)

lemma wp_conj: "wpE m Q E s \<Longrightarrow> wpE m Q' E' s \<Longrightarrow> wpE m (\<lambda>x t. Q x t \<and> Q' x t) (\<lambda>e t. E e t \<and> E' e t) s"
  by (auto simp: wpE_def split: prod.splits sum.splits)

text \<open>Reading a result back from a weakest precondition, and the other way round.\<close>

lemma wp_result: "wpE m Q E s \<Longrightarrow> m s = (Inr x, t) \<Longrightarrow> Q x t"
  by (simp add: wpE_def)

lemma wp_error: "wpE m Q E s \<Longrightarrow> m s = (Inl e, t) \<Longrightarrow> E e t"
  by (simp add: wpE_def)

lemma wpI:
  assumes "\<And>x t. m s = (Inr x, t) \<Longrightarrow> Q x t" and "\<And>e t. m s = (Inl e, t) \<Longrightarrow> E e t"
  shows "wpE m Q E s"
  using assms by (auto simp: wpE_def split: prod.splits sum.splits)

text \<open>A computation that never raises, and one that keeps a predicate whatever happens.\<close>

definition no_raise :: "('s, 'e, 'a) eff \<Rightarrow> 's \<Rightarrow> bool" where
  "no_raise m s = wpE m (\<lambda>_ _. True) (\<lambda>_ _. False) s"

definition keeps :: "('s \<Rightarrow> 's \<Rightarrow> bool) \<Rightarrow> ('s, 'e, 'a) eff \<Rightarrow> bool" where
  "keeps R m = (\<forall>s. wpE m (\<lambda>_ t. R s t) (\<lambda>_ t. R s t) s)"

lemma keepsD: "keeps R m \<Longrightarrow> wpE m (\<lambda>_ t. R s t) (\<lambda>_ t. R s t) s"
  by (simp add: keeps_def)

lemma keepsI: "(\<And>s. wpE m (\<lambda>_ t. R s t) (\<lambda>_ t. R s t) s) \<Longrightarrow> keeps R m"
  by (simp add: keeps_def)

lemma keeps_snd: "keeps R m \<Longrightarrow> R s (snd (m s))"
  using keepsD [of R m s] by (auto simp: wpE_def split: prod.splits sum.splits)

lemma keeps_sndI: "(\<And>s. R s (snd (m s))) \<Longrightarrow> keeps R m"
  by (auto simp: keeps_def wpE_def split: prod.split sum.split) (metis snd_conv)+

text \<open>What a preorder between states needs so that a whole computation keeps it: that each of its parts
  does. The rules go with the structure of the computation.\<close>

locale kept =
  fixes R :: "'s \<Rightarrow> 's \<Rightarrow> bool"
  assumes here: "R s s"
    and onwards: "R s t \<Longrightarrow> R t u \<Longrightarrow> R s u"
begin

lemma basic:
  "keeps R (ret x)" "keeps R (raise e)" "keeps R (liftE r)" "keeps R getS" "keeps R (assertE e b)"
  by (auto simp: keeps_def wp here split: sum.split)

lemma update: "(\<And>s. R s (f s)) \<Longrightarrow> keeps R (modifyS f)"
  by (simp add: keeps_def wp)

lemma bind:
  assumes "keeps R m" and "\<And>x. keeps R (f x)"
  shows "keeps R (bindE m f)"
  unfolding keeps_def wp
  by (intro allI wp_mono [OF keepsD [OF assms(1)]])
     (auto intro: wp_mono [OF keepsD [OF assms(2)]] onwards)

lemma catch:
  assumes "keeps R m" and "\<And>x. keeps R (f x)"
  shows "keeps R (catchE m f)"
  unfolding keeps_def wp
  by (intro allI wp_mono [OF keepsD [OF assms(1)]])
     (auto intro: wp_mono [OF keepsD [OF assms(2)]] onwards)

lemma after: "keeps R m \<Longrightarrow> keeps R n \<Longrightarrow> keeps R (thenE m n)"
  by (simp add: thenE_def bind)

lemma guarded: "keeps R m \<Longrightarrow> keeps R (whenE b m)"
  by (simp add: whenE_def basic)

lemma either: "(b \<Longrightarrow> keeps R m) \<Longrightarrow> (\<not> b \<Longrightarrow> keeps R n) \<Longrightarrow> keeps R (if b then m else n)"
  by simp

lemma optional:
  "(z = None \<Longrightarrow> keeps R m) \<Longrightarrow> (\<And>x. z = Some x \<Longrightarrow> keeps R (f x)) \<Longrightarrow>
   keeps R (case z of None \<Rightarrow> m | Some x \<Rightarrow> f x)"
  by (simp split: option.split)

lemma attempt: "keeps R m \<Longrightarrow> keeps R (tryE m)"
  by (simp add: keeps_def wp)

lemmas rules = basic bind catch after guarded either optional attempt

end

section \<open>Dictionaries\<close>

text \<open>
  A Python dict keeps insertion order and assigning to a present key keeps its place: this is
  \<open>AList.update\<close>. \<open>d.get(k, v)\<close>, \<open>d.pop(k, None)\<close>, \<open>d.setdefault(k, v)\<close> and \<open>d | e\<close> follow.
\<close>

type_synonym ('k, 'v) dict = "('k \<times> 'v) list"

definition dget :: "('k, 'v) dict \<Rightarrow> 'k \<Rightarrow> 'v \<Rightarrow> 'v" where
  "dget d k v = (case map_of d k of None \<Rightarrow> v | Some w \<Rightarrow> w)"

definition dset :: "('k, 'v) dict \<Rightarrow> 'k \<Rightarrow> 'v \<Rightarrow> ('k, 'v) dict" where
  "dset d k v = AList.update k v d"

definition dpop :: "('k, 'v) dict \<Rightarrow> 'k \<Rightarrow> ('k, 'v) dict" where
  "dpop d k = AList.delete k d"

definition dsetdefault :: "('k, 'v) dict \<Rightarrow> 'k \<Rightarrow> 'v \<Rightarrow> ('k, 'v) dict" where
  "dsetdefault d k v = (case map_of d k of None \<Rightarrow> dset d k v | Some _ \<Rightarrow> d)"

definition dmerge :: "('k, 'v) dict \<Rightarrow> ('k, 'v) dict \<Rightarrow> ('k, 'v) dict" where
  "dmerge d e = fold (\<lambda>(k, v) acc. dset acc k v) e d"

lemma map_of_dset [simp]: "map_of (dset d k v) = (map_of d)(k \<mapsto> v)"
  by (simp add: dset_def update_conv')

lemma map_of_dpop [simp]: "map_of (dpop d k) = (map_of d)(k := None)"
  by (simp add: dpop_def delete_conv')

lemma map_of_dsetdefault [simp]:
  "map_of (dsetdefault d k v) = (case map_of d k of None \<Rightarrow> (map_of d)(k \<mapsto> v) | Some _ \<Rightarrow> map_of d)"
  by (simp add: dsetdefault_def split: option.split)

lemma dget_dset [simp]: "dget (dset d k v) k' w = (if k' = k then v else dget d k' w)"
  by (simp add: dget_def)

lemma dget_dpop [simp]: "dget (dpop d k) k' w = (if k' = k then w else dget d k' w)"
  by (simp add: dget_def)

lemma dget_Nil [simp]: "dget [] k w = w"
  by (simp add: dget_def)

lemma length_dset: "length (dset d k v) = (if map_of d k = None then Suc (length d) else length d)"
  unfolding dset_def by (induction d) auto

lemma map_of_dmerge: "distinct (map fst e) \<Longrightarrow> map_of (dmerge d e) k =
   (case map_of e k of None \<Rightarrow> map_of d k | Some v \<Rightarrow> Some v)"
proof (induction e arbitrary: d)
  case Nil
  then show ?case by (simp add: dmerge_def)
next
  case (Cons p e)
  obtain k' v where p: "p = (k', v)" by (cases p)
  have "map_of (dmerge d (p # e)) k = map_of (dmerge (dset d k' v) e) k"
    by (simp add: dmerge_def p)
  also have "\<dots> = (case map_of e k of None \<Rightarrow> map_of (dset d k' v) k | Some v \<Rightarrow> Some v)"
    using Cons by simp
  finally show ?case
    using Cons.prems p by (auto split: option.split dest!: map_of_SomeD intro: rev_image_eqI)
qed

section \<open>Strings\<close>

text \<open>
  \<open>str(n)\<close> of a non-negative int. Python strings are lists of code points and HOL's are lists of
  8-bit characters: text beyond ASCII stands in the model as its UTF-8 bytes.
\<close>

definition digit :: "nat \<Rightarrow> char" where
  "digit n = char_of (48 + n)"

fun str_nat :: "nat \<Rightarrow> string" where
  "str_nat n = (if n < 10 then [digit n] else str_nat (n div 10) @ [digit (n mod 10)])"

declare str_nat.simps [simp del]

definition digit_val :: "char \<Rightarrow> nat" where
  "digit_val c = of_char c - 48"

definition read_nat :: "string \<Rightarrow> nat" where
  "read_nat s = foldl (\<lambda>n c. 10 * n + digit_val c) 0 s"

lemma of_char_digit: "n < 10 \<Longrightarrow> of_char (digit n) = (48 + n :: nat)"
  by (simp add: digit_def of_char_of)

lemma digit_val_digit [simp]: "n < 10 \<Longrightarrow> digit_val (digit n) = n"
  by (simp add: digit_val_def of_char_digit)

lemma read_str_nat: "read_nat (str_nat n) = n"
proof (induction n rule: str_nat.induct)
  case (1 n)
  show ?case
  proof (cases "n < 10")
    case True
    then show ?thesis by (simp add: str_nat.simps [of n] read_nat_def)
  next
    case False
    with "1" have "read_nat (str_nat (n div 10)) = n div 10" by simp
    with False show ?thesis by (simp add: str_nat.simps [of n] read_nat_def)
  qed
qed

lemma str_nat_inject [simp]: "str_nat m = str_nat n \<longleftrightarrow> m = n"
  by (metis read_str_nat)

lemma str_nat_chars: "c \<in> set (str_nat n) \<Longrightarrow> 48 \<le> (of_char c :: nat) \<and> (of_char c :: nat) < 58"
proof (induction n rule: str_nat.induct)
  case (1 n)
  have d: "m < 10 \<Longrightarrow> 48 \<le> (of_char (digit m) :: nat) \<and> (of_char (digit m) :: nat) < 58" for m
    by (simp add: of_char_digit)
  show ?case
  proof (cases "n < 10")
    case True
    with "1.prems" show ?thesis by (simp add: str_nat.simps [of n] d)
  next
    case False
    with "1" show ?thesis by (auto simp: str_nat.simps [of n] d)
  qed
qed

lemma str_nat_no_colon: "CHR '':'' \<notin> set (str_nat n)"
  using str_nat_chars [of "CHR '':''" n] by auto

lemma str_nat_not_Nil [simp]: "str_nat n \<noteq> []"
  by (simp add: str_nat.simps [of n])

text \<open>Two texts joined by a separator that the second part does not contain split uniquely.\<close>

lemma take_before: "c \<notin> set b \<Longrightarrow> takeWhile (\<lambda>x. x \<noteq> c) (b @ c # a) = b"
  by (induction b) auto

lemma drop_before: "c \<notin> set b \<Longrightarrow> dropWhile (\<lambda>x. x \<noteq> c) (b @ c # a) = c # a"
  by (induction b) auto

lemma join_unique:
  assumes "a @ [c] @ b = a' @ [c] @ b'" and "c \<notin> set b" and "c \<notin> set b'"
  shows "a = a' \<and> b = b'"
proof -
  have eq: "rev b @ c # rev a = rev b' @ c # rev a'"
    using arg_cong [OF assms(1), of rev] by simp
  have nb: "c \<notin> set (rev b)" "c \<notin> set (rev b')" using assms by simp_all
  have "rev b = rev b'"
    using take_before [OF nb(1), of "rev a"] take_before [OF nb(2), of "rev a'"] eq by simp
  moreover have "c # rev a = c # rev a'"
    using drop_before [OF nb(1), of "rev a"] drop_before [OF nb(2), of "rev a'"] eq by simp
  ultimately show ?thesis by simp
qed

text \<open>\<open>s.split(c)\<close>.\<close>

fun split_on :: "char \<Rightarrow> string \<Rightarrow> string list" where
  "split_on c [] = [[]]"
| "split_on c (x # xs) = (if x = c then [] # split_on c xs
     else (case split_on c xs of [] \<Rightarrow> [[x]] | p # ps \<Rightarrow> (x # p) # ps))"

lemma split_on_not_Nil [simp]: "split_on c s \<noteq> []"
  by (induction s) (auto split: list.split)

lemma split_on_plain: "c \<notin> set s \<Longrightarrow> split_on c s = [s]"
  by (induction s) auto

lemma split_on_append: "c \<notin> set s \<Longrightarrow> split_on c (s @ c # t) = s # split_on c t"
  by (induction s) auto

text \<open>On ASCII text, \<open>s.strip()\<close>.\<close>

definition is_space :: "char \<Rightarrow> bool" where
  "is_space c \<longleftrightarrow> (let n = of_char c :: nat in (9 \<le> n \<and> n \<le> 13) \<or> (28 \<le> n \<and> n \<le> 32))"

definition strip :: "string \<Rightarrow> string" where
  "strip s = rev (dropWhile is_space (rev (dropWhile is_space s)))"

text \<open>\<open>upper\<close> and \<open>lower\<close> of an ASCII character.\<close>

definition upper_char :: "char \<Rightarrow> char" where
  "upper_char c = (let n = of_char c :: nat in if 97 \<le> n \<and> n \<le> 122 then char_of (n - 32) else c)"

definition lower_char :: "char \<Rightarrow> char" where
  "lower_char c = (let n = of_char c :: nat in if 65 \<le> n \<and> n \<le> 90 then char_of (n + 32) else c)"

text \<open>\<open>s.rstrip('/')\<close>.\<close>

definition rstrip_slash :: "string \<Rightarrow> string" where
  "rstrip_slash s = rev (dropWhile (\<lambda>c. c = CHR ''/'') (rev s))"

end
