(* ===== verification/Domain.thy ===== *)
theory Domain
  imports Prelude
begin

text \<open>
  The data model of \<open>src/orchestrator/domain.py\<close>: its enums (with the string each member carries),
  its exceptions, its value objects, the run's working state and the two entities.

  \<^item> Enum members keep their names under a prefix for their class: \<open>SN_RUN_ENGINE\<close> is
    \<open>StepName.RUN_ENGINE\<close>, and \<open>step_value\<close> is \<open>.value\<close>.
  \<^item> \<open>datetime\<close> is an integer count of microseconds, the resolution of Python's; a \<open>timedelta\<close> is a
    difference of two.
  \<^item> A \<open>uuid.UUID\<close> is its canonical text.
  \<^item> Free-form payloads (\<open>dict[str, Any]\<close>) are JSON values: they enter and leave as JSON.
  \<^item> \<open>WorkflowRun.current_step\<close> is a plain string column, so it is an optional string here, and
    \<open>StepName(...)\<close> of it can fail.
\<close>

type_synonym uuid = string
type_synonym datetime = int
type_synonym timedelta = int

section \<open>Free-form payloads\<close>

text \<open>\<open>JFloat\<close> keeps the text of the number; nothing in the code computes with one.\<close>

datatype json =
  JNull
| JBool bool
| JInt int
| JFloat string
| JStr string
| JList "json list"
| JDict "(string \<times> json) list"

type_synonym payload = "(string, json) dict"

definition opt_str :: "string option \<Rightarrow> json" where
  "opt_str x = (case x of None \<Rightarrow> JNull | Some v \<Rightarrow> JStr v)"

section \<open>Enums\<close>

datatype run_type = RT_AUTOMATION | RT_RESOURCE | RT_LEGACY

fun run_type_value :: "run_type \<Rightarrow> string" where
  "run_type_value RT_AUTOMATION = ''automation''"
| "run_type_value RT_RESOURCE = ''resource''"
| "run_type_value RT_LEGACY = ''legacy''"

datatype run_status = RS_PENDING | RS_RUNNING | RS_COMPLETED | RS_FAILED | RS_REJECTED

fun run_status_value :: "run_status \<Rightarrow> string" where
  "run_status_value RS_PENDING = ''pending''"
| "run_status_value RS_RUNNING = ''running''"
| "run_status_value RS_COMPLETED = ''completed''"
| "run_status_value RS_FAILED = ''failed''"
| "run_status_value RS_REJECTED = ''rejected''"

datatype workflow_engine_type = WE_AIRFLOW | WE_LEGACY

fun engine_type_value :: "workflow_engine_type \<Rightarrow> string" where
  "engine_type_value WE_AIRFLOW = ''airflow''"
| "engine_type_value WE_LEGACY = ''legacy''"

datatype step_name =
  SN_CREATE_TICKET
| SN_CONFIGURE_RESOURCE
| SN_AWAIT_APPROVAL
| SN_VALIDATE_RESOURCE
| SN_RUN_ENGINE
| SN_FINALIZE_RESOURCE
| SN_CLOSE_TICKET
| SN_SUBMIT_LEGACY

fun step_value :: "step_name \<Rightarrow> string" where
  "step_value SN_CREATE_TICKET = ''creating_ticket''"
| "step_value SN_CONFIGURE_RESOURCE = ''configuring_resource''"
| "step_value SN_AWAIT_APPROVAL = ''awaiting_approval''"
| "step_value SN_VALIDATE_RESOURCE = ''validating_resource''"
| "step_value SN_RUN_ENGINE = ''running_engine''"
| "step_value SN_FINALIZE_RESOURCE = ''finalizing_resource''"
| "step_value SN_CLOSE_TICKET = ''closing_ticket''"
| "step_value SN_SUBMIT_LEGACY = ''submitting_legacy''"

text \<open>The member's own name: formatting a member in an f-string yields \<open>StepName.\<close> and this.\<close>

fun step_member :: "step_name \<Rightarrow> string" where
  "step_member SN_CREATE_TICKET = ''CREATE_TICKET''"
| "step_member SN_CONFIGURE_RESOURCE = ''CONFIGURE_RESOURCE''"
| "step_member SN_AWAIT_APPROVAL = ''AWAIT_APPROVAL''"
| "step_member SN_VALIDATE_RESOURCE = ''VALIDATE_RESOURCE''"
| "step_member SN_RUN_ENGINE = ''RUN_ENGINE''"
| "step_member SN_FINALIZE_RESOURCE = ''FINALIZE_RESOURCE''"
| "step_member SN_CLOSE_TICKET = ''CLOSE_TICKET''"
| "step_member SN_SUBMIT_LEGACY = ''SUBMIT_LEGACY''"

definition all_steps :: "step_name list" where
  "all_steps = [SN_CREATE_TICKET, SN_CONFIGURE_RESOURCE, SN_AWAIT_APPROVAL, SN_VALIDATE_RESOURCE,
     SN_RUN_ENGINE, SN_FINALIZE_RESOURCE, SN_CLOSE_TICKET, SN_SUBMIT_LEGACY]"

text \<open>\<open>StepName(v)\<close>: the member with that value, if there is one.\<close>

definition step_of_value :: "string \<Rightarrow> step_name option" where
  "step_of_value v = List.find (\<lambda>s. step_value s = v) all_steps"

datatype resource_operation = RO_CREATE | RO_UPDATE | RO_DELETE

fun operation_value :: "resource_operation \<Rightarrow> string" where
  "operation_value RO_CREATE = ''create''"
| "operation_value RO_UPDATE = ''update''"
| "operation_value RO_DELETE = ''delete''"

datatype resource_state = ST_PROVISIONING | ST_UPDATING | ST_DELETING | ST_READY | ST_DELETED

fun state_value :: "resource_state \<Rightarrow> string" where
  "state_value ST_PROVISIONING = ''PROVISIONING''"
| "state_value ST_UPDATING = ''UPDATING''"
| "state_value ST_DELETING = ''DELETING''"
| "state_value ST_READY = ''READY''"
| "state_value ST_DELETED = ''DELETED''"

datatype engine_run_status = ER_SUCCESS | ER_FAILED | ER_IN_PROGRESS

datatype approval_status = AP_PENDING | AP_APPROVED | AP_REJECTED

datatype failure_kind = FK_VALIDATION | FK_INFRA_PRECHECK | FK_TASK

datatype ticket_outcome = TO_SUCCESSFUL | TO_UNSUCCESSFUL | TO_DOCUMENTATION

subsection \<open>The order of the steps\<close>

text \<open>Steps are ordered as the enum declares them; every run plan follows this order.\<close>

fun step_rank :: "step_name \<Rightarrow> nat" where
  "step_rank SN_CREATE_TICKET = 0"
| "step_rank SN_CONFIGURE_RESOURCE = 1"
| "step_rank SN_AWAIT_APPROVAL = 2"
| "step_rank SN_VALIDATE_RESOURCE = 3"
| "step_rank SN_RUN_ENGINE = 4"
| "step_rank SN_FINALIZE_RESOURCE = 5"
| "step_rank SN_CLOSE_TICKET = 6"
| "step_rank SN_SUBMIT_LEGACY = 7"

lemma step_rank_inject [simp]: "step_rank a = step_rank b \<longleftrightarrow> a = b"
  by (cases a; cases b) simp_all

instantiation step_name :: linorder
begin

definition less_eq_step_name :: "step_name \<Rightarrow> step_name \<Rightarrow> bool" where
  "less_eq_step_name a b \<longleftrightarrow> step_rank a \<le> step_rank b"

definition less_step_name :: "step_name \<Rightarrow> step_name \<Rightarrow> bool" where
  "less_step_name a b \<longleftrightarrow> step_rank a < step_rank b"

instance
  by standard (auto simp: less_eq_step_name_def less_step_name_def simp flip: step_rank_inject)

end

lemma step_value_inject [simp]: "step_value a = step_value b \<longleftrightarrow> a = b"
  by (cases a; cases b) simp_all

lemma step_of_value_value [simp]: "step_of_value (step_value s) = Some s"
  by (cases s) (simp_all add: step_of_value_def all_steps_def)

lemma step_of_value_SomeD: "step_of_value v = Some s \<Longrightarrow> step_value s = v"
  by (auto simp: step_of_value_def find_Some_iff)

lemma step_value_no_colon: "CHR '':'' \<notin> set (step_value s)"
  by (cases s) simp_all

lemma step_value_not_Nil [simp]: "step_value s \<noteq> []"
  by (cases s) simp_all

text \<open>No step value starts with a digit, so no step value reads as an attempt number.\<close>

lemma step_value_not_nat [simp]: "step_value s \<noteq> str_nat n" "str_nat n \<noteq> step_value s"
proof -
  have "hd (step_value s) \<in> set (str_nat n) \<Longrightarrow> False"
    using str_nat_chars [of "hd (step_value s)" n] by (cases s) auto
  then show "step_value s \<noteq> str_nat n" by (metis hd_in_set str_nat_not_Nil)
  then show "str_nat n \<noteq> step_value s" by simp
qed

section \<open>Exceptions\<close>

text \<open>
  One constructor per exception class of the domain, then the ones Python itself raises in this
  code, then any other (a class name and its text: what a third-party client raises). The argument
  is \<open>str(error)\<close>.
\<close>

datatype exn =
  StaleRunError string
| StepDeadlineExceeded string
| RunRejected string
| StepFailure string failure_kind
| UnknownWorkflowError string
| WorkflowAlreadyExistsError string
| ResourceParamsRequired string
| ResourceVendorIdRequired string
| ResourceIdRequired string
| ResourceNotFoundError string
| TicketRefRequired string
| AssertionError string
| KeyError string
| ValueError string
| RuntimeError string
| OtherError string string

fun exn_name :: "exn \<Rightarrow> string" where
  "exn_name (StaleRunError _) = ''StaleRunError''"
| "exn_name (StepDeadlineExceeded _) = ''StepDeadlineExceeded''"
| "exn_name (RunRejected _) = ''RunRejected''"
| "exn_name (StepFailure _ _) = ''StepFailure''"
| "exn_name (UnknownWorkflowError _) = ''UnknownWorkflowError''"
| "exn_name (WorkflowAlreadyExistsError _) = ''WorkflowAlreadyExistsError''"
| "exn_name (ResourceParamsRequired _) = ''ResourceParamsRequired''"
| "exn_name (ResourceVendorIdRequired _) = ''ResourceVendorIdRequired''"
| "exn_name (ResourceIdRequired _) = ''ResourceIdRequired''"
| "exn_name (ResourceNotFoundError _) = ''ResourceNotFoundError''"
| "exn_name (TicketRefRequired _) = ''TicketRefRequired''"
| "exn_name (AssertionError _) = ''AssertionError''"
| "exn_name (KeyError _) = ''KeyError''"
| "exn_name (ValueError _) = ''ValueError''"
| "exn_name (RuntimeError _) = ''RuntimeError''"
| "exn_name (OtherError c _) = c"

fun exn_str :: "exn \<Rightarrow> string" where
  "exn_str (StaleRunError m) = m"
| "exn_str (StepDeadlineExceeded m) = m"
| "exn_str (RunRejected m) = m"
| "exn_str (StepFailure m _) = m"
| "exn_str (UnknownWorkflowError m) = m"
| "exn_str (WorkflowAlreadyExistsError m) = m"
| "exn_str (ResourceParamsRequired m) = m"
| "exn_str (ResourceVendorIdRequired m) = m"
| "exn_str (ResourceIdRequired m) = m"
| "exn_str (ResourceNotFoundError m) = m"
| "exn_str (TicketRefRequired m) = m"
| "exn_str (AssertionError m) = m"
| "exn_str (KeyError m) = m"
| "exn_str (ValueError m) = m"
| "exn_str (RuntimeError m) = m"
| "exn_str (OtherError _ m) = m"

text \<open>The classes that an \<open>except\<close> clause or an \<open>isinstance\<close> test of the code names.\<close>

fun is_stale :: "exn \<Rightarrow> bool" where
  "is_stale (StaleRunError _) = True"
| "is_stale _ = False"

fun is_rejected :: "exn \<Rightarrow> bool" where
  "is_rejected (RunRejected _) = True"
| "is_rejected _ = False"

fun is_step_failure :: "exn \<Rightarrow> bool" where
  "is_step_failure (StepFailure _ _) = True"
| "is_step_failure _ = False"

fun is_not_found :: "exn \<Rightarrow> bool" where
  "is_not_found (ResourceNotFoundError _) = True"
| "is_not_found _ = False"

text \<open>\<open>error.kind if isinstance(error, StepFailure) else FailureKind.TASK\<close>.\<close>

fun exn_kind :: "exn \<Rightarrow> failure_kind" where
  "exn_kind (StepFailure _ k) = k"
| "exn_kind _ = FK_TASK"

text \<open>
  \<open>StepName(v)\<close> raises when no member has the value. The text quotes the value as \<open>repr\<close> does for a
  string without quotes or control characters.
\<close>

definition quote_char :: string where
  "quote_char = [CHR 0x27]"

definition parse_step :: "string \<Rightarrow> exn + step_name" where
  "parse_step v = (case step_of_value v of
     Some s \<Rightarrow> Inr s
   | None \<Rightarrow> Inl (ValueError (quote_char @ v @ quote_char @ '' is not a valid StepName'')))"

lemma parse_step_value [simp]: "parse_step (step_value s) = Inr s"
  by (simp add: parse_step_def)

section \<open>Value objects\<close>

record ticket_ref =
  tr_ticket_id :: string
  tr_native_id :: string

record resource_spec =
  rs_project_id :: string
  rs_resource_type :: string
  rs_vendor_id :: string
  rs_resource_id :: string
  rs_name :: string
  rs_region :: "string option"
  rs_environment :: "string option"
  rs_description :: string
  rs_tags :: "string list"
  rs_data :: payload
  rs_alert_groups :: "string list"

record legacy_request =
  lr_flow_type :: string
  lr_project_id :: "string option"
  lr_resource_type :: "string option"
  lr_variables :: payload
  lr_db_operation :: string
  lr_name :: string
  lr_region :: string

record resource_validation_request =
  vq_project_id :: string
  vq_resource_type :: string
  vq_name :: string
  vq_operation :: resource_operation
  vq_workflow_identifier :: string
  vq_params :: payload
  vq_region :: "string option"
  vq_environment :: "string option"

record resource_validation_result =
  vr_eligible :: bool
  vr_reason :: "string option"

record resolved_workflow =
  rw_identifier :: string
  rw_name :: "string option"
  rw_engine_type :: workflow_engine_type
  rw_automation_id :: string
  rw_ticket_template_id :: string

text \<open>\<open>self.name or self.identifier\<close>: an empty name falls back too.\<close>

definition label :: "resolved_workflow \<Rightarrow> string" where
  "label w = (case rw_name w of None \<Rightarrow> rw_identifier w
     | Some n \<Rightarrow> if n = [] then rw_identifier w else n)"

record engine_failure =
  ef_failed_task :: "string option"
  ef_responsible_group :: "string option"
  ef_detail :: "string option"
  ef_exception_name :: "string option"
  ef_kind :: failure_kind

definition no_engine_failure :: engine_failure where
  "no_engine_failure = \<lparr>ef_failed_task = None, ef_responsible_group = None, ef_detail = None,
     ef_exception_name = None, ef_kind = FK_TASK\<rparr>"

record step_result =
  sr_final_vendor_id :: "string option"

section \<open>The run\<close>

record run_state =
  st_workflow :: resolved_workflow
  st_ticket_params :: payload
  st_workflow_params :: payload
  st_resource :: "resource_spec option"
  st_operation :: resource_operation
  st_legacy :: "legacy_request option"
  st_ticket :: "ticket_ref option"
  st_engine_run_id :: "string option"
  st_resource_configured :: bool
  st_resource_finalized :: bool
  st_ticket_closed :: bool
  st_legacy_submitted :: bool
  st_legacy_reference :: "string option"
  st_step_attempts :: "(step_name, nat) dict"
  st_step_started_at :: "(step_name, datetime) dict"
  st_attempt_started_at :: "datetime option"
  st_errors :: "(step_name, string) dict"
  st_step_results :: "(step_name, step_result) dict"
  st_engine_failure :: "engine_failure option"
  st_incident_id :: "string option"

text \<open>A \<open>RunState\<close> built from a workflow alone: every other field takes its declared default.\<close>

definition new_run_state :: "resolved_workflow \<Rightarrow> run_state" where
  "new_run_state w = \<lparr>st_workflow = w, st_ticket_params = [], st_workflow_params = [],
     st_resource = None, st_operation = RO_CREATE, st_legacy = None, st_ticket = None,
     st_engine_run_id = None, st_resource_configured = False, st_resource_finalized = False,
     st_ticket_closed = False, st_legacy_submitted = False, st_legacy_reference = None,
     st_step_attempts = [], st_step_started_at = [], st_attempt_started_at = None,
     st_errors = [], st_step_results = [], st_engine_failure = None, st_incident_id = None\<rparr>"

record workflow_run =
  run_id :: uuid
  run_run_type :: run_type
  run_status :: run_status
  run_current_step :: "string option"
  run_workflow_identifier :: string
  run_created_by :: string
  run_max_retries :: int
  run_scheduled_at :: "datetime option"
  run_created_at :: datetime
  run_updated_at :: datetime
  run_version :: int
  run_run_state :: run_state

record workflow =
  wf_workflow_id :: uuid
  wf_identifier :: string
  wf_name :: "string option"
  wf_run_type :: run_type
  wf_engine_type :: workflow_engine_type
  wf_automation_id :: string
  wf_ticket_template_id :: string
  wf_created_at :: datetime

text \<open>The terminal statuses.\<close>

definition terminal_status :: "run_status \<Rightarrow> bool" where
  "terminal_status s \<longleftrightarrow> s \<in> {RS_COMPLETED, RS_FAILED, RS_REJECTED}"

lemma terminal_status_simps [simp]:
  "terminal_status RS_COMPLETED" "terminal_status RS_FAILED" "terminal_status RS_REJECTED"
  "\<not> terminal_status RS_PENDING" "\<not> terminal_status RS_RUNNING"
  by (simp_all add: terminal_status_def)

end
