(* ===== verification/Ports.thy ===== *)
theory Ports
  imports Domain
begin

text \<open>
  The ports of \<open>src/orchestrator/ports.py\<close>. Each abstract class is a record of operations over a
  world \<open>'w\<close> (the ticket system, the resource manager, the engines, the legacy runner and the run
  store, whatever they do between two calls). An operation takes the world, and raises or returns
  and leaves a new world, so every provider behaviour, failures included, is an instance.

  \<open>'w drive\<close> is what one drive of a run works on: the run object in memory, the world, and the
  record of the port calls made so far with their outcomes. The record of calls is not state of the
  program: it is what properties about the order and number of calls speak of.
\<close>

section \<open>The abstract classes\<close>

record incident_request =
  ir_summary :: string
  ir_requested_by :: string
  ir_responsible_group :: string
  ir_flow_type :: "string option"
  ir_failed_task :: "string option"
  ir_comment :: "string option"
  ir_description :: "string option"

record 'w ticket_client =
  tc_open_ticket :: "string \<Rightarrow> payload \<Rightarrow> string \<Rightarrow> string \<Rightarrow> ('w, exn, ticket_ref) eff"
  tc_get_approval_status :: "ticket_ref \<Rightarrow> ('w, exn, approval_status) eff"
  tc_close_ticket :: "ticket_ref \<Rightarrow> string option \<Rightarrow> ticket_outcome \<Rightarrow> ('w, exn, unit) eff"
  tc_annotate_ticket :: "ticket_ref \<Rightarrow> string \<Rightarrow> ('w, exn, unit) eff"
  tc_open_incident :: "incident_request \<Rightarrow> ('w, exn, ticket_ref) eff"
  tc_close_incident :: "ticket_ref \<Rightarrow> string option \<Rightarrow> ticket_outcome \<Rightarrow> ('w, exn, unit) eff"

record 'w resource_client =
  rc_create_resource :: "string \<Rightarrow> string \<Rightarrow> payload \<Rightarrow> string \<Rightarrow> ('w, exn, string option) eff"
  rc_validate_resource ::
    "resource_validation_request \<Rightarrow> ('w, exn, resource_validation_result) eff"
  rc_update_resource :: "string \<Rightarrow> string \<Rightarrow> string \<Rightarrow> payload \<Rightarrow> ('w, exn, unit) eff"
  rc_delete_resource :: "string \<Rightarrow> string \<Rightarrow> string \<Rightarrow> ('w, exn, unit) eff"

record 'w engine_client =
  ec_trigger_workflow :: "string \<Rightarrow> payload \<Rightarrow> string \<Rightarrow> ('w, exn, string) eff"
  ec_query_run_status :: "string \<Rightarrow> string \<Rightarrow> ('w, exn, engine_run_status) eff"
  ec_get_failure :: "string \<Rightarrow> string \<Rightarrow> ('w, exn, engine_failure) eff"
  ec_get_output :: "string \<Rightarrow> string \<Rightarrow> string \<Rightarrow> ('w, exn, string option) eff"

record 'w legacy_client =
  lc_submit :: "legacy_request \<Rightarrow> string \<Rightarrow> ('w, exn, string option) eff"

text \<open>
  The part of the run repository the executor uses. \<open>save\<close> writes the row's new version back into
  the entity it was given; here it returns it.
\<close>

record 'w run_store =
  rp_get :: "uuid \<Rightarrow> ('w, exn, workflow_run option) eff"
  rp_save :: "workflow_run \<Rightarrow> ('w, exn, int) eff"

text \<open>\<open>utcnow()\<close> and \<open>random.uniform(1, 5)\<close> (in microseconds).\<close>

record 'w clock =
  ck_utcnow :: "'w \<Rightarrow> datetime \<times> 'w"
  ck_uniform :: "'w \<Rightarrow> timedelta \<times> 'w"

section \<open>A drive and its calls\<close>

datatype event =
  Ev_open_ticket string payload string string "exn + ticket_ref"
| Ev_get_approval_status ticket_ref "exn + approval_status"
| Ev_close_ticket ticket_ref "string option" ticket_outcome "exn + unit"
| Ev_annotate_ticket ticket_ref string "exn + unit"
| Ev_open_incident incident_request "exn + ticket_ref"
| Ev_close_incident ticket_ref "string option" ticket_outcome "exn + unit"
| Ev_create_resource string string payload string "exn + string option"
| Ev_validate_resource resource_validation_request "exn + resource_validation_result"
| Ev_update_resource string string string payload "exn + unit"
| Ev_delete_resource string string string "exn + unit"
| Ev_submit legacy_request string "exn + string option"
| Ev_trigger_workflow string payload string "exn + string"
| Ev_query_run_status string string "exn + engine_run_status"
| Ev_get_failure string string "exn + engine_failure"
| Ev_get_output string string string "exn + string option"
| Ev_get_run uuid "exn + workflow_run option"
| Ev_save workflow_run "exn + int"

record 'w drive =
  dv_run :: workflow_run
  dv_world :: 'w
  dv_trace :: "event list"

definition port :: "(exn + 'a \<Rightarrow> event) \<Rightarrow> ('w, exn, 'a) eff \<Rightarrow> ('w drive, exn, 'a) eff" where
  "port ev act = (\<lambda>s. case act (dv_world s) of
     (r, w) \<Rightarrow> (r, s\<lparr>dv_world := w, dv_trace := dv_trace s @ [ev r]\<rparr>))"

definition clock_read :: "('w \<Rightarrow> 'a \<times> 'w) \<Rightarrow> ('w drive, exn, 'a) eff" where
  "clock_read f = (\<lambda>s. case f (dv_world s) of (x, w) \<Rightarrow> (Inr x, s\<lparr>dv_world := w\<rparr>))"

definition the_run :: "('w drive, exn, workflow_run) eff" where
  "the_run = (\<lambda>s. (Inr (dv_run s), s))"

definition the_state :: "('w drive, exn, run_state) eff" where
  "the_state = (\<lambda>s. (Inr (run_run_state (dv_run s)), s))"

definition upd_run :: "(workflow_run \<Rightarrow> workflow_run) \<Rightarrow> ('w drive, exn, unit) eff" where
  "upd_run f = (\<lambda>s. (Inr (), s\<lparr>dv_run := f (dv_run s)\<rparr>))"

definition upd_state :: "(run_state \<Rightarrow> run_state) \<Rightarrow> ('w drive, exn, unit) eff" where
  "upd_state f = upd_run (\<lambda>r. r\<lparr>run_run_state := f (run_run_state r)\<rparr>)"

lemma wp_port [wp]:
  "wpE (port ev act) Q E = (\<lambda>s.
     (\<forall>x w. act (dv_world s) = (Inr x, w) \<longrightarrow>
        Q x (s\<lparr>dv_world := w, dv_trace := dv_trace s @ [ev (Inr x)]\<rparr>)) \<and>
     (\<forall>e w. act (dv_world s) = (Inl e, w) \<longrightarrow>
        E e (s\<lparr>dv_world := w, dv_trace := dv_trace s @ [ev (Inl e)]\<rparr>)))"
  by (auto simp: fun_eq_iff wpE_def port_def split: prod.splits sum.splits)

lemma wp_clock_read [wp]:
  "wpE (clock_read f) Q E = (\<lambda>s. \<forall>x w. f (dv_world s) = (x, w) \<longrightarrow> Q x (s\<lparr>dv_world := w\<rparr>))"
  by (auto simp: fun_eq_iff wpE_def clock_read_def split: prod.splits)

lemma wp_the_run [wp]: "wpE the_run Q E = (\<lambda>s. Q (dv_run s) s)"
  by (simp add: fun_eq_iff wpE_def the_run_def)

lemma wp_the_state [wp]: "wpE the_state Q E = (\<lambda>s. Q (run_run_state (dv_run s)) s)"
  by (simp add: fun_eq_iff wpE_def the_state_def)

lemma wp_upd_run [wp]: "wpE (upd_run f) Q E = (\<lambda>s. Q () (s\<lparr>dv_run := f (dv_run s)\<rparr>))"
  by (simp add: fun_eq_iff wpE_def upd_run_def)

lemma wp_upd_state [wp]:
  "wpE (upd_state f) Q E = (\<lambda>s.
     Q () (s\<lparr>dv_run := (dv_run s)\<lparr>run_run_state := f (run_run_state (dv_run s))\<rparr>\<rparr>))"
  by (simp add: upd_state_def wp)

text \<open>A computation that cannot raise and leaves the run alone, as a rule for its call record.\<close>

lemma wp_calls_only:
  fixes m :: "('w drive, exn, 'a) eff"
  assumes "wpE m (\<lambda>x t. dv_run t = dv_run s \<and> (\<exists>evs. dv_trace t = dv_trace s @ evs \<and> P evs)) (\<lambda>_ _. False) s"
    and "\<And>x w evs. P evs \<Longrightarrow> Q x (s\<lparr>dv_world := w, dv_trace := dv_trace s @ evs\<rparr>)"
  shows "wpE m Q E s"
proof (rule wp_mono [OF assms(1)])
  fix x and t :: "'w drive"
  assume "dv_run t = dv_run s \<and> (\<exists>evs. dv_trace t = dv_trace s @ evs \<and> P evs)"
  then obtain evs where t: "dv_run t = dv_run s" "dv_trace t = dv_trace s @ evs" and P: "P evs"
    by blast
  from t have "t = s\<lparr>dv_world := dv_world t, dv_trace := dv_trace s @ evs\<rparr>"
    by (intro drive.equality) simp_all
  with assms(2) [OF P] show "Q x t" by metis
qed simp

lemmas drive_basic = port_def clock_read_def the_run_def the_state_def upd_run_def upd_state_def

section \<open>What the calls are\<close>

text \<open>The calls a step handler makes, as opposed to the ones of the executor and the escalator.\<close>

fun step_event :: "event \<Rightarrow> bool" where
  "step_event (Ev_open_ticket _ _ _ _ _) = True"
| "step_event (Ev_get_approval_status _ _) = True"
| "step_event (Ev_close_ticket _ _ oc _) = (oc = TO_SUCCESSFUL)"
| "step_event (Ev_create_resource _ _ _ _ _) = True"
| "step_event (Ev_validate_resource _ _) = True"
| "step_event (Ev_update_resource _ _ _ _ _) = True"
| "step_event (Ev_delete_resource _ _ _ _) = True"
| "step_event (Ev_submit _ _ _) = True"
| "step_event (Ev_trigger_workflow _ _ _ _) = True"
| "step_event (Ev_query_run_status _ _ _) = True"
| "step_event (Ev_get_failure _ _ _) = True"
| "step_event (Ev_get_output _ _ _ _) = True"
| "step_event _ = False"

fun is_open_incident :: "event \<Rightarrow> bool" where
  "is_open_incident (Ev_open_incident _ _) = True"
| "is_open_incident _ = False"

fun is_save :: "event \<Rightarrow> bool" where
  "is_save (Ev_save _ _) = True"
| "is_save _ = False"

fun is_trigger :: "event \<Rightarrow> bool" where
  "is_trigger (Ev_trigger_workflow _ _ _ _) = True"
| "is_trigger _ = False"

definition incidents :: "event list \<Rightarrow> nat" where
  "incidents evs = length (filter is_open_incident evs)"

lemma incidents_simps [simp]:
  "incidents [] = 0"
  "incidents (xs @ ys) = incidents xs + incidents ys"
  "incidents (e # xs) = (if is_open_incident e then Suc (incidents xs) else incidents xs)"
  by (simp_all add: incidents_def)

lemma incidents_step_events: "\<forall>e \<in> set evs. step_event e \<Longrightarrow> incidents evs = 0"
proof (induction evs)
  case (Cons e evs)
  then show ?case by (cases e) auto
qed simp

end
