(* ===== verification/Steps.thy ===== *)
theory Steps
  imports Ports
begin

text \<open>
  The step handlers of \<open>src/orchestrator/orchestration/steps.py\<close>: one definition per \<open>execute\<close>
  method and per helper, over the client the handler was constructed with, and the handler record
  that carries a step's poll interval, its wall-clock budget and its retry hook. Log calls are left
  out; nothing in the code reads them.

  The lemmas at the end are the contract every handler meets: it changes nothing of the run but the
  working state of its own step (\<open>step_frame\<close>), and a step whose marker is set does nothing.
\<close>

section \<open>Keys and fields\<close>

definition final_vendor_id_output :: string where
  "final_vendor_id_output = ''final_vendor_id''"

definition idem_key :: "workflow_run \<Rightarrow> step_name \<Rightarrow> string" where
  "idem_key run step = run_id run @ '':'' @ step_value step"

definition engine_run_key :: "workflow_run \<Rightarrow> string" where
  "engine_run_key run =
     (let attempt = dget (st_step_attempts (run_run_state run)) SN_RUN_ENGINE 0
      in run_id run @ '':'' @ step_value SN_RUN_ENGINE @ '':'' @ str_nat attempt)"

definition in_flight_states :: "resource_state list" where
  "in_flight_states = [ST_PROVISIONING, ST_UPDATING, ST_DELETING]"

fun operation_state :: "resource_operation \<Rightarrow> resource_state" where
  "operation_state RO_CREATE = ST_PROVISIONING"
| "operation_state RO_UPDATE = ST_UPDATING"
| "operation_state RO_DELETE = ST_DELETING"

definition resource_state_fields :: "resource_state \<Rightarrow> payload" where
  "resource_state_fields state =
     [(''state'', JStr (state_value state)),
      (''in_progress'', JBool (state \<in> set in_flight_states))]"

text \<open>\<open>ResourceSpec.model_dump(exclude=...)\<close>: the fields in their declared order, less the excluded.\<close>

definition model_dump :: "resource_spec \<Rightarrow> string list \<Rightarrow> payload" where
  "model_dump r excluded = filter (\<lambda>(k, _). k \<notin> set excluded)
     [(''project_id'', JStr (rs_project_id r)),
      (''resource_type'', JStr (rs_resource_type r)),
      (''vendor_id'', JStr (rs_vendor_id r)),
      (''resource_id'', JStr (rs_resource_id r)),
      (''name'', JStr (rs_name r)),
      (''region'', opt_str (rs_region r)),
      (''environment'', opt_str (rs_environment r)),
      (''description'', JStr (rs_description r)),
      (''tags'', JList (map JStr (rs_tags r))),
      (''data'', JDict (rs_data r)),
      (''alert_groups'', JList (map JStr (rs_alert_groups r)))]"

section \<open>The handler\<close>

definition seconds :: "int \<Rightarrow> timedelta" where
  "seconds n = n * 1000000"

record 'w handler =
  h_poll_interval :: timedelta
  h_max_duration :: timedelta
  h_execute :: "('w drive, exn, bool) eff"
  h_reset :: "run_state \<Rightarrow> run_state"

text \<open>The defaults of \<open>StepHandler\<close>: poll every 15 s, one hour's budget, no reset.\<close>

definition step_handler :: "('w drive, exn, bool) eff \<Rightarrow> 'w handler" where
  "step_handler ex = \<lparr>h_poll_interval = seconds 15, h_max_duration = seconds 3600,
     h_execute = ex, h_reset = (\<lambda>st. st)\<rparr>"

section \<open>Creating the ticket\<close>

definition create_ticket_execute :: "'w ticket_client \<Rightarrow> ('w drive, exn, bool) eff" where
  "create_ticket_execute tc =
     bindE the_run (\<lambda>run.
     let st = run_run_state run in
     if st_ticket st \<noteq> None then ret True
     else
       let tmpl = rw_ticket_template_id (st_workflow st); key = idem_key run SN_CREATE_TICKET in
       bindE (port (Ev_open_ticket tmpl (st_ticket_params st) (run_created_by run) key)
                (tc_open_ticket tc tmpl (st_ticket_params st) (run_created_by run) key)) (\<lambda>t.
       thenE (upd_state (\<lambda>st. st\<lparr>st_ticket := Some t\<rparr>)) (ret True)))"

section \<open>Configuring the resource\<close>

definition create_body :: "workflow_run \<Rightarrow> resource_spec \<Rightarrow> payload \<Rightarrow> payload" where
  "create_body run resource flds =
     dmerge (dmerge (model_dump resource [''project_id'', ''resource_type'', ''resource_id'']) flds)
       [(''last_modified_by'', JStr (run_created_by run))]"

definition set_resource :: "resource_spec \<Rightarrow> ('w drive, exn, unit) eff" where
  "set_resource r = upd_state (\<lambda>st. st\<lparr>st_resource := Some r\<rparr>)"

definition configure_resource_execute :: "'w resource_client \<Rightarrow> ('w drive, exn, bool) eff" where
  "configure_resource_execute rc =
     bindE the_run (\<lambda>run.
     let st = run_run_state run in
     if st_resource_configured st then ret True
     else case st_resource st of
       None \<Rightarrow> raise (AssertionError [])
     | Some resource \<Rightarrow>
         let fields = resource_state_fields (operation_state (st_operation st)) in
         thenE
           (if st_operation st = RO_CREATE then
              let resource = resource\<lparr>rs_vendor_id := run_id run\<rparr>;
                  body = create_body run resource fields;
                  key = idem_key run SN_CONFIGURE_RESOURCE
              in thenE (set_resource resource)
                 (bindE (port (Ev_create_resource (rs_project_id resource)
                                 (rs_resource_type resource) body key)
                          (rc_create_resource rc (rs_project_id resource)
                             (rs_resource_type resource) body key)) (\<lambda>resource_id.
                  case resource_id of
                    None \<Rightarrow> ret ()
                  | Some i \<Rightarrow> whenE (i \<noteq> []) (set_resource (resource\<lparr>rs_resource_id := i\<rparr>))))
            else
              port (Ev_update_resource (rs_project_id resource) (rs_resource_type resource)
                      (rs_vendor_id resource) fields)
                (rc_update_resource rc (rs_project_id resource) (rs_resource_type resource)
                   (rs_vendor_id resource) fields))
           (thenE (upd_state (\<lambda>st. st\<lparr>st_resource_configured := True\<rparr>)) (ret True)))"

section \<open>Waiting for approval\<close>

definition await_approval_execute :: "'w ticket_client \<Rightarrow> ('w drive, exn, bool) eff" where
  "await_approval_execute tc =
     bindE the_state (\<lambda>st.
     case st_ticket st of
       None \<Rightarrow> raise (AssertionError [])
     | Some ticket \<Rightarrow>
         bindE (port (Ev_get_approval_status ticket) (tc_get_approval_status tc ticket)) (\<lambda>status.
         if status = AP_APPROVED then ret True
         else if status = AP_REJECTED then
           raise (RunRejected (''Ticket '' @ tr_ticket_id ticket @ '' was rejected.''))
         else ret False))"

section \<open>Validating the resource\<close>

definition validation_request :: "run_state \<Rightarrow> resource_spec \<Rightarrow> resource_validation_request" where
  "validation_request st resource =
     \<lparr>vq_project_id = rs_project_id resource, vq_resource_type = rs_resource_type resource,
      vq_name = rs_name resource, vq_operation = st_operation st,
      vq_workflow_identifier = rw_identifier (st_workflow st), vq_params = st_workflow_params st,
      vq_region = rs_region resource, vq_environment = rs_environment resource\<rparr>"

definition refusal_message :: "run_state \<Rightarrow> resource_spec \<Rightarrow> string option \<Rightarrow> string" where
  "refusal_message st resource reason =
     ''Validation refused the '' @ operation_value (st_operation st) @ '' of resource '' @
     quote_char @ rs_name resource @ quote_char @ '': '' @
     (case reason of None \<Rightarrow> ''no reason given''
      | Some r \<Rightarrow> if r = [] then ''no reason given'' else r)"

definition validate_resource_execute :: "'w resource_client \<Rightarrow> ('w drive, exn, bool) eff" where
  "validate_resource_execute rc =
     bindE the_state (\<lambda>st.
     case st_resource st of
       None \<Rightarrow> raise (AssertionError [])
     | Some resource \<Rightarrow>
         let q = validation_request st resource in
         bindE (port (Ev_validate_resource q) (rc_validate_resource rc q)) (\<lambda>result.
         if \<not> vr_eligible result then
           raise (StepFailure (refusal_message st resource (vr_reason result)) FK_INFRA_PRECHECK)
         else ret True))"

section \<open>Running the engine\<close>

text \<open>\<open>str(KeyError(k))\<close> is the representation of the missing key.\<close>

fun engine_type_repr :: "workflow_engine_type \<Rightarrow> string" where
  "engine_type_repr WE_AIRFLOW =
     ''<WorkflowEngineType.AIRFLOW: '' @ quote_char @ ''airflow'' @ quote_char @ ''>''"
| "engine_type_repr WE_LEGACY =
     ''<WorkflowEngineType.LEGACY: '' @ quote_char @ ''legacy'' @ quote_char @ ''>''"

definition capture_final_vendor_id :: "'w engine_client \<Rightarrow> ('w drive, exn, unit) eff" where
  "capture_final_vendor_id client =
     bindE the_state (\<lambda>st.
     case (st_resource st, st_engine_run_id st) of
       (Some _, Some engine_run_id) \<Rightarrow>
         let aid = rw_automation_id (st_workflow st) in
         bindE (catchE
           (port (Ev_get_output aid engine_run_id final_vendor_id_output)
              (ec_get_output client aid engine_run_id final_vendor_id_output))
           (\<lambda>e. ret None)) (\<lambda>final_vendor_id.
         case final_vendor_id of
           None \<Rightarrow> ret ()
         | Some v \<Rightarrow> upd_state (\<lambda>st. st\<lparr>st_step_results :=
             dset (st_step_results st) SN_RUN_ENGINE \<lparr>sr_final_vendor_id = Some v\<rparr>\<rparr>))
     | _ \<Rightarrow> ret ())"

definition engine_failed_message :: "string \<Rightarrow> string \<Rightarrow> string" where
  "engine_failed_message engine_run_id automation_id =
     ''Engine run '' @ engine_run_id @ '' of '' @ quote_char @ automation_id @ quote_char @
     '' failed.''"

definition run_engine_execute ::
  "(workflow_engine_type \<Rightarrow> 'w engine_client option) \<Rightarrow> ('w drive, exn, bool) eff" where
  "run_engine_execute engines =
     bindE the_run (\<lambda>run.
     let st = run_run_state run; aid = rw_automation_id (st_workflow st) in
     case engines (rw_engine_type (st_workflow st)) of
       None \<Rightarrow> raise (KeyError (engine_type_repr (rw_engine_type (st_workflow st))))
     | Some client \<Rightarrow>
       (case st_engine_run_id st of
          None \<Rightarrow>
            let key = engine_run_key run in
            bindE (port (Ev_trigger_workflow aid (st_workflow_params st) key)
                     (ec_trigger_workflow client aid (st_workflow_params st) key)) (\<lambda>rid.
            thenE (upd_state (\<lambda>st. st\<lparr>st_engine_run_id := Some rid\<rparr>)) (ret False))
        | Some rid \<Rightarrow>
            bindE (port (Ev_query_run_status aid rid) (ec_query_run_status client aid rid)) (\<lambda>status.
            if status = ER_SUCCESS then thenE (capture_final_vendor_id client) (ret True)
            else if status = ER_FAILED then
              thenE (catchE
                  (bindE (port (Ev_get_failure aid rid) (ec_get_failure client aid rid)) (\<lambda>f.
                   upd_state (\<lambda>st. st\<lparr>st_engine_failure := Some f\<rparr>)))
                  (\<lambda>e. ret ()))
                (bindE the_state (\<lambda>st.
                 let kind = (case st_engine_failure st of None \<Rightarrow> FK_TASK | Some f \<Rightarrow> ef_kind f)
                 in raise (StepFailure (engine_failed_message rid aid) kind)))
            else ret False)))"

definition run_engine_reset :: "run_state \<Rightarrow> run_state" where
  "run_engine_reset st = st\<lparr>st_engine_run_id := None, st_engine_failure := None,
     st_step_results := dpop (st_step_results st) SN_RUN_ENGINE\<rparr>"

section \<open>Finalizing the resource\<close>

definition finalize_fields :: "workflow_run \<Rightarrow> resource_spec \<Rightarrow> payload" where
  "finalize_fields run resource =
     (let st = run_run_state run;
          fields = resource_state_fields ST_READY;
          fields = (if st_operation st = RO_UPDATE then
              dmerge fields (dmerge
                (model_dump resource [''project_id'', ''resource_type'', ''vendor_id'', ''resource_id''])
                [(''last_modified_by'', JStr (run_created_by run))])
            else fields);
          engine_vendor_id = (case map_of (st_step_results st) SN_RUN_ENGINE of
              None \<Rightarrow> None | Some r \<Rightarrow> sr_final_vendor_id r)
      in case engine_vendor_id of
           None \<Rightarrow> fields
         | Some v \<Rightarrow> if v \<noteq> [] \<and> v \<noteq> rs_vendor_id resource
                     then dset fields ''vendor_id'' (JStr v) else fields)"

definition finalize_delete ::
  "'w resource_client \<Rightarrow> resource_spec \<Rightarrow> ('w drive, exn, unit) eff" where
  "finalize_delete rc resource =
     (let p = rs_project_id resource; t = rs_resource_type resource; v = rs_vendor_id resource;
          fields = resource_state_fields ST_DELETED in
      thenE (catchE (port (Ev_update_resource p t v fields) (rc_update_resource rc p t v fields))
               (\<lambda>e. if is_not_found e then ret () else raise e))
        (port (Ev_delete_resource p t v) (rc_delete_resource rc p t v)))"

definition finalize_resource_execute :: "'w resource_client \<Rightarrow> ('w drive, exn, bool) eff" where
  "finalize_resource_execute rc =
     bindE the_run (\<lambda>run.
     let st = run_run_state run in
     case st_resource st of
       None \<Rightarrow> ret True
     | Some resource \<Rightarrow>
         if st_resource_finalized st then ret True
         else thenE
           (if st_operation st = RO_DELETE then finalize_delete rc resource
            else
              let fields = finalize_fields run resource;
                  p = rs_project_id resource; t = rs_resource_type resource;
                  v = rs_vendor_id resource in
              thenE (port (Ev_update_resource p t v fields) (rc_update_resource rc p t v fields))
                (case map_of fields ''vendor_id'' of
                   Some (JStr v') \<Rightarrow> set_resource (resource\<lparr>rs_vendor_id := v'\<rparr>)
                 | _ \<Rightarrow> ret ()))
           (thenE (upd_state (\<lambda>st. st\<lparr>st_resource_finalized := True\<rparr>)) (ret True)))"

section \<open>Submitting to the legacy runner\<close>

definition submit_legacy_execute :: "'w legacy_client \<Rightarrow> ('w drive, exn, bool) eff" where
  "submit_legacy_execute lc =
     bindE the_run (\<lambda>run.
     let st = run_run_state run in
     if st_legacy_submitted st then ret True
     else case st_legacy st of
       None \<Rightarrow> raise (AssertionError [])
     | Some request \<Rightarrow>
         let key = idem_key run SN_SUBMIT_LEGACY in
         bindE (port (Ev_submit request key) (lc_submit lc request key)) (\<lambda>reference.
         thenE (upd_state (\<lambda>st. st\<lparr>st_legacy_reference := reference, st_legacy_submitted := True\<rparr>))
           (ret True)))"

section \<open>Closing the ticket\<close>

definition close_note :: "run_state \<Rightarrow> string" where
  "close_note st = (if st_resource st \<noteq> None
     then ''Resource '' @ operation_value (st_operation st) @ '' completed; request closed.''
     else ''CloudIO automation completed.'')"

definition close_ticket_execute :: "'w ticket_client \<Rightarrow> ('w drive, exn, bool) eff" where
  "close_ticket_execute tc =
     bindE the_state (\<lambda>st.
     if st_ticket_closed st then ret True
     else case st_ticket st of
       None \<Rightarrow> raise (AssertionError [])
     | Some ticket \<Rightarrow>
         let note = Some (close_note st) in
         thenE (port (Ev_close_ticket ticket note TO_SUCCESSFUL)
                  (tc_close_ticket tc ticket note TO_SUCCESSFUL))
           (thenE (upd_state (\<lambda>st. st\<lparr>st_ticket_closed := True\<rparr>)) (ret True)))"

section \<open>The handlers as constructed\<close>

definition create_ticket_step :: "'w ticket_client \<Rightarrow> 'w handler" where
  "create_ticket_step tc = step_handler (create_ticket_execute tc)"

definition configure_resource_step :: "'w resource_client \<Rightarrow> 'w handler" where
  "configure_resource_step rc = step_handler (configure_resource_execute rc)"

definition await_approval_step :: "'w ticket_client \<Rightarrow> 'w handler" where
  "await_approval_step tc = (step_handler (await_approval_execute tc))
     \<lparr>h_poll_interval := seconds 30, h_max_duration := seconds (7 * 24 * 3600)\<rparr>"

definition validate_resource_step :: "'w resource_client \<Rightarrow> 'w handler" where
  "validate_resource_step rc = step_handler (validate_resource_execute rc)"

definition run_engine_step ::
  "(workflow_engine_type \<Rightarrow> 'w engine_client option) \<Rightarrow> 'w handler" where
  "run_engine_step engines = (step_handler (run_engine_execute engines))\<lparr>h_reset := run_engine_reset\<rparr>"

definition finalize_resource_step :: "'w resource_client \<Rightarrow> 'w handler" where
  "finalize_resource_step rc = step_handler (finalize_resource_execute rc)"

definition submit_legacy_step :: "'w legacy_client \<Rightarrow> 'w handler" where
  "submit_legacy_step lc = step_handler (submit_legacy_execute lc)"

definition close_ticket_step :: "'w ticket_client \<Rightarrow> 'w handler" where
  "close_ticket_step tc = step_handler (close_ticket_execute tc)"

end
