(* ===== verification/Step_Contract.thy ===== *)
theory Step_Contract
  imports Steps
begin

text \<open>
  What every step handler promises the executor, as the locale \<open>step_contract\<close>: executing it changes
  nothing of the run but the working state of its own step, its markers only ever get set, and it
  makes no call but its own provider calls. Each handler of \<open>Steps\<close> is an interpretation.
  Then the idempotency markers, the idempotency keys and the payloads of the resource calls.
\<close>

section \<open>The frame of a step\<close>

definition st_frame :: "run_state \<Rightarrow> run_state \<Rightarrow> bool" where
  "st_frame a b \<longleftrightarrow>
     st_workflow b = st_workflow a \<and> st_ticket_params b = st_ticket_params a \<and>
     st_workflow_params b = st_workflow_params a \<and> st_operation b = st_operation a \<and>
     st_legacy b = st_legacy a \<and> st_step_attempts b = st_step_attempts a \<and>
     st_step_started_at b = st_step_started_at a \<and>
     st_attempt_started_at b = st_attempt_started_at a \<and> st_errors b = st_errors a \<and>
     st_incident_id b = st_incident_id a \<and>
     (st_resource b = None \<longleftrightarrow> st_resource a = None) \<and>
     (st_ticket a \<noteq> None \<longrightarrow> st_ticket b = st_ticket a) \<and>
     (st_resource_configured a \<longrightarrow> st_resource_configured b) \<and>
     (st_resource_finalized a \<longrightarrow> st_resource_finalized b) \<and>
     (st_ticket_closed a \<longrightarrow> st_ticket_closed b) \<and>
     (st_legacy_submitted a \<longrightarrow> st_legacy_submitted b)"

definition extends :: "(event \<Rightarrow> bool) \<Rightarrow> 'w drive \<Rightarrow> 'w drive \<Rightarrow> bool" where
  "extends P s t \<longleftrightarrow> (\<exists>evs. dv_trace t = dv_trace s @ evs \<and> (\<forall>e \<in> set evs. P e))"

definition step_frame :: "'w drive \<Rightarrow> 'w drive \<Rightarrow> bool" where
  "step_frame s t \<longleftrightarrow>
     dv_run t = (dv_run s)\<lparr>run_run_state := run_run_state (dv_run t)\<rparr> \<and>
     st_frame (run_run_state (dv_run s)) (run_run_state (dv_run t)) \<and>
     extends step_event s t"

lemma st_frame_refl [simp]: "st_frame a a"
  by (simp add: st_frame_def)

lemma st_frame_trans: "st_frame a b \<Longrightarrow> st_frame b c \<Longrightarrow> st_frame a c"
  unfolding st_frame_def by auto

lemma extends_refl [simp]: "extends P s s"
  by (simp add: extends_def)

lemma extends_same [simp]: "dv_trace t = dv_trace s \<Longrightarrow> extends P s t"
  by (simp add: extends_def)

lemma extends_1 [simp]: "dv_trace t = dv_trace s @ [e] \<Longrightarrow> P e \<Longrightarrow> extends P s t"
  by (simp add: extends_def)

lemma extends_2 [simp]: "dv_trace t = dv_trace s @ [e, e'] \<Longrightarrow> P e \<Longrightarrow> P e' \<Longrightarrow> extends P s t"
  by (simp add: extends_def)

lemma extends_trans: "extends P s t \<Longrightarrow> extends P t u \<Longrightarrow> extends P s u"
  unfolding extends_def by (metis Un_iff append_assoc set_append)

interpretation extending: kept "extends P" for P
  by unfold_locales (auto intro: extends_trans)

lemma extends_mono: "extends P s t \<Longrightarrow> (\<And>e. P e \<Longrightarrow> P' e) \<Longrightarrow> extends P' s t"
  unfolding extends_def by blast

lemma step_frameE:
  assumes "step_frame s t"
  obtains st where "dv_run t = (dv_run s)\<lparr>run_run_state := st\<rparr>"
    and "st_frame (run_run_state (dv_run s)) st" and "extends step_event s t"
  using assms unfolding step_frame_def by blast

lemma step_frame_refl [simp]: "step_frame s s"
  by (simp add: step_frame_def)

lemma step_frame_trans: "step_frame s t \<Longrightarrow> step_frame t u \<Longrightarrow> step_frame s u"
proof -
  assume a: "step_frame s t" "step_frame t u"
  have "dv_run u = (dv_run s)\<lparr>run_run_state := run_run_state (dv_run u)\<rparr>"
    using a unfolding step_frame_def by (metis workflow_run.update_convs(12) workflow_run.surjective)
  with a show ?thesis
    unfolding step_frame_def by (meson st_frame_trans extends_trans)
qed

locale step_contract =
  fixes h :: "'w handler"
  assumes frame: "keeps step_frame (h_execute h)"
    and reset_frame: "st_frame st (h_reset h st)"
    and poll_pos: "0 < h_poll_interval h"
    and duration_pos: "0 < h_max_duration h"

lemmas execute_defs = create_ticket_execute_def configure_resource_execute_def
  await_approval_execute_def validate_resource_execute_def run_engine_execute_def
  finalize_resource_execute_def finalize_delete_def submit_legacy_execute_def
  close_ticket_execute_def capture_final_vendor_id_def set_resource_def

lemmas step_defs = create_ticket_step_def configure_resource_step_def await_approval_step_def
  validate_resource_step_def run_engine_step_def finalize_resource_step_def submit_legacy_step_def
  close_ticket_step_def step_handler_def seconds_def

lemma create_ticket_frame: "keeps step_frame (create_ticket_execute tc)"
  by (rule keepsI) (simp add: execute_defs Let_def wp step_frame_def st_frame_def)

lemma configure_frame: "keeps step_frame (configure_resource_execute rc)"
  by (rule keepsI) (simp add: execute_defs Let_def wp step_frame_def st_frame_def split: option.split)

lemma await_frame: "keeps step_frame (await_approval_execute tc)"
  by (rule keepsI) (simp add: execute_defs Let_def wp step_frame_def st_frame_def split: option.split)

lemma validate_frame: "keeps step_frame (validate_resource_execute rc)"
  by (rule keepsI) (simp add: execute_defs Let_def wp step_frame_def st_frame_def split: option.split)

lemma run_engine_frame: "keeps step_frame (run_engine_execute engines)"
  by (rule keepsI) (simp add: execute_defs Let_def wp step_frame_def st_frame_def split: option.split)

lemma finalize_frame: "keeps step_frame (finalize_resource_execute rc)"
  by (rule keepsI)
     (simp add: execute_defs Let_def wp step_frame_def st_frame_def split: option.split json.split)

lemma submit_frame: "keeps step_frame (submit_legacy_execute lc)"
  by (rule keepsI) (simp add: execute_defs Let_def wp step_frame_def st_frame_def split: option.split)

lemma close_frame: "keeps step_frame (close_ticket_execute tc)"
  by (rule keepsI) (simp add: execute_defs Let_def wp step_frame_def st_frame_def split: option.split)

section \<open>The handlers meet the contract\<close>

interpretation create_ticket: step_contract "create_ticket_step tc" for tc
  by unfold_locales (simp_all add: step_defs create_ticket_frame)

interpretation configure_resource: step_contract "configure_resource_step rc" for rc
  by unfold_locales (simp_all add: step_defs configure_frame)

interpretation await_approval: step_contract "await_approval_step tc" for tc
  by unfold_locales (simp_all add: step_defs await_frame)

interpretation validate_resource: step_contract "validate_resource_step rc" for rc
  by unfold_locales (simp_all add: step_defs validate_frame)

interpretation run_engine: step_contract "run_engine_step engines" for engines
  by unfold_locales (simp_all add: step_defs run_engine_frame run_engine_reset_def st_frame_def)

interpretation finalize_resource: step_contract "finalize_resource_step rc" for rc
  by unfold_locales (simp_all add: step_defs finalize_frame)

interpretation submit_legacy: step_contract "submit_legacy_step lc" for lc
  by unfold_locales (simp_all add: step_defs submit_frame)

interpretation close_ticket: step_contract "close_ticket_step tc" for tc
  by unfold_locales (simp_all add: step_defs close_frame)

section \<open>Markers\<close>

text \<open>With its marker set a step returns at once: same run, same world, no call.\<close>

lemma create_ticket_marked:
  "st_ticket (run_run_state (dv_run s)) \<noteq> None \<Longrightarrow> create_ticket_execute tc s = (Inr True, s)"
  by (simp add: create_ticket_execute_def eff_basic drive_basic Let_def)

lemma configure_marked:
  "st_resource_configured (run_run_state (dv_run s)) \<Longrightarrow> configure_resource_execute rc s = (Inr True, s)"
  by (simp add: configure_resource_execute_def eff_basic drive_basic Let_def)

lemma finalize_marked:
  "st_resource_finalized (run_run_state (dv_run s)) \<or> st_resource (run_run_state (dv_run s)) = None \<Longrightarrow>
   finalize_resource_execute rc s = (Inr True, s)"
  by (auto simp: finalize_resource_execute_def eff_basic drive_basic Let_def split: option.split)

lemma submit_marked:
  "st_legacy_submitted (run_run_state (dv_run s)) \<Longrightarrow> submit_legacy_execute lc s = (Inr True, s)"
  by (simp add: submit_legacy_execute_def eff_basic drive_basic Let_def)

lemma close_marked:
  "st_ticket_closed (run_run_state (dv_run s)) \<Longrightarrow> close_ticket_execute tc s = (Inr True, s)"
  by (simp add: close_ticket_execute_def eff_basic drive_basic Let_def)

lemma create_ticket_marks:
  "wpE (create_ticket_execute tc) (\<lambda>_ t. st_ticket (run_run_state (dv_run t)) \<noteq> None) (\<lambda>_ _. True) s"
  by (auto simp: execute_defs Let_def wp)

lemma configure_marks:
  "wpE (configure_resource_execute rc) (\<lambda>_ t. st_resource_configured (run_run_state (dv_run t)))
     (\<lambda>_ _. True) s"
  by (simp add: execute_defs Let_def wp split: option.split)

lemma finalize_marks:
  "wpE (finalize_resource_execute rc)
     (\<lambda>_ t. st_resource_finalized (run_run_state (dv_run t)) \<or> st_resource (run_run_state (dv_run t)) = None)
     (\<lambda>_ _. True) s"
  by (simp add: execute_defs Let_def wp split: option.split json.split)

lemma submit_marks:
  "wpE (submit_legacy_execute lc) (\<lambda>_ t. st_legacy_submitted (run_run_state (dv_run t))) (\<lambda>_ _. True) s"
  by (simp add: execute_defs Let_def wp split: option.split)

lemma close_marks:
  "wpE (close_ticket_execute tc) (\<lambda>_ t. st_ticket_closed (run_run_state (dv_run t))) (\<lambda>_ _. True) s"
  by (simp add: execute_defs Let_def wp split: option.split)

lemma create_ticket_repeat:
  "create_ticket_execute tc s = (Inr x, t) \<Longrightarrow> create_ticket_execute tc t = (Inr True, t)"
  by (rule create_ticket_marked) (rule wp_result [OF create_ticket_marks])

lemma configure_repeat:
  "configure_resource_execute rc s = (Inr x, t) \<Longrightarrow> configure_resource_execute rc t = (Inr True, t)"
  by (rule configure_marked) (rule wp_result [OF configure_marks])

lemma finalize_repeat:
  "finalize_resource_execute rc s = (Inr x, t) \<Longrightarrow> finalize_resource_execute rc t = (Inr True, t)"
  by (rule finalize_marked) (rule wp_result [OF finalize_marks])

lemma submit_repeat:
  "submit_legacy_execute lc s = (Inr x, t) \<Longrightarrow> submit_legacy_execute lc t = (Inr True, t)"
  by (rule submit_marked) (rule wp_result [OF submit_marks])

lemma close_repeat:
  "close_ticket_execute tc s = (Inr x, t) \<Longrightarrow> close_ticket_execute tc t = (Inr True, t)"
  by (rule close_marked) (rule wp_result [OF close_marks])

section \<open>Keys\<close>

lemma idem_key_inject:
  "idem_key r a = idem_key r' b \<longleftrightarrow> run_id r = run_id r' \<and> a = b"
  using join_unique [of "run_id r" "CHR '':''" "step_value a" "run_id r'" "step_value b"]
  by (auto simp: idem_key_def step_value_no_colon)

abbreviation engine_attempt :: "workflow_run \<Rightarrow> nat" where
  "engine_attempt r \<equiv> dget (st_step_attempts (run_run_state r)) SN_RUN_ENGINE 0"

lemma engine_run_key_inject:
  "engine_run_key r = engine_run_key r' \<longleftrightarrow> run_id r = run_id r' \<and> engine_attempt r = engine_attempt r'"
  using join_unique [of "run_id r @ '':running_engine''" "CHR '':''" "str_nat (engine_attempt r)"
      "run_id r' @ '':running_engine''" "str_nat (engine_attempt r')"]
  by (auto simp: engine_run_key_def str_nat_no_colon Let_def)

lemma engine_run_key_not_idem_key: "engine_run_key r \<noteq> idem_key r' a"
  using join_unique [of "run_id r @ '':running_engine''" "CHR '':''" "str_nat (engine_attempt r)"
      "run_id r'" "step_value a"]
  by (auto simp: engine_run_key_def idem_key_def str_nat_no_colon step_value_no_colon Let_def)

section \<open>Fields\<close>

definition reported_vendor_id :: "run_state \<Rightarrow> resource_spec \<Rightarrow> string option" where
  "reported_vendor_id st resource = (case map_of (st_step_results st) SN_RUN_ENGINE of
     None \<Rightarrow> None
   | Some r \<Rightarrow> (case sr_final_vendor_id r of
       None \<Rightarrow> None
     | Some v \<Rightarrow> if v \<noteq> [] \<and> v \<noteq> rs_vendor_id resource then Some v else None))"

lemmas field_defs = finalize_fields_def create_body_def model_dump_def resource_state_fields_def
  in_flight_states_def reported_vendor_id_def Let_def dmerge_def dset_def

text \<open>The payloads, spelled out.\<close>

definition described_fields :: "resource_spec \<Rightarrow> payload" where
  "described_fields r =
     [(''name'', JStr (rs_name r)), (''region'', opt_str (rs_region r)),
      (''environment'', opt_str (rs_environment r)), (''description'', JStr (rs_description r)),
      (''tags'', JList (map JStr (rs_tags r))), (''data'', JDict (rs_data r)),
      (''alert_groups'', JList (map JStr (rs_alert_groups r)))]"

lemma finalize_fields_eq:
  "finalize_fields run r =
     [(''state'', JStr ''READY''), (''in_progress'', JBool False)] @
     (if st_operation (run_run_state run) = RO_UPDATE
      then described_fields r @ [(''last_modified_by'', JStr (run_created_by run))] else []) @
     (case reported_vendor_id (run_run_state run) r of
        None \<Rightarrow> [] | Some v \<Rightarrow> [(''vendor_id'', JStr v)])"
  by (auto simp: field_defs described_fields_def split: option.split)

lemma create_body_eq:
  "create_body run r (resource_state_fields state) =
     (''vendor_id'', JStr (rs_vendor_id r)) # described_fields r @
     [(''state'', JStr (state_value state)),
      (''in_progress'', JBool (state \<in> {ST_PROVISIONING, ST_UPDATING, ST_DELETING})),
      (''last_modified_by'', JStr (run_created_by run))]"
  by (simp add: field_defs described_fields_def)

end
