(* ===== verification/Plans.thy ===== *)
theory Plans
  imports Step_Contract
begin

text \<open>
  \<open>src/orchestrator/orchestration/plans.py\<close>: the step order per run type as data, and the handler
  wiring. Every plan follows the order of \<open>StepName\<close>.
\<close>

fun run_plan :: "run_type \<Rightarrow> step_name list" where
  "run_plan RT_AUTOMATION = [SN_RUN_ENGINE, SN_CLOSE_TICKET]"
| "run_plan RT_RESOURCE = [SN_CREATE_TICKET, SN_CONFIGURE_RESOURCE, SN_AWAIT_APPROVAL,
     SN_VALIDATE_RESOURCE, SN_RUN_ENGINE, SN_FINALIZE_RESOURCE, SN_CLOSE_TICKET]"
| "run_plan RT_LEGACY = [SN_SUBMIT_LEGACY]"

declare run_plan.simps [simp del]

fun build_handlers ::
  "'w ticket_client \<Rightarrow> 'w resource_client \<Rightarrow> (workflow_engine_type \<Rightarrow> 'w engine_client option) \<Rightarrow>
   'w legacy_client \<Rightarrow> step_name \<Rightarrow> 'w handler option" where
  "build_handlers tc rc engines lc SN_CREATE_TICKET = Some (create_ticket_step tc)"
| "build_handlers tc rc engines lc SN_CONFIGURE_RESOURCE = Some (configure_resource_step rc)"
| "build_handlers tc rc engines lc SN_AWAIT_APPROVAL = Some (await_approval_step tc)"
| "build_handlers tc rc engines lc SN_VALIDATE_RESOURCE = Some (validate_resource_step rc)"
| "build_handlers tc rc engines lc SN_RUN_ENGINE = Some (run_engine_step engines)"
| "build_handlers tc rc engines lc SN_FINALIZE_RESOURCE = Some (finalize_resource_step rc)"
| "build_handlers tc rc engines lc SN_CLOSE_TICKET = Some (close_ticket_step tc)"
| "build_handlers tc rc engines lc SN_SUBMIT_LEGACY = Some (submit_legacy_step lc)"

text \<open>\<open>plan.index(step)\<close>.\<close>

definition plan_index :: "step_name list \<Rightarrow> step_name \<Rightarrow> exn + nat" where
  "plan_index plan step = (case List.find (\<lambda>i. plan ! i = step) [0..<length plan] of
     None \<Rightarrow> Inl (ValueError ''tuple.index(x): x not in tuple'')
   | Some i \<Rightarrow> Inr i)"

text \<open>The step after \<open>step\<close> in a plan, \<open>None\<close> after the last.\<close>

definition next_step :: "step_name list \<Rightarrow> step_name \<Rightarrow> exn + step_name option" where
  "next_step plan step = (case plan_index plan step of
     Inl e \<Rightarrow> Inl e
   | Inr i \<Rightarrow> Inr (if i + 1 < length plan then Some (plan ! (i + 1)) else None))"

lemma run_plan_sorted: "sorted_wrt (<) (run_plan rt)"
  by (cases rt) (simp_all add: run_plan.simps less_step_name_def)

lemma run_plan_nonempty [simp]: "run_plan rt \<noteq> []"
  by (cases rt) (simp_all add: run_plan.simps)

lemma run_plan_hd [simp]:
  "run_plan RT_AUTOMATION ! 0 = SN_RUN_ENGINE"
  "run_plan RT_RESOURCE ! 0 = SN_CREATE_TICKET"
  "run_plan RT_LEGACY ! 0 = SN_SUBMIT_LEGACY"
  by (simp_all add: run_plan.simps)

lemma set_run_plan [simp]:
  "set (run_plan RT_AUTOMATION) = {SN_RUN_ENGINE, SN_CLOSE_TICKET}"
  "set (run_plan RT_RESOURCE) = {SN_CREATE_TICKET, SN_CONFIGURE_RESOURCE, SN_AWAIT_APPROVAL,
     SN_VALIDATE_RESOURCE, SN_RUN_ENGINE, SN_FINALIZE_RESOURCE, SN_CLOSE_TICKET}"
  "set (run_plan RT_LEGACY) = {SN_SUBMIT_LEGACY}"
  by (simp_all add: run_plan.simps)

lemma next_step_simps [simp]:
  "next_step (run_plan RT_AUTOMATION) SN_RUN_ENGINE = Inr (Some SN_CLOSE_TICKET)"
  "next_step (run_plan RT_AUTOMATION) SN_CLOSE_TICKET = Inr None"
  "next_step (run_plan RT_RESOURCE) SN_CREATE_TICKET = Inr (Some SN_CONFIGURE_RESOURCE)"
  "next_step (run_plan RT_RESOURCE) SN_CONFIGURE_RESOURCE = Inr (Some SN_AWAIT_APPROVAL)"
  "next_step (run_plan RT_RESOURCE) SN_AWAIT_APPROVAL = Inr (Some SN_VALIDATE_RESOURCE)"
  "next_step (run_plan RT_RESOURCE) SN_VALIDATE_RESOURCE = Inr (Some SN_RUN_ENGINE)"
  "next_step (run_plan RT_RESOURCE) SN_RUN_ENGINE = Inr (Some SN_FINALIZE_RESOURCE)"
  "next_step (run_plan RT_RESOURCE) SN_FINALIZE_RESOURCE = Inr (Some SN_CLOSE_TICKET)"
  "next_step (run_plan RT_RESOURCE) SN_CLOSE_TICKET = Inr None"
  "next_step (run_plan RT_LEGACY) SN_SUBMIT_LEGACY = Inr None"
  by (simp_all add: run_plan.simps next_step_def plan_index_def upt_rec)

lemma next_step_none [simp]:
  "step \<notin> set plan \<Longrightarrow> next_step plan step = Inl (ValueError ''tuple.index(x): x not in tuple'')"
  by (auto simp: next_step_def plan_index_def find_None_iff split: option.split)

lemma next_step_increases: "next_step (run_plan rt) step = Inr (Some nxt) \<Longrightarrow> step < nxt"
  by (cases "step \<in> set (run_plan rt)"; cases rt; cases step) (auto simp: less_step_name_def)

lemma next_step_in_plan: "next_step (run_plan rt) step = Inr r \<Longrightarrow>
  step \<in> set (run_plan rt) \<and> (case r of None \<Rightarrow> True | Some n \<Rightarrow> n \<in> set (run_plan rt))"
  by (cases "step \<in> set (run_plan rt)"; cases rt; cases step) auto

text \<open>A table of handlers that has one for every step, each meeting the contract.\<close>

locale handlers_contract =
  fixes handlers :: "step_name \<Rightarrow> 'w handler option"
  assumes handler_total: "handlers s \<noteq> None"
    and handler_contract: "handlers s = Some h \<Longrightarrow> step_contract h"

lemma build_handlers_contract: "build_handlers tc rc engines lc s = Some h \<Longrightarrow> step_contract h"
  by (cases s)
    (auto intro: create_ticket.step_contract_axioms configure_resource.step_contract_axioms
      await_approval.step_contract_axioms validate_resource.step_contract_axioms
      run_engine.step_contract_axioms finalize_resource.step_contract_axioms
      close_ticket.step_contract_axioms submit_legacy.step_contract_axioms)

lemma build_handlers_total [simp]: "build_handlers tc rc engines lc s \<noteq> None"
  by (cases s) simp_all

interpretation plan_handlers: handlers_contract "build_handlers tc rc engines lc"
  for tc rc engines lc
  by (rule handlers_contract.intro) (simp_all add: build_handlers_contract)

end
