(* ===== verification/Failure_Policy.thy ===== *)
theory Failure_Policy
  imports Domain
begin

text \<open>
  \<open>src/orchestrator/orchestration/failure_policy.py\<close>: what each kind of failure costs the requester,
  as a table with one row per kind. \<open>close_comment.format(incident_id=...)\<close> is
  \<open>format_incident_id\<close>: it fills every \<open>{incident_id}\<close>, the only field the templates use.
\<close>

record failure_policy =
  fp_retryable :: bool
  fp_open_incident :: bool
  fp_close_comment :: string

definition validation_comment :: string where
  "validation_comment = ''Your request was closed due to a validation error''"

definition failure_policies :: "(failure_kind, failure_policy) dict" where
  "failure_policies =
     [(FK_VALIDATION, \<lparr>fp_retryable = False, fp_open_incident = False,
         fp_close_comment = validation_comment\<rparr>),
      (FK_INFRA_PRECHECK, \<lparr>fp_retryable = False, fp_open_incident = False,
         fp_close_comment = validation_comment\<rparr>),
      (FK_TASK, \<lparr>fp_retryable = True, fp_open_incident = True,
         fp_close_comment = ''An error occurred. Incident {incident_id} was created''\<rparr>)]"

definition policy_for :: "failure_kind \<Rightarrow> failure_policy" where
  "policy_for kind = dget failure_policies kind (the (map_of failure_policies FK_TASK))"

definition incident_field :: string where
  "incident_field = ''{incident_id}''"

fun fill_field :: "string \<Rightarrow> string \<Rightarrow> string \<Rightarrow> string" where
  "fill_field field v [] = []"
| "fill_field field v (c # cs) =
     (if field \<noteq> [] \<and> take (length field) (c # cs) = field
      then v @ fill_field field v (drop (length field) (c # cs))
      else c # fill_field field v cs)"

text \<open>\<open>str(None)\<close> is \<open>None\<close>.\<close>

definition format_incident_id :: "string \<Rightarrow> string option \<Rightarrow> string" where
  "format_incident_id template incident_id =
     fill_field incident_field (case incident_id of None \<Rightarrow> ''None'' | Some i \<Rightarrow> i) template"

lemma policy_for_simps [simp]:
  "fp_retryable (policy_for k) \<longleftrightarrow> k = FK_TASK"
  "fp_open_incident (policy_for k) \<longleftrightarrow> k = FK_TASK"
  by (cases k; simp add: policy_for_def failure_policies_def dget_def)+

lemma close_comment_policy [simp]:
  "fp_close_comment (policy_for k) =
     (if k = FK_TASK then ''An error occurred. Incident {incident_id} was created''
      else validation_comment)"
  by (cases k) (simp_all add: policy_for_def failure_policies_def dget_def)

lemma format_validation_comment [simp]: "format_incident_id validation_comment i = validation_comment"
  by (simp add: format_incident_id_def validation_comment_def incident_field_def)

lemma format_task_comment [simp]:
  "format_incident_id ''An error occurred. Incident {incident_id} was created'' (Some i) =
     ''An error occurred. Incident '' @ i @ '' was created''"
  by (simp add: format_incident_id_def incident_field_def)

text \<open>The note a failure of a kind closes the ticket with.\<close>

definition closing_note :: "failure_kind \<Rightarrow> string option \<Rightarrow> string" where
  "closing_note k i = format_incident_id (fp_close_comment (policy_for k)) i"

lemma closing_note_task:
  "closing_note FK_TASK (Some i) = ''An error occurred. Incident '' @ i @ '' was created''"
  by (simp add: closing_note_def)

lemma closing_note_other: "k \<noteq> FK_TASK \<Longrightarrow> closing_note k i = validation_comment"
  by (simp add: closing_note_def)

end
