(* ===== verification/Escalator.thy ===== *)
theory Escalator
  imports Step_Contract Failure_Policy
begin

text \<open>
  \<open>src/orchestrator/orchestration/escalator.py\<close>: what happens when a run ends badly. A classified
  failure is escalated by its policy, anything else the older way, and either way the resource the
  run left in flight is released. Nothing here raises.
\<close>

section \<open>The incident's texts\<close>

definition newline :: string where
  "newline = [CHR 0x0A]"

definition incident_summary :: "workflow_run \<Rightarrow> string" where
  "incident_summary run =
     (let title = ''Error in '' @ label (st_workflow (run_run_state run)) @ '' automation''
      in case st_ticket (run_run_state run) of
           None \<Rightarrow> title
         | Some ticket \<Rightarrow> title @ '' ('' @ tr_ticket_id ticket @ '')'')"

definition incident_description :: "workflow_run \<Rightarrow> string \<Rightarrow> string" where
  "incident_description run detail =
     ''Run '' @ run_id run @ '' has failed with the following error:'' @ newline @ detail"

text \<open>\<open>str.capitalize\<close> on ASCII text.\<close>

fun capitalize :: "string \<Rightarrow> string" where
  "capitalize [] = []"
| "capitalize (c # cs) = upper_char c # map lower_char cs"

text \<open>\<open>failure is not None and failure.failed_task\<close>, an empty name being false.\<close>

definition reported_task :: "engine_failure option \<Rightarrow> string option" where
  "reported_task failure = (case failure of
     None \<Rightarrow> None
   | Some f \<Rightarrow> (case ef_failed_task f of None \<Rightarrow> None | Some t \<Rightarrow> if t = [] then None else Some t))"

definition incident_flow_type :: "workflow_run \<Rightarrow> engine_failure option \<Rightarrow> string" where
  "incident_flow_type run failure =
     (let workflow = st_workflow (run_run_state run) in
      if reported_task failure \<noteq> None
      then capitalize (engine_type_value (rw_engine_type workflow)) @ '':'' @ rw_automation_id workflow
      else rw_identifier workflow)"

definition incident_failed_task ::
  "workflow_run \<Rightarrow> engine_failure option \<Rightarrow> exn + string option" where
  "incident_failed_task run failure = (case reported_task failure of
     Some t \<Rightarrow> Inr (Some t)
   | None \<Rightarrow> (case run_current_step run of
       None \<Rightarrow> Inr None
     | Some v \<Rightarrow> if v = [] then Inr None
         else case parse_step v of Inl e \<Rightarrow> Inl e | Inr s \<Rightarrow> Inr (Some (step_value s))))"

section \<open>The escalator\<close>

record 'w escalator =
  es_ticket :: "'w ticket_client"
  es_resources :: "'w resource_client"
  es_default_team :: string

definition open_incident_call ::
  "'w escalator \<Rightarrow> incident_request \<Rightarrow> ('w drive, exn, ticket_ref) eff" where
  "open_incident_call es req = port (Ev_open_incident req) (tc_open_incident (es_ticket es) req)"

definition incident_for ::
  "workflow_run \<Rightarrow> string \<Rightarrow> engine_failure option \<Rightarrow> string \<Rightarrow> exn + incident_request" where
  "incident_for run team failure detail =
     (case incident_failed_task run failure of
        Inl e \<Rightarrow> Inl e
      | Inr task \<Rightarrow> Inr \<lparr>ir_summary = incident_summary run, ir_requested_by = run_created_by run,
          ir_responsible_group = team, ir_flow_type = Some (incident_flow_type run failure),
          ir_failed_task = task, ir_comment = Some detail,
          ir_description = Some (incident_description run detail)\<rparr>)"

definition resource_in_flight :: "workflow_run \<Rightarrow> resource_spec option" where
  "resource_in_flight run =
     (let st = run_run_state run in
      case st_resource st of
        None \<Rightarrow> None
      | Some resource \<Rightarrow>
          if \<not> st_resource_configured st \<or> st_resource_finalized st then None else Some resource)"

definition release_resource :: "'w escalator \<Rightarrow> ('w drive, exn, unit) eff" where
  "release_resource es =
     bindE the_run (\<lambda>run.
     case resource_in_flight run of
       None \<Rightarrow> ret ()
     | Some resource \<Rightarrow>
         let p = rs_project_id resource; t = rs_resource_type resource; v = rs_vendor_id resource in
         catchE
           (if st_operation (run_run_state run) = RO_CREATE
            then port (Ev_delete_resource p t v) (rc_delete_resource (es_resources es) p t v)
            else
              let flds = resource_state_fields ST_READY in
              port (Ev_update_resource p t v flds) (rc_update_resource (es_resources es) p t v flds))
           (\<lambda>e. ret ()))"

definition log_documentation_incident ::
  "'w escalator \<Rightarrow> string \<Rightarrow> string \<Rightarrow> ('w drive, exn, unit) eff" where
  "log_documentation_incident es team detail =
     (if team = es_default_team es then ret ()
      else bindE the_run (\<lambda>run.
        let failure = st_engine_failure (run_run_state run) in
        catchE
          (bindE (liftE (incident_for run (es_default_team es) failure detail)) (\<lambda>req.
           bindE (open_incident_call es req) (\<lambda>doc.
           port (Ev_close_incident doc None TO_DOCUMENTATION)
             (tc_close_incident (es_ticket es) doc None TO_DOCUMENTATION))))
          (\<lambda>e. ret ())))"

text \<open>\<open>(failure.responsible_group if failure else None) or self.default_team\<close>.\<close>

definition responsible_team :: "'w escalator \<Rightarrow> engine_failure option \<Rightarrow> string" where
  "responsible_team es failure = (case failure of
     None \<Rightarrow> es_default_team es
   | Some f \<Rightarrow> (case ef_responsible_group f of
       None \<Rightarrow> es_default_team es
     | Some g \<Rightarrow> if g = [] then es_default_team es else g))"

text \<open>What the incident says: the engine's own account where there is one, else the wrapper's.\<close>

definition policy_detail :: "exn \<Rightarrow> engine_failure option \<Rightarrow> string" where
  "policy_detail error failure = (case failure of
     None \<Rightarrow> exn_str error
   | Some f \<Rightarrow> (case ef_detail f of
       None \<Rightarrow> exn_str error
     | Some d \<Rightarrow> if d = [] then exn_str error
         else (case ef_exception_name f of
             None \<Rightarrow> ''Failure'' | Some n \<Rightarrow> if n = [] then ''Failure'' else n) @ '': '' @ d))"

definition escalate_by_policy ::
  "'w escalator \<Rightarrow> exn \<Rightarrow> failure_policy \<Rightarrow> ('w drive, exn, unit) eff" where
  "escalate_by_policy es error policy =
     bindE the_run (\<lambda>run.
     let failure = st_engine_failure (run_run_state run) in
     thenE
       (whenE (fp_open_incident policy)
         (let team = responsible_team es failure; detail = policy_detail error failure in
          bindE (liftE (incident_for run team failure detail)) (\<lambda>req.
          bindE (open_incident_call es req) (\<lambda>inc.
          thenE (upd_state (\<lambda>st. st\<lparr>st_incident_id := Some (tr_ticket_id inc)\<rparr>))
            (log_documentation_incident es team detail)))))
       (bindE the_state (\<lambda>st.
        case st_ticket st of
          None \<Rightarrow> ret ()
        | Some ticket \<Rightarrow>
            let note = Some (format_incident_id (fp_close_comment policy) (st_incident_id st)) in
            thenE (port (Ev_close_ticket ticket note TO_UNSUCCESSFUL)
                     (tc_close_ticket (es_ticket es) ticket note TO_UNSUCCESSFUL))
              (upd_state (\<lambda>st. st\<lparr>st_ticket_closed := True\<rparr>)))))"

definition escalate_unclassified :: "'w escalator \<Rightarrow> exn \<Rightarrow> ('w drive, exn, unit) eff" where
  "escalate_unclassified es error =
     bindE the_run (\<lambda>run.
     let detail = exn_name error @ '': '' @ exn_str error in
     bindE (liftE (incident_for run (es_default_team es) None detail)) (\<lambda>req.
     bindE (open_incident_call es req) (\<lambda>inc.
     thenE (upd_state (\<lambda>st. st\<lparr>st_incident_id := Some (tr_ticket_id inc)\<rparr>))
       (case st_ticket (run_run_state run) of
          None \<Rightarrow> ret ()
        | Some ticket \<Rightarrow>
            let note = ''Incident '' @ tr_ticket_id inc @ '' opened for failure: '' @ exn_str error in
            port (Ev_annotate_ticket ticket note) (tc_annotate_ticket (es_ticket es) ticket note)))))"

definition escalate :: "'w escalator \<Rightarrow> exn \<Rightarrow> ('w drive, exn, unit) eff" where
  "escalate es error =
     thenE
       (catchE
         (if is_step_failure error then escalate_by_policy es error (policy_for (exn_kind error))
          else escalate_unclassified es error)
         (\<lambda>e. ret ()))
       (release_resource es)"

definition reject :: "'w escalator \<Rightarrow> ('w drive, exn, unit) eff" where
  "reject es = release_resource es"

section \<open>Releasing the resource\<close>

lemma release_resource_eq:
  "release_resource es s = (case resource_in_flight (dv_run s) of
     None \<Rightarrow> (Inr (), s)
   | Some r \<Rightarrow>
       let p = rs_project_id r; t = rs_resource_type r; v = rs_vendor_id r in
       if st_operation (run_run_state (dv_run s)) = RO_CREATE then
         (case rc_delete_resource (es_resources es) p t v (dv_world s) of (res, w) \<Rightarrow>
            (Inr (), s\<lparr>dv_world := w, dv_trace := dv_trace s @ [Ev_delete_resource p t v res]\<rparr>))
       else
         (let flds = [(''state'', JStr ''READY''), (''in_progress'', JBool False)] in
          case rc_update_resource (es_resources es) p t v flds (dv_world s) of (res, w) \<Rightarrow>
            (Inr (), s\<lparr>dv_world := w, dv_trace := dv_trace s @ [Ev_update_resource p t v flds res]\<rparr>)))"
  by (auto simp: release_resource_def eff_basic drive_basic Let_def resource_state_fields_def
      in_flight_states_def split: option.split prod.split sum.split)

text \<open>The one call that releases a run's resource.\<close>

definition release_event :: "workflow_run \<Rightarrow> event \<Rightarrow> bool" where
  "release_event run e = (case resource_in_flight run of
     None \<Rightarrow> False
   | Some r \<Rightarrow>
       if st_operation (run_run_state run) = RO_CREATE
       then \<exists>res. e = Ev_delete_resource (rs_project_id r) (rs_resource_type r) (rs_vendor_id r) res
       else \<exists>res. e = Ev_update_resource (rs_project_id r) (rs_resource_type r) (rs_vendor_id r)
              [(''state'', JStr ''READY''), (''in_progress'', JBool False)] res)"

definition released :: "workflow_run \<Rightarrow> event list \<Rightarrow> bool" where
  "released run evs \<longleftrightarrow>
     (if resource_in_flight run = None then evs = [] else \<exists>e. evs = [e] \<and> release_event run e)"

lemma release_spec:
  "wpE (release_resource es)
     (\<lambda>_ t. dv_run t = dv_run s \<and> (\<exists>evs. dv_trace t = dv_trace s @ evs \<and> released (dv_run s) evs))
     (\<lambda>_ _. False) s"
  by (auto simp: wpE_def release_resource_eq released_def release_event_def Let_def
      split: option.split prod.split)

lemma released_incidents [simp]: "released run evs \<Longrightarrow> incidents evs = 0"
  by (auto simp: released_def release_event_def split: if_splits option.splits)

section \<open>The ticket side\<close>

text \<open>What escalation may change of the run: the incident it opened and the closing of the ticket.\<close>

definition esc_run :: "workflow_run \<Rightarrow> workflow_run \<Rightarrow> bool" where
  "esc_run r r' \<longleftrightarrow> (\<exists>i c. r' = r\<lparr>run_run_state := (run_run_state r)
     \<lparr>st_incident_id := i, st_ticket_closed := c\<rparr>\<rparr>)"

lemma esc_run_refl [simp]: "esc_run r r"
  unfolding esc_run_def
  by (rule exI [of _ "st_incident_id (run_run_state r)"], rule exI [of _ "st_ticket_closed (run_run_state r)"]) simp

lemma esc_run_upd [simp]:
  "esc_run r (r\<lparr>run_run_state := (run_run_state r)\<lparr>st_incident_id := i\<rparr>\<rparr>)"
  "esc_run r (r\<lparr>run_run_state := (run_run_state r)\<lparr>st_ticket_closed := c\<rparr>\<rparr>)"
  "esc_run r (r\<lparr>run_run_state := (run_run_state r)\<lparr>st_incident_id := i, st_ticket_closed := c\<rparr>\<rparr>)"
  unfolding esc_run_def
    apply (rule exI [of _ i], rule exI [of _ "st_ticket_closed (run_run_state r)"], simp)
   apply (rule exI [of _ "st_incident_id (run_run_state r)"], rule exI [of _ c], simp)
  apply blast
  done

lemma esc_run_simps:
  assumes "esc_run r r'"
  shows "resource_in_flight r' = resource_in_flight r" "run_status r' = run_status r"
    "run_scheduled_at r' = run_scheduled_at r" "run_current_step r' = run_current_step r"
    "run_id r' = run_id r" "run_version r' = run_version r" "run_run_type r' = run_run_type r"
    "run_max_retries r' = run_max_retries r" "run_created_by r' = run_created_by r"
    "st_errors (run_run_state r') = st_errors (run_run_state r)"
    "st_step_attempts (run_run_state r') = st_step_attempts (run_run_state r)"
    "st_ticket (run_run_state r') = st_ticket (run_run_state r)"
    "st_engine_failure (run_run_state r') = st_engine_failure (run_run_state r)"
    "st_operation (run_run_state r') = st_operation (run_run_state r)"
  using assms by (auto simp: esc_run_def resource_in_flight_def Let_def split: option.split)

lemma released_cong: "esc_run r r' \<Longrightarrow> released r' evs = released r evs"
  by (auto simp: released_def release_event_def esc_run_simps)

text \<open>What the documentation incident leaves: at most one more incident, and the run as it was.\<close>

definition documentation_events :: "string \<Rightarrow> string \<Rightarrow> event list \<Rightarrow> bool" where
  "documentation_events dflt team evs \<longleftrightarrow>
     evs = [] \<or> (team \<noteq> dflt \<and>
       (\<exists>req res. ir_responsible_group req = dflt \<and>
          (evs = [Ev_open_incident req res] \<or>
           (\<exists>doc res'. res = Inr doc \<and>
              evs = [Ev_open_incident req res, Ev_close_incident doc None TO_DOCUMENTATION res']))))"

lemma incident_for_team:
  "incident_for run team failure detail = Inr req \<Longrightarrow> ir_responsible_group req = team"
  by (auto simp: incident_for_def split: sum.splits)

lemma documentation_spec:
  "wpE (log_documentation_incident es team detail)
     (\<lambda>_ t. dv_run t = dv_run s \<and>
        (\<exists>evs. dv_trace t = dv_trace s @ evs \<and> documentation_events (es_default_team es) team evs))
     (\<lambda>_ _. False) s"
  by (auto simp: log_documentation_incident_def open_incident_call_def documentation_events_def wp
      Let_def incident_for_team split: sum.split)

lemma documentation_events_simps:
  assumes "documentation_events dflt team evs"
  shows "incidents evs \<le> (if team = dflt then 0 else 1)"
    and "Ev_close_ticket tk note oc res \<notin> set evs"
    and "Ev_annotate_ticket tk note' res' \<notin> set evs"
  using assms by (auto simp: documentation_events_def)

text \<open>The note a failed request's ticket is closed with.\<close>

definition unsuccessful_close ::
  "'w escalator \<Rightarrow> workflow_run \<Rightarrow> failure_kind \<Rightarrow> event list \<Rightarrow> event \<Rightarrow> bool" where
  "unsuccessful_close es run k evs e \<longleftrightarrow> (\<exists>tk note res. e = Ev_close_ticket tk (Some note) TO_UNSUCCESSFUL res \<and>
     st_ticket (run_run_state run) = Some tk \<and>
     (if k = FK_TASK
      then \<exists>req inc. Ev_open_incident req (Inr inc) \<in> set evs \<and>
             ir_responsible_group req = responsible_team es (st_engine_failure (run_run_state run)) \<and>
             note = closing_note FK_TASK (Some (tr_ticket_id inc))
      else \<exists>i. note = closing_note k i))"

definition is_close_ticket :: "event \<Rightarrow> bool" where
  "is_close_ticket e \<longleftrightarrow> (\<exists>tk note oc res. e = Ev_close_ticket tk note oc res)"

lemma is_close_ticket_simps [simp]:
  "is_close_ticket (Ev_close_ticket tk note oc res)"
  "\<not> is_close_ticket (Ev_open_incident req res')"
  "\<not> is_close_ticket (Ev_annotate_ticket tk' n res'')"
  by (auto simp: is_close_ticket_def)

lemma documentation_no_close:
  "documentation_events dflt team evs \<Longrightarrow> e \<in> set evs \<Longrightarrow> \<not> is_close_ticket e"
  by (auto simp: documentation_events_def is_close_ticket_def)

lemma released_no_close: "released run evs \<Longrightarrow> e \<in> set evs \<Longrightarrow> \<not> is_close_ticket e"
  by (auto simp: released_def release_event_def is_close_ticket_def split: if_splits option.splits)

definition ticket_side ::
  "'w escalator \<Rightarrow> exn \<Rightarrow> workflow_run \<Rightarrow> event list \<Rightarrow> bool" where
  "ticket_side es error run evs \<longleftrightarrow>
     incidents evs \<le> (if is_step_failure error then (if exn_kind error = FK_TASK then 2 else 0) else 1) \<and>
     (\<forall>e \<in> set evs. is_close_ticket e \<longrightarrow>
        is_step_failure error \<and> unsuccessful_close es run (exn_kind error) evs e)"

text \<open>The two calls that cannot fail, as rules.\<close>

lemma documentation_wp:
  assumes "\<And>w evs. documentation_events (es_default_team es) team evs \<Longrightarrow>
     Q () (s\<lparr>dv_world := w, dv_trace := dv_trace s @ evs\<rparr>)"
  shows "wpE (log_documentation_incident es team detail) Q E s"
  by (rule wp_calls_only [OF documentation_spec]) (simp add: assms)

lemma release_wp:
  assumes "\<And>w evs. released (dv_run s) evs \<Longrightarrow> Q () (s\<lparr>dv_world := w, dv_trace := dv_trace s @ evs\<rparr>)"
  shows "wpE (release_resource es) Q E s"
  by (rule wp_calls_only [OF release_spec]) (simp add: assms)

lemma ticket_side_failed_open [simp]:
  "is_step_failure error \<Longrightarrow> exn_kind error = FK_TASK \<Longrightarrow> ticket_side es error run [Ev_open_incident req (Inl e)]"
  "\<not> is_step_failure error \<Longrightarrow> ticket_side es error run [Ev_open_incident req r]"
  "\<not> is_step_failure error \<Longrightarrow> ticket_side es error run [Ev_open_incident req r, Ev_annotate_ticket tk note r']"
  "ticket_side es error run []"
  by (simp_all add: ticket_side_def)

lemma ticket_side_task:
  assumes "is_step_failure error" "exn_kind error = FK_TASK"
    and docs: "documentation_events (es_default_team es) team evs"
    and req: "ir_responsible_group req = responsible_team es (st_engine_failure (run_run_state run))"
    and closes: "closes = [] \<or> (\<exists>tk res. st_ticket (run_run_state run) = Some tk \<and>
       closes = [Ev_close_ticket tk (Some (closing_note FK_TASK (Some (tr_ticket_id inc)))) TO_UNSUCCESSFUL res])"
  shows "ticket_side es error run (Ev_open_incident req (Inr inc) # evs @ closes)"
proof -
  have "incidents evs \<le> 1" using documentation_events_simps(1) [OF docs] by (simp split: if_splits)
  moreover have "incidents closes = 0" using closes by auto
  moreover have "unsuccessful_close es run FK_TASK (Ev_open_incident req (Inr inc) # evs @ closes) e"
    if "e \<in> set closes" for e
    using that closes req unfolding unsuccessful_close_def by fastforce
  ultimately show ?thesis
    using assms documentation_no_close [OF docs] by (auto simp: ticket_side_def)
qed

lemma ticket_side_other:
  assumes "is_step_failure error" "exn_kind error \<noteq> FK_TASK"
    and "st_ticket (run_run_state run) = Some tk"
  shows "ticket_side es error run [Ev_close_ticket tk (Some (closing_note (exn_kind error) i)) TO_UNSUCCESSFUL res]"
  using assms by (auto simp: ticket_side_def unsuccessful_close_def)

lemma by_policy_spec:
  assumes "is_step_failure error"
  shows "wpE (escalate_by_policy es error (policy_for (exn_kind error)))
     (\<lambda>_ t. esc_run (dv_run s) (dv_run t) \<and>
        (\<exists>evs. dv_trace t = dv_trace s @ evs \<and> ticket_side es error (dv_run s) evs))
     (\<lambda>_ t. esc_run (dv_run s) (dv_run t) \<and>
        (\<exists>evs. dv_trace t = dv_trace s @ evs \<and> ticket_side es error (dv_run s) evs)) s"
proof (cases "exn_kind error = FK_TASK")
  case True
  have task: "ticket_side es error (dv_run s) (Ev_open_incident req (Inr inc) # evs @ closes)"
    if "documentation_events (es_default_team es) team evs"
      "incident_for run (responsible_team es (st_engine_failure (run_run_state (dv_run s)))) f d = Inr req"
      "closes = [] \<or> (\<exists>tk res. st_ticket (run_run_state (dv_run s)) = Some tk \<and>
       closes = [Ev_close_ticket tk (Some (closing_note FK_TASK (Some (tr_ticket_id inc)))) TO_UNSUCCESSFUL res])"
    for team evs run f d req inc closes
    using that by (intro ticket_side_task [OF assms True that(1)] incident_for_team)
  show ?thesis
    using assms True task [where closes = "[]"] task [where closes = "[_]"]
    by (auto simp: escalate_by_policy_def open_incident_call_def Let_def wp
        simp flip: closing_note_def simp del: close_comment_policy
        split: sum.split option.split intro!: documentation_wp)
next
  case False
  with assms show ?thesis
    by (auto simp: escalate_by_policy_def Let_def wp ticket_side_other
        simp flip: closing_note_def simp del: close_comment_policy
        split: option.split)
qed

lemma unclassified_spec:
  assumes "\<not> is_step_failure error"
  shows "wpE (escalate_unclassified es error)
     (\<lambda>_ t. esc_run (dv_run s) (dv_run t) \<and>
        (\<exists>evs. dv_trace t = dv_trace s @ evs \<and> ticket_side es error (dv_run s) evs))
     (\<lambda>_ t. esc_run (dv_run s) (dv_run t) \<and>
        (\<exists>evs. dv_trace t = dv_trace s @ evs \<and> ticket_side es error (dv_run s) evs)) s"
  using assms
  by (auto simp: escalate_unclassified_def open_incident_call_def Let_def wp split: sum.split option.split)

section \<open>Escalation as a whole\<close>

lemma escalate_spec:
  "wpE (escalate es error)
     (\<lambda>_ t. esc_run (dv_run s) (dv_run t) \<and>
        (\<exists>evs rel. dv_trace t = dv_trace s @ evs @ rel \<and> ticket_side es error (dv_run s) evs \<and>
           released (dv_run s) rel))
     (\<lambda>_ _. False) s"
proof -
  let ?P = "\<lambda>t. esc_run (dv_run s) (dv_run t) \<and>
        (\<exists>evs. dv_trace t = dv_trace s @ evs \<and> ticket_side es error (dv_run s) evs)"
  have rel: "wpE (release_resource es)
     (\<lambda>_ t. esc_run (dv_run s) (dv_run t) \<and>
        (\<exists>evs rel. dv_trace t = dv_trace s @ evs @ rel \<and> ticket_side es error (dv_run s) evs \<and>
           released (dv_run s) rel))
     (\<lambda>_ _. False) t" if "?P t" for t
    using that by (intro release_wp) (auto simp: released_cong, blast)
  have "wpE (if is_step_failure error then escalate_by_policy es error (policy_for (exn_kind error))
          else escalate_unclassified es error) (\<lambda>_. ?P) (\<lambda>_. ?P) s"
    using by_policy_spec [of error es s] unclassified_spec [of error es s] by simp
  then show ?thesis
    unfolding escalate_def wp_then wp_catch wp_ret by (rule wp_mono) (simp_all add: rel)
qed

lemma escalate_no_raise: "\<exists>t. escalate es error s = (Inr (), t)"
  using escalate_spec [of es error s] by (auto simp: wpE_def split: prod.splits sum.splits)

end
