(* ===== verification/Executor.thy ===== *)
theory Executor
  imports Plans Escalator
begin

text \<open>
  The run driver of \<open>src/orchestrator/orchestration/executor.py\<close>. \<open>drive_iteration\<close> is the body of
  the \<open>while True\<close> loop: it returns the step to go on with, or \<open>None\<close> where the code returns.
  \<open>drive_loop\<close> is the loop; it terminates because every plan follows the order of the steps.
  \<open>handle\<close> is the entry point a worker calls.
\<close>

record 'w executor =
  ex_handlers :: "step_name \<Rightarrow> 'w handler option"
  ex_runs :: "'w run_store"
  ex_retry_base :: timedelta
  ex_escalator :: "'w escalator"
  ex_clock :: "'w clock"

definition utc_now :: "'w executor \<Rightarrow> ('w drive, exn, datetime) eff" where
  "utc_now X = clock_read (ck_utcnow (ex_clock X))"

section \<open>Saving\<close>

text \<open>\<open>runs.save(run)\<close> writes the new version back into the run.\<close>

definition repo_save :: "'w executor \<Rightarrow> ('w drive, exn, unit) eff" where
  "repo_save X =
     bindE the_run (\<lambda>run.
     bindE (port (Ev_save run) (rp_save (ex_runs X) run)) (\<lambda>v.
     upd_run (\<lambda>r. r\<lparr>run_version := v\<rparr>)))"

definition save :: "'w executor \<Rightarrow> ('w drive, exn, unit) eff" where
  "save X = catchE (repo_save X) (\<lambda>e. if is_stale e then ret () else raise e)"

definition schedule :: "'w executor \<Rightarrow> timedelta \<Rightarrow> ('w drive, exn, unit) eff" where
  "schedule X delay =
     bindE (utc_now X) (\<lambda>t.
     thenE (upd_run (\<lambda>r. r\<lparr>run_scheduled_at := Some (t + delay)\<rparr>)) (save X))"

definition save_quietly :: "'w executor \<Rightarrow> ('w drive, exn, unit) eff" where
  "save_quietly X = catchE (save X) (\<lambda>e. ret ())"

section \<open>Ending a run badly\<close>

definition set_error :: "step_name \<Rightarrow> exn \<Rightarrow> ('w drive, exn, unit) eff" where
  "set_error step error = upd_state (\<lambda>st. st\<lparr>st_errors := dset (st_errors st) step (exn_str error)\<rparr>)"

definition set_terminal :: "run_status \<Rightarrow> ('w drive, exn, unit) eff" where
  "set_terminal status = upd_run (\<lambda>r. r\<lparr>run_status := status, run_scheduled_at := None\<rparr>)"

definition reject_run :: "'w executor \<Rightarrow> step_name \<Rightarrow> exn \<Rightarrow> ('w drive, exn, unit) eff" where
  "reject_run X step rejection =
     thenE (set_error step rejection)
     (thenE (set_terminal RS_REJECTED)
     (thenE (reject (ex_escalator X))
        (save X)))"

text \<open>
  \<open>attempts[step]\<close> failures so far; the retry waits \<open>base * 2 ** (attempts - 1)\<close> plus a jitter.
\<close>

definition on_step_error ::
  "'w executor \<Rightarrow> step_name \<Rightarrow> 'w handler \<Rightarrow> exn \<Rightarrow> ('w drive, exn, unit) eff" where
  "on_step_error X step h error =
     thenE (upd_state (\<lambda>st. st\<lparr>st_step_attempts :=
              dset (st_step_attempts st) step (dget (st_step_attempts st) step 0 + 1)\<rparr>))
     (bindE the_run (\<lambda>run.
      let attempts = dget (st_step_attempts (run_run_state run)) step 0;
          retryable = fp_retryable (policy_for (exn_kind error)) in
      if retryable \<and> int attempts \<le> run_max_retries run then
        thenE (upd_state (\<lambda>st. (h_reset h st)\<lparr>st_attempt_started_at := None\<rparr>))
        (bindE (clock_read (ck_uniform (ex_clock X))) (\<lambda>jitter.
         schedule X (ex_retry_base X * 2 ^ (attempts - 1) + jitter)))
      else
        thenE (set_error step error)
        (thenE (set_terminal RS_FAILED)
        (thenE (escalate (ex_escalator X) error)
           (save X)))))"

definition crash :: "'w executor \<Rightarrow> exn \<Rightarrow> ('w drive, exn, unit) eff" where
  "crash X error =
     bindE the_run (\<lambda>run.
     if run_status run = RS_FAILED then save_quietly X
     else
       thenE (case run_current_step run of
                None \<Rightarrow> ret ()
              | Some v \<Rightarrow> bindE (liftE (parse_step v)) (\<lambda>step. set_error step error))
       (thenE (set_terminal RS_FAILED)
       (thenE (escalate (ex_escalator X) error)
          (save_quietly X))))"

section \<open>The loop\<close>

text \<open>Text of \<open>StepName\<close> members in an f-string, and of a missing handler's \<open>KeyError\<close>.\<close>

definition step_text :: "step_name \<Rightarrow> string" where
  "step_text step = ''StepName.'' @ step_member step"

definition step_repr :: "step_name \<Rightarrow> string" where
  "step_repr step = ''<'' @ step_text step @ '': '' @ quote_char @ step_value step @ quote_char @ ''>''"

text \<open>The guarded part of the loop body: the deadline check, then the handler.\<close>

definition attempt_step ::
  "'w executor \<Rightarrow> step_name \<Rightarrow> 'w handler \<Rightarrow> datetime \<Rightarrow> ('w drive, exn, bool) eff" where
  "attempt_step X step h started =
     bindE (utc_now X) (\<lambda>t.
     if t - started > h_max_duration h
     then raise (StepDeadlineExceeded (''Step '' @ step_text step @ '' exceeded its wall-clock budget''))
     else h_execute h)"

text \<open>
  Starting the clocks: the log entry of the step, written once, and the start of the attempt,
  which is read back.
\<close>

definition start_attempt :: "'w executor \<Rightarrow> step_name \<Rightarrow> ('w drive, exn, datetime) eff" where
  "start_attempt X step =
     bindE (utc_now X) (\<lambda>t.
     thenE (upd_state (\<lambda>st. st\<lparr>st_step_started_at := dsetdefault (st_step_started_at st) step t\<rparr>))
     (bindE the_state (\<lambda>st.
      case st_attempt_started_at st of
        Some started \<Rightarrow> ret started
      | None \<Rightarrow>
          bindE (utc_now X) (\<lambda>t.
          thenE (upd_state (\<lambda>st. st\<lparr>st_attempt_started_at := Some t\<rparr>)) (ret t)))))"

definition finish_step :: "'w executor \<Rightarrow> run_type \<Rightarrow> step_name \<Rightarrow> ('w drive, exn, step_name option) eff" where
  "finish_step X rt step =
     thenE (upd_state (\<lambda>st. st\<lparr>st_step_attempts := dpop (st_step_attempts st) step,
              st_attempt_started_at := None\<rparr>))
     (bindE (liftE (next_step (run_plan rt) step)) (\<lambda>nxt.
      case nxt of
        Some n \<Rightarrow> ret (Some n)
      | None \<Rightarrow>
          thenE (upd_run (\<lambda>r. r\<lparr>run_status := RS_COMPLETED, run_current_step := None,
                   run_scheduled_at := None\<rparr>))
          (thenE (save X) (ret None))))"

text \<open>One turn of the loop. The clock reading between start and attempt is the log record's.\<close>

definition drive_iteration ::
  "'w executor \<Rightarrow> run_type \<Rightarrow> step_name \<Rightarrow> ('w drive, exn, step_name option) eff" where
  "drive_iteration X rt step =
     thenE (upd_run (\<lambda>r. r\<lparr>run_current_step := Some (step_value step)\<rparr>))
     (case ex_handlers X step of
        None \<Rightarrow> raise (KeyError (step_repr step))
      | Some h \<Rightarrow>
          bindE (start_attempt X step) (\<lambda>started.
          bindE (utc_now X) (\<lambda>elapsed.
          bindE (tryE (attempt_step X step h started)) (\<lambda>outcome.
          case outcome of
            Inl error \<Rightarrow>
              thenE (if is_rejected error then reject_run X step error
                     else on_step_error X step h error)
                (ret None)
          | Inr False \<Rightarrow> thenE (schedule X (h_poll_interval h)) (ret None)
          | Inr True \<Rightarrow> finish_step X rt step))))"

lemma drive_iteration_increases:
  "wpE (drive_iteration X rt step) (\<lambda>r _. \<forall>n. r = Some n \<longrightarrow> step < n) (\<lambda>_ _. True) s"
proof -
  have fin: "wpE (finish_step X rt step) (\<lambda>r _. \<forall>n. r = Some n \<longrightarrow> step < n) (\<lambda>_ _. True) s" for s
    by (auto simp: finish_step_def wp dest: next_step_increases split: sum.split option.split)
  show ?thesis
    by (simp add: drive_iteration_def wp fin split: option.split sum.split bool.split)
qed

function drive_loop :: "'w executor \<Rightarrow> run_type \<Rightarrow> step_name \<Rightarrow> ('w drive, exn, unit) eff" where
  "drive_loop X rt step s = (case drive_iteration X rt step s of
     (Inl e, t) \<Rightarrow> (Inl e, t)
   | (Inr None, t) \<Rightarrow> (Inr (), t)
   | (Inr (Some n), t) \<Rightarrow> drive_loop X rt n t)"
  by pat_completeness auto
termination
proof (relation "measure (\<lambda>(X, rt, step, s). 8 - step_rank step)", goal_cases)
  case 1
  show ?case by simp
next
  case (2 X rt step s r t r' n)
  then have "step < n"
    using wp_result [OF drive_iteration_increases, of X rt step s r' t] by (cases r) auto
  moreover have "step_rank n < 8" by (cases n) simp_all
  ultimately show ?case by (simp add: less_step_name_def)
qed

declare drive_loop.simps [simp del]

text \<open>\<open>StepName(run.current_step) if run.current_step else plan[0]\<close>.\<close>

definition first_step :: "workflow_run \<Rightarrow> exn + step_name" where
  "first_step run = (case run_current_step run of
     None \<Rightarrow> Inr (run_plan (run_run_type run) ! 0)
   | Some v \<Rightarrow> if v = [] then Inr (run_plan (run_run_type run) ! 0) else parse_step v)"

definition drive_run :: "'w executor \<Rightarrow> ('w drive, exn, unit) eff" where
  "drive_run X =
     bindE the_run (\<lambda>run.
     bindE (liftE (first_step run)) (\<lambda>step.
     thenE (upd_run (\<lambda>r. r\<lparr>run_status := RS_RUNNING, run_current_step := Some (step_value step)\<rparr>))
       (drive_loop X (run_run_type run) step)))"

definition handle :: "'w executor \<Rightarrow> uuid \<Rightarrow> ('w drive, exn, unit) eff" where
  "handle X rid =
     bindE (port (Ev_get_run rid) (rp_get (ex_runs X) rid)) (\<lambda>found.
     case found of
       None \<Rightarrow> ret ()
     | Some run \<Rightarrow>
         thenE (upd_run (\<lambda>_. run))
         (if terminal_status (run_status run) then ret ()
          else catchE (drive_run X) (crash X)))"

end
