(* ===== verification/Calls.thy ===== *)
theory Calls
  imports Executor
begin

text \<open>
  Which calls a piece of the driver can make: \<open>only_calls P m\<close>, with one rule per combinator, and
  the calls of the escalator and of the executor's own parts.
\<close>

section \<open>The calls of a computation\<close>

named_theorems calls "rules for the calls a computation can make"

definition only_calls :: "(event \<Rightarrow> bool) \<Rightarrow> ('w drive, exn, 'a) eff \<Rightarrow> bool" where
  "only_calls P m \<longleftrightarrow> keeps (extends P) m"

lemma only_calls_wp:
  assumes "only_calls P m"
  shows "wpE m (\<lambda>_ t. extends P s t) (\<lambda>_ t. extends P s t) s"
  using assms by (simp add: only_calls_def keepsD)

lemma only_calls_basic [calls]:
  "only_calls P (ret x)" "only_calls P (raise e)" "only_calls P the_run" "only_calls P the_state"
  "only_calls P (upd_run f)" "only_calls P (upd_state g)" "only_calls P (liftE r)"
  "only_calls P (clock_read c)"
  by (auto simp: only_calls_def wp intro!: keepsI split: sum.split)

lemma only_calls_port [calls]: "(\<And>r. P (ev r)) \<Longrightarrow> only_calls P (port ev act)"
  by (auto simp: only_calls_def wp intro!: keepsI)

lemma only_calls_bind [calls]:
  "only_calls P m \<Longrightarrow> (\<And>x. only_calls P (f x)) \<Longrightarrow> only_calls P (bindE m f)"
  unfolding only_calls_def by (rule extending.bind)

lemma only_calls_catch [calls]:
  "only_calls P m \<Longrightarrow> (\<And>x. only_calls P (f x)) \<Longrightarrow> only_calls P (catchE m f)"
  unfolding only_calls_def by (rule extending.catch)

lemma only_calls_then [calls]: "only_calls P m \<Longrightarrow> only_calls P n \<Longrightarrow> only_calls P (thenE m n)"
  by (simp add: thenE_def calls)

lemma only_calls_when [calls]: "only_calls P m \<Longrightarrow> only_calls P (whenE b m)"
  by (simp add: whenE_def calls)

lemma only_calls_if [calls]: "only_calls P m \<Longrightarrow> only_calls P n \<Longrightarrow> only_calls P (if b then m else n)"
  by simp

lemma only_calls_option [calls]:
  "only_calls P m \<Longrightarrow> (\<And>x. only_calls P (f x)) \<Longrightarrow>
   only_calls P (case o' of None \<Rightarrow> m | Some x \<Rightarrow> f x)"
  by (simp split: option.split)

lemma only_calls_try [calls]: "only_calls P m \<Longrightarrow> only_calls P (tryE m)"
  by (simp add: only_calls_def keeps_def wp)

lemma only_calls_mono: "only_calls P m \<Longrightarrow> (\<And>e. P e \<Longrightarrow> P' e) \<Longrightarrow> only_calls P' m"
  unfolding only_calls_def
  by (rule keepsI, rule wp_mono, erule keepsD) (auto elim: extends_mono)

section \<open>The driver's own calls\<close>

text \<open>What the escalator and the executor call: never a step's providers to start something.\<close>

fun driver_event :: "event \<Rightarrow> bool" where
  "driver_event (Ev_save _ _) = True"
| "driver_event (Ev_close_ticket _ _ oc _) = (oc = TO_UNSUCCESSFUL)"
| "driver_event (Ev_annotate_ticket _ _ _) = True"
| "driver_event (Ev_open_incident _ _) = True"
| "driver_event (Ev_close_incident _ _ _ _) = True"
| "driver_event (Ev_update_resource _ _ _ _ _) = True"
| "driver_event (Ev_delete_resource _ _ _ _) = True"
| "driver_event _ = False"

abbreviation escalation_event :: "event \<Rightarrow> bool" where
  "escalation_event e \<equiv> driver_event e \<and> \<not> is_save e"

lemma release_calls [calls]: "only_calls escalation_event (release_resource es)"
  unfolding release_resource_def Let_def by (intro calls) simp_all

lemma documentation_calls [calls]: "only_calls escalation_event (log_documentation_incident es team d)"
  unfolding log_documentation_incident_def open_incident_call_def Let_def by (intro calls) simp_all

lemma by_policy_calls [calls]: "only_calls escalation_event (escalate_by_policy es e p)"
  unfolding escalate_by_policy_def open_incident_call_def Let_def by (intro calls) simp_all

lemma unclassified_calls [calls]: "only_calls escalation_event (escalate_unclassified es e)"
  unfolding escalate_unclassified_def open_incident_call_def Let_def by (intro calls) simp_all

lemma escalate_escalation_calls: "only_calls escalation_event (escalate es e)"
  unfolding escalate_def by (intro calls)

lemma escalate_calls [calls]: "only_calls driver_event (escalate es e)"
  by (rule only_calls_mono [OF escalate_escalation_calls]) simp

lemma reject_calls [calls]: "only_calls driver_event (reject es)"
  unfolding reject_def by (rule only_calls_mono [OF release_calls]) simp

lemma save_calls [calls]: "only_calls driver_event (save X)"
  unfolding save_def repo_save_def by (intro calls) simp_all

lemma schedule_calls [calls]: "only_calls driver_event (schedule X d)"
  unfolding schedule_def utc_now_def by (intro calls)

lemma set_error_calls [calls]: "only_calls driver_event (set_error k e)"
  unfolding set_error_def by (intro calls)

lemma set_terminal_calls [calls]: "only_calls driver_event (set_terminal st)"
  unfolding set_terminal_def by (intro calls)

lemma reject_run_calls [calls]: "only_calls driver_event (reject_run X k e)"
  unfolding reject_run_def by (intro calls)

lemma on_step_error_calls [calls]: "only_calls driver_event (on_step_error X k h e)"
  unfolding on_step_error_def Let_def by (intro calls)

lemma save_quietly_calls [calls]: "only_calls driver_event (save_quietly X)"
  unfolding save_quietly_def by (intro calls)

lemma crash_calls [calls]: "only_calls driver_event (crash X e)"
  unfolding crash_def by (intro calls)

lemma start_attempt_calls [calls]: "only_calls driver_event (start_attempt X k)"
  unfolding start_attempt_def utc_now_def by (intro calls)

lemma finish_step_calls [calls]: "only_calls driver_event (finish_step X rt k)"
  unfolding finish_step_def by (intro calls)

end
