(* ===== verification/Executor_Laws.thy ===== *)
theory Executor_Laws
  imports Calls
begin

text \<open>
  What the driver of \<open>Executor\<close> guarantees, for any executor whose handlers meet their contract
  (locale \<open>drivable\<close>) and then for the one \<open>bootstrap.py\<close> builds. The loop is taken through one
  invariant (\<open>progress\<close>) to its two ends: \<open>concluded\<close>, the run settled and its save the last call
  made, or \<open>broken\<close>, an exception that the crash path turns into \<open>concluded\<close>.
\<close>

section \<open>Rules for the parts of the loop\<close>

lemma wp_drive_loop:
  "wpE (drive_loop X rt step) Q E s =
     wpE (drive_iteration X rt step)
       (\<lambda>r t. case r of None \<Rightarrow> Q () t | Some n \<Rightarrow> wpE (drive_loop X rt n) Q E t) E s"
  by (simp add: wpE_def drive_loop.simps [of X rt step s] split: prod.split sum.split option.split)

text \<open>An invariant of the loop: what every turn keeps, and what it ends with.\<close>

lemma drive_loop_rule:
  assumes "I step s"
    and turn: "\<And>step s. I step s \<Longrightarrow>
      wpE (drive_iteration X rt step) (\<lambda>r t. case r of None \<Rightarrow> Q t | Some n \<Rightarrow> I n t) E s"
  shows "wpE (drive_loop X rt step) (\<lambda>_. Q) E s"
  using assms(1)
proof (induction "8 - step_rank step" arbitrary: step s rule: less_induct)
  case less
  have bound: "step_rank n < 8" for n by (cases n) simp_all
  have "wpE (drive_iteration X rt step)
      (\<lambda>r t. (case r of None \<Rightarrow> Q t | Some n \<Rightarrow> I n t) \<and> (\<forall>n. r = Some n \<longrightarrow> step < n))
      (\<lambda>e t. E e t \<and> True) s"
    by (rule wp_conj [OF turn [OF less.prems] drive_iteration_increases])
  then show ?case
    unfolding wp_drive_loop [of X rt step]
  proof (rule wp_mono)
    fix r t
    assume *: "(case r of None \<Rightarrow> Q t | Some n \<Rightarrow> I n t) \<and> (\<forall>n. r = Some n \<longrightarrow> step < n)"
    show "case r of None \<Rightarrow> Q t | Some n \<Rightarrow> wpE (drive_loop X rt n) (\<lambda>_. Q) E t"
    proof (cases r)
      case (Some n)
      with * have "8 - step_rank n < 8 - step_rank step"
        using bound [of n] bound [of step] by (simp add: less_step_name_def diff_less_mono2)
      with * Some show ?thesis using less.hyps by simp
    qed (use * in simp)
  qed simp
qed

lemma save_wp:
  assumes "\<And>w v res. res = Inr v \<or> (v = run_version (dv_run s) \<and> (\<exists>e. res = Inl e \<and> is_stale e)) \<Longrightarrow>
      Q () (s\<lparr>dv_run := (dv_run s)\<lparr>run_version := v\<rparr>, dv_world := w,
              dv_trace := dv_trace s @ [Ev_save (dv_run s) res]\<rparr>)"
    and "\<And>w e. \<not> is_stale e \<Longrightarrow>
      E e (s\<lparr>dv_world := w, dv_trace := dv_trace s @ [Ev_save (dv_run s) (Inl e)]\<rparr>)"
  shows "wpE (save X) Q E s"
proof -
  have ok: "Q () (s\<lparr>dv_world := w, dv_trace := dv_trace s @ [Ev_save (dv_run s) (Inr v)],
      dv_run := (dv_run s)\<lparr>run_version := v\<rparr>\<rparr>)" for w v
    using assms(1) [of "Inr v" v w] by (cases s) simp
  have stale: "Q () (s\<lparr>dv_world := w, dv_trace := dv_trace s @ [Ev_save (dv_run s) (Inl e)]\<rparr>)"
    if "is_stale e" for w e
    using assms(1) [of "Inl e" "run_version (dv_run s)" w] that by simp
  show ?thesis
    unfolding save_def repo_save_def wp using ok stale assms(2) by simp
qed

lemma step_execute_wp:
  assumes "step_contract h" and "\<And>x t. step_frame s t \<Longrightarrow> Q x t" and "\<And>e t. step_frame s t \<Longrightarrow> E e t"
  shows "wpE (h_execute h) Q E s"
  using wp_mono [OF keepsD [OF step_contract.frame [OF assms(1)]]] assms(2,3) by blast

definition no_saves :: "event list \<Rightarrow> bool" where
  "no_saves evs \<longleftrightarrow> (\<forall>e \<in> set evs. \<not> is_save e)"

lemma no_saves_simps [simp]:
  "no_saves []" "no_saves (xs @ ys) \<longleftrightarrow> no_saves xs \<and> no_saves ys"
  "no_saves (e # xs) \<longleftrightarrow> \<not> is_save e \<and> no_saves xs"
  by (auto simp: no_saves_def)

lemma no_saves_step_events: "\<forall>e \<in> set evs. step_event e \<Longrightarrow> no_saves evs"
proof (induction evs)
  case (Cons e evs)
  then show ?case by (cases e) auto
qed simp

lemma released_no_saves [simp]: "released run evs \<Longrightarrow> no_saves evs"
  by (auto simp: released_def release_event_def split: if_splits option.splits)

lemma escalate_wp:
  assumes "\<And>r w evs rel. esc_run (dv_run s) r \<Longrightarrow> ticket_side es error (dv_run s) evs \<Longrightarrow>
      released (dv_run s) rel \<Longrightarrow> no_saves evs \<Longrightarrow>
      Q () (s\<lparr>dv_run := r, dv_world := w, dv_trace := dv_trace s @ evs @ rel\<rparr>)"
  shows "wpE (escalate es error) Q E s"
proof (rule wp_mono [OF wp_conj [OF escalate_spec only_calls_wp [OF escalate_escalation_calls]]])
  fix x :: unit and t :: "'a drive"
  assume *: "(esc_run (dv_run s) (dv_run t) \<and>
        (\<exists>evs rel. dv_trace t = dv_trace s @ evs @ rel \<and> ticket_side es error (dv_run s) evs \<and>
           released (dv_run s) rel)) \<and> extends escalation_event s t"
  then obtain evs rel where t: "dv_trace t = dv_trace s @ evs @ rel"
    and p: "ticket_side es error (dv_run s) evs" "released (dv_run s) rel" by blast
  have "no_saves evs" using * t by (auto simp: extends_def no_saves_def)
  have "t = s\<lparr>dv_run := dv_run t, dv_world := dv_world t, dv_trace := dv_trace s @ evs @ rel\<rparr>"
    using t by (intro drive.equality) simp_all
  moreover have "Q () (s\<lparr>dv_run := dv_run t, dv_world := dv_world t, dv_trace := dv_trace s @ evs @ rel\<rparr>)"
    using * p \<open>no_saves evs\<close> by (intro assms) auto
  ultimately show "Q x t" by simp
qed simp

section \<open>Frames\<close>

text \<open>What no drive ever changes: the run's identity and the request it carries.\<close>

definition st_core :: "run_state \<Rightarrow> _" where
  "st_core st = (st_workflow st, st_ticket_params st, st_workflow_params st, st_operation st,
     st_legacy st, st_resource st = None)"

definition run_core :: "workflow_run \<Rightarrow> _" where
  "run_core r = (run_id r, run_run_type r, run_workflow_identifier r, run_created_by r,
     run_max_retries r, run_created_at r, run_updated_at r, st_core (run_run_state r))"

lemma st_core_simps [simp]:
  "st_core (st\<lparr>st_step_attempts := a\<rparr>) = st_core st"
  "st_core (st\<lparr>st_step_started_at := b\<rparr>) = st_core st"
  "st_core (st\<lparr>st_attempt_started_at := c\<rparr>) = st_core st"
  "st_core (st\<lparr>st_errors := d\<rparr>) = st_core st"
  "st_core (st\<lparr>st_incident_id := e\<rparr>) = st_core st"
  "st_core (st\<lparr>st_ticket_closed := f\<rparr>) = st_core st"
  by (simp_all add: st_core_def)

lemma st_frame_core: "st_frame a b \<Longrightarrow> st_core b = st_core a"
  by (simp add: st_core_def st_frame_def)

lemma run_core_simps [simp]:
  "run_core (r\<lparr>run_status := a\<rparr>) = run_core r"
  "run_core (r\<lparr>run_current_step := b\<rparr>) = run_core r"
  "run_core (r\<lparr>run_scheduled_at := c\<rparr>) = run_core r"
  "run_core (r\<lparr>run_version := d\<rparr>) = run_core r"
  "st_core st = st_core (run_run_state r) \<Longrightarrow> run_core (r\<lparr>run_run_state := st\<rparr>) = run_core r"
  by (simp_all add: run_core_def)

lemma step_frame_core: "step_frame s t \<Longrightarrow> run_core (dv_run t) = run_core (dv_run s)"
  by (erule step_frameE) (simp add: st_frame_core)

lemma esc_run_core: "esc_run r r' \<Longrightarrow> run_core r' = run_core r"
  by (auto simp: esc_run_def)

section \<open>How a drive ends\<close>

definition settled :: "workflow_run \<Rightarrow> bool" where
  "settled r \<longleftrightarrow> (if terminal_status (run_status r) then run_scheduled_at r = None
     else run_status r = RS_RUNNING \<and> run_scheduled_at r \<noteq> None)"

text \<open>The core and the version: what a drive keeps until it saves.\<close>

definition run_fixed :: "workflow_run \<Rightarrow> _" where
  "run_fixed r = (run_version r, run_core r)"

text \<open>Every save carries a settled run with the version and the core it was loaded with.\<close>

definition saves_ok :: "workflow_run \<Rightarrow> event list \<Rightarrow> bool" where
  "saves_ok r evs \<longleftrightarrow> (\<forall>saved res. Ev_save saved res \<in> set evs \<longrightarrow> run_fixed saved = run_fixed r \<and> settled saved)"

definition progress :: "'w drive \<Rightarrow> 'w drive \<Rightarrow> bool" where
  "progress s t \<longleftrightarrow> run_fixed (dv_run t) = run_fixed (dv_run s) \<and>
     run_status (dv_run t) = RS_RUNNING \<and>
     (\<exists>k. run_current_step (dv_run t) = Some (step_value k)) \<and>
     (\<exists>evs. dv_trace t = dv_trace s @ evs \<and> incidents evs = 0 \<and> no_saves evs)"

definition concluded :: "'w drive \<Rightarrow> 'w drive \<Rightarrow> bool" where
  "concluded s t \<longleftrightarrow> run_core (dv_run t) = run_core (dv_run s) \<and> settled (dv_run t) \<and>
     (\<exists>evs run res v. dv_trace t = dv_trace s @ evs @ [Ev_save run res] \<and>
        dv_run t = run\<lparr>run_version := v\<rparr> \<and> incidents evs \<le> 2 \<and>
        saves_ok (dv_run s) (evs @ [Ev_save run res]))"

definition broken :: "'w drive \<Rightarrow> 'w drive \<Rightarrow> bool" where
  "broken s t \<longleftrightarrow> run_fixed (dv_run t) = run_fixed (dv_run s) \<and>
     (run_status (dv_run t) = RS_FAILED \<longrightarrow> run_scheduled_at (dv_run t) = None) \<and>
     (\<forall>v. run_current_step (dv_run t) = Some v \<longrightarrow> (\<exists>k. v = step_value k)) \<and>
     (\<exists>evs. dv_trace t = dv_trace s @ evs \<and> saves_ok (dv_run s) evs \<and>
        incidents evs \<le> (if run_status (dv_run t) = RS_FAILED then 2 else 0))"

lemma settled_version [simp]: "settled (r\<lparr>run_version := v\<rparr>) = settled r"
  by (simp add: settled_def)

lemma run_fixed_simps [simp]:
  "run_fixed (r\<lparr>run_status := a\<rparr>) = run_fixed r"
  "run_fixed (r\<lparr>run_current_step := b\<rparr>) = run_fixed r"
  "run_fixed (r\<lparr>run_scheduled_at := c\<rparr>) = run_fixed r"
  "st_core st = st_core (run_run_state r) \<Longrightarrow> run_fixed (r\<lparr>run_run_state := st\<rparr>) = run_fixed r"
  by (simp_all add: run_fixed_def)

lemma run_fixed_core: "run_fixed r = run_fixed r' \<Longrightarrow> run_core r = run_core r'"
  by (simp add: run_fixed_def)

lemma esc_run_fixed: "esc_run r r' \<Longrightarrow> run_fixed r' = run_fixed r"
  by (auto simp: esc_run_def)

lemma saves_ok_simps [simp]:
  "saves_ok r []" "saves_ok r (xs @ ys) \<longleftrightarrow> saves_ok r xs \<and> saves_ok r ys"
  "saves_ok r (Ev_save saved res # xs) \<longleftrightarrow> run_fixed saved = run_fixed r \<and> settled saved \<and> saves_ok r xs"
  by (auto simp: saves_ok_def)

lemma no_saves_ok [simp]: "no_saves evs \<Longrightarrow> saves_ok r evs"
  by (auto simp: no_saves_def saves_ok_def)

text \<open>Saving ends a drive: well when the run is settled, badly otherwise.\<close>

lemma save_concludes:
  assumes "run_fixed (dv_run s) = run_fixed (dv_run s0)" and "settled (dv_run s)"
    and "\<And>v. run_current_step (dv_run s) = Some v \<Longrightarrow> \<exists>k. v = step_value k"
    and "dv_trace s = dv_trace s0 @ evs" and "saves_ok (dv_run s0) evs"
    and "incidents evs \<le> (if run_status (dv_run s) = RS_FAILED then 2 else 0)"
  shows "wpE (save X) (\<lambda>_. concluded s0) (\<lambda>_. broken s0) s"
proof (rule save_wp)
  fix w v res
  show "concluded s0 (s\<lparr>dv_run := (dv_run s)\<lparr>run_version := v\<rparr>, dv_world := w,
      dv_trace := dv_trace s @ [Ev_save (dv_run s) res]\<rparr>)"
    unfolding concluded_def using assms run_fixed_core [OF assms(1)] by (auto split: if_splits)
next
  fix w e
  show "broken s0 (s\<lparr>dv_world := w, dv_trace := dv_trace s @ [Ev_save (dv_run s) (Inl e)]\<rparr>)"
    unfolding broken_def using assms by (auto simp: settled_def)
qed

lemma schedule_spec:
  assumes "progress s0 s"
  shows "wpE (schedule X d) (\<lambda>_. concluded s0) (\<lambda>_. broken s0) s"
proof -
  from assms obtain evs k where "dv_trace s = dv_trace s0 @ evs" "incidents evs = 0" "no_saves evs"
    "run_current_step (dv_run s) = Some (step_value k)"
    "run_fixed (dv_run s) = run_fixed (dv_run s0)" "run_status (dv_run s) = RS_RUNNING"
    unfolding progress_def by blast
  then show ?thesis
    unfolding schedule_def utc_now_def wp
    by (auto simp: settled_def intro!: save_concludes [where evs = evs])
qed

lemma reject_run_spec:
  assumes "progress s0 s"
  shows "wpE (reject_run X step e) (\<lambda>_. concluded s0) (\<lambda>_. broken s0) s"
proof -
  from assms obtain evs k where "dv_trace s = dv_trace s0 @ evs" "incidents evs = 0" "no_saves evs"
    "run_current_step (dv_run s) = Some (step_value k)"
    "run_fixed (dv_run s) = run_fixed (dv_run s0)"
    unfolding progress_def by blast
  then show ?thesis
    unfolding reject_run_def set_error_def set_terminal_def reject_def wp
    by (auto simp: settled_def intro!: release_wp save_concludes [where evs = "evs @ _"])
qed

lemma ticket_side_incidents: "ticket_side es e r evs \<Longrightarrow> incidents evs \<le> 2"
  by (auto simp: ticket_side_def split: if_splits)

lemma on_step_error_spec:
  assumes "progress s0 s" and "step_contract h"
  shows "wpE (on_step_error X step h e) (\<lambda>_. concluded s0) (\<lambda>_. broken s0) s"
proof -
  from assms obtain evs k where *: "dv_trace s = dv_trace s0 @ evs" "incidents evs = 0" "no_saves evs"
    "run_current_step (dv_run s) = Some (step_value k)"
    "run_fixed (dv_run s) = run_fixed (dv_run s0)" "run_status (dv_run s) = RS_RUNNING"
    unfolding progress_def by blast
  have reset: "st_core (h_reset h st) = st_core st" for st
    by (rule st_frame_core [OF step_contract.reset_frame [OF assms(2)]])
  show ?thesis
    unfolding on_step_error_def set_error_def set_terminal_def wp Let_def
    using *
    by (auto simp: settled_def esc_run_simps esc_run_fixed reset progress_def
        intro!: escalate_wp schedule_spec save_concludes [where evs = "evs @ _ @ _"]
        dest: ticket_side_incidents)
qed

lemma finish_spec:
  assumes "progress s0 s"
  shows "wpE (finish_step X rt step)
     (\<lambda>r t. case r of None \<Rightarrow> concluded s0 t | Some _ \<Rightarrow> progress s0 t) (\<lambda>_. broken s0) s"
proof -
  from assms obtain evs k where *: "dv_trace s = dv_trace s0 @ evs" "incidents evs = 0" "no_saves evs"
    "run_current_step (dv_run s) = Some (step_value k)"
    "run_fixed (dv_run s) = run_fixed (dv_run s0)" "run_status (dv_run s) = RS_RUNNING"
    unfolding progress_def by blast
  show ?thesis
    unfolding finish_step_def wp 
    using *
    by (auto simp: settled_def progress_def broken_def
        intro!: save_concludes [where evs = evs]
        split: sum.split option.split)
qed


lemma step_frame_progress: "progress s0 s \<Longrightarrow> step_frame s t \<Longrightarrow> progress s0 t"
  by (erule step_frameE) (auto simp: progress_def st_frame_core extends_def incidents_step_events no_saves_step_events)

lemma progress_world [simp]: "progress s0 (s\<lparr>dv_world := w\<rparr>) = progress s0 s"
  by (simp add: progress_def)

lemma progress_upd [simp]:
  "progress s0 (s\<lparr>dv_run := (dv_run s)\<lparr>run_current_step := Some (step_value k)\<rparr>\<rparr>) \<longleftrightarrow>
   run_fixed (dv_run s) = run_fixed (dv_run s0) \<and> run_status (dv_run s) = RS_RUNNING \<and>
   (\<exists>evs. dv_trace s = dv_trace s0 @ evs \<and> incidents evs = 0 \<and> no_saves evs)"
  by (auto simp: progress_def)

lemma progress_state:
  "progress s0 s \<Longrightarrow> st_core st = st_core (run_run_state (dv_run s)) \<Longrightarrow>
   progress s0 (s\<lparr>dv_run := (dv_run s)\<lparr>run_run_state := st\<rparr>\<rparr>)"
  by (simp add: progress_def)

lemma start_attempt_spec:
  assumes "progress s0 s"
  shows "wpE (start_attempt X step) (\<lambda>_. progress s0) E s"
  unfolding start_attempt_def utc_now_def wp
  using assms by (auto simp: progress_def split: option.split)

lemma attempt_step_spec:
  assumes "progress s0 s" and "step_contract h"
  shows "wpE (attempt_step X step h started) (\<lambda>_. progress s0) (\<lambda>_. progress s0) s"
proof -
  have frame: "step_frame (s\<lparr>dv_world := w\<rparr>) t \<Longrightarrow> progress s0 t" for w t
    using step_frame_progress [of s0 "s\<lparr>dv_world := w\<rparr>" t] assms(1) by simp
  show ?thesis
    unfolding attempt_step_def utc_now_def wp
    using assms by (auto intro!: step_execute_wp intro: frame)
qed

lemma save_quietly_spec:
  assumes "run_fixed (dv_run s) = run_fixed (dv_run s0)" "settled (dv_run s)"
    and "\<exists>evs. dv_trace s = dv_trace s0 @ evs \<and> incidents evs \<le> 2 \<and> saves_ok (dv_run s0) evs"
  shows "wpE (save_quietly X) (\<lambda>_. concluded s0) E s"
  unfolding save_quietly_def wp
proof (rule save_wp)
  fix w v res
  show "concluded s0 (s\<lparr>dv_run := (dv_run s)\<lparr>run_version := v\<rparr>, dv_world := w,
      dv_trace := dv_trace s @ [Ev_save (dv_run s) res]\<rparr>)"
    unfolding concluded_def using assms run_fixed_core [OF assms(1)] by auto
next
  fix w e
  have "dv_run s = (dv_run s)\<lparr>run_version := run_version (dv_run s)\<rparr>" by simp
  then show "concluded s0 (s\<lparr>dv_world := w, dv_trace := dv_trace s @ [Ev_save (dv_run s) (Inl e)]\<rparr>)"
    unfolding concluded_def using assms run_fixed_core [OF assms(1)] by (simp; metis)
qed

lemma crash_spec:
  assumes "broken s0 s"
  shows "wpE (crash X e) (\<lambda>_. concluded s0) E s"
proof -
  from assms obtain evs where *: "run_fixed (dv_run s) = run_fixed (dv_run s0)"
      "run_status (dv_run s) = RS_FAILED \<longrightarrow> run_scheduled_at (dv_run s) = None"
      "\<forall>v. run_current_step (dv_run s) = Some v \<longrightarrow> (\<exists>k. v = step_value k)"
      "dv_trace s = dv_trace s0 @ evs" "saves_ok (dv_run s0) evs"
      "incidents evs \<le> (if run_status (dv_run s) = RS_FAILED then 2 else 0)"
    unfolding broken_def by blast
  show ?thesis
  proof (cases "run_status (dv_run s) = RS_FAILED")
    case True
    with * show ?thesis
      unfolding crash_def wp
      by (auto simp: settled_def intro!: save_quietly_spec)
  next
    case False
    with * show ?thesis
      unfolding crash_def set_error_def set_terminal_def wp
      by (auto simp: settled_def wp esc_run_simps esc_run_fixed split: option.split
        intro!: escalate_wp save_quietly_spec) (erule ticket_side_incidents)+
  qed
qed


section \<open>A whole drive\<close>

text \<open>A step the run claims to be at but that no \<open>StepName\<close> names.\<close>

definition unknown_step :: "workflow_run \<Rightarrow> bool" where
  "unknown_step r \<longleftrightarrow> (case run_current_step r of None \<Rightarrow> False
     | Some v \<Rightarrow> v \<noteq> [] \<and> step_of_value v = None)"

text \<open>The state of a drive whose run has just been loaded.\<close>

definition loaded :: "uuid \<Rightarrow> 'w drive \<Rightarrow> workflow_run \<Rightarrow> 'w \<Rightarrow> 'w drive" where
  "loaded rid s run w = s\<lparr>dv_run := run, dv_world := w,
     dv_trace := dv_trace s @ [Ev_get_run rid (Inr (Some run))]\<rparr>"

text \<open>The four ways into a drive.\<close>

lemma handle_eqs:
  "rp_get (ex_runs X) rid (dv_world s) = (Inl e, w) \<Longrightarrow>
   handle X rid s = (Inl e, s\<lparr>dv_world := w, dv_trace := dv_trace s @ [Ev_get_run rid (Inl e)]\<rparr>)"
  "rp_get (ex_runs X) rid (dv_world s) = (Inr None, w) \<Longrightarrow>
   handle X rid s = (Inr (), s\<lparr>dv_world := w, dv_trace := dv_trace s @ [Ev_get_run rid (Inr None)]\<rparr>)"
  "rp_get (ex_runs X) rid (dv_world s) = (Inr (Some run), w) \<Longrightarrow> terminal_status (run_status run) \<Longrightarrow>
   handle X rid s = (Inr (), loaded rid s run w)"
  "rp_get (ex_runs X) rid (dv_world s) = (Inr (Some run), w) \<Longrightarrow> \<not> terminal_status (run_status run) \<Longrightarrow>
   handle X rid s = catchE (drive_run X) (crash X) (loaded rid s run w)"
  by (cases s; simp add: handle_def eff_basic drive_basic loaded_def)+

text \<open>An executor over handlers that meet their contract.\<close>

locale drivable =
  fixes X :: "'w executor"
  assumes contract: "handlers_contract (ex_handlers X)"
begin

lemma iteration_spec:
  assumes "progress s0 s"
  shows "wpE (drive_iteration X rt step)
     (\<lambda>r t. case r of None \<Rightarrow> concluded s0 t | Some _ \<Rightarrow> progress s0 t) (\<lambda>_. broken s0) s"
proof -
  obtain h where h: "ex_handlers X step = Some h" "step_contract h"
    using handlers_contract.handler_total [OF contract] handlers_contract.handler_contract [OF contract]
    by blast
  have upd: "progress s0 (s\<lparr>dv_run := (dv_run s)\<lparr>run_current_step := Some (step_value step)\<rparr>\<rparr>)"
    using assms by (simp add: progress_def)
  let ?R = "\<lambda>r t. case r of None \<Rightarrow> concluded s0 t | Some _ \<Rightarrow> progress s0 t"
  have attempt: "wpE (attempt_step X step h started)
     (\<lambda>x s. (x \<longrightarrow> wpE (finish_step X rt step) ?R (\<lambda>_. broken s0) s) \<and>
        (\<not> x \<longrightarrow> wpE (schedule X (h_poll_interval h)) (\<lambda>_. concluded s0) (\<lambda>_. broken s0) s))
     (\<lambda>e s. (is_rejected e \<longrightarrow>
           wpE (reject_run X step e) (\<lambda>_. concluded s0) (\<lambda>_. broken s0) s) \<and>
        (\<not> is_rejected e \<longrightarrow>
           wpE (on_step_error X step h e) (\<lambda>_. concluded s0) (\<lambda>_. broken s0) s)) t"
    if "progress s0 t" for started t
    using schedule_spec finish_spec reject_run_spec on_step_error_spec [OF _ h(2)]
    by (intro wp_mono [OF attempt_step_spec [OF that h(2)]]) blast+
  show ?thesis
    unfolding drive_iteration_def wp h(1) option.case sum.case wp_upd_run
    by (rule wp_mono [OF start_attempt_spec [OF upd]]) (auto simp: utc_now_def wp intro: attempt)
qed

lemma drive_loop_spec:
  assumes "progress s0 s"
  shows "wpE (drive_loop X rt step) (\<lambda>_. concluded s0) (\<lambda>_. broken s0) s"
  by (rule drive_loop_rule [where I = "\<lambda>_. progress s0"]) (simp_all add: assms iteration_spec)

lemma drive_run_spec:
  assumes "run_status (dv_run s) \<noteq> RS_FAILED"
  shows "wpE (drive_run X) (\<lambda>_. concluded s)
     (\<lambda>_ t. broken s t \<or>
        (\<exists>v. t = s \<and> run_current_step (dv_run s) = Some v \<and> v \<noteq> [] \<and> step_of_value v = None)) s"
proof -
  have loop: "wpE (drive_loop X rt step) (\<lambda>_. concluded s) (\<lambda>_ t. broken s t \<or> P t)
      (s\<lparr>dv_run := (dv_run s)\<lparr>run_status := RS_RUNNING, run_current_step := Some (step_value step)\<rparr>\<rparr>)"
    for rt step P
    by (rule wp_mono [OF drive_loop_spec [of s]]) (auto simp: progress_def)
  note loop_False = loop [where P = "\<lambda>_. False", simplified]
  show ?thesis
    unfolding drive_run_def wp
    by (auto simp: first_step_def wp loop loop_False parse_step_def split: option.split sum.split)
qed

lemma drive_guarded_spec:
  assumes "run_status (dv_run s) \<noteq> RS_FAILED" and "\<not> unknown_step (dv_run s)"
  shows "wpE (catchE (drive_run X) (crash X)) (\<lambda>_. concluded s) (\<lambda>_ _. False) s"
  unfolding wp
proof (rule wp_mono [OF drive_run_spec [OF assms(1)]])
  fix e t
  assume "broken s t \<or>
        (\<exists>v. t = s \<and> run_current_step (dv_run s) = Some v \<and> v \<noteq> [] \<and> step_of_value v = None)"
  then have "broken s t" using assms(2) by (auto simp: unknown_step_def)
  then show "wpE (crash X e) (\<lambda>_. concluded s) (\<lambda>_ _. False) t" by (rule crash_spec)
qed

lemma handle_concludes:
  assumes "rp_get (ex_runs X) rid (dv_world s) = (Inr (Some run), w)"
    and "\<not> terminal_status (run_status run)" and "\<not> unknown_step run"
  shows "\<exists>t. handle X rid s = (Inr (), t) \<and> concluded (loaded rid s run w) t"
proof -
  have "run_status run \<noteq> RS_FAILED" using assms(2) by auto
  then have "wpE (catchE (drive_run X) (crash X)) (\<lambda>_. concluded (loaded rid s run w)) (\<lambda>_ _. False)
      (loaded rid s run w)"
    using assms(3) by (intro drive_guarded_spec) (simp_all add: loaded_def)
  then show ?thesis
    using handle_eqs(4) [OF assms(1,2)] by (auto simp: wpE_def split: prod.splits sum.splits)
qed

end

section \<open>The executor of the composition root\<close>

text \<open>\<open>bootstrap.build\<close>: the handlers, the escalator and the executor over the bound adapters.\<close>

definition build_executor ::
  "'w ticket_client \<Rightarrow> 'w resource_client \<Rightarrow> (workflow_engine_type \<Rightarrow> 'w engine_client option) \<Rightarrow>
   'w legacy_client \<Rightarrow> 'w run_store \<Rightarrow> 'w clock \<Rightarrow> timedelta \<Rightarrow> string \<Rightarrow> 'w executor" where
  "build_executor tc rc engines lc runs clk base team =
     \<lparr>ex_handlers = build_handlers tc rc engines lc, ex_runs = runs, ex_retry_base = base,
      ex_escalator = \<lparr>es_ticket = tc, es_resources = rc, es_default_team = team\<rparr>,
      ex_clock = clk\<rparr>"

lemma build_executor_simps [simp]:
  "ex_handlers (build_executor tc rc engines lc runs clk base team) = build_handlers tc rc engines lc"
  "ex_runs (build_executor tc rc engines lc runs clk base team) = runs"
  "ex_retry_base (build_executor tc rc engines lc runs clk base team) = base"
  "ex_clock (build_executor tc rc engines lc runs clk base team) = clk"
  "es_default_team (ex_escalator (build_executor tc rc engines lc runs clk base team)) = team"
  by (simp_all add: build_executor_def)

interpretation built: drivable "build_executor tc rc engines lc runs clk base team"
  for tc rc engines lc runs clk base team
  by (rule drivable.intro) (simp add: plan_handlers.handlers_contract_axioms)

end
