(* ===== verification/Call_Order.thy ===== *)
theory Call_Order
  imports Executor_Laws
begin

text \<open>
  The order of the calls of a whole drive: the engine of a resource run is triggered only after its
  ticket's approval and after the resource manager found the request eligible, when the drive goes
  through those steps.
\<close>

section \<open>Approval and eligibility before the engine\<close>

definition approved :: "event list \<Rightarrow> bool" where
  "approved evs \<longleftrightarrow> (\<exists>tk. Ev_get_approval_status tk (Inr AP_APPROVED) \<in> set evs)"

definition found_eligible :: "event list \<Rightarrow> bool" where
  "found_eligible evs \<longleftrightarrow> (\<exists>q r. Ev_validate_resource q (Inr r) \<in> set evs \<and> vr_eligible r)"

lemma approved_simps [simp]:
  "\<not> approved []" "approved (xs @ ys) \<longleftrightarrow> approved xs \<or> approved ys"
  "approved (e # xs) \<longleftrightarrow> (\<exists>tk. e = Ev_get_approval_status tk (Inr AP_APPROVED)) \<or> approved xs"
  by (auto simp: approved_def)

lemma found_eligible_simps [simp]:
  "\<not> found_eligible []" "found_eligible (xs @ ys) \<longleftrightarrow> found_eligible xs \<or> found_eligible ys"
  "found_eligible (e # xs) \<longleftrightarrow>
     (\<exists>q r. e = Ev_validate_resource q (Inr r) \<and> vr_eligible r) \<or> found_eligible xs"
  by (auto simp: found_eligible_def)

text \<open>
  Of the calls \<open>evs\<close> made since the drive stood at step \<open>k0\<close>: each trigger of the engine comes after
  an approval and an eligible verdict among them, where \<open>k0\<close> was not past those steps.
\<close>

definition cleared :: "step_name \<Rightarrow> event list \<Rightarrow> bool" where
  "cleared k0 evs \<longleftrightarrow> (k0 \<le> SN_AWAIT_APPROVAL \<longrightarrow> approved evs) \<and>
     (k0 \<le> SN_VALIDATE_RESOURCE \<longrightarrow> found_eligible evs)"

definition gated :: "step_name \<Rightarrow> event list \<Rightarrow> bool" where
  "gated k0 evs \<longleftrightarrow> (\<forall>pre e post. evs = pre @ e # post \<longrightarrow> is_trigger e \<longrightarrow> cleared k0 pre)"

definition unstarted :: "event list \<Rightarrow> bool" where
  "unstarted evs \<longleftrightarrow> (\<forall>e \<in> set evs. \<not> is_trigger e)"

lemma cleared_append: "cleared k0 xs \<Longrightarrow> cleared k0 (xs @ ys)"
  by (auto simp: cleared_def)

lemma unstarted_simps [simp]:
  "unstarted []" "unstarted (xs @ ys) \<longleftrightarrow> unstarted xs \<and> unstarted ys"
  "unstarted (e # xs) \<longleftrightarrow> \<not> is_trigger e \<and> unstarted xs"
  by (auto simp: unstarted_def)

lemma gated_unstarted: "unstarted evs \<Longrightarrow> gated k0 evs"
  by (auto simp: gated_def)

lemma gated_append:
  assumes "gated k0 xs" and "unstarted ys \<or> cleared k0 xs"
  shows "gated k0 (xs @ ys)"
  unfolding gated_def
proof (intro allI impI)
  fix pre e post
  assume eq: "xs @ ys = pre @ e # post" and e: "is_trigger e"
  consider us where "xs = pre @ e # us" | us where "pre = xs @ us" "ys = us @ e # post"
    using eq by (fastforce simp: append_eq_append_conv2 append_eq_Cons_conv)
  then show "cleared k0 pre"
  proof cases
    case 1
    with assms(1) e show ?thesis by (auto simp: gated_def)
  next
    case 2
    with assms(2) e show ?thesis by (auto intro: cleared_append)
  qed
qed

lemma driver_event_unstarted: "\<forall>e \<in> set evs. driver_event e \<Longrightarrow> unstarted evs"
proof (induction evs)
  case (Cons e evs)
  then show ?case by (cases e) auto
qed simp

text \<open>What each step's calls contribute.\<close>

definition step_calls :: "step_name \<Rightarrow> bool \<Rightarrow> event list \<Rightarrow> bool" where
  "step_calls k finished evs \<longleftrightarrow> (k \<noteq> SN_RUN_ENGINE \<longrightarrow> unstarted evs) \<and>
     (k = SN_AWAIT_APPROVAL \<and> finished \<longrightarrow> approved evs) \<and>
     (k = SN_VALIDATE_RESOURCE \<and> finished \<longrightarrow> found_eligible evs)"

lemma execute_calls:
  assumes "build_handlers tc rc engines lc k = Some h"
  shows "wpE (h_execute h) (\<lambda>x t. \<exists>evs. dv_trace t = dv_trace s @ evs \<and> step_calls k x evs)
     (\<lambda>_ t. \<exists>evs. dv_trace t = dv_trace s @ evs \<and> step_calls k False evs) s"
  using assms
  by (cases k)
     (auto simp: step_defs execute_defs Let_def wp step_calls_def split: option.split json.split)

text \<open>The invariant of the loop at step \<open>k\<close>, and what holds when the drive is over.\<close>

definition gate_end :: "step_name \<Rightarrow> 'w drive \<Rightarrow> 'w drive \<Rightarrow> bool" where
  "gate_end k0 s t \<longleftrightarrow> (\<exists>evs. dv_trace t = dv_trace s @ evs \<and> gated k0 evs)"

definition gate_inv :: "step_name \<Rightarrow> 'w drive \<Rightarrow> step_name \<Rightarrow> 'w drive \<Rightarrow> bool" where
  "gate_inv k0 s k t \<longleftrightarrow> (\<exists>evs. dv_trace t = dv_trace s @ evs \<and> gated k0 evs \<and>
     (k0 \<le> SN_AWAIT_APPROVAL \<and> SN_AWAIT_APPROVAL < k \<longrightarrow> approved evs) \<and>
     (k0 \<le> SN_VALIDATE_RESOURCE \<and> SN_VALIDATE_RESOURCE < k \<longrightarrow> found_eligible evs))"

lemma gate_end_driver:
  assumes "gate_end k0 s t" and "extends driver_event t u"
  shows "gate_end k0 s u"
proof -
  from assms obtain evs evs' where "dv_trace u = dv_trace s @ evs @ evs'" "gated k0 evs"
    "\<forall>e \<in> set evs'. driver_event e"
    by (auto simp: gate_end_def extends_def)
  then show ?thesis
    unfolding gate_end_def by (blast intro: gated_append driver_event_unstarted)
qed

lemma gate_inv_driver:
  assumes "gate_inv k0 s k t" and "extends driver_event t u"
  shows "gate_inv k0 s k u"
proof -
  from assms(1) obtain evs where t: "dv_trace t = dv_trace s @ evs" and i: "gated k0 evs"
     "k0 \<le> SN_AWAIT_APPROVAL \<and> SN_AWAIT_APPROVAL < k \<longrightarrow> approved evs"
     "k0 \<le> SN_VALIDATE_RESOURCE \<and> SN_VALIDATE_RESOURCE < k \<longrightarrow> found_eligible evs"
    unfolding gate_inv_def by blast
  from assms(2) obtain evs' where "dv_trace u = dv_trace t @ evs'" "\<forall>e \<in> set evs'. driver_event e"
    unfolding extends_def by blast
  with t i show ?thesis
    unfolding gate_inv_def
    by (intro exI [of _ "evs @ evs'"]) (auto intro: gated_append driver_event_unstarted)
qed

lemma gate_inv_end: "gate_inv k0 s k t \<Longrightarrow> gate_end k0 s t"
  by (auto simp: gate_inv_def gate_end_def)

lemma gate_inv_simps [simp]:
  "gate_inv k0 s k (t\<lparr>dv_run := r\<rparr>) = gate_inv k0 s k t"
  "gate_inv k0 s k (t\<lparr>dv_world := w\<rparr>) = gate_inv k0 s k t"
  by (simp_all add: gate_inv_def)

text \<open>One step's execution: the gates it opens are known once it is finished.\<close>

lemma gate_step:
  assumes inv: "gate_inv k0 s k t" and "dv_trace u = dv_trace t @ evs'" and calls: "step_calls k x evs'"
  shows "gate_end k0 s u"
    and "x \<Longrightarrow> next_step (run_plan RT_RESOURCE) k = Inr (Some n) \<Longrightarrow> gate_inv k0 s n u"
proof -
  from inv obtain evs where t: "dv_trace t = dv_trace s @ evs" and i: "gated k0 evs"
     "k0 \<le> SN_AWAIT_APPROVAL \<and> SN_AWAIT_APPROVAL < k \<longrightarrow> approved evs"
     "k0 \<le> SN_VALIDATE_RESOURCE \<and> SN_VALIDATE_RESOURCE < k \<longrightarrow> found_eligible evs"
    unfolding gate_inv_def by blast
  have "unstarted evs' \<or> cleared k0 evs"
    using calls i(2,3) by (cases k) (auto simp: step_calls_def cleared_def less_step_name_def)
  with i(1) have g: "gated k0 (evs @ evs')" by (rule gated_append)
  have u: "dv_trace u = dv_trace s @ evs @ evs'" using t assms(2) by simp
  show "gate_end k0 s u" using g u by (auto simp: gate_end_def)
  assume x and nxt: "next_step (run_plan RT_RESOURCE) k = Inr (Some n)"
  with i(2,3) calls have
    "k0 \<le> SN_AWAIT_APPROVAL \<and> SN_AWAIT_APPROVAL < n \<longrightarrow> approved (evs @ evs')"
    "k0 \<le> SN_VALIDATE_RESOURCE \<and> SN_VALIDATE_RESOURCE < n \<longrightarrow> found_eligible (evs @ evs')"
    by (cases k; simp add: less_step_name_def step_calls_def; fail)+
  with g u show "gate_inv k0 s n u" by (auto simp: gate_inv_def)
qed

text \<open>An executor whose handlers also make only the calls of their step.\<close>

locale gated_driver = drivable X for X :: "'w executor" +
  assumes handler_calls: "ex_handlers X k = Some h \<Longrightarrow>
    wpE (h_execute h) (\<lambda>x t. \<exists>evs. dv_trace t = dv_trace s @ evs \<and> step_calls k x evs)
      (\<lambda>_ t. \<exists>evs. dv_trace t = dv_trace s @ evs \<and> step_calls k False evs) s"
begin

lemma ending:
  assumes "only_calls driver_event m" and "gate_end k0 s t"
  shows "wpE m (\<lambda>_. gate_end k0 s) (\<lambda>_. gate_end k0 s) t"
  by (rule wp_mono [OF only_calls_wp [OF assms(1)]]; rule gate_end_driver [OF assms(2)])

lemma finish_gate:
  assumes step: "\<And>n. next_step (run_plan RT_RESOURCE) k = Inr (Some n) \<Longrightarrow> gate_inv k0 s n t"
    and over: "gate_end k0 s t"
  shows "wpE (finish_step X RT_RESOURCE k)
     (\<lambda>r u. case r of None \<Rightarrow> gate_end k0 s u | Some n \<Rightarrow> gate_inv k0 s n u) (\<lambda>_. gate_end k0 s) t"
proof -
  have over': "gate_end k0 s u" if "dv_trace u = dv_trace t" for u :: "'w drive"
    using over that by (simp add: gate_end_def)
  show ?thesis
    unfolding finish_step_def wp
    using step by (simp add: over' ending save_calls split: sum.split option.split)
qed

lemma attempt_gate:
  assumes h: "ex_handlers X k = Some h" and inv: "gate_inv k0 s k t"
  shows "wpE (attempt_step X k h started)
     (\<lambda>x u. gate_end k0 s u \<and>
        (\<forall>n. x \<longrightarrow> next_step (run_plan RT_RESOURCE) k = Inr (Some n) \<longrightarrow> gate_inv k0 s n u))
     (\<lambda>_. gate_end k0 s) t"
proof -
  have "wpE (h_execute h)
     (\<lambda>x u. gate_end k0 s u \<and>
        (\<forall>n. x \<longrightarrow> next_step (run_plan RT_RESOURCE) k = Inr (Some n) \<longrightarrow> gate_inv k0 s n u))
     (\<lambda>_. gate_end k0 s) (t\<lparr>dv_world := w\<rparr>)" for w
  proof (rule wp_mono [OF handler_calls [OF h]])
    fix x and u :: "'w drive"
    assume "\<exists>evs. dv_trace u = dv_trace (t\<lparr>dv_world := w\<rparr>) @ evs \<and> step_calls k x evs"
    then obtain evs where "dv_trace u = dv_trace t @ evs" "step_calls k x evs" by auto
    then show "gate_end k0 s u \<and>
        (\<forall>n. x \<longrightarrow> next_step (run_plan RT_RESOURCE) k = Inr (Some n) \<longrightarrow> gate_inv k0 s n u)"
      using gate_step [OF inv] by blast
  next
    fix e :: exn and u :: "'w drive"
    assume "\<exists>evs. dv_trace u = dv_trace (t\<lparr>dv_world := w\<rparr>) @ evs \<and> step_calls k False evs"
    then obtain evs where "dv_trace u = dv_trace t @ evs" "step_calls k False evs" by auto
    then show "gate_end k0 s u" by (rule gate_step(1) [OF inv])
  qed
  moreover have "gate_end k0 s (t\<lparr>dv_world := w\<rparr>)" for w
    using gate_inv_end [OF inv] by (simp add: gate_end_def)
  ultimately show ?thesis
    unfolding attempt_step_def utc_now_def wp by auto
qed

lemma iteration_gate:
  assumes "gate_inv k0 s k t"
  shows "wpE (drive_iteration X RT_RESOURCE k)
     (\<lambda>r u. case r of None \<Rightarrow> gate_end k0 s u | Some n \<Rightarrow> gate_inv k0 s n u) (\<lambda>_. gate_end k0 s) t"
proof -
  obtain h where h: "ex_handlers X k = Some h"
    using handlers_contract.handler_total [OF contract] by blast
  have attempt: "wpE (attempt_step X k h started)
     (\<lambda>x u. (x \<longrightarrow> wpE (finish_step X RT_RESOURCE k)
           (\<lambda>r u. case r of None \<Rightarrow> gate_end k0 s u | Some n \<Rightarrow> gate_inv k0 s n u) (\<lambda>_. gate_end k0 s) u) \<and>
        (\<not> x \<longrightarrow> wpE (schedule X (h_poll_interval h)) (\<lambda>_. gate_end k0 s) (\<lambda>_. gate_end k0 s) u))
     (\<lambda>e u. (is_rejected e \<longrightarrow>
           wpE (reject_run X k e) (\<lambda>_. gate_end k0 s) (\<lambda>_. gate_end k0 s) u) \<and>
        (\<not> is_rejected e \<longrightarrow>
           wpE (on_step_error X k h e) (\<lambda>_. gate_end k0 s) (\<lambda>_. gate_end k0 s) u)) u"
    if "gate_inv k0 s k u" for started u
    by (rule wp_mono [OF attempt_gate [OF h that]])
       (simp_all add: finish_gate ending schedule_calls reject_run_calls on_step_error_calls)
  have start: "wpE (start_attempt X k) (\<lambda>_. gate_inv k0 s k) (\<lambda>_. gate_end k0 s)
      (t\<lparr>dv_run := r\<rparr>)" for r
  proof (rule wp_mono [OF only_calls_wp [OF start_attempt_calls]])
    have inv: "gate_inv k0 s k (t\<lparr>dv_run := r\<rparr>)" using assms by simp
    show "gate_inv k0 s k u" if "extends driver_event (t\<lparr>dv_run := r\<rparr>) u" for u
      by (rule gate_inv_driver [OF inv that])
    then show "gate_end k0 s u" if "extends driver_event (t\<lparr>dv_run := r\<rparr>) u" for u
      using that by (blast intro: gate_inv_end)
  qed
  show ?thesis
    unfolding drive_iteration_def wp h option.case sum.case
    by (rule wp_mono [OF start]) (simp_all add: utc_now_def wp attempt)
qed

lemma loop_gate: "gate_inv k0 s k t \<Longrightarrow>
  wpE (drive_loop X RT_RESOURCE k) (\<lambda>_. gate_end k0 s) (\<lambda>_. gate_end k0 s) t"
  by (rule drive_loop_rule [where I = "\<lambda>k. gate_inv k0 s k"]) (simp_all add: iteration_gate)

lemma drive_gate:
  assumes "first_step (dv_run s) = Inr k" and "run_run_type (dv_run s) = RT_RESOURCE"
  shows "wpE (drive_run X) (\<lambda>_. gate_end k s) (\<lambda>_. gate_end k s) s"
proof -
  have "gate_inv k s k (s\<lparr>dv_run := r\<rparr>)" for r
    by (auto simp: gate_inv_def gated_unstarted)
  then show ?thesis
    unfolding drive_run_def wp by (simp add: assms loop_gate)
qed

lemma handle_gate:
  assumes "rp_get (ex_runs X) rid (dv_world s) = (Inr (Some run), w)"
    and "first_step run = Inr k" and "run_run_type run = RT_RESOURCE"
  shows "wpE (handle X rid) (\<lambda>_. gate_end k (loaded rid s run w)) (\<lambda>_. gate_end k (loaded rid s run w)) s"
proof -
  let ?s = "loaded rid s run w"
  have here: "gate_end k ?s ?s" by (simp add: gate_end_def gated_unstarted)
  have crash: "wpE (crash X e) (\<lambda>_. gate_end k ?s) (\<lambda>_. gate_end k ?s) t" if "gate_end k ?s t" for e t
    by (rule ending [OF crash_calls that])
  have "first_step (dv_run ?s) = Inr k" "run_run_type (dv_run ?s) = RT_RESOURCE"
    using assms(2,3) by (simp_all add: loaded_def)
  then have "wpE (catchE (drive_run X) (crash X)) (\<lambda>_. gate_end k ?s) (\<lambda>_. gate_end k ?s) ?s"
    unfolding wp by (rule wp_mono [OF drive_gate]) (assumption, rule crash)
  then show ?thesis
    using handle_eqs(3,4) [OF assms(1)] here by (cases "terminal_status (run_status run)") (simp_all add: wpE_def)
qed

end

interpretation built_gate: gated_driver "build_executor tc rc engines lc runs clk base team"
  for tc rc engines lc runs clk base team
  by unfold_locales (simp add: execute_calls)

end
