(* ===== verification/Samples.thy ===== *)
theory Samples
  imports Executor_Laws
begin

text \<open>
  A concrete installation for the witnesses: providers with no state of their own (the world is
  \<open>unit\<close>) that accept everything, variants of each that fail, and a run of each type.
\<close>

definition answers :: "'a \<Rightarrow> (unit, exn, 'a) eff" where
  "answers x = (\<lambda>w. (Inr x, w))"

definition fails :: "exn \<Rightarrow> (unit, exn, 'a) eff" where
  "fails e = (\<lambda>w. (Inl e, w))"

definition ticket1 :: ticket_ref where
  "ticket1 = \<lparr>tr_ticket_id = ''RITM1'', tr_native_id = ''sys1''\<rparr>"

definition incident1 :: ticket_ref where
  "incident1 = \<lparr>tr_ticket_id = ''INC1'', tr_native_id = ''sys2''\<rparr>"

definition sample_tickets :: "approval_status \<Rightarrow> unit ticket_client" where
  "sample_tickets ap = \<lparr>tc_open_ticket = (\<lambda>_ _ _ _. answers ticket1), tc_get_approval_status = (\<lambda>_. answers ap),
     tc_close_ticket = (\<lambda>_ _ _. answers ()), tc_annotate_ticket = (\<lambda>_ _. answers ()),
     tc_open_incident = (\<lambda>_. answers incident1), tc_close_incident = (\<lambda>_ _ _. answers ())\<rparr>"

definition sample_resources :: "resource_validation_result \<Rightarrow> unit resource_client" where
  "sample_resources v = \<lparr>rc_create_resource = (\<lambda>_ _ _ _. answers (Some ''77'')), rc_validate_resource = (\<lambda>_. answers v),
     rc_update_resource = (\<lambda>_ _ _ _. answers ()), rc_delete_resource = (\<lambda>_ _ _. answers ())\<rparr>"

definition eligible_result :: resource_validation_result where
  "eligible_result = \<lparr>vr_eligible = True, vr_reason = None\<rparr>"

definition sample_engine :: "engine_run_status \<Rightarrow> engine_failure \<Rightarrow> unit engine_client" where
  "sample_engine st f = \<lparr>ec_trigger_workflow = (\<lambda>_ _ _. answers ''dag_1''), ec_query_run_status = (\<lambda>_ _. answers st),
     ec_get_failure = (\<lambda>_ _. answers f), ec_get_output = (\<lambda>_ _ _. answers (Some ''vm-9''))\<rparr>"

definition engines_of :: "unit engine_client \<Rightarrow> workflow_engine_type \<Rightarrow> unit engine_client option" where
  "engines_of e t = (if t = WE_AIRFLOW then Some e else None)"

definition sample_legacy :: "unit legacy_client" where
  "sample_legacy = \<lparr>lc_submit = (\<lambda>_ _. answers (Some ''L-1''))\<rparr>"

definition store_of :: "workflow_run \<Rightarrow> unit run_store" where
  "store_of r = \<lparr>rp_get = (\<lambda>_. answers (Some r)), rp_save = (\<lambda>r. answers (run_version r + 1))\<rparr>"

definition sample_clock :: "unit clock" where
  "sample_clock = \<lparr>ck_utcnow = (\<lambda>w. (0, w)), ck_uniform = (\<lambda>w. (2000000, w))\<rparr>"

definition workflow1 :: resolved_workflow where
  "workflow1 = \<lparr>rw_identifier = ''vm'', rw_name = Some ''Provision VM'', rw_engine_type = WE_AIRFLOW,
     rw_automation_id = ''provision_vm'', rw_ticket_template_id = ''cat1''\<rparr>"

definition resource1 :: resource_spec where
  "resource1 = \<lparr>rs_project_id = ''p1'', rs_resource_type = ''vm'', rs_vendor_id = ''v1'',
     rs_resource_id = ''77'', rs_name = ''web'', rs_region = None, rs_environment = None,
     rs_description = [], rs_tags = [], rs_data = [], rs_alert_groups = []\<rparr>"

definition run1 :: workflow_run where
  "run1 = \<lparr>run_id = ''r1'', run_run_type = RT_RESOURCE, run_status = RS_PENDING,
     run_current_step = None, run_workflow_identifier = ''vm'', run_created_by = ''ann'',
     run_max_retries = 3, run_scheduled_at = Some 0, run_created_at = 0, run_updated_at = 0,
     run_version = 0, run_run_state = (new_run_state workflow1)\<lparr>st_resource := Some resource1\<rparr>\<rparr>"

text \<open>The same run further on, with its ticket and its resource in flight, at a given step.\<close>

definition run_at :: "step_name \<Rightarrow> workflow_run" where
  "run_at k = run1\<lparr>run_status := RS_RUNNING, run_current_step := Some (step_value k),
     run_run_state := (run_run_state run1)\<lparr>st_ticket := Some ticket1, st_resource_configured := True\<rparr>\<rparr>"

definition drive_of :: "workflow_run \<Rightarrow> unit drive" where
  "drive_of r = \<lparr>dv_run = r, dv_world = (), dv_trace = []\<rparr>"

definition executor_of ::
  "approval_status \<Rightarrow> resource_validation_result \<Rightarrow> unit engine_client \<Rightarrow> workflow_run \<Rightarrow> unit executor" where
  "executor_of ap v e r =
     build_executor (sample_tickets ap) (sample_resources v) (engines_of e) sample_legacy (store_of r) sample_clock (seconds 10) ''cloudio''"

lemmas sample_defs = answers_def fails_def ticket1_def incident1_def sample_tickets_def sample_resources_def
  eligible_result_def sample_engine_def engines_of_def sample_legacy_def store_of_def sample_clock_def workflow1_def
  resource1_def run1_def run_at_def drive_of_def executor_of_def new_run_state_def

end
