(* ===== verification/Drive_Properties.thy ===== *)
theory Drive_Properties
  imports Call_Order Samples
begin

text \<open>
  The properties of a drive: what \<open>RunExecutor.handle\<close> guarantees for the executor the composition
  root builds, whatever the providers answer, and what one failed attempt of a step does.
\<close>

section \<open>The drive as a whole\<close>

text \<open>C1. Handling is total and ends in a settled run: when the run can be loaded, is not terminal and
  its step, if any, names a \<open>StepName\<close>, then \<open>handle\<close> returns, whatever the providers, the clock and
  the saves do; the run is then either \<open>RUNNING\<close> with a time at which a worker will drive it again or
  terminal with none, the request it carries is unchanged, and saving it was the last call made.\<close>

theorem handle_settles:
  assumes "rp_get runs rid (dv_world s) = (Inr (Some run), w)"
    and "\<not> terminal_status (run_status run)" and "\<not> unknown_step run"
  shows "\<exists>t saved v evs res. handle (build_executor tc rc engines lc runs clk base team) rid s = (Inr (), t) \<and>
    settled (dv_run t) \<and> run_core (dv_run t) = run_core run \<and>
    dv_trace t = dv_trace s @ Ev_get_run rid (Inr (Some run)) # evs @ [Ev_save saved res] \<and>
    dv_run t = saved\<lparr>run_version := v\<rparr>"
  using built.handle_concludes [where runs = runs and rid = rid and s = s and w = w, OF _ assms(2,3)] assms(1)
  by (fastforce simp: concluded_def loaded_def)

lemma handle_settles_witness:
  "\<exists>t. handle (executor_of AP_APPROVED eligible_result (sample_engine ER_FAILED no_engine_failure) run1)
     ''r1'' (drive_of run1) = (Inr (), t) \<and> settled (dv_run t)"
  using handle_settles [of "store_of run1" "''r1''" "drive_of run1" run1 "()" "sample_tickets AP_APPROVED"
      "sample_resources eligible_result" "engines_of (sample_engine ER_FAILED no_engine_failure)"
      sample_legacy sample_clock "seconds 10" "''cloudio''"]
  by (simp add: store_of_def answers_def executor_of_def) (auto simp: run1_def unknown_step_def)

text \<open>C2. One drive opens at most two incidents (the responsible team's and its documentation copy),
  even when a step's failure has been escalated and saving the failed run then fails too.\<close>

theorem handle_incidents:
  assumes "rp_get runs rid (dv_world s) = (Inr (Some run), w)"
    and "\<not> unknown_step run"
  shows "incidents (dv_trace (snd (handle (build_executor tc rc engines lc runs clk base team) rid s)))
    \<le> incidents (dv_trace s) + 2"
proof (cases "terminal_status (run_status run)")
  case True
  with assms(1) show ?thesis by (subst handle_eqs(3)) (auto simp: loaded_def)
next
  case False
  with assms obtain t where "handle (build_executor tc rc engines lc runs clk base team) rid s = (Inr (), t)"
      "concluded (loaded rid s run w) t"
    using built.handle_concludes [where runs = runs and rid = rid and s = s and w = w and run = run] by fastforce
  then show ?thesis by (auto simp: concluded_def loaded_def)
qed

lemma handle_incidents_witness:
  "incidents (dv_trace (snd (handle (executor_of AP_APPROVED eligible_result
      (sample_engine ER_FAILED no_engine_failure) run1) ''r1'' (drive_of run1)))) \<le> 0 + 2"
  using handle_incidents [of "store_of run1" "''r1''" "drive_of run1" run1 "()" "sample_tickets AP_APPROVED"
      "sample_resources eligible_result" "engines_of (sample_engine ER_FAILED no_engine_failure)"
      sample_legacy sample_clock "seconds 10" "''cloudio''"]
  by (simp add: store_of_def answers_def executor_of_def drive_of_def run1_def unknown_step_def)


definition approved_drive :: "event list" where
  "approved_drive = dv_trace (snd (handle (executor_of AP_APPROVED eligible_result
     (sample_engine ER_SUCCESS no_engine_failure) (run_at SN_AWAIT_APPROVAL)) ''r1'' (drive_of run1)))"

lemma approved_drive_eq:
  "approved_drive = Ev_get_run ''r1'' (Inr (Some (run_at SN_AWAIT_APPROVAL))) #
     take 2 (tl approved_drive) @ approved_drive ! 3 # drop 4 approved_drive"
  by code_simp

lemma approved_drive_trigger: "is_trigger (approved_drive ! 3)"
  by code_simp


text \<open>A step named by no \<open>StepName\<close> escapes the crash path: the run is loaded, \<open>handle\<close> raises
  \<open>ValueError\<close>, nothing is saved and no incident is opened, so the lease re-drives it for ever.\<close>

theorem unknown_step_escapes:
  assumes "rp_get runs rid (dv_world s) = (Inr (Some run), w)"
    and "\<not> terminal_status (run_status run)" and "unknown_step run"
  shows "\<exists>m. handle (build_executor tc rc engines lc runs clk base team) rid s =
    (Inl (ValueError m), loaded rid s run w)"
  using assms
  by (subst handle_eqs(4))
     (auto simp: unknown_step_def drive_run_def crash_def first_step_def parse_step_def eff_basic
       drive_basic loaded_def split: option.splits)

lemma unknown_step_escapes_witness:
  "\<exists>m. handle (executor_of AP_APPROVED eligible_result (sample_engine ER_SUCCESS no_engine_failure)
       (run1\<lparr>run_current_step := Some ''provisioning''\<rparr>)) ''r1'' (drive_of run1) =
     (Inl (ValueError m), loaded ''r1'' (drive_of run1) (run1\<lparr>run_current_step := Some ''provisioning''\<rparr>) ())"
  unfolding executor_of_def
  by (rule unknown_step_escapes)
     (simp_all add: store_of_def answers_def run1_def unknown_step_def step_of_value_def all_steps_def)

end
