(* ===== verification/Failure_Properties.thy ===== *)
theory Failure_Properties
  imports Call_Order Samples
begin

text \<open>
  What a failed attempt costs: the retry and its backoff, the end of the budget, the classification
  of an engine's failure, and what the requester's ticket and the resource see of the end.
\<close>

section \<open>Retries\<close>

text \<open>The run as a retry leaves it, before it is saved.\<close>

definition retried :: "step_name \<Rightarrow> 'w handler \<Rightarrow> datetime \<Rightarrow> workflow_run \<Rightarrow> workflow_run" where
  "retried step h due r = (let st = run_run_state r in
     r\<lparr>run_run_state := (h_reset h (st\<lparr>st_step_attempts := dset (st_step_attempts st) step
         (dget (st_step_attempts st) step 0 + 1)\<rparr>))\<lparr>st_attempt_started_at := None\<rparr>,
       run_scheduled_at := Some due\<rparr>)"

text \<open>C4. A task failure within the budget is retried after \<open>base * 2 ** n\<close> plus the jitter, \<open>n\<close>
  being the failures before it: the run keeps its status and step, its counter is one higher, its
  attempt clock and the step's own working state are reset, and all that happens is one save.\<close>

theorem retry_backoff:
  assumes "exn_kind e = FK_TASK" and "st = run_run_state (dv_run s)"
    and "n = dget (st_step_attempts st) step 0" and "int n < run_max_retries (dv_run s)"
    and "ck_uniform (ex_clock X) (dv_world s) = (jitter, w)" and "ck_utcnow (ex_clock X) w = (t, w')"
  shows "on_step_error X step h e s =
    save X (s\<lparr>dv_run := retried step h (t + (ex_retry_base X * 2 ^ n + jitter)) (dv_run s), dv_world := w'\<rparr>)"
  using assms
  by (cases s)
     (simp add: on_step_error_def schedule_def utc_now_def eff_basic drive_basic Let_def retried_def)

lemma retry_backoff_witness:
  "on_step_error (executor_of AP_APPROVED eligible_result (sample_engine ER_FAILED no_engine_failure) run1)
     SN_RUN_ENGINE (run_engine_step (\<lambda>_. None)) (RuntimeError ''boom'') (drive_of (run_at SN_RUN_ENGINE)) =
   save (executor_of AP_APPROVED eligible_result (sample_engine ER_FAILED no_engine_failure) run1)
     ((drive_of (run_at SN_RUN_ENGINE))\<lparr>dv_run := retried SN_RUN_ENGINE (run_engine_step (\<lambda>_. None) :: unit handler)
        (seconds 12) (run_at SN_RUN_ENGINE), dv_world := ()\<rparr>)"
  by (subst retry_backoff [where st = "run_run_state (run_at SN_RUN_ENGINE)" and n = 0 and jitter = 2000000 and w = "()" and t = 0 and w' = "()"])
     (simp_all add: executor_of_def sample_clock_def drive_of_def run_at_def run1_def new_run_state_def seconds_def)

text \<open>C5. Past the budget, or at once for a failure that is not retryable, the run ends: it is
  \<open>FAILED\<close> with no time to be driven at, the error recorded under its step, and then it is escalated
  and saved.\<close>

theorem failure_is_final:
  assumes "exn_kind e \<noteq> FK_TASK \<or> run_max_retries (dv_run s) \<le> int (dget (st_step_attempts st) step 0)"
    and "st = run_run_state (dv_run s)"
  shows "on_step_error X step h e s = thenE (escalate (ex_escalator X) e) (save X)
    (s\<lparr>dv_run := (dv_run s)\<lparr>run_run_state := st\<lparr>
         st_step_attempts := dset (st_step_attempts st) step (dget (st_step_attempts st) step 0 + 1),
         st_errors := dset (st_errors st) step (exn_str e)\<rparr>,
       run_status := RS_FAILED, run_scheduled_at := None\<rparr>\<rparr>)"
  using assms
  by (cases s)
     (auto simp: on_step_error_def set_error_def set_terminal_def eff_basic drive_basic Let_def)

lemma failure_is_final_witness:
  "on_step_error (executor_of AP_APPROVED eligible_result (sample_engine ER_FAILED no_engine_failure) run1)
     SN_VALIDATE_RESOURCE (validate_resource_step (sample_resources eligible_result))
     (StepFailure ''no quota'' FK_INFRA_PRECHECK) (drive_of (run_at SN_VALIDATE_RESOURCE)) =
   thenE (escalate (ex_escalator (executor_of AP_APPROVED eligible_result (sample_engine ER_FAILED no_engine_failure) run1))
        (StepFailure ''no quota'' FK_INFRA_PRECHECK))
      (save (executor_of AP_APPROVED eligible_result (sample_engine ER_FAILED no_engine_failure) run1))
     ((drive_of (run_at SN_VALIDATE_RESOURCE))\<lparr>dv_run := (run_at SN_VALIDATE_RESOURCE)
        \<lparr>run_status := RS_FAILED, run_scheduled_at := None,
          run_run_state := (run_run_state (run_at SN_VALIDATE_RESOURCE))
            \<lparr>st_step_attempts := [(SN_VALIDATE_RESOURCE, 1)],
              st_errors := [(SN_VALIDATE_RESOURCE, ''no quota'')]\<rparr>\<rparr>\<rparr>)"
  by (subst failure_is_final) (auto simp: drive_of_def run_at_def run1_def new_run_state_def dset_def)

text \<open>Every retry of the engine starts a fresh engine run under a key of its own: the run id, the
  failure detail and the result of the failed one are forgotten, and the trigger key differs from the
  key of every other attempt of the run.\<close>

theorem retry_fresh_engine_run:
  assumes "r' = retried SN_RUN_ENGINE (run_engine_step engines) due r"
  shows "st_engine_run_id (run_run_state r') = None \<and> st_engine_failure (run_run_state r') = None \<and>
    map_of (st_step_results (run_run_state r')) SN_RUN_ENGINE = None \<and>
    (\<forall>q. run_id q = run_id r \<and> engine_attempt q \<noteq> engine_attempt r + 1 \<longrightarrow>
       engine_run_key q \<noteq> engine_run_key r')"
  using assms
  by (auto simp: retried_def run_engine_step_def run_engine_reset_def step_handler_def Let_def
      engine_run_key_inject)

lemma retry_fresh_engine_run_witness:
  "engine_run_key (run_at SN_RUN_ENGINE) \<noteq>
     engine_run_key (retried SN_RUN_ENGINE (run_engine_step (\<lambda>_. None) :: unit handler) 0 (run_at SN_RUN_ENGINE))"
  using retry_fresh_engine_run [of _ "\<lambda>_. None :: unit engine_client option" 0 "run_at SN_RUN_ENGINE", OF refl]
  by (auto simp: run_at_def run1_def)

section \<open>The retry budget\<close>

text \<open>\<open>n\<close> drives in a row, each on the run the one before left.\<close>

fun drives :: "nat \<Rightarrow> 'w executor \<Rightarrow> 'w drive \<Rightarrow> 'w drive" where
  "drives 0 X s = s"
| "drives (Suc n) X s = drives n X (snd (drive_run X s))"

definition save_answers :: "'w executor \<Rightarrow> bool" where
  "save_answers X \<longleftrightarrow> (\<forall>r w e w'. rp_save (ex_runs X) r w = (Inl e, w') \<longrightarrow> is_stale e)"

definition step_always_fails :: "'w executor \<Rightarrow> step_name \<Rightarrow> bool" where
  "step_always_fails X k \<longleftrightarrow> (\<exists>h. ex_handlers X k = Some h \<and> step_contract h \<and>
     (\<forall>s. \<exists>e t. h_execute h s = (Inl e, t) \<and> exn_kind e = FK_TASK \<and> \<not> is_rejected e))"

text \<open>Standing at step \<open>k\<close> with \<open>n\<close> failures behind it.\<close>

definition at_step :: "step_name \<Rightarrow> int \<Rightarrow> nat \<Rightarrow> 'w drive \<Rightarrow> bool" where
  "at_step k m n s \<longleftrightarrow> run_current_step (dv_run s) = Some (step_value k) \<and>
     run_max_retries (dv_run s) = m \<and> dget (st_step_attempts (run_run_state (dv_run s))) k 0 = n"

lemma at_step_frame: "step_frame s t \<Longrightarrow> at_step k m n t = at_step k m n s"
  by (erule step_frameE) (simp add: at_step_def st_frame_def)

lemma save_stands:
  assumes "save_answers X" and "\<And>v w tr. P (s\<lparr>dv_run := (dv_run s)\<lparr>run_version := v\<rparr>, dv_world := w, dv_trace := tr\<rparr>)"
  shows "wpE (save X) (\<lambda>_. P) (\<lambda>_ _. False) s"
proof -
  have "wpE (repo_save X) (\<lambda>_. P) (\<lambda>e u. is_stale e \<and> P u) s"
  proof -
    have "P (s\<lparr>dv_world := w, dv_trace := tr, dv_run := (dv_run s)\<lparr>run_version := v\<rparr>\<rparr>)" for v w tr
      using assms(2) [where v = v and w = w and tr = tr] by (cases s) simp
    moreover have "P (s\<lparr>dv_world := w, dv_trace := tr\<rparr>)" for w tr
      using assms(2) [where v = "run_version (dv_run s)" and w = w and tr = tr] by simp
    ultimately show ?thesis
      using assms(1) by (auto simp: repo_save_def wp save_answers_def)
  qed
  then show ?thesis
    unfolding save_def wp by (rule wp_mono) simp_all
qed

lemma schedule_stands:
  assumes "save_answers X"
    and "\<And>d v w tr. P (s\<lparr>dv_run := (dv_run s)\<lparr>run_scheduled_at := Some d, run_version := v\<rparr>, dv_world := w, dv_trace := tr\<rparr>)"
  shows "wpE (schedule X delay) (\<lambda>_. P) (\<lambda>_ _. False) s"
proof -
  have "P (s\<lparr>dv_world := w0, dv_run := (dv_run s)\<lparr>run_scheduled_at := Some d\<rparr>,
      dv_run := (dv_run s)\<lparr>run_scheduled_at := Some d, run_version := v\<rparr>, dv_world := w, dv_trace := tr\<rparr>)"
    for d v w tr w0
    using assms(2) [where d = d and v = v and w = w and tr = tr] by (cases s) simp
  then show ?thesis
    unfolding schedule_def utc_now_def wp
    by (auto intro!: save_stands [OF assms(1)])
qed

definition after_failure :: "step_name \<Rightarrow> int \<Rightarrow> nat \<Rightarrow> 'w drive \<Rightarrow> bool" where
  "after_failure k m n t \<longleftrightarrow> (if int n < m then run_status (dv_run t) = RS_RUNNING \<and> at_step k m (n + 1) t
     else run_status (dv_run t) = RS_FAILED)"

lemma on_step_error_budget:
  assumes "at_step k m n s" and "run_status (dv_run s) = RS_RUNNING" and "exn_kind e = FK_TASK"
    and "save_answers X" and "step_contract h"
  shows "wpE (on_step_error X k h e) (\<lambda>_. after_failure k m n) (\<lambda>_ _. False) s"
proof -
  have reset: "st_step_attempts (h_reset h st) = st_step_attempts st" for st
    using step_contract.reset_frame [OF assms(5), of st] by (simp add: st_frame_def)
  show ?thesis
    using assms(1,2,3)
    unfolding on_step_error_def set_error_def set_terminal_def wp Let_def at_step_def
    by (auto simp: after_failure_def at_step_def reset esc_run_simps
        intro!: schedule_stands [OF assms(4)] escalate_wp save_stands [OF assms(4)])
qed

lemma start_attempt_stands:
  assumes "\<And>r w tr. run_status r = run_status (dv_run s) \<Longrightarrow> run_current_step r = run_current_step (dv_run s) \<Longrightarrow>
      run_max_retries r = run_max_retries (dv_run s) \<Longrightarrow>
      st_step_attempts (run_run_state r) = st_step_attempts (run_run_state (dv_run s)) \<Longrightarrow>
      Q (s\<lparr>dv_run := r, dv_world := w\<rparr>)"
  shows "wpE (start_attempt X k) (\<lambda>_. Q) E s"
proof -
  have "Q u" if "dv_trace u = dv_trace s" "run_status (dv_run u) = run_status (dv_run s)"
    "run_current_step (dv_run u) = run_current_step (dv_run s)"
    "run_max_retries (dv_run u) = run_max_retries (dv_run s)"
    "st_step_attempts (run_run_state (dv_run u)) = st_step_attempts (run_run_state (dv_run s))" for u
  proof -
    have "u = s\<lparr>dv_run := dv_run u, dv_world := dv_world u\<rparr>" using that(1) by (intro drive.equality) simp_all
    with assms [of "dv_run u" "dv_world u"] that show ?thesis by metis
  qed
  then show ?thesis
    unfolding start_attempt_def utc_now_def wp by (auto split: option.split)
qed

lemma failing_attempt:
  assumes fails: "ex_handlers X k = Some h" "step_always_fails X k"
    and "at_step k m n s" and "run_status (dv_run s) = RS_RUNNING"
  shows "wpE (attempt_step X k h started) (\<lambda>_ _. False)
     (\<lambda>e t. exn_kind e = FK_TASK \<and> \<not> is_rejected e \<and> at_step k m n t \<and> run_status (dv_run t) = RS_RUNNING) s"
proof -
  have h: "step_contract h" using fails by (auto simp: step_always_fails_def)
  have fail: "wpE (h_execute h) (\<lambda>_ _. False) (\<lambda>e _. exn_kind e = FK_TASK \<and> \<not> is_rejected e) u" for u
  proof -
    obtain e t where "h_execute h u = (Inl e, t)" "exn_kind e = FK_TASK" "\<not> is_rejected e"
      using fails unfolding step_always_fails_def by fastforce
    then show ?thesis by (simp add: wpE_def)
  qed
  have "wpE (h_execute h) (\<lambda>_ _. False)
     (\<lambda>e t. exn_kind e = FK_TASK \<and> \<not> is_rejected e \<and> at_step k m n t \<and> run_status (dv_run t) = RS_RUNNING)
     (s\<lparr>dv_world := w\<rparr>)" for w
  proof (rule wp_mono [OF wp_conj [OF fail keepsD [OF step_contract.frame [OF h]]]])
    fix e and t :: "'a drive"
    assume *: "(exn_kind e = FK_TASK \<and> \<not> is_rejected e) \<and> step_frame (s\<lparr>dv_world := w\<rparr>) t"
    then have fr: "step_frame (s\<lparr>dv_world := w\<rparr>) t" by simp
    have "run_status (dv_run t) = RS_RUNNING" by (rule step_frameE [OF fr]) (simp add: assms)
    moreover have "at_step k m n t" using at_step_frame [OF fr, of k m n] assms(3) by (simp add: at_step_def)
    ultimately show "exn_kind e = FK_TASK \<and> \<not> is_rejected e \<and> at_step k m n t \<and> run_status (dv_run t) = RS_RUNNING"
      using * by simp
  qed simp
  then show ?thesis
    unfolding attempt_step_def utc_now_def wp using assms(3,4) by (auto simp: at_step_def)
qed

lemma failing_drive:
  assumes "step_always_fails X k" and "save_answers X" and "at_step k m n s"
  shows "wpE (drive_run X) (\<lambda>_. after_failure k m n) (\<lambda>_ _. False) s"
proof -
  obtain h where h: "ex_handlers X k = Some h" "step_contract h"
    using assms(1) by (auto simp: step_always_fails_def)
  have attempt: "wpE (attempt_step X k h started)
     (\<lambda>x u. (x \<longrightarrow> F x u) \<and> (\<not> x \<longrightarrow> G x u))
     (\<lambda>e u. (is_rejected e \<longrightarrow> H e u) \<and> (\<not> is_rejected e \<longrightarrow>
           wpE (on_step_error X k h e) (\<lambda>_. after_failure k m n) (\<lambda>_ _. False) u)) u"
    if "at_step k m n u" "run_status (dv_run u) = RS_RUNNING" for started u F G H
    by (rule wp_mono [OF failing_attempt [OF h(1) assms(1) that]])
       (auto intro: on_step_error_budget assms(2) h(2))
  have loop: "wpE (drive_loop X rt k) (\<lambda>_. after_failure k m n) (\<lambda>_ _. False) u"
    if "at_step k m n u" "run_status (dv_run u) = RS_RUNNING" for rt u
  proof -
    have start: "wpE (start_attempt X k) (\<lambda>_ v. at_step k m n v \<and> run_status (dv_run v) = RS_RUNNING)
        (\<lambda>_ _. False) (u\<lparr>dv_run := (dv_run u)\<lparr>run_current_step := Some (step_value k)\<rparr>\<rparr>)"
      by (rule start_attempt_stands) (use that in \<open>simp add: at_step_def\<close>)
    have world: "at_step k m n (v\<lparr>dv_world := w\<rparr>) = at_step k m n v" for v :: "'a drive" and w
      by (simp add: at_step_def)
    show ?thesis
      unfolding wp_drive_loop [of X _ k] drive_iteration_def wp h option.case sum.case wp_upd_run
      by (rule wp_mono [OF start]) (simp_all add: utc_now_def wp attempt world)
  qed
  have "first_step (dv_run s) = Inr k" using assms(3) by (simp add: at_step_def first_step_def)
  then show ?thesis
    unfolding drive_run_def wp using loop assms(3) by (simp add: at_step_def)
qed

lemma drives_failing:
  assumes "step_always_fails X k" and "save_answers X" and "at_step k m n s" and "int (n + i) \<le> m"
  shows "at_step k m (n + i) (drives i X s) \<and> (0 < i \<longrightarrow> run_status (dv_run (drives i X s)) = RS_RUNNING)"
  using assms(3,4)
proof (induction i arbitrary: n s)
  case (Suc i)
  have "after_failure k m n (snd (drive_run X s))"
    using failing_drive [OF assms(1,2) Suc.prems(1)] by (auto simp: wpE_def split: prod.splits sum.splits)
  with Suc.prems(2) have now: "at_step k m (Suc n) (snd (drive_run X s))" "run_status (dv_run (snd (drive_run X s))) = RS_RUNNING"
    by (auto simp: after_failure_def)
  have "int (Suc n + i) \<le> m" using Suc.prems(2) by simp
  from Suc.IH [OF now(1) this] now(2) show ?case by (cases i) auto
qed simp

lemma drives_Suc: "drives (Suc n) X s = snd (drive_run X (drives n X s))"
  by (induction n arbitrary: s) simp_all


definition engineless :: "unit executor" where
  "engineless = build_executor (sample_tickets AP_APPROVED) (sample_resources eligible_result) (\<lambda>_. None)
     sample_legacy (store_of run1) sample_clock (seconds 10) ''cloudio''"

lemma engineless_fails: "step_always_fails engineless SN_RUN_ENGINE"
  by (auto simp: step_always_fails_def engineless_def run_engine.step_contract_axioms)
     (simp add: run_engine_step_def step_handler_def run_engine_execute_def eff_basic drive_basic Let_def)

lemma engineless_saves: "save_answers engineless"
  by (simp add: save_answers_def engineless_def store_of_def answers_def)


section \<open>The end of a run\<close>

text \<open>C8. Escalation never raises, whatever the ticket system and the resource manager do. It touches
  nothing of the run but its incident id and the closing of its ticket; it opens at most two
  incidents for a task failure, one for an unclassified error and none otherwise; it closes a ticket
  only as unsuccessful, with the note of its policy; and its last act is to release the resource the
  run left in flight: one delete for a create, one reset to \<open>READY\<close> for an update or a delete, and no
  call when there is none.\<close>

theorem escalation_outcome:
  "\<exists>t evs rel. escalate es e s = (Inr (), t) \<and> dv_trace t = dv_trace s @ evs @ rel \<and>
     esc_run (dv_run s) (dv_run t) \<and> released (dv_run s) rel \<and>
     incidents evs \<le> (if \<not> is_step_failure e then 1 else if exn_kind e = FK_TASK then 2 else 0) \<and>
     (\<forall>c \<in> set evs. is_close_ticket c \<longrightarrow>
        is_step_failure e \<and> unsuccessful_close es (dv_run s) (exn_kind e) evs c)"
  using escalate_spec [of es e s]
  by (auto simp: wpE_def ticket_side_def split: prod.splits sum.splits if_splits)

lemma escalation_outcome_witness:
  "\<exists>t evs rel. escalate (ex_escalator engineless) (StepFailure ''no quota'' FK_INFRA_PRECHECK)
     (drive_of (run_at SN_VALIDATE_RESOURCE)) = (Inr (), t) \<and> incidents evs \<le> 0 \<and>
     dv_trace t = evs @ rel"
  using escalation_outcome [of "ex_escalator engineless" "StepFailure ''no quota'' FK_INFRA_PRECHECK"
      "drive_of (run_at SN_VALIDATE_RESOURCE)"]
  by (auto simp: drive_of_def)

text \<open>C9. A request that cannot succeed as filed (a validation error, a failed precheck) costs no
  incident: its open ticket is closed as unsuccessful with the validation note and nothing else is
  said or opened, before the resource is released.\<close>

theorem invalid_request_closes_ticket:
  assumes "is_step_failure e" and "exn_kind e \<noteq> FK_TASK"
  shows "\<exists>t evs rel. escalate es e s = (Inr (), t) \<and> dv_trace t = dv_trace s @ evs @ rel \<and>
    released (dv_run s) rel \<and>
    (case st_ticket (run_run_state (dv_run s)) of
       None \<Rightarrow> evs = []
     | Some tk \<Rightarrow> \<exists>res. evs = [Ev_close_ticket tk (Some validation_comment) TO_UNSUCCESSFUL res] \<and>
         (res = Inr () \<longrightarrow> st_ticket_closed (run_run_state (dv_run t))))"
proof -
  let ?P = "\<lambda>evs r. case st_ticket (run_run_state (dv_run s)) of
       None \<Rightarrow> evs = []
     | Some tk \<Rightarrow> \<exists>res. evs = [Ev_close_ticket tk (Some validation_comment) TO_UNSUCCESSFUL res] \<and>
         (res = Inr () \<longrightarrow> st_ticket_closed (run_run_state r))"
  let ?Q = "\<lambda>t. esc_run (dv_run s) (dv_run t) \<and> (\<exists>evs. dv_trace t = dv_trace s @ evs \<and> ?P evs (dv_run t))"
  have policy: "wpE (escalate_by_policy es e (policy_for (exn_kind e))) (\<lambda>_. ?Q) (\<lambda>_. ?Q) s"
    using assms by (simp add: escalate_by_policy_def Let_def wp split: option.split)
  have rel: "wpE (release_resource es) (\<lambda>_ t. \<exists>evs rel. dv_trace t = dv_trace s @ evs @ rel \<and>
      released (dv_run s) rel \<and> ?P evs (dv_run t)) (\<lambda>_ _. False) u" if Q: "?Q u" for u
  proof (rule release_wp)
    fix w rel
    assume r: "released (dv_run u) rel"
    from Q obtain evs where "esc_run (dv_run s) (dv_run u)" and u: "dv_trace u = dv_trace s @ evs" "?P evs (dv_run u)"
      by blast
    with r have "released (dv_run s) rel" by (simp add: released_cong)
    with u show "\<exists>evs rel'. dv_trace (u\<lparr>dv_world := w, dv_trace := dv_trace u @ rel\<rparr>) = dv_trace s @ evs @ rel' \<and>
        released (dv_run s) rel' \<and> ?P evs (dv_run (u\<lparr>dv_world := w, dv_trace := dv_trace u @ rel\<rparr>))"
      by - (rule exI [of _ evs], rule exI [of _ rel], simp split: option.splits)
  qed
  have "wpE (escalate es e) (\<lambda>_ t. \<exists>evs rel. dv_trace t = dv_trace s @ evs @ rel \<and>
      released (dv_run s) rel \<and> ?P evs (dv_run t)) (\<lambda>_ _. False) s"
    unfolding escalate_def wp using assms(1) by (simp add: wp_mono [OF policy] rel)
  then show ?thesis by (auto simp: wpE_def split: prod.splits sum.splits)
qed

lemma invalid_request_closes_ticket_witness:
  "\<exists>t. escalate (ex_escalator engineless) (StepFailure ''no quota'' FK_INFRA_PRECHECK)
     (drive_of (run_at SN_VALIDATE_RESOURCE)) = (Inr (), t)"
  using invalid_request_closes_ticket [of "StepFailure ''no quota'' FK_INFRA_PRECHECK"
      "ex_escalator engineless" "drive_of (run_at SN_VALIDATE_RESOURCE)"]
  by auto

text \<open>How an engine's failure is classified: a failed engine run raises \<open>StepFailure\<close> with the kind
  the engine reports, which is kept on the run; when the detail cannot be fetched the failure counts
  as a task failure, unless an earlier fetch of this attempt left its kind.\<close>

theorem engine_failure_kind:
  assumes "engines (rw_engine_type (st_workflow st)) = Some client" and "st = run_run_state (dv_run s)"
    and "st_engine_run_id st = Some rid" and "aid = rw_automation_id (st_workflow st)"
    and "ec_query_run_status client aid rid (dv_world s) = (Inr ER_FAILED, w)"
    and "ec_get_failure client aid rid w = (answer, w')"
  shows "\<exists>t. run_engine_execute engines s =
      (Inl (StepFailure (engine_failed_message rid aid)
         (case answer of Inr f \<Rightarrow> ef_kind f
          | Inl _ \<Rightarrow> (case st_engine_failure st of Some f \<Rightarrow> ef_kind f | None \<Rightarrow> FK_TASK))), t) \<and>
    st_engine_failure (run_run_state (dv_run t)) =
      (case answer of Inr f \<Rightarrow> Some f | Inl _ \<Rightarrow> st_engine_failure st)"
  using assms
  by (cases answer)
     (auto simp: run_engine_execute_def eff_basic drive_basic Let_def split: option.split)

definition engine_run1 :: workflow_run where
  "engine_run1 = (run_at SN_RUN_ENGINE)\<lparr>run_run_state :=
     (run_run_state (run_at SN_RUN_ENGINE))\<lparr>st_engine_run_id := Some ''dag_1''\<rparr>\<rparr>"

definition validation_failure :: engine_failure where
  "validation_failure = no_engine_failure\<lparr>ef_kind := FK_VALIDATION\<rparr>"

lemma engine_failure_kind_witness:
  "\<exists>t. run_engine_execute (engines_of (sample_engine ER_FAILED validation_failure)) (drive_of engine_run1) =
     (Inl (StepFailure (engine_failed_message ''dag_1'' ''provision_vm'') FK_VALIDATION), t)"
proof -
  let ?e = "sample_engine ER_FAILED validation_failure" and ?st = "run_run_state (dv_run (drive_of engine_run1))"
  have "engines_of ?e (rw_engine_type (st_workflow ?st)) = Some ?e"
    "st_engine_run_id ?st = Some ''dag_1''" "''provision_vm'' = rw_automation_id (st_workflow ?st)"
    by (simp_all add: drive_of_def engine_run1_def run_at_def run1_def new_run_state_def workflow1_def engines_of_def)
  from engine_failure_kind [where engines = "engines_of ?e" and st = ?st and s = "drive_of engine_run1" and answer = "Inr validation_failure" and w = "()"
      and w' = "()", OF this(1) refl this(2,3)]
  show ?thesis by (auto simp: sample_engine_def answers_def validation_failure_def)
qed

end
