(* ===== verification/Completion.thy ===== *)
theory Completion
  imports Call_Order Samples
begin

text \<open>
  That the driver finishes what it starts: with providers that accept what they are asked
  (\<open>accommodating\<close>), a resource run is driven to its engine in one go, and to \<open>COMPLETED\<close> by the first
  drive after the engine run has succeeded.
\<close>

text \<open>Providers that answer every call, an approved ticket, an eligible request, an engine run that
  succeeds, saves that succeed, and clock readings within an hour of each other.\<close>

definition accommodating ::
  "'w executor \<Rightarrow> 'w ticket_client \<Rightarrow> 'w resource_client \<Rightarrow>
   (workflow_engine_type \<Rightarrow> 'w engine_client option) \<Rightarrow> 'w legacy_client \<Rightarrow> datetime \<Rightarrow>
   workflow_engine_type \<Rightarrow> 'w engine_client \<Rightarrow> bool" where
  "accommodating X tc rc engines lc start et ec \<longleftrightarrow>
     ex_handlers X = build_handlers tc rc engines lc \<and> engines et = Some ec \<and>
     (\<forall>tmpl ps u k w. \<exists>t w'. tc_open_ticket tc tmpl ps u k w = (Inr t, w')) \<and>
     (\<forall>t w. \<exists>w'. tc_get_approval_status tc t w = (Inr AP_APPROVED, w')) \<and>
     (\<forall>t n oc w. \<exists>w'. tc_close_ticket tc t n oc w = (Inr (), w')) \<and>
     (\<forall>p ty b k w. \<exists>i w'. rc_create_resource rc p ty b k w = (Inr i, w')) \<and>
     (\<forall>p ty v f w. \<exists>w'. rc_update_resource rc p ty v f w = (Inr (), w')) \<and>
     (\<forall>p ty v w. \<exists>w'. rc_delete_resource rc p ty v w = (Inr (), w')) \<and>
     (\<forall>q w. \<exists>r w'. rc_validate_resource rc q w = (Inr r, w') \<and> vr_eligible r) \<and>
     (\<forall>a ps k w. \<exists>i w'. ec_trigger_workflow ec a ps k w = (Inr i, w')) \<and>
     (\<forall>a i w. \<exists>w'. ec_query_run_status ec a i w = (Inr ER_SUCCESS, w')) \<and>
     (\<forall>r w. \<exists>v w'. rp_save (ex_runs X) r w = (Inr v, w')) \<and>
     (\<forall>w. start \<le> fst (ck_utcnow (ex_clock X) w) \<and> fst (ck_utcnow (ex_clock X) w) \<le> start + seconds 3600)"

lemma accommodatingD:
  assumes "accommodating X tc rc engines lc start et ec"
  shows handlers: "ex_handlers X = build_handlers tc rc engines lc"
    and engine_type: "engines et = Some ec"
    and opens: "\<exists>t w'. tc_open_ticket tc tmpl ps u k w = (Inr t, w')"
    and approves: "\<exists>w'. tc_get_approval_status tc t w = (Inr AP_APPROVED, w')"
    and closes: "\<exists>w'. tc_close_ticket tc t n oc w = (Inr (), w')"
    and creates: "\<exists>i w'. rc_create_resource rc p ty b k w = (Inr i, w')"
    and updates: "\<exists>w'. rc_update_resource rc p ty v f w = (Inr (), w')"
    and deletes: "\<exists>w'. rc_delete_resource rc p ty v w = (Inr (), w')"
    and validates: "\<exists>r w'. rc_validate_resource rc q w = (Inr r, w') \<and> vr_eligible r"
    and triggers: "\<exists>i w'. ec_trigger_workflow ec a ps k w = (Inr i, w')"
    and succeeds: "\<exists>w'. ec_query_run_status ec a i w = (Inr ER_SUCCESS, w')"
    and saves: "\<exists>v w'. rp_save (ex_runs X) r w = (Inr v, w')"
    and ticks: "start \<le> fst (ck_utcnow (ex_clock X) w) \<and> fst (ck_utcnow (ex_clock X) w) \<le> start + seconds 3600"
  using assms unfolding accommodating_def by simp_all

definition ready :: "datetime \<Rightarrow> workflow_engine_type \<Rightarrow> bool \<Rightarrow> step_name \<Rightarrow> 'w drive \<Rightarrow> bool" where
  "ready start et b k s \<longleftrightarrow> (let st = run_run_state (dv_run s) in
     st_resource st \<noteq> None \<and> rw_engine_type (st_workflow st) = et \<and>
     (\<forall>t. st_attempt_started_at st = Some t \<longrightarrow> start \<le> t) \<and>
     (SN_CREATE_TICKET < k \<longrightarrow> st_ticket st \<noteq> None) \<and>
     (SN_FINALIZE_RESOURCE < k \<longrightarrow> st_resource_finalized st) \<and>
     (if b then k \<le> SN_RUN_ENGINE \<and> st_engine_run_id st = None
      else SN_RUN_ENGINE < k \<or> st_engine_run_id st \<noteq> None) \<and> k \<noteq> SN_SUBMIT_LEGACY)"

lemma executes:
  assumes acc: "accommodating X tc rc engines lc start et ec" and "ready start et b k s" and "build_handlers tc rc engines lc k = Some h"
  shows "wpE (h_execute h)
    (\<lambda>x t. if b \<and> k = SN_RUN_ENGINE then \<not> x \<and> ready start et False k t
       else x \<and> (\<forall>n. next_step (run_plan RT_RESOURCE) k = Inr (Some n) \<longrightarrow> ready start et b n t) \<and>
         (k = SN_CLOSE_TICKET \<longrightarrow> st_ticket_closed (run_run_state (dv_run t)) \<and>
            st_resource_finalized (run_run_state (dv_run t))))
    (\<lambda>_ _. False) s"
proof -
  obtain o1 o2 where e1: "\<And>a p u k w. tc_open_ticket tc a p u k w = (Inr (o1 a p u k w), o2 a p u k w)"
    using opens [OF acc] by metis
  obtain a2 where e2: "\<And>t w. tc_get_approval_status tc t w = (Inr AP_APPROVED, a2 t w)"
    using approves [OF acc] by metis
  obtain c2 where e3: "\<And>t n oc w. tc_close_ticket tc t n oc w = (Inr (), c2 t n oc w)"
    using closes [OF acc] by metis
  obtain m1 m2 where e4: "\<And>p y q k w. rc_create_resource rc p y q k w = (Inr (m1 p y q k w), m2 p y q k w)"
    using creates [OF acc] by metis
  obtain u2 where e5: "\<And>p y v f w. rc_update_resource rc p y v f w = (Inr (), u2 p y v f w)"
    using updates [OF acc] by metis
  obtain d2 where e6: "\<And>p y v w. rc_delete_resource rc p y v w = (Inr (), d2 p y v w)"
    using deletes [OF acc] by metis
  obtain v1 v2 where e7: "\<And>q w. rc_validate_resource rc q w = (Inr (v1 q w), v2 q w)" "\<And>q w. vr_eligible (v1 q w)"
    using validates [OF acc] by metis
  obtain t1 t2 where e8: "\<And>a p k w. ec_trigger_workflow ec a p k w = (Inr (t1 a p k w), t2 a p k w)"
    using triggers [OF acc] by metis
  obtain s2 where e9: "\<And>a i w. ec_query_run_status ec a i w = (Inr ER_SUCCESS, s2 a i w)"
    using succeeds [OF acc] by metis
  have h: "h = the (build_handlers tc rc engines lc k)" using assms(3) by simp
  show ?thesis
    using assms(2) engine_type [OF acc]
    by (cases k; cases b) (auto simp: h e1 e2 e3 e4 e5 e6 e7 e8 e9 step_defs execute_defs Let_def wp ready_def less_step_name_def less_eq_step_name_def split: option.split json.split)
qed

text \<open>What a drive of a ready run ends in: waiting for its engine run, or completed.\<close>

definition arrived :: "datetime \<Rightarrow> workflow_engine_type \<Rightarrow> bool \<Rightarrow> 'w drive \<Rightarrow> bool" where
  "arrived start et b t \<longleftrightarrow> (if b then run_status (dv_run t) = RS_RUNNING \<and> ready start et False SN_RUN_ENGINE t \<and>
       run_current_step (dv_run t) = Some (step_value SN_RUN_ENGINE) \<and> run_run_type (dv_run t) = RT_RESOURCE
     else run_status (dv_run t) = RS_COMPLETED \<and> run_current_step (dv_run t) = None \<and>
       run_scheduled_at (dv_run t) = None \<and> st_ticket_closed (run_run_state (dv_run t)) \<and>
       st_resource_finalized (run_run_state (dv_run t)))"

definition standing :: "datetime \<Rightarrow> workflow_engine_type \<Rightarrow> bool \<Rightarrow> step_name \<Rightarrow> 'w drive \<Rightarrow> bool" where
  "standing start et b k s \<longleftrightarrow> ready start et b k s \<and> run_status (dv_run s) = RS_RUNNING \<and> run_run_type (dv_run s) = RT_RESOURCE"

lemma ready_upd [simp]:
  "ready start et b k (s\<lparr>dv_world := w\<rparr>) = ready start et b k s" "ready start et b k (s\<lparr>dv_trace := tr\<rparr>) = ready start et b k s"
  "ready start et b k (s\<lparr>dv_run := (dv_run s)\<lparr>run_current_step := c\<rparr>\<rparr>) = ready start et b k s"
  "ready start et b k (s\<lparr>dv_run := (dv_run s)\<lparr>run_scheduled_at := d\<rparr>\<rparr>) = ready start et b k s"
  by (simp_all add: ready_def)

lemma save_answered:
  assumes acc: "accommodating X tc rc engines lc start et ec"
  shows "wpE (save X) (\<lambda>_ t. \<exists>v. dv_run t = (dv_run s)\<lparr>run_version := v\<rparr>) (\<lambda>_ _. False) s"
proof -
  obtain v w' where "rp_save (ex_runs X) (dv_run s) (dv_world s) = (Inr v, w')"
    using saves [OF acc] by metis
  then show ?thesis by (auto simp: save_def repo_save_def wp)
qed

lemma schedule_arrives:
  assumes acc: "accommodating X tc rc engines lc start et ec" and "standing start et b SN_RUN_ENGINE s" "ready start et False SN_RUN_ENGINE s"
    and "run_current_step (dv_run s) = Some (step_value SN_RUN_ENGINE)"
  shows "wpE (schedule X d) (\<lambda>_. arrived start et True) (\<lambda>_ _. False) s"
proof -
  have over: "arrived start et True t"
    if "\<exists>v. dv_run t = (dv_run s)\<lparr>run_scheduled_at := d, run_version := v\<rparr>" for t d
    using assms that by (auto simp: standing_def arrived_def ready_def Let_def)
  have "wpE (save X) (\<lambda>_. arrived start et True) (\<lambda>_ _. False) (u\<lparr>dv_run := (dv_run s)\<lparr>run_scheduled_at := d\<rparr>\<rparr>)"
    for u d
    by (rule wp_mono [OF save_answered [OF acc]]) (simp_all add: over)
  then show ?thesis
    unfolding schedule_def wp utc_now_def by simp
qed

lemma finish_arrives:
  assumes acc: "accommodating X tc rc engines lc start et ec" and st: "run_status (dv_run s) = RS_RUNNING" "run_run_type (dv_run s) = RT_RESOURCE"
    and k: "k \<in> set (run_plan RT_RESOURCE)" "k = SN_CLOSE_TICKET \<Longrightarrow> \<not> b"
    and nxt: "\<And>n. next_step (run_plan RT_RESOURCE) k = Inr (Some n) \<Longrightarrow> ready start et b n s"
    and closed: "k = SN_CLOSE_TICKET \<Longrightarrow> st_ticket_closed (run_run_state (dv_run s)) \<and>
      st_resource_finalized (run_run_state (dv_run s))"
  shows "wpE (finish_step X RT_RESOURCE k)
    (\<lambda>r t. case r of None \<Rightarrow> arrived start et b t | Some n \<Rightarrow> standing start et b n t) (\<lambda>_ _. False) s"
proof -
  have go: "standing start et b n (s\<lparr>dv_run := (dv_run s)\<lparr>run_run_state := (run_run_state (dv_run s))
      \<lparr>st_step_attempts := a, st_attempt_started_at := None\<rparr>\<rparr>\<rparr>)"
    if "next_step (run_plan RT_RESOURCE) k = Inr (Some n)" for n a
    using nxt [OF that] st by (auto simp: standing_def ready_def Let_def)
  show ?thesis
  proof (cases "k = SN_CLOSE_TICKET")
    case True
    have over: "arrived start et b t" if "\<exists>v. dv_run t = (dv_run s)\<lparr>run_run_state := (run_run_state (dv_run s))
        \<lparr>st_step_attempts := a, st_attempt_started_at := None\<rparr>, run_status := RS_COMPLETED,
        run_current_step := None, run_scheduled_at := None, run_version := v\<rparr>" for t a
      using that closed [OF True] k(2) [OF True] by (auto simp: arrived_def)
    show ?thesis
      unfolding finish_step_def wp
      by (simp add: True) (rule wp_mono [OF save_answered [OF acc]], simp_all add: over)
  next
    case False
    with k(1) obtain n where "next_step (run_plan RT_RESOURCE) k = Inr (Some n)" by auto
    then show ?thesis
      unfolding finish_step_def wp by (simp add: go)
  qed
qed

lemma start_ready:
  assumes acc: "accommodating X tc rc engines lc start et ec" and "standing start et b k s"
  shows "wpE (start_attempt X k) (\<lambda>started t. standing start et b k t \<and> start \<le> started \<and>
      run_current_step (dv_run t) = run_current_step (dv_run s)) (\<lambda>_ _. False) s"
proof -
  have now: "start \<le> t" if "ck_utcnow (ex_clock X) w = (t, w')" for t w w' using ticks [OF acc, of w] that by simp
  show ?thesis
    unfolding start_attempt_def utc_now_def wp
    using assms by (auto simp: standing_def ready_def Let_def dest: now split: option.split)
qed

lemma attempt_arrives:
  assumes acc: "accommodating X tc rc engines lc start et ec" and s: "standing start et b k s" "start \<le> started" and h: "build_handlers tc rc engines lc k = Some h"
    and cur: "run_current_step (dv_run s) = Some (step_value k)"
  shows "wpE (attempt_step X k h started)
    (\<lambda>x t. run_status (dv_run t) = RS_RUNNING \<and> run_run_type (dv_run t) = RT_RESOURCE \<and>
       run_current_step (dv_run t) = Some (step_value k) \<and>
       (if b \<and> k = SN_RUN_ENGINE then \<not> x \<and> ready start et False k t
       else x \<and> (\<forall>n. next_step (run_plan RT_RESOURCE) k = Inr (Some n) \<longrightarrow> ready start et b n t) \<and>
         (k = SN_CLOSE_TICKET \<longrightarrow> st_ticket_closed (run_run_state (dv_run t)) \<and>
            st_resource_finalized (run_run_state (dv_run t)))))
    (\<lambda>_ _. False) s"
proof -
  have budget: "t - started \<le> h_max_duration h" if "ck_utcnow (ex_clock X) w = (t, w')" for t w w'
  proof -
    have "seconds 3600 \<le> h_max_duration h"
      using h by (cases k) (auto simp: step_defs)
    moreover have "t \<le> start + seconds 3600" using ticks [OF acc, of w] that by simp
    ultimately show ?thesis using s(2) by linarith
  qed
  have contract: "step_contract h" by (rule build_handlers_contract [OF h])
  have "wpE (h_execute h) (\<lambda>x t. run_status (dv_run t) = RS_RUNNING \<and> run_run_type (dv_run t) = RT_RESOURCE \<and>
       run_current_step (dv_run t) = Some (step_value k) \<and>
       (if b \<and> k = SN_RUN_ENGINE then \<not> x \<and> ready start et False k t
       else x \<and> (\<forall>n. next_step (run_plan RT_RESOURCE) k = Inr (Some n) \<longrightarrow> ready start et b n t) \<and>
         (k = SN_CLOSE_TICKET \<longrightarrow> st_ticket_closed (run_run_state (dv_run t)) \<and>
            st_resource_finalized (run_run_state (dv_run t)))))
    (\<lambda>_ _. False) (s\<lparr>dv_world := w\<rparr>)" for w
  proof (rule wp_mono [OF wp_conj [OF keepsD [OF step_contract.frame [OF contract]] executes [OF acc _ h]]])
    show "ready start et b k (s\<lparr>dv_world := w\<rparr>)" using s(1) by (simp add: standing_def)
  qed (use s(1) cur in \<open>auto simp: standing_def elim!: step_frameE\<close>)
  then show ?thesis
    unfolding attempt_step_def utc_now_def wp by (auto dest: budget)
qed

lemma iteration_arrives:
  assumes acc: "accommodating X tc rc engines lc start et ec" and s: "standing start et b k s"
  shows "wpE (drive_iteration X RT_RESOURCE k)
    (\<lambda>r t. case r of None \<Rightarrow> arrived start et b t | Some n \<Rightarrow> standing start et b n t) (\<lambda>_ _. False) s"
proof -
  obtain h where h: "build_handlers tc rc engines lc k = Some h" by (cases k) auto
  have k: "k \<in> set (run_plan RT_RESOURCE)" "k = SN_CLOSE_TICKET \<Longrightarrow> \<not> b"
    using s by (cases k; auto simp: standing_def ready_def Let_def less_eq_step_name_def)+
  let ?R = "\<lambda>r t. case r of None \<Rightarrow> arrived start et b t | Some n \<Rightarrow> standing start et b n t"
  have attempt: "wpE (attempt_step X k h started)
     (\<lambda>x u. (x \<longrightarrow> wpE (finish_step X RT_RESOURCE k) ?R (\<lambda>_ _. False) u) \<and>
        (\<not> x \<longrightarrow> wpE (schedule X (h_poll_interval h)) (\<lambda>_. arrived start et b) (\<lambda>_ _. False) u))
     (\<lambda>e u. (is_rejected e \<longrightarrow> F e u) \<and> (\<not> is_rejected e \<longrightarrow> G e u)) (t\<lparr>dv_world := w\<rparr>)"
    if t: "standing start et b k t" "start \<le> started" "run_current_step (dv_run t) = Some (step_value k)"
    for started t w F G
  proof (rule wp_mono [OF attempt_arrives [OF acc _ t(2) h]])
    show "standing start et b k (t\<lparr>dv_world := w\<rparr>)" using t(1) by (simp add: standing_def)
    show "run_current_step (dv_run (t\<lparr>dv_world := w\<rparr>)) = Some (step_value k)" using t(3) by simp
    fix x and u :: "'a drive"
    assume u: "run_status (dv_run u) = RS_RUNNING \<and> run_run_type (dv_run u) = RT_RESOURCE \<and>
       run_current_step (dv_run u) = Some (step_value k) \<and>
       (if b \<and> k = SN_RUN_ENGINE then \<not> x \<and> ready start et False k u
       else x \<and> (\<forall>n. next_step (run_plan RT_RESOURCE) k = Inr (Some n) \<longrightarrow> ready start et b n u) \<and>
         (k = SN_CLOSE_TICKET \<longrightarrow> st_ticket_closed (run_run_state (dv_run u)) \<and>
            st_resource_finalized (run_run_state (dv_run u))))"
    show "(x \<longrightarrow> wpE (finish_step X RT_RESOURCE k) ?R (\<lambda>_ _. False) u) \<and>
        (\<not> x \<longrightarrow> wpE (schedule X (h_poll_interval h)) (\<lambda>_. arrived start et b) (\<lambda>_ _. False) u)"
    proof (cases "b \<and> k = SN_RUN_ENGINE")
      case True
      then have "standing start et False SN_RUN_ENGINE u" using u by (simp add: standing_def)
      then show ?thesis using True u by (simp add: schedule_arrives [OF acc])
    next
      case False
      with u k show ?thesis by (auto intro!: finish_arrives [OF acc])
    qed
  qed simp
  have s': "standing start et b k (s\<lparr>dv_run := (dv_run s)\<lparr>run_current_step := Some (step_value k)\<rparr>\<rparr>)"
    using s by (simp add: standing_def)
  show ?thesis
    unfolding drive_iteration_def wp handlers [OF acc] h option.case sum.case wp_upd_run
    by (rule wp_mono [OF start_ready [OF acc s']]) (simp_all add: utc_now_def wp attempt)
qed

lemma loop_arrives:
  "accommodating X tc rc engines lc start et ec \<Longrightarrow> standing start et b k s \<Longrightarrow>
  wpE (drive_loop X RT_RESOURCE k) (\<lambda>_. arrived start et b) (\<lambda>_ _. False) s"
  by (rule drive_loop_rule [where I = "standing start et b"]) (simp_all add: iteration_arrives)

lemma drive_arrives:
  assumes acc: "accommodating X tc rc engines lc start et ec" and "first_step (dv_run s) = Inr k" and "ready start et b k s" and "run_run_type (dv_run s) = RT_RESOURCE"
  shows "\<exists>t. drive_run X s = (Inr (), t) \<and> arrived start et b t"
proof -
  have "ready start et b k (s\<lparr>dv_run := (dv_run s)\<lparr>run_status := RS_RUNNING, run_current_step := c\<rparr>\<rparr>)" for c
    using assms(3) by (simp add: ready_def)
  then have "wpE (drive_run X) (\<lambda>_. arrived start et b) (\<lambda>_ _. False) s"
    unfolding drive_run_def wp using assms by (simp add: loop_arrives [OF acc] standing_def)
  then show ?thesis by (auto simp: wpE_def split: prod.splits sum.splits)
qed

text \<open>From a fresh run to its engine run, and from there to the end.\<close>

lemma two_drives:
  assumes acc: "accommodating X tc rc engines lc start et ec" and "run_run_type (dv_run s) = RT_RESOURCE" and "run_current_step (dv_run s) = None"
    and "st = run_run_state (dv_run s)" and "st_resource st \<noteq> None"
    and "rw_engine_type (st_workflow st) = et" and "st_engine_run_id st = None"
    and "st_attempt_started_at st = None"
  shows "\<exists>t u. drive_run X s = (Inr (), t) \<and> drive_run X t = (Inr (), u) \<and>
    st_engine_run_id (run_run_state (dv_run t)) \<noteq> None \<and> arrived start et False u"
proof -
  have "ready start et True SN_CREATE_TICKET s" "first_step (dv_run s) = Inr SN_CREATE_TICKET"
    using assms by (simp_all add: ready_def less_eq_step_name_def less_step_name_def first_step_def Let_def)
  with assms(2) obtain t where t: "drive_run X s = (Inr (), t)" "arrived start et True t"
    using drive_arrives [OF acc] by blast
  then have "ready start et False SN_RUN_ENGINE t" "run_current_step (dv_run t) = Some (step_value SN_RUN_ENGINE)"
    "run_run_type (dv_run t) = RT_RESOURCE" "st_engine_run_id (run_run_state (dv_run t)) \<noteq> None"
    by (auto simp: arrived_def ready_def Let_def)
  moreover from this(2) have "first_step (dv_run t) = Inr SN_RUN_ENGINE"
    unfolding first_step_def option.case by (simp del: step_value.simps)
  ultimately have "ready start et False SN_RUN_ENGINE t" "first_step (dv_run t) = Inr SN_RUN_ENGINE"
    "run_run_type (dv_run t) = RT_RESOURCE" "st_engine_run_id (run_run_state (dv_run t)) \<noteq> None"
    by simp_all
  with t(1) show ?thesis using drive_arrives [OF acc, of t SN_RUN_ENGINE False] by blast
qed

section \<open>The property\<close>

text \<open>C10. A resource run completes: with accommodating providers, one drive of a fresh run brings it to
  its triggered engine run without a failure, and one more drive, the engine run having succeeded,
  leaves it \<open>COMPLETED\<close> and unscheduled with its resource finalized and its ticket closed.\<close>

theorem resource_run_completes:
  assumes "accommodating (build_executor tc rc engines lc runs clk base team) tc rc engines lc start et ec"
    and "run_run_type (dv_run s) = RT_RESOURCE" and "run_current_step (dv_run s) = None"
    and "st = run_run_state (dv_run s)" and "st_resource st \<noteq> None"
    and "rw_engine_type (st_workflow st) = et" and "st_engine_run_id st = None"
    and "st_attempt_started_at st = None"
  shows "\<exists>t u. drive_run (build_executor tc rc engines lc runs clk base team) s = (Inr (), t) \<and>
    st_engine_run_id (run_run_state (dv_run t)) \<noteq> None \<and>
    drive_run (build_executor tc rc engines lc runs clk base team) t = (Inr (), u) \<and>
    run_status (dv_run u) = RS_COMPLETED \<and> run_scheduled_at (dv_run u) = None \<and>
    st_resource_finalized (run_run_state (dv_run u)) \<and> st_ticket_closed (run_run_state (dv_run u))"
  using two_drives [OF assms] by (fastforce simp: arrived_def)

lemma sample_accommodating:
  "accommodating (executor_of AP_APPROVED eligible_result (sample_engine ER_SUCCESS no_engine_failure) run1)
     (sample_tickets AP_APPROVED) (sample_resources eligible_result)
     (engines_of (sample_engine ER_SUCCESS no_engine_failure)) sample_legacy 0 WE_AIRFLOW
     (sample_engine ER_SUCCESS no_engine_failure)"
  by (simp add: accommodating_def executor_of_def sample_tickets_def sample_resources_def engines_of_def
      sample_engine_def store_of_def sample_clock_def answers_def eligible_result_def seconds_def)

lemma resource_run_completes_witness:
  "\<exists>u. run_status (dv_run u) = RS_COMPLETED \<and>
     u = snd (drive_run (executor_of AP_APPROVED eligible_result (sample_engine ER_SUCCESS no_engine_failure) run1)
        (snd (drive_run (executor_of AP_APPROVED eligible_result (sample_engine ER_SUCCESS no_engine_failure) run1)
          (drive_of run1))))"
  using resource_run_completes [OF sample_accommodating [unfolded executor_of_def], of "drive_of run1",
      OF _ _ refl]
  by (auto simp: executor_of_def drive_of_def run1_def new_run_state_def workflow1_def)

end
