(* ===== verification/Step_Properties.thy ===== *)
theory Step_Properties
  imports Samples
begin

text \<open>
  What single steps promise: doing them twice is doing them once, the keys they hand to providers
  never clash, and what finalizing a resource writes, on each branch.
\<close>



text \<open>C12. No two pieces of work share an idempotency key: a step's key determines its run and the step,
  an engine key its run and the attempt, and the two kinds of key never meet, so that a provider that
  deduplicates on them never answers one piece of work with the result of another.\<close>

theorem call_keys_distinct:
  "(idem_key r a = idem_key q b) = (run_id r = run_id q \<and> a = b) \<and>
   (engine_run_key r = engine_run_key q) = (run_id r = run_id q \<and> engine_attempt r = engine_attempt q) \<and>
   engine_run_key r \<noteq> idem_key q b"
  by (simp add: idem_key_inject engine_run_key_inject engine_run_key_not_idem_key)

section \<open>Finalizing\<close>

definition rekeyed :: "run_state \<Rightarrow> resource_spec \<Rightarrow> resource_spec" where
  "rekeyed st r = (case reported_vendor_id st r of None \<Rightarrow> r | Some v \<Rightarrow> r\<lparr>rs_vendor_id := v\<rparr>)"

lemma finalize_fields_vendor:
  "map_of (finalize_fields run r) ''vendor_id'' = map_option JStr (reported_vendor_id (run_run_state run) r)"
  by (auto simp: finalize_fields_eq described_fields_def split: option.split)

lemma finalize_write:
  assumes "st = run_run_state (dv_run s)" and "st_resource st = Some r"
    and "\<not> st_resource_finalized st" and "st_operation st \<noteq> RO_DELETE"
    and "fs = finalize_fields (dv_run s) r"
    and "rc_update_resource rc (rs_project_id r) (rs_resource_type r) (rs_vendor_id r) fs (dv_world s) = (res, w)"
  shows "finalize_resource_execute rc s =
    (let s' = s\<lparr>dv_world := w, dv_trace := dv_trace s @
       [Ev_update_resource (rs_project_id r) (rs_resource_type r) (rs_vendor_id r) fs res]\<rparr> in
     case res of
       Inl e \<Rightarrow> (Inl e, s')
     | Inr _ \<Rightarrow> (Inr True, s'\<lparr>dv_run := (dv_run s)\<lparr>run_run_state :=
         st\<lparr>st_resource := Some (rekeyed st r), st_resource_finalized := True\<rparr>\<rparr>\<rparr>))"
  using assms finalize_fields_vendor [of "dv_run s" r]
  by (cases "reported_vendor_id st r")
     (auto simp: finalize_resource_execute_def set_resource_def rekeyed_def eff_basic drive_basic Let_def
       split: sum.split)

text \<open>C13. Finalizing a create or an update is one write: the record becomes \<open>READY\<close> and not in
  progress, an update also carries every described field of the request and who made it, and when the
  engine reported another vendor id than the record has, the record is moved to it and the run follows.
  The run counts as finalized exactly when the write was accepted.\<close>

theorem finalize_writes_once:
  assumes "st = run_run_state (dv_run s)" and "st_resource st = Some r"
    and "\<not> st_resource_finalized st" and "st_operation st \<noteq> RO_DELETE"
    and "fs = [(''state'', JStr ''READY''), (''in_progress'', JBool False)] @
      (if st_operation st = RO_UPDATE
       then described_fields r @ [(''last_modified_by'', JStr (run_created_by (dv_run s)))] else []) @
      (case reported_vendor_id st r of None \<Rightarrow> [] | Some v \<Rightarrow> [(''vendor_id'', JStr v)])"
    and "rc_update_resource rc (rs_project_id r) (rs_resource_type r) (rs_vendor_id r) fs (dv_world s) = (res, w)"
  shows "finalize_resource_execute rc s =
    (let s' = s\<lparr>dv_world := w, dv_trace := dv_trace s @
       [Ev_update_resource (rs_project_id r) (rs_resource_type r) (rs_vendor_id r) fs res]\<rparr> in
     case res of
       Inl e \<Rightarrow> (Inl e, s')
     | Inr _ \<Rightarrow> (Inr True, s'\<lparr>dv_run := (dv_run s)\<lparr>run_run_state :=
         st\<lparr>st_resource := Some (rekeyed st r), st_resource_finalized := True\<rparr>\<rparr>\<rparr>))"
  using assms by (intro finalize_write) (simp_all add: finalize_fields_eq)

lemma finalize_writes_once_witness:
  "fst (finalize_resource_execute (sample_resources eligible_result) (drive_of (run_at SN_FINALIZE_RESOURCE))) = Inr True"
  by (subst finalize_writes_once [OF refl _ _ _ refl, where r = resource1 and res = "Inr ()" and w = "()"])
     (simp_all add: sample_defs reported_vendor_id_def Let_def)

text \<open>A delete survives its own repetition: a record that is already gone when it is marked
  \<open>DELETED\<close> is deleted all the same, and the step succeeds as soon as the delete is accepted.\<close>

theorem finalize_delete_repeatable:
  assumes "st = run_run_state (dv_run s)" and "st_resource st = Some r"
    and "\<not> st_resource_finalized st" and "st_operation st = RO_DELETE"
    and "p = rs_project_id r" and "y = rs_resource_type r" and "v = rs_vendor_id r"
    and "rc_update_resource rc p y v [(''state'', JStr ''DELETED''), (''in_progress'', JBool False)] (dv_world s) = (res, w)"
    and "res = Inr () \<or> (\<exists>e. res = Inl e \<and> is_not_found e)"
    and "rc_delete_resource rc p y v w = (Inr (), w')"
  shows "\<exists>t. finalize_resource_execute rc s = (Inr True, t) \<and> st_resource_finalized (run_run_state (dv_run t)) \<and>
    dv_trace t = dv_trace s @ [Ev_update_resource p y v
      [(''state'', JStr ''DELETED''), (''in_progress'', JBool False)] res, Ev_delete_resource p y v (Inr ())]"
  using assms
  by (auto simp: finalize_resource_execute_def finalize_delete_def resource_state_fields_def in_flight_states_def
      eff_basic drive_basic Let_def)

definition deleting_run :: workflow_run where
  "deleting_run = (run_at SN_FINALIZE_RESOURCE)\<lparr>run_run_state :=
     (run_run_state (run_at SN_FINALIZE_RESOURCE))\<lparr>st_operation := RO_DELETE\<rparr>\<rparr>"

definition gone_resources :: "unit resource_client" where
  "gone_resources = (sample_resources eligible_result)
     \<lparr>rc_update_resource := (\<lambda>_ _ _ _. fails (ResourceNotFoundError ''no such record''))\<rparr>"

lemma finalize_delete_repeatable_witness:
  "\<exists>t. finalize_resource_execute gone_resources (drive_of deleting_run) = (Inr True, t)"
  using finalize_delete_repeatable [of _ "drive_of deleting_run" resource1 _ _ _ gone_resources, OF refl _ _ _ refl refl refl]
  by (auto simp: gone_resources_def deleting_run_def sample_defs)


text \<open>A provider that moves its one record: its state is the id the record lives under.\<close>

definition moving_resources :: "string resource_client" where
  "moving_resources = \<lparr>rc_create_resource = (\<lambda>_ _ _ _ w. (Inr None, w)),
     rc_validate_resource = (\<lambda>_ w. (Inr eligible_result, w)),
     rc_update_resource = (\<lambda>_ _ v fs w. if v \<noteq> w then (Inl (ResourceNotFoundError ''no such record''), w)
       else (Inr (), case map_of fs ''vendor_id'' of Some (JStr v') \<Rightarrow> v' | _ \<Rightarrow> w)),
     rc_delete_resource = (\<lambda>_ _ _ w. (Inr (), w))\<rparr>"

definition created_run :: workflow_run where
  "created_run = (run_at SN_FINALIZE_RESOURCE)\<lparr>run_run_state :=
     (run_run_state (run_at SN_FINALIZE_RESOURCE))
       \<lparr>st_step_results := [(SN_RUN_ENGINE, \<lparr>sr_final_vendor_id = Some ''vm-9''\<rparr>)]\<rparr>\<rparr>"


end
