(* ===== verification/Run_Store.thy ===== *)
theory Run_Store
  imports Domain "HOL-Library.List_Lexorder" "HOL-Library.Char_ord"
begin

text \<open>
  The run repository of \<open>src/orchestrator/adapters/database.py\<close> over a table of rows, and the laws its
  clients rely on as the locale \<open>run_repository\<close>. Each method is one transaction: a function of the
  time \<open>utcnow()\<close> read in it and of the table, which returns its result or exception and the table.
  \<^item> \<open>FOR UPDATE\<close> serialises the transactions on a row; \<open>SKIP LOCKED\<close> passes over the rows locked by
    other transactions, a set of ids here.
  \<^item> SQL leaves the order of equal keys open; here the order of insertion decides.
  \<^item> \<open>run_state #>> '{a,b}'\<close> is the text at a path of the serialised state, NULL when the path leads
    nowhere or to null; comparing with NULL selects nothing.
\<close>

section \<open>The table\<close>

record database =
  db_runs :: "workflow_run list"
  db_workflows :: "workflow list"

definition find_run :: "uuid \<Rightarrow> database \<Rightarrow> workflow_run option" where
  "find_run rid db = List.find (\<lambda>r. run_id r = rid) (db_runs db)"

definition update_rows :: "(workflow_run \<Rightarrow> bool) \<Rightarrow> (workflow_run \<Rightarrow> workflow_run) \<Rightarrow> database \<Rightarrow> database" where
  "update_rows P f db = db\<lparr>db_runs := map (\<lambda>r. if P r then f r else r) (db_runs db)\<rparr>"

text \<open>The text of an int in an f-string.\<close>

definition str_int :: "int \<Rightarrow> string" where
  "str_int i = (if i < 0 then ''-'' @ str_nat (nat (- i)) else str_nat (nat i))"

section \<open>Operations\<close>

definition run_create :: "workflow_run \<Rightarrow> database \<Rightarrow> (exn + workflow_run) \<times> database" where
  "run_create run db = (case find_run (run_id run) db of
     Some _ \<Rightarrow> (Inl (OtherError ''IntegrityError'' []), db)
   | None \<Rightarrow> (Inr run, db\<lparr>db_runs := db_runs db @ [run]\<rparr>))"

definition run_get :: "uuid \<Rightarrow> database \<Rightarrow> (exn + workflow_run option) \<times> database" where
  "run_get rid db = (Inr (find_run rid db), db)"

text \<open>What \<open>save\<close> writes into the row it read back: the mutable fields.\<close>

definition stored :: "datetime \<Rightarrow> workflow_run \<Rightarrow> workflow_run \<Rightarrow> workflow_run" where
  "stored now run row = row\<lparr>run_status := run_status run, run_current_step := run_current_step run,
     run_scheduled_at := run_scheduled_at run, run_updated_at := now,
     run_version := run_version run + 1, run_run_state := run_run_state run\<rparr>"

definition run_save :: "datetime \<Rightarrow> workflow_run \<Rightarrow> database \<Rightarrow> (exn + int) \<times> database" where
  "run_save now run db = (case find_run (run_id run) db of
     None \<Rightarrow> (Inl (StaleRunError (''Run '' @ run_id run @ '' no longer exists'')), db)
   | Some row \<Rightarrow>
       if run_version row \<noteq> run_version run then
         (Inl (StaleRunError (''Run '' @ run_id run @ '' changed concurrently (db v'' @
            str_int (run_version row) @ '' != v'' @ str_int (run_version run) @ '')'')), db)
       else (Inr (run_version run + 1),
         update_rows (\<lambda>r. run_id r = run_id run) (stored now run) db))"

definition due :: "datetime \<Rightarrow> workflow_run \<Rightarrow> bool" where
  "due now r \<longleftrightarrow> (case run_scheduled_at r of None \<Rightarrow> False | Some t \<Rightarrow> t \<le> now)"

definition due_rows :: "datetime \<Rightarrow> uuid set \<Rightarrow> nat \<Rightarrow> database \<Rightarrow> workflow_run list" where
  "due_rows now locked limit db =
     take limit (sort_key (\<lambda>r. the (run_scheduled_at r))
       (filter (\<lambda>r. due now r \<and> run_id r \<notin> locked) (db_runs db)))"

definition claim_due :: "datetime \<Rightarrow> uuid set \<Rightarrow> nat \<Rightarrow> timedelta \<Rightarrow> database \<Rightarrow> uuid list \<times> database" where
  "claim_due now locked limit lease db =
     (let ids = map run_id (due_rows now locked limit db) in
      (ids, update_rows (\<lambda>r. run_id r \<in> set ids)
         (\<lambda>r. r\<lparr>run_scheduled_at := Some (now + lease), run_updated_at := now\<rparr>) db))"

definition wakeable :: "uuid \<Rightarrow> workflow_run \<Rightarrow> bool" where
  "wakeable rid r \<longleftrightarrow> run_id r = rid \<and> run_status r \<in> {RS_PENDING, RS_RUNNING}"

definition wake :: "datetime \<Rightarrow> uuid \<Rightarrow> database \<Rightarrow> bool \<times> database" where
  "wake now rid db =
     (filter (wakeable rid) (db_runs db) \<noteq> [],
      update_rows (wakeable rid) (\<lambda>r. r\<lparr>run_scheduled_at := Some now, run_updated_at := now\<rparr>) db)"

definition newest_first :: "workflow_run list \<Rightarrow> workflow_run list" where
  "newest_first rs = sort_key (\<lambda>r. - run_created_at r) rs"

definition list_recent :: "nat \<Rightarrow> database \<Rightarrow> workflow_run list" where
  "list_recent limit db = take limit (newest_first (db_runs db))"

text \<open>The texts at the three paths.\<close>

definition path_ticket_id :: "workflow_run \<Rightarrow> string option" where
  "path_ticket_id r = map_option tr_ticket_id (st_ticket (run_run_state r))"

definition path_vendor_id :: "workflow_run \<Rightarrow> string option" where
  "path_vendor_id r = map_option rs_vendor_id (st_resource (run_run_state r))"

definition path_resource_id :: "workflow_run \<Rightarrow> string option" where
  "path_resource_id r = map_option rs_resource_id (st_resource (run_run_state r))"

definition path_engine_run_id :: "workflow_run \<Rightarrow> string option" where
  "path_engine_run_id r = st_engine_run_id (run_run_state r)"

definition find_by_path :: "(workflow_run \<Rightarrow> string option) \<Rightarrow> string \<Rightarrow> database \<Rightarrow> workflow_run list" where
  "find_by_path path v db = filter (\<lambda>r. path r = Some v) (db_runs db)"

definition find_by_ticket_id :: "string \<Rightarrow> database \<Rightarrow> workflow_run list" where
  "find_by_ticket_id = find_by_path path_ticket_id"

definition find_by_vendor_id :: "string \<Rightarrow> database \<Rightarrow> workflow_run list" where
  "find_by_vendor_id = find_by_path path_vendor_id"

definition find_by_engine_run_id :: "string \<Rightarrow> database \<Rightarrow> workflow_run list" where
  "find_by_engine_run_id = find_by_path path_engine_run_id"

definition find_last_by_resource_id :: "string \<Rightarrow> database \<Rightarrow> workflow_run option" where
  "find_last_by_resource_id v db =
     (case newest_first (find_by_path path_resource_id v db) of [] \<Rightarrow> None | r # _ \<Rightarrow> Some r)"

text \<open>\<open>DISTINCT ON (f)\<close>: the first row of each group of adjacent rows with equal \<open>f\<close>.\<close>

function distinct_on :: "('a \<Rightarrow> 'b) \<Rightarrow> 'a list \<Rightarrow> 'a list" where
  "distinct_on f [] = []"
| "distinct_on f (x # xs) = x # distinct_on f (dropWhile (\<lambda>y. f y = f x) xs)"
  by pat_completeness auto
termination
  by (relation "measure (\<lambda>(f, xs). length xs)") (simp_all add: le_imp_less_Suc length_dropWhile_le)

definition find_last_by_resource_ids :: "string list \<Rightarrow> database \<Rightarrow> workflow_run list" where
  "find_last_by_resource_ids ids db =
     (if ids = [] then []
      else distinct_on path_resource_id
        (sort_key (\<lambda>r. the (path_resource_id r)) (newest_first
          (filter (\<lambda>r. path_resource_id r \<in> Some ` set ids) (db_runs db)))))"

subsection \<open>The workflow registry\<close>

definition find_workflow :: "string \<Rightarrow> database \<Rightarrow> workflow option" where
  "find_workflow identifier db = List.find (\<lambda>w. wf_identifier w = identifier) (db_workflows db)"

definition wf_register :: "workflow \<Rightarrow> database \<Rightarrow> (exn + workflow) \<times> database" where
  "wf_register w db = (case find_workflow (wf_identifier w) db of
     Some _ \<Rightarrow> (Inl (WorkflowAlreadyExistsError (wf_identifier w)), db)
   | None \<Rightarrow> (Inr w, db\<lparr>db_workflows := db_workflows db @ [w]\<rparr>))"

definition wf_get :: "string \<Rightarrow> database \<Rightarrow> workflow option" where
  "wf_get = find_workflow"

definition wf_overwrite :: "workflow \<Rightarrow> workflow \<Rightarrow> workflow" where
  "wf_overwrite w row = row\<lparr>wf_name := wf_name w, wf_run_type := wf_run_type w,
     wf_engine_type := wf_engine_type w, wf_automation_id := wf_automation_id w,
     wf_ticket_template_id := wf_ticket_template_id w\<rparr>"

definition wf_update :: "workflow \<Rightarrow> database \<Rightarrow> workflow option \<times> database" where
  "wf_update w db = (case find_workflow (wf_identifier w) db of
     None \<Rightarrow> (None, db)
   | Some row \<Rightarrow> (Some (wf_overwrite w row),
       db\<lparr>db_workflows := map (\<lambda>x. if wf_identifier x = wf_identifier w then wf_overwrite w x else x)
         (db_workflows db)\<rparr>))"

definition wf_list :: "database \<Rightarrow> workflow list" where
  "wf_list = db_workflows"

section \<open>Rows\<close>

text \<open>The primary key: no two rows share a run id.\<close>

definition unique_ids :: "database \<Rightarrow> bool" where
  "unique_ids db \<longleftrightarrow> distinct (map run_id (db_runs db))"

lemma find_run_Some: "find_run rid db = Some r \<Longrightarrow> r \<in> set (db_runs db) \<and> run_id r = rid"
  by (auto simp: find_run_def find_Some_iff)

lemma find_run_None: "find_run rid db = None \<longleftrightarrow> (\<forall>r \<in> set (db_runs db). run_id r \<noteq> rid)"
  by (auto simp: find_run_def find_None_iff)

lemma find_run_member:
  assumes "unique_ids db" and "r \<in> set (db_runs db)"
  shows "find_run (run_id r) db = Some r"
proof -
  obtain r' where r': "find_run (run_id r) db = Some r'"
    using assms(2) find_run_None [of "run_id r" db] by fastforce
  then have "r' \<in> set (db_runs db)" "run_id r' = run_id r" by (auto dest: find_run_Some)
  with assms r' show ?thesis
    unfolding unique_ids_def by (metis distinct_map inj_onD)
qed

lemma find_run_iff: "unique_ids db \<Longrightarrow> find_run rid db = Some r \<longleftrightarrow> r \<in> set (db_runs db) \<and> run_id r = rid"
  using find_run_Some find_run_member by blast

lemma update_rows_ids:
  assumes "\<And>r. run_id (f r) = run_id r"
  shows "map run_id (db_runs (update_rows P f db)) = map run_id (db_runs db)"
  by (simp add: update_rows_def assms comp_def if_distrib cong: if_cong)

lemma update_rows_unique [simp]:
  "(\<And>r. run_id (f r) = run_id r) \<Longrightarrow> unique_ids (update_rows P f db) = unique_ids db"
  by (simp add: unique_ids_def update_rows_ids)

lemma find_run_update [simp]:
  assumes "\<And>r. run_id (f r) = run_id r"
  shows "find_run rid (update_rows P f db) = map_option (\<lambda>r. if P r then f r else r) (find_run rid db)"
proof -
  have "List.find (\<lambda>r. run_id r = rid) (map (\<lambda>r. if P r then f r else r) rows) =
      map_option (\<lambda>r. if P r then f r else r) (List.find (\<lambda>r. run_id r = rid) rows)" for rows
    by (induction rows) (auto simp: assms)
  then show ?thesis by (simp add: find_run_def update_rows_def)
qed

lemma find_run_create [simp]:
  "find_run rid (db\<lparr>db_runs := db_runs db @ [run]\<rparr>) =
     (case find_run rid db of Some r \<Rightarrow> Some r | None \<Rightarrow> if run_id run = rid then Some run else None)"
proof -
  have "List.find P (xs @ [x]) = (case List.find P xs of Some r \<Rightarrow> Some r | None \<Rightarrow> if P x then Some x else None)"
    for P :: "workflow_run \<Rightarrow> bool" and xs x
    by (induction xs) auto
  then show ?thesis by (simp add: find_run_def)
qed

lemma stored_simps [simp]:
  "run_id (stored now run row) = run_id row" "run_version (stored now run row) = run_version run + 1"
  "run_status (stored now run row) = run_status run"
  "run_scheduled_at (stored now run row) = run_scheduled_at run"
  "run_current_step (stored now run row) = run_current_step run"
  "run_run_state (stored now run row) = run_run_state run"
  "run_run_type (stored now run row) = run_run_type row"
  by (simp_all add: stored_def)

lemma update_rows_find: "(\<And>r. run_id (f r) = run_id r) \<Longrightarrow>
  db_runs (update_rows P f db) = map (\<lambda>r. if P r then f r else r) (db_runs db)"
  by (simp add: update_rows_def)

section \<open>The laws of a run repository\<close>

text \<open>
  What the executor and the services rely on, for any store \<open>'s\<close>: reads see what was written, a save
  is accepted exactly when its version is the row's, and claiming and waking move only the time a
  run is due at.
\<close>

locale run_repository =
  fixes inv :: "'s \<Rightarrow> bool"
    and lookup :: "uuid \<Rightarrow> 's \<Rightarrow> workflow_run option"
    and create :: "workflow_run \<Rightarrow> 's \<Rightarrow> (exn + workflow_run) \<times> 's"
    and save_run :: "datetime \<Rightarrow> workflow_run \<Rightarrow> 's \<Rightarrow> (exn + int) \<times> 's"
    and claim :: "datetime \<Rightarrow> uuid set \<Rightarrow> nat \<Rightarrow> timedelta \<Rightarrow> 's \<Rightarrow> uuid list \<times> 's"
    and wake_run :: "datetime \<Rightarrow> uuid \<Rightarrow> 's \<Rightarrow> bool \<times> 's"
  assumes lookup_id: "lookup rid s = Some r \<Longrightarrow> run_id r = rid"
    and create_new: "inv s \<Longrightarrow> lookup (run_id r) s = None \<Longrightarrow>
      fst (create r s) = Inr r \<and> inv (snd (create r s)) \<and>
      lookup rid (snd (create r s)) = (if rid = run_id r then Some r else lookup rid s)"
    and create_dup: "inv s \<Longrightarrow> lookup (run_id r) s \<noteq> None \<Longrightarrow> \<exists>e. create r s = (Inl e, s)"
    and save_match: "inv s \<Longrightarrow> lookup (run_id r) s = Some row \<Longrightarrow> run_version row = run_version r \<Longrightarrow>
      fst (save_run now r s) = Inr (run_version r + 1) \<and> inv (snd (save_run now r s)) \<and>
      lookup rid (snd (save_run now r s)) = (if rid = run_id r then Some (stored now r row) else lookup rid s)"
    and save_stale: "inv s \<Longrightarrow> lookup (run_id r) s = None \<or>
        (\<exists>row. lookup (run_id r) s = Some row \<and> run_version row \<noteq> run_version r) \<Longrightarrow>
      \<exists>m. save_run now r s = (Inl (StaleRunError m), s)"
    and claim_laws: "inv s \<Longrightarrow> claim now locked limit lease s = (ids, s') \<Longrightarrow>
      inv s' \<and> length ids \<le> limit \<and> distinct ids \<and>
      (\<forall>rid \<in> set ids. rid \<notin> locked \<and> (\<exists>r. lookup rid s = Some r \<and> due now r)) \<and>
      (\<forall>rid. lookup rid s' = (if rid \<in> set ids
         then map_option (\<lambda>r. r\<lparr>run_scheduled_at := Some (now + lease), run_updated_at := now\<rparr>) (lookup rid s)
         else lookup rid s))"
    and wake_laws: "inv s \<Longrightarrow> wake_run now rid s = (woken, s') \<Longrightarrow>
      inv s' \<and> (woken \<longleftrightarrow> (\<exists>r. lookup rid s = Some r \<and> \<not> terminal_status (run_status r))) \<and>
      (\<forall>q. lookup q s' = (if q = rid \<and> woken
         then map_option (\<lambda>r. r\<lparr>run_scheduled_at := Some now, run_updated_at := now\<rparr>) (lookup q s)
         else lookup q s))"
begin

text \<open>Of two writers that loaded the same version the second loses and changes nothing.\<close>

lemma second_writer_loses:
  assumes "inv s" and "lookup (run_id a) s = Some row" and "run_version row = run_version a"
    and "run_id b = run_id a" and "run_version b = run_version a"
  shows "\<exists>m. save_run now' b (snd (save_run now a s)) = (Inl (StaleRunError m), snd (save_run now a s))"
  using save_match [OF assms(1-3), of now "run_id a"] assms(4,5)
  by (intro save_stale) auto

text \<open>A claimed run is not due again before its lease is over, whoever asks.\<close>

lemma lease_exclusive:
  assumes "inv s" and "claim now locked limit lease s = (ids, s')" and "rid \<in> set ids"
    and "now' < now + lease" and "claim now' locked' limit' lease' s' = (ids', s'')"
  shows "rid \<notin> set ids'"
proof
  assume "rid \<in> set ids'"
  then obtain r where "lookup rid s' = Some r" "due now' r"
    using claim_laws [OF conjunct1 [OF claim_laws [OF assms(1,2)]] assms(5)] by blast
  then show False
    using claim_laws [OF assms(1,2)] assms(3,4) by (fastforce simp: due_def)
qed

text \<open>A run with no time to be driven at is never claimed.\<close>

lemma unscheduled_unclaimed:
  assumes "inv s" and "claim now locked limit lease s = (ids, s')" and "lookup rid s = Some r"
    and "run_scheduled_at r = None"
  shows "rid \<notin> set ids"
  using claim_laws [OF assms(1,2)] assms(3,4) by (fastforce simp: due_def)

end

section \<open>The Postgres repository meets them\<close>

lemma due_rows_set: "r \<in> set (due_rows now locked limit db) \<Longrightarrow>
  r \<in> set (db_runs db) \<and> due now r \<and> run_id r \<notin> locked"
  unfolding due_rows_def by (auto dest!: in_set_takeD)

lemma due_rows_ids_distinct: "unique_ids db \<Longrightarrow> distinct (map run_id (due_rows now locked limit db))"
proof -
  assume u: "unique_ids db"
  have "inj_on run_id (set (db_runs db))" "distinct (db_runs db)"
    using u by (auto simp: unique_ids_def distinct_map)
  moreover have "set (due_rows now locked limit db) \<subseteq> set (db_runs db)" by (auto dest: due_rows_set)
  ultimately show ?thesis
    by (auto simp: distinct_map due_rows_def intro: inj_on_subset)
qed

lemma claim_laws_hold:
  assumes "unique_ids db" and "claim_due now locked limit lease db = (ids, db')"
  shows "unique_ids db' \<and> length ids \<le> limit \<and> distinct ids \<and>
    (\<forall>rid \<in> set ids. rid \<notin> locked \<and> (\<exists>r. find_run rid db = Some r \<and> due now r)) \<and>
    (\<forall>rid. find_run rid db' = (if rid \<in> set ids
       then map_option (\<lambda>r. r\<lparr>run_scheduled_at := Some (now + lease), run_updated_at := now\<rparr>) (find_run rid db)
       else find_run rid db))"
proof -
  from assms(2) have ids: "ids = map run_id (due_rows now locked limit db)"
    and db': "db' = update_rows (\<lambda>r. run_id r \<in> set ids)
         (\<lambda>r. r\<lparr>run_scheduled_at := Some (now + lease), run_updated_at := now\<rparr>) db"
    by (auto simp: claim_due_def Let_def)
  have "\<exists>r. find_run rid db = Some r \<and> due now r \<and> rid \<notin> locked" if "rid \<in> set ids" for rid
    using that due_rows_set find_run_member [OF assms(1)] unfolding ids by fastforce
  moreover have "find_run rid db' = (if rid \<in> set ids
       then map_option (\<lambda>r. r\<lparr>run_scheduled_at := Some (now + lease), run_updated_at := now\<rparr>) (find_run rid db)
       else find_run rid db)" for rid
    unfolding db' by (cases "find_run rid db") (auto dest: find_run_Some)
  moreover have "length ids \<le> limit" "distinct ids"
    using due_rows_ids_distinct [OF assms(1)] by (simp_all add: ids due_rows_def)
  moreover have "unique_ids db'" unfolding db' using assms(1) by simp
  ultimately show ?thesis by blast
qed

lemma wakeable_status: "wakeable rid r \<longleftrightarrow> run_id r = rid \<and> \<not> terminal_status (run_status r)"
  by (cases "run_status r") (auto simp: wakeable_def)

lemma wake_laws_hold:
  assumes "unique_ids db" and "wake now rid db = (woken, db')"
  shows "unique_ids db' \<and> (woken \<longleftrightarrow> (\<exists>r. find_run rid db = Some r \<and> \<not> terminal_status (run_status r))) \<and>
    (\<forall>q. find_run q db' = (if q = rid \<and> woken
       then map_option (\<lambda>r. r\<lparr>run_scheduled_at := Some now, run_updated_at := now\<rparr>) (find_run q db)
       else find_run q db))"
proof -
  from assms(2) have w: "woken = (filter (wakeable rid) (db_runs db) \<noteq> [])"
    and db': "db' = update_rows (wakeable rid) (\<lambda>r. r\<lparr>run_scheduled_at := Some now, run_updated_at := now\<rparr>) db"
    by (auto simp: wake_def)
  have woken: "woken \<longleftrightarrow> (\<exists>r. find_run rid db = Some r \<and> \<not> terminal_status (run_status r))"
    unfolding w by (auto simp: filter_empty_conv wakeable_status find_run_iff [OF assms(1)])
  have "find_run q db' = (if q = rid \<and> woken
       then map_option (\<lambda>r. r\<lparr>run_scheduled_at := Some now, run_updated_at := now\<rparr>) (find_run q db)
       else find_run q db)" for q
    unfolding db' woken by (cases "find_run q db") (auto simp: wakeable_status dest: find_run_Some)
  moreover have "unique_ids db'" unfolding db' using assms(1) by simp
  ultimately show ?thesis using woken by blast
qed

lemma save_match_holds:
  assumes "unique_ids db" and "find_run (run_id r) db = Some row" and "run_version row = run_version r"
  shows "fst (run_save now r db) = Inr (run_version r + 1) \<and> unique_ids (snd (run_save now r db)) \<and>
    find_run rid (snd (run_save now r db)) = (if rid = run_id r then Some (stored now r row) else find_run rid db)"
proof -
  have "run_save now r db = (Inr (run_version r + 1), update_rows (\<lambda>x. run_id x = run_id r) (stored now r) db)"
    using assms by (simp add: run_save_def)
  then show ?thesis
    using assms by (cases "find_run rid db") (auto dest: find_run_Some)
qed

interpretation postgres: run_repository unique_ids find_run run_create run_save claim_due wake
proof (rule run_repository.intro)
  fix r and s :: database and rid
  show "find_run rid s = Some r \<Longrightarrow> run_id r = rid" by (auto dest: find_run_Some)
  show "unique_ids s \<Longrightarrow> find_run (run_id r) s = None \<Longrightarrow>
      fst (run_create r s) = Inr r \<and> unique_ids (snd (run_create r s)) \<and>
      find_run rid (snd (run_create r s)) = (if rid = run_id r then Some r else find_run rid s)"
  proof -
    assume u: "unique_ids s" and n: "find_run (run_id r) s = None"
    then have "unique_ids (s\<lparr>db_runs := db_runs s @ [r]\<rparr>)"
      by (auto simp: unique_ids_def find_run_None)
    with n show ?thesis
      by (auto simp: run_create_def split: option.split)
  qed
  show "unique_ids s \<Longrightarrow> find_run (run_id r) s \<noteq> None \<Longrightarrow> \<exists>e. run_create r s = (Inl e, s)"
    by (auto simp: run_create_def)
  show "\<exists>m. run_save now r s = (Inl (StaleRunError m), s)"
    if "unique_ids s" "find_run (run_id r) s = None \<or>
        (\<exists>row. find_run (run_id r) s = Some row \<and> run_version row \<noteq> run_version r)" for now
    using that(2) by (auto simp: run_save_def)
qed (use save_match_holds claim_laws_hold wake_laws_hold in blast)+

section \<open>The newest run of a record\<close>

lemma dropWhile_sorted_group:
  assumes "sorted (map g (x # xs))"
  shows "dropWhile (\<lambda>y. g y = g x) xs = filter (\<lambda>y. g y \<noteq> g x) xs"
  using assms
proof (induction xs)
  case (Cons a xs)
  show ?case
  proof (cases "g a = g x")
    case False
    with Cons.prems have "\<forall>y \<in> set xs. g y \<noteq> g x" by auto
    then show ?thesis using False by simp
  qed (use Cons in auto)
qed simp

text \<open>On a list sorted by its groups, \<open>DISTINCT ON\<close> keeps the first of each.\<close>

lemma distinct_on_sorted:
  assumes "sorted (map g xs)"
  shows "r \<in> set (distinct_on g xs) \<longleftrightarrow> r \<in> set xs \<and> hd (filter (\<lambda>y. g y = g r) xs) = r"
  using assms
proof (induction g xs rule: distinct_on.induct)
  case (2 g x xs)
  let ?ys = "filter (\<lambda>y. g y \<noteq> g x) xs"
  have drop: "dropWhile (\<lambda>y. g y = g x) xs = ?ys"
    by (rule dropWhile_sorted_group) (rule 2(2))
  have "sorted (map g ?ys)" using 2(2) by (simp add: sorted_filter)
  then have IH: "r \<in> set (distinct_on g ?ys) \<longleftrightarrow> r \<in> set ?ys \<and> hd (filter (\<lambda>y. g y = g r) ?ys) = r"
    using 2(1) by (simp add: drop)
  have same: "filter (\<lambda>y. g y = g r) ?ys = filter (\<lambda>y. g y = g r) xs" if "g r \<noteq> g x"
    using that by (auto intro: filter_cong)
  show ?case
    using IH same by (cases "g r = g x") (auto simp: drop)
qed simp

lemma distinct_on_cong:
  assumes "\<And>x y. x \<in> set xs \<Longrightarrow> y \<in> set xs \<Longrightarrow> f x = f y \<longleftrightarrow> g x = g y"
  shows "distinct_on f xs = distinct_on g xs"
  using assms
proof (induction f xs rule: distinct_on.induct)
  case (2 f x xs)
  have "dropWhile (\<lambda>y. f y = f x) xs = dropWhile (\<lambda>y. g y = g x) xs"
    by (rule dropWhile_cong) (simp_all add: 2(2))
  moreover have "distinct_on f (dropWhile (\<lambda>y. f y = f x) xs) = distinct_on g (dropWhile (\<lambda>y. f y = f x) xs)"
    by (rule 2(1), rule 2(2)) (auto dest!: set_dropWhileD)
  ultimately show ?case by simp
qed simp

text \<open>The batch query gives for each of the ids what the single one gives for it.\<close>

lemma find_last_by_resource_ids_iff:
  "r \<in> set (find_last_by_resource_ids ids db) \<longleftrightarrow> (\<exists>v \<in> set ids. find_last_by_resource_id v db = Some r)"
proof -
  let ?L = "newest_first (filter (\<lambda>r. path_resource_id r \<in> Some ` set ids) (db_runs db))"
  let ?g = "\<lambda>r. the (path_resource_id r)"
  let ?S = "sort_key ?g ?L"
  have some: "path_resource_id y = Some (?g y) \<and> ?g y \<in> set ids" if "y \<in> set ?S" for y
    using that by (auto simp: newest_first_def)
  have "distinct_on path_resource_id ?S = distinct_on ?g ?S"
    by (rule distinct_on_cong) (metis some option.inject)
  then have members: "r \<in> set (distinct_on path_resource_id ?S) \<longleftrightarrow>
      r \<in> set ?S \<and> hd (filter (\<lambda>y. ?g y = ?g r) ?S) = r"
    using distinct_on_sorted [of ?g ?S] by simp
  have group: "filter (\<lambda>y. ?g y = v) ?S = newest_first (find_by_path path_resource_id v db)" if "v \<in> set ids" for v
  proof -
    have "filter (\<lambda>y. ?g y = v) ?S = filter (\<lambda>y. ?g y = v) ?L" by (rule sort_key_stable)
    also have "\<dots> = newest_first (filter (\<lambda>y. ?g y = v)
        (filter (\<lambda>r. path_resource_id r \<in> Some ` set ids) (db_runs db)))"
      by (simp add: newest_first_def filter_sort del: filter_filter)
    also have "filter (\<lambda>y. ?g y = v) (filter (\<lambda>r. path_resource_id r \<in> Some ` set ids) (db_runs db)) =
        find_by_path path_resource_id v db"
      using that by (auto simp: find_by_path_def intro!: filter_cong)
    finally show ?thesis .
  qed
  have "r \<in> set ?S \<and> hd (filter (\<lambda>y. ?g y = ?g r) ?S) = r \<longleftrightarrow>
      (\<exists>v \<in> set ids. find_last_by_resource_id v db = Some r)" (is "?lhs \<longleftrightarrow> ?rhs")
  proof
    assume l: ?lhs
    then have v: "?g r \<in> set ids" and "r \<in> set (filter (\<lambda>y. ?g y = ?g r) ?S)" using some by auto
    then have "newest_first (find_by_path path_resource_id (?g r) db) \<noteq> []"
        "hd (newest_first (find_by_path path_resource_id (?g r) db)) = r"
      using group [OF v] l by (auto simp: filter_empty_conv)
    then show ?rhs
      using v by (intro bexI [OF _ v]) (auto simp: find_last_by_resource_id_def neq_Nil_conv)
  next
    assume ?rhs
    then obtain v where v: "v \<in> set ids" "find_last_by_resource_id v db = Some r" by blast
    from v(2) obtain rest where "newest_first (find_by_path path_resource_id v db) = r # rest"
      by (cases "newest_first (find_by_path path_resource_id v db)") (auto simp: find_last_by_resource_id_def)
    with v(1) have f: "filter (\<lambda>y. ?g y = v) ?S = r # rest" using group by simp
    have "r \<in> set (filter (\<lambda>y. ?g y = v) ?S)" unfolding f by simp
    then have "r \<in> set ?S" "?g r = v" by simp_all
    with f show ?lhs by simp
  qed
  with members show ?thesis
    by (cases "ids = []") (simp_all add: find_last_by_resource_ids_def)
qed

end
