(* ===== verification/Services.thy ===== *)
theory Services
  imports Run_Store
begin

text \<open>
  The use cases of \<open>src/orchestrator/services.py\<close>, over the repositories of \<open>Run_Store\<close>. A use case
  is an effect on the database. What the code draws from its surroundings when it builds a
  \<open>WorkflowRun\<close> (the run id of \<open>uuid4\<close> and the three readings of \<open>utcnow\<close>) is the record \<open>fresh\<close>.
\<close>

record fresh =
  fr_run_id :: uuid
  fr_scheduled_at :: datetime
  fr_created_at :: datetime
  fr_updated_at :: datetime

text \<open>\<open>WorkflowRun(...)\<close>: the fields given, the others by their defaults.\<close>

definition new_run ::
  "fresh \<Rightarrow> run_type \<Rightarrow> string \<Rightarrow> string \<Rightarrow> int \<Rightarrow> run_state \<Rightarrow> workflow_run" where
  "new_run fr rt identifier created_by max_retries st =
     \<lparr>run_id = fr_run_id fr, run_run_type = rt, run_status = RS_PENDING, run_current_step = None,
      run_workflow_identifier = identifier, run_created_by = created_by,
      run_max_retries = max_retries, run_scheduled_at = Some (fr_scheduled_at fr),
      run_created_at = fr_created_at fr, run_updated_at = fr_updated_at fr, run_version = 1,
      run_run_state = st\<rparr>"

section \<open>Triggering a run\<close>

record trigger_args =
  ta_workflow_identifier :: string
  ta_created_by :: string
  ta_max_retries :: int
  ta_ticket_params :: payload
  ta_workflow_params :: payload
  ta_resource :: "resource_spec option"
  ta_operation :: resource_operation
  ta_ticket :: "ticket_ref option"

text \<open>The checks that precede the creation of the run.\<close>

definition check_resource :: "trigger_args \<Rightarrow> exn + unit" where
  "check_resource a = (case ta_resource a of
     None \<Rightarrow> Inl (ResourceParamsRequired (ta_workflow_identifier a))
   | Some resource \<Rightarrow>
       if ta_operation a \<noteq> RO_CREATE \<and> rs_vendor_id resource = [] then
         Inl (ResourceVendorIdRequired (ta_workflow_identifier a))
       else if ta_operation a \<noteq> RO_CREATE \<and> rs_resource_id resource = [] then
         Inl (ResourceIdRequired (ta_workflow_identifier a))
       else Inr ())"

definition check_trigger :: "trigger_args \<Rightarrow> workflow \<Rightarrow> exn + unit" where
  "check_trigger a flow =
     (case (if wf_run_type flow = RT_RESOURCE then check_resource a else Inr ()) of
        Inl e \<Rightarrow> Inl e
      | Inr _ \<Rightarrow>
          if wf_run_type flow = RT_AUTOMATION \<and> ta_ticket a = None then
            Inl (TicketRefRequired (ta_workflow_identifier a))
          else Inr ())"

definition trigger_state :: "trigger_args \<Rightarrow> workflow \<Rightarrow> run_state" where
  "trigger_state a flow =
     (new_run_state \<lparr>rw_identifier = wf_identifier flow, rw_name = wf_name flow,
        rw_engine_type = wf_engine_type flow, rw_automation_id = wf_automation_id flow,
        rw_ticket_template_id = wf_ticket_template_id flow\<rparr>)
     \<lparr>st_ticket_params := ta_ticket_params a, st_workflow_params := ta_workflow_params a,
      st_resource := (if wf_run_type flow = RT_RESOURCE then ta_resource a else None),
      st_operation := ta_operation a,
      st_ticket := (if wf_run_type flow = RT_AUTOMATION then ta_ticket a else None)\<rparr>"

definition trigger :: "fresh \<Rightarrow> trigger_args \<Rightarrow> (database, exn, workflow_run) eff" where
  "trigger fr a =
     bindE getS (\<lambda>db.
     case wf_get (ta_workflow_identifier a) db of
       None \<Rightarrow> raise (UnknownWorkflowError (ta_workflow_identifier a))
     | Some flow \<Rightarrow>
         bindE (liftE (check_trigger a flow)) (\<lambda>_.
         run_create (new_run fr (wf_run_type flow) (wf_identifier flow) (ta_created_by a)
           (ta_max_retries a) (trigger_state a flow))))"

definition legacy_state :: "legacy_request \<Rightarrow> run_state" where
  "legacy_state request =
     (new_run_state \<lparr>rw_identifier = lr_flow_type request, rw_name = None,
        rw_engine_type = WE_LEGACY, rw_automation_id = lr_flow_type request,
        rw_ticket_template_id = []\<rparr>)\<lparr>st_legacy := Some request\<rparr>"

definition trigger_legacy ::
  "fresh \<Rightarrow> legacy_request \<Rightarrow> string \<Rightarrow> int \<Rightarrow> (database, exn, workflow_run) eff" where
  "trigger_legacy fr request created_by max_retries =
     run_create (new_run fr RT_LEGACY (lr_flow_type request) created_by max_retries (legacy_state request))"

section \<open>Waking runs early\<close>

text \<open>\<open>_wake_all\<close>: one \<open>wake\<close> per run, each its own transaction at a time of its own.\<close>

fun wake_all :: "(nat \<Rightarrow> datetime) \<Rightarrow> workflow_run list \<Rightarrow> database \<Rightarrow> nat \<times> database" where
  "wake_all now [] db = (0, db)"
| "wake_all now (r # rs) db =
     (let (woken, db') = wake (now 0) (run_id r) db;
          (n, db'') = wake_all (\<lambda>i. now (Suc i)) rs db'
      in (if woken then Suc n else n, db''))"

definition wake_by_ticket :: "(nat \<Rightarrow> datetime) \<Rightarrow> string \<Rightarrow> database \<Rightarrow> nat \<times> database" where
  "wake_by_ticket now ticket_id db = wake_all now (find_by_ticket_id ticket_id db) db"

definition wake_by_engine_run :: "(nat \<Rightarrow> datetime) \<Rightarrow> string \<Rightarrow> database \<Rightarrow> nat \<times> database" where
  "wake_by_engine_run now engine_run_id db = wake_all now (find_by_engine_run_id engine_run_id db) db"

section \<open>What a trigger creates\<close>

text \<open>A run its plan can work on: the handlers' assertions on what the trigger put in place hold.\<close>

definition run_equipped :: "workflow_run \<Rightarrow> bool" where
  "run_equipped r \<longleftrightarrow> (let st = run_run_state r in
     (run_run_type r = RT_RESOURCE \<longrightarrow> st_resource st \<noteq> None \<and> st_ticket st = None \<and>
        (st_operation st \<noteq> RO_CREATE \<longrightarrow> (\<forall>x. st_resource st = Some x \<longrightarrow>
           rs_vendor_id x \<noteq> [] \<and> rs_resource_id x \<noteq> []))) \<and>
     (run_run_type r = RT_AUTOMATION \<longrightarrow> st_ticket st \<noteq> None \<and> st_resource st = None) \<and>
     (run_run_type r = RT_LEGACY \<longrightarrow> st_legacy st \<noteq> None))"

lemma trigger_result:
  "trigger fr a db = (case wf_get (ta_workflow_identifier a) db of
     None \<Rightarrow> (Inl (UnknownWorkflowError (ta_workflow_identifier a)), db)
   | Some flow \<Rightarrow> (case check_trigger a flow of
       Inl e \<Rightarrow> (Inl e, db)
     | Inr _ \<Rightarrow> run_create (new_run fr (wf_run_type flow) (wf_identifier flow) (ta_created_by a)
           (ta_max_retries a) (trigger_state a flow)) db))"
  by (auto simp: trigger_def eff_basic split: option.split sum.split)

lemma run_create_cases:
  "run_create run db = (if find_run (run_id run) db = None
     then (Inr run, db\<lparr>db_runs := db_runs db @ [run]\<rparr>)
     else (Inl (OtherError ''IntegrityError'' []), db))"
  by (auto simp: run_create_def split: option.split)

lemma check_trigger_ok:
  assumes "check_trigger a flow = Inr u" and "wf_run_type flow \<noteq> RT_LEGACY"
  shows "run_equipped (new_run fr (wf_run_type flow) (wf_identifier flow) c m (trigger_state a flow))"
  using assms
  by (cases "wf_run_type flow")
     (auto simp: check_trigger_def check_resource_def run_equipped_def new_run_def trigger_state_def
       new_run_state_def Let_def split: option.splits if_splits)

text \<open>Waking a list of runs: what it counts, and all it changes.\<close>

definition woken_to :: "(uuid \<Rightarrow> datetime) \<Rightarrow> uuid set \<Rightarrow> database \<Rightarrow> database \<Rightarrow> bool" where
  "woken_to at ids db db' \<longleftrightarrow> (\<forall>q. find_run q db' = map_option (\<lambda>r.
     if q \<in> ids \<and> \<not> terminal_status (run_status r)
     then r\<lparr>run_scheduled_at := Some (at q), run_updated_at := at q\<rparr> else r) (find_run q db))"

lemma wake_all_spec:
  assumes "unique_ids db" and "distinct (map run_id rs)" and "\<forall>r \<in> set rs. \<exists>x. find_run (run_id r) db = Some x \<and> run_status x = run_status r"
  shows "unique_ids (snd (wake_all now rs db)) \<and>
    fst (wake_all now rs db) = length (filter (\<lambda>r. \<not> terminal_status (run_status r)) rs) \<and>
    (\<exists>at. (\<forall>q. at q \<in> range now) \<and> woken_to at (run_id ` set rs) db (snd (wake_all now rs db)))"
  using assms
proof (induction rs arbitrary: now db)
  case Nil
  have "woken_to (\<lambda>_. now 0) {} db db" by (auto simp: woken_to_def option.map_ident)
  with Nil show ?case by (auto intro!: exI [of _ "\<lambda>_. now 0"])
next
  case (Cons r rs)
  obtain woken db1 where w: "wake (now 0) (run_id r) db = (woken, db1)" by fastforce
  note law = postgres.wake_laws [OF Cons.prems(1) w]
  have woken: "woken \<longleftrightarrow> \<not> terminal_status (run_status r)" using law Cons.prems(3) by fastforce
  have look: "find_run q db1 = (if q = run_id r \<and> woken
       then map_option (\<lambda>r. r\<lparr>run_scheduled_at := Some (now 0), run_updated_at := now 0\<rparr>) (find_run q db)
       else find_run q db)" for q
    using law by blast
  have "\<forall>x \<in> set rs. \<exists>y. find_run (run_id x) db1 = Some y \<and> run_status y = run_status x"
    using Cons.prems(2,3) by (fastforce simp: look)
  with Cons.IH [of db1 "\<lambda>i. now (Suc i)"] law Cons.prems(2) obtain at where
    IH: "unique_ids (snd (wake_all (\<lambda>i. now (Suc i)) rs db1))"
      "fst (wake_all (\<lambda>i. now (Suc i)) rs db1) = length (filter (\<lambda>r. \<not> terminal_status (run_status r)) rs)"
      "\<forall>q. at q \<in> range (\<lambda>i. now (Suc i))"
      "woken_to at (run_id ` set rs) db1 (snd (wake_all (\<lambda>i. now (Suc i)) rs db1))"
    by auto
  let ?at = "at(run_id r := now 0)"
  have "woken_to ?at (run_id ` set (r # rs)) db (snd (wake_all now (r # rs) db))"
    unfolding woken_to_def
  proof
    fix q
    show "find_run q (snd (wake_all now (r # rs) db)) = map_option (\<lambda>x.
      if q \<in> run_id ` set (r # rs) \<and> \<not> terminal_status (run_status x)
      then x\<lparr>run_scheduled_at := Some (?at q), run_updated_at := ?at q\<rparr> else x) (find_run q db)"
      using IH(4) Cons.prems(2,3) woken
      by (cases "find_run q db") (auto simp: woken_to_def w look split: prod.split)
  qed
  moreover have "\<forall>q. ?at q \<in> range now" using IH(3) by auto
  ultimately have "\<exists>at. (\<forall>q. at q \<in> range now) \<and>
      woken_to at (run_id ` set (r # rs)) db (snd (wake_all now (r # rs) db))" by blast
  moreover have "fst (wake_all now (r # rs) db) = length (filter (\<lambda>r. \<not> terminal_status (run_status r)) (r # rs))"
    using IH(2) woken by (auto simp: w split: prod.split)
  moreover have "unique_ids (snd (wake_all now (r # rs) db))"
    using IH(1) by (auto simp: w split: prod.split)
  ultimately show ?case by blast
qed

lemma find_by_path_rows:
  assumes "unique_ids db"
  shows "distinct (map run_id (find_by_path path v db))"
    and "\<forall>r \<in> set (find_by_path path v db). find_run (run_id r) db = Some r"
  using assms find_run_member [OF assms]
  by (auto simp: find_by_path_def unique_ids_def distinct_map intro: inj_on_subset)

end
