(* ===== verification/Api.thy ===== *)
theory Api
  imports Services
begin

text \<open>
  The HTTP surface: \<open>src/orchestrator/api.py\<close>, the API keys of \<open>auth.py\<close> and \<open>config.py\<close>. A route is a
  function of the request and of the database; an \<open>HTTPException\<close> is a value with its status code and
  detail. FastAPI's parsing of requests and rendering of responses is not modelled, but the bounds
  the request models declare are.
\<close>

section \<open>API keys\<close>

text \<open>\<open>Settings.api_keys\<close>: the keys that are set and not empty.\<close>

definition api_keys :: "string option \<Rightarrow> string option \<Rightarrow> string option \<Rightarrow> (string, string) dict" where
  "api_keys ui portal servicenow =
     map (\<lambda>(c, k). (c, the k)) (filter (\<lambda>(c, k). k \<noteq> None \<and> k \<noteq> Some [])
       [(''ui'', ui), (''portal'', portal), (''servicenow'', servicenow)])"

definition auth_enabled :: "(string, string) dict \<Rightarrow> bool" where
  "auth_enabled keys \<longleftrightarrow> keys \<noteq> []"

definition identify :: "(string, string) dict \<Rightarrow> string option \<Rightarrow> string option" where
  "identify keys presented = (case presented of
     None \<Rightarrow> None
   | Some candidate \<Rightarrow> if candidate = [] then None
       else fold (\<lambda>(client, key) matched. if candidate = key then Some client else matched) keys None)"

record http_error =
  he_status :: nat
  he_detail :: string

definition http :: "nat \<Rightarrow> string \<Rightarrow> http_error" where
  "http code detail = \<lparr>he_status = code, he_detail = detail\<rparr>"

definition require_api_key :: "(string, string) dict \<Rightarrow> string option \<Rightarrow> http_error + unit" where
  "require_api_key keys api_key =
     (if \<not> auth_enabled keys then Inr ()
      else if identify keys api_key = None then Inl (http 401 ''Missing or invalid API key.'')
      else Inr ())"

section \<open>Record ids in a query string\<close>

definition max_batch_resource_ids :: nat where
  "max_batch_resource_ids = 200"

fun collect_ids :: "string list \<Rightarrow> string list \<Rightarrow> string list" where
  "collect_ids seen [] = seen"
| "collect_ids seen (part # parts) =
     (let record_id = strip part in
      collect_ids (if record_id \<noteq> [] \<and> record_id \<notin> set seen then seen @ [record_id] else seen) parts)"

definition parse_resource_ids :: "string \<Rightarrow> http_error + string list" where
  "parse_resource_ids raw =
     (let ids = collect_ids [] (split_on (CHR '','') raw) in
      if ids = [] then Inl (http 422 ''resource_id must carry at least one record id.'')
      else if length ids > max_batch_resource_ids then
        Inl (http 422 (''resource_id carries '' @ str_nat (length ids) @ '' record ids; at most '' @
          str_nat max_batch_resource_ids @ '' per request.''))
      else Inr ids)"

section \<open>The summary of a run\<close>

record run_summary_includes =
  si_resource_data :: bool
  si_ticket_data :: bool
  si_engine_data :: bool
  si_steps_data :: bool

text \<open>The opt-in sections are absent (\<open>None\<close>) unless asked for.\<close>

record resource_run_summary =
  sm_run_id :: uuid
  sm_resource_id :: string
  sm_status :: run_status
  sm_current_step :: "string option"
  sm_operation :: resource_operation
  sm_created_by :: string
  sm_created_at :: datetime
  sm_updated_at :: datetime
  sm_ticket_id :: "string option"
  sm_incident_id :: "string option"
  sm_failure_detail :: "string option"
  sm_resource_data :: "payload option"
  sm_ticket :: "ticket_ref option option"
  sm_engine_run_id :: "string option option"
  sm_steps_started_at :: "(step_name, datetime) dict option"

definition failure_detail :: "run_state \<Rightarrow> string option" where
  "failure_detail st =
     (let detail = (case st_engine_failure st of
          None \<Rightarrow> None
        | Some f \<Rightarrow> (case ef_detail f of None \<Rightarrow> None | Some d \<Rightarrow> if d = [] then None else Some d))
      in if detail = None \<and> st_errors st \<noteq> [] then Some (snd (last (st_errors st))) else detail)"

definition summarize_run :: "run_summary_includes \<Rightarrow> workflow_run \<Rightarrow> resource_run_summary" where
  "summarize_run includes run = (let st = run_run_state run in
     \<lparr>sm_run_id = run_id run,
      sm_resource_id = (case st_resource st of None \<Rightarrow> [] | Some r \<Rightarrow> rs_resource_id r),
      sm_status = run_status run, sm_current_step = run_current_step run,
      sm_operation = st_operation st, sm_created_by = run_created_by run,
      sm_created_at = run_created_at run, sm_updated_at = run_updated_at run,
      sm_ticket_id = map_option tr_ticket_id (st_ticket st), sm_incident_id = st_incident_id st,
      sm_failure_detail = failure_detail st,
      sm_resource_data = (if si_resource_data includes
         then Some (case st_resource st of None \<Rightarrow> [] | Some r \<Rightarrow> rs_data r) else None),
      sm_ticket = (if si_ticket_data includes then Some (st_ticket st) else None),
      sm_engine_run_id = (if si_engine_data includes then Some (st_engine_run_id st) else None),
      sm_steps_started_at = (if si_steps_data includes
         then Some (sort_key snd (st_step_started_at st)) else None)\<rparr>)"

section \<open>Request models\<close>

text \<open>The bounds FastAPI enforces before a route runs.\<close>

definition trigger_request_ok :: "trigger_args \<Rightarrow> bool" where
  "trigger_request_ok a \<longleftrightarrow> length (ta_created_by a) \<le> 255 \<and> 0 \<le> ta_max_retries a \<and> ta_max_retries a \<le> 10"

record legacy_run_request =
  lq_flow_type :: string
  lq_created_by :: string
  lq_max_retries :: int
  lq_project_id :: "string option"
  lq_resource_type :: "string option"
  lq_variables :: payload
  lq_db_operation :: string
  lq_name :: string
  lq_region :: string

definition to_domain :: "legacy_run_request \<Rightarrow> legacy_request" where
  "to_domain q = \<lparr>lr_flow_type = lq_flow_type q, lr_project_id = lq_project_id q,
     lr_resource_type = lq_resource_type q, lr_variables = lq_variables q,
     lr_db_operation = lq_db_operation q, lr_name = lq_name q, lr_region = lq_region q\<rparr>"

record workflow_request =
  wq_run_type :: run_type
  wq_engine_type :: workflow_engine_type
  wq_automation_id :: string
  wq_ticket_template_id :: string
  wq_name :: "string option"

text \<open>\<open>Workflow(identifier=..., ...)\<close> with a fresh id and creation time.\<close>

definition workflow_of :: "uuid \<Rightarrow> datetime \<Rightarrow> string \<Rightarrow> workflow_request \<Rightarrow> workflow" where
  "workflow_of i now identifier q = \<lparr>wf_workflow_id = i, wf_identifier = identifier,
     wf_name = wq_name q, wf_run_type = wq_run_type q, wf_engine_type = wq_engine_type q,
     wf_automation_id = wq_automation_id q, wf_ticket_template_id = wq_ticket_template_id q,
     wf_created_at = now\<rparr>"

section \<open>Routes\<close>

definition quoted :: "string \<Rightarrow> string" where
  "quoted s = quote_char @ s @ quote_char"

text \<open>An exception a route does not name leaves it and is answered 500 by the framework.\<close>

definition server_error :: "exn \<Rightarrow> http_error" where
  "server_error e = http 500 ''Internal Server Error''"

definition register_workflow ::
  "uuid \<Rightarrow> datetime \<Rightarrow> string \<Rightarrow> workflow_request \<Rightarrow> (database, http_error, workflow) eff" where
  "register_workflow i now identifier q =
     catchE (wf_register (workflow_of i now identifier q)) (\<lambda>e. case e of
       WorkflowAlreadyExistsError _ \<Rightarrow>
         raise (http 409 (''Workflow '' @ quoted identifier @ '' is already registered.''))
     | _ \<Rightarrow> raise (server_error e))"

definition list_workflows :: "database \<Rightarrow> workflow list" where
  "list_workflows = wf_list"

definition get_workflow :: "string \<Rightarrow> (database, http_error, workflow) eff" where
  "get_workflow identifier = bindE getS (\<lambda>db. case wf_get identifier db of
     None \<Rightarrow> raise (http 404 (''Workflow '' @ quoted identifier @ '' not found.''))
   | Some w \<Rightarrow> ret w)"

definition update_workflow ::
  "uuid \<Rightarrow> datetime \<Rightarrow> string \<Rightarrow> workflow_request \<Rightarrow> (database, http_error, workflow) eff" where
  "update_workflow i now identifier q =
     bindE (\<lambda>db. case wf_update (workflow_of i now identifier q) db of (w, db') \<Rightarrow> (Inr w, db')) (\<lambda>updated.
     case updated of
       None \<Rightarrow> raise (http 404 (''Workflow '' @ quoted identifier @ '' not found.''))
     | Some w \<Rightarrow> ret w)"

definition em_dash :: string where
  "em_dash = [CHR 0xE2, CHR 0x80, CHR 0x94]"

definition trigger_error :: "trigger_args \<Rightarrow> exn \<Rightarrow> http_error" where
  "trigger_error a e = (case e of
     UnknownWorkflowError _ \<Rightarrow> http 404 (''Unknown workflow '' @ quoted (ta_workflow_identifier a) @ ''.'')
   | ResourceParamsRequired _ \<Rightarrow> http 422 ''resource is required for a resource workflow.''
   | ResourceVendorIdRequired _ \<Rightarrow> http 422 (''resource.vendor_id is required for a '' @
       operation_value (ta_operation a) @ '' operation '' @ em_dash @ '' it names the record to act on.'')
   | ResourceIdRequired _ \<Rightarrow> http 422 (''resource.resource_id is required for a '' @
       operation_value (ta_operation a) @ '' operation '' @ em_dash @
       '' it names the resource manager record to act on.'')
   | TicketRefRequired _ \<Rightarrow> http 422 ''ticket is required for an automation workflow.''
   | _ \<Rightarrow> server_error e)"

definition trigger_workflow_run :: "fresh \<Rightarrow> trigger_args \<Rightarrow> (database, http_error, workflow_run) eff" where
  "trigger_workflow_run fr a = catchE (trigger fr a) (\<lambda>e. raise (trigger_error a e))"

definition trigger_legacy_run ::
  "fresh \<Rightarrow> legacy_run_request \<Rightarrow> (database, http_error, workflow_run) eff" where
  "trigger_legacy_run fr q =
     catchE (trigger_legacy fr (to_domain q) (lq_created_by q) (lq_max_retries q))
       (\<lambda>e. raise (server_error e))"

definition get_latest_resource_run ::
  "string \<Rightarrow> run_summary_includes \<Rightarrow> database \<Rightarrow> http_error + resource_run_summary" where
  "get_latest_resource_run resource_id includes db = (case find_last_by_resource_id resource_id db of
     None \<Rightarrow> Inl (http 404 (''No runs for resource record '' @ quoted resource_id @ ''.''))
   | Some run \<Rightarrow> Inr (summarize_run includes run))"

definition by_record :: "workflow_run list \<Rightarrow> (string, workflow_run) dict" where
  "by_record runs = fold (\<lambda>run d. case st_resource (run_run_state run) of
     None \<Rightarrow> d | Some r \<Rightarrow> dset d (rs_resource_id r) run) runs []"

definition get_latest_resource_runs ::
  "string \<Rightarrow> run_summary_includes \<Rightarrow> database \<Rightarrow> http_error + resource_run_summary list" where
  "get_latest_resource_runs raw includes db = (case parse_resource_ids raw of
     Inl e \<Rightarrow> Inl e
   | Inr ids \<Rightarrow>
       (let d = by_record (find_last_by_resource_ids ids db) in
        Inr (map (summarize_run includes) (List.map_filter (map_of d) ids))))"

definition get_workflow_run :: "uuid \<Rightarrow> database \<Rightarrow> http_error + workflow_run" where
  "get_workflow_run rid db = (case find_run rid db of
     None \<Rightarrow> Inl (http 404 (''Run '' @ rid @ '' not found.''))
   | Some run \<Rightarrow> Inr run)"

definition given :: "string option \<Rightarrow> bool" where
  "given x \<longleftrightarrow> x \<noteq> None \<and> x \<noteq> Some []"

definition list_workflow_runs :: "string option \<Rightarrow> string option \<Rightarrow> database \<Rightarrow> workflow_run list" where
  "list_workflow_runs ticket_id vendor_id db =
     (if given ticket_id then find_by_ticket_id (the ticket_id) db
      else if given vendor_id then find_by_vendor_id (the vendor_id) db
      else list_recent 200 db)"

definition ticket_approval_callback :: "(nat \<Rightarrow> datetime) \<Rightarrow> string \<Rightarrow> database \<Rightarrow> nat \<times> database" where
  "ticket_approval_callback = wake_by_ticket"

definition engine_run_callback :: "(nat \<Rightarrow> datetime) \<Rightarrow> string \<Rightarrow> database \<Rightarrow> nat \<times> database" where
  "engine_run_callback = wake_by_engine_run"

definition healthz :: string where
  "healthz = ''ok''"

definition readyz :: "exn + unit \<Rightarrow> http_error + string" where
  "readyz ping = (case ping of Inl _ \<Rightarrow> Inl (http 503 ''run store unreachable'') | Inr _ \<Rightarrow> Inr ''ready'')"

end
