(* ===== verification/Service_Properties.thy ===== *)
theory Service_Properties
  imports Api Samples
begin

text \<open>
  The properties of the run store, of the use cases and of the HTTP surface.
\<close>

section \<open>A database to try them on\<close>

definition workflow_row :: "run_type \<Rightarrow> workflow" where
  "workflow_row rt = \<lparr>wf_workflow_id = ''w1'', wf_identifier = ''vm'', wf_name = None, wf_run_type = rt,
     wf_engine_type = WE_AIRFLOW, wf_automation_id = ''provision_vm'', wf_ticket_template_id = ''cat1'',
     wf_created_at = 0\<rparr>"

definition sample_db :: database where
  "sample_db = \<lparr>db_runs = [run1, run1\<lparr>run_id := ''r2'', run_created_at := 5, run_scheduled_at := Some 3\<rparr>],
     db_workflows = [workflow_row RT_RESOURCE]\<rparr>"

lemma sample_db_unique: "unique_ids sample_db"
  by (simp add: unique_ids_def sample_db_def run1_def)

lemma sample_db_find: "find_run ''r1'' sample_db = Some run1"
  by (simp add: find_run_def sample_db_def run1_def)

section \<open>The run store\<close>

text \<open>C23. No update is lost: of two writers that loaded the same version of a run, the first to save
  bumps the version and the second raises \<open>StaleRunError\<close> and leaves the table as the first left it.\<close>

theorem second_save_loses:
  assumes "unique_ids db" and "find_run (run_id a) db = Some row" and "run_version row = run_version a"
    and "run_id b = run_id a" and "run_version b = run_version a"
  shows "\<exists>m db'. run_save now a db = (Inr (run_version a + 1), db') \<and>
    find_run (run_id a) db' = Some (stored now a row) \<and>
    run_save now' b db' = (Inl (StaleRunError m), db')"
  using postgres.second_writer_loses [OF assms, of now' now]
    postgres.save_match [OF assms(1-3), of now "run_id a"]
  by (cases "run_save now a db") auto

lemma second_save_loses_witness:
  "\<exists>m db'. run_save 9 run1 sample_db = (Inr 1, db') \<and>
     run_save 10 (run1\<lparr>run_status := RS_FAILED\<rparr>) db' = (Inl (StaleRunError m), db')"
  using second_save_loses [of sample_db run1 run1 "run1\<lparr>run_status := RS_FAILED\<rparr>" 9 10]
    sample_db_unique sample_db_find
  by (auto simp: run1_def)

text \<open>C24. What a claim takes: at most \<open>limit\<close> runs, each due and locked by nobody, the ones due
  longest; it takes all of them when fewer than \<open>limit\<close> are there; and all it changes is when the
  claimed ones are due next, which is the end of their lease.\<close>

theorem claim_due_correct:
  assumes "unique_ids db" and "claim_due now locked limit lease db = (ids, db')"
    and "free = {r \<in> set (db_runs db). due now r \<and> run_id r \<notin> locked}"
  shows "set ids \<subseteq> run_id ` free \<and> length ids \<le> limit \<and> distinct ids \<and>
    (length ids < limit \<longrightarrow> set ids = run_id ` free) \<and>
    (\<forall>r \<in> free. \<forall>q \<in> free. run_id r \<in> set ids \<and> run_id q \<notin> set ids \<longrightarrow>
       the (run_scheduled_at r) \<le> the (run_scheduled_at q)) \<and>
    (\<forall>rid. find_run rid db' = (if rid \<in> set ids
       then map_option (\<lambda>r. r\<lparr>run_scheduled_at := Some (now + lease), run_updated_at := now\<rparr>) (find_run rid db)
       else find_run rid db))"
proof -
  let ?free = "filter (\<lambda>r. due now r \<and> run_id r \<notin> locked) (db_runs db)"
  let ?sorted = "sort_key (\<lambda>r. the (run_scheduled_at r)) ?free"
  have ids: "ids = map run_id (take limit ?sorted)"
    using assms(2) by (auto simp: claim_due_def due_rows_def Let_def)
  have free: "free = set ?sorted" using assms(3) by auto
  have inj: "r = q" if "run_id r = run_id q" "r \<in> set (db_runs db)" "q \<in> set (db_runs db)" for r q
    using that assms(1) unfolding unique_ids_def by (metis distinct_map inj_onD)
  have "the (run_scheduled_at r) \<le> the (run_scheduled_at q)"
    if rq: "r \<in> free" "q \<in> free" "run_id r \<in> set ids" "run_id q \<notin> set ids" for r q
  proof -
    obtain r' where r': "r' \<in> set (take limit ?sorted)" "run_id r' = run_id r"
      using rq(3) unfolding ids by auto
    then have "r' = r" using rq(1) inj assms(3) by (auto dest: in_set_takeD)
    with r' have "r \<in> set (take limit ?sorted)" by simp
    moreover have "q \<in> set (take limit ?sorted) \<union> set (drop limit ?sorted)"
      using rq(2) unfolding free set_append [symmetric] append_take_drop_id .
    then have "q \<in> set (drop limit ?sorted)" using rq(4) unfolding ids by auto
    moreover have "sorted (map (\<lambda>r. the (run_scheduled_at r)) (take limit ?sorted @ drop limit ?sorted))"
      by simp
    ultimately show ?thesis by (auto simp: sorted_append simp del: append_take_drop_id)
  qed
  moreover have "set ids = run_id ` free" if "length ids < limit"
    using that unfolding ids free by simp
  moreover have "set ids \<subseteq> run_id ` free"
    unfolding ids free by (auto dest: in_set_takeD)
  ultimately show ?thesis
    using claim_laws_hold [OF assms(1,2)] by blast
qed

lemma claim_due_correct_witness:
  "fst (claim_due 10 {} 1 300 sample_db) = [''r1''] \<and>
     set (fst (claim_due 10 {} 1 300 sample_db)) \<subseteq> run_id ` {r \<in> set (db_runs sample_db). due 10 r \<and> run_id r \<notin> {}}"
proof
  show "fst (claim_due 10 {} 1 300 sample_db) = [''r1'']" by code_simp
  show "set (fst (claim_due 10 {} 1 300 sample_db)) \<subseteq>
      run_id ` {r \<in> set (db_runs sample_db). due 10 r \<and> run_id r \<notin> {}}"
    by (rule conjunct1 [OF claim_due_correct [OF sample_db_unique prod.collapse [symmetric] refl]])
qed

text \<open>A lease is exclusive: until it is over, no other claim returns the run, whatever it locks.\<close>

theorem lease_excludes:
  assumes "unique_ids db" and "claim_due now locked limit lease db = (ids, db')" and "rid \<in> set ids"
    and "now' < now + lease"
  shows "rid \<notin> set (fst (claim_due now' locked' limit' lease' db'))"
  using postgres.lease_exclusive [OF assms] by (cases "claim_due now' locked' limit' lease' db'") simp

lemma lease_excludes_witness:
  "''r1'' \<notin> set (fst (claim_due 200 {} 5 300 (snd (claim_due 10 {} 1 300 sample_db))))"
proof (rule lease_excludes [OF sample_db_unique prod.collapse [symmetric]])
  show "''r1'' \<in> set (fst (claim_due 10 {} 1 300 sample_db))" by code_simp
qed simp

section \<open>Use cases\<close>


definition fresh1 :: fresh where
  "fresh1 = \<lparr>fr_run_id = ''r9'', fr_scheduled_at = 1, fr_created_at = 1, fr_updated_at = 1\<rparr>"

definition trigger_args1 :: trigger_args where
  "trigger_args1 = \<lparr>ta_workflow_identifier = ''vm'', ta_created_by = ''ann'', ta_max_retries = 3,
     ta_ticket_params = [], ta_workflow_params = [], ta_resource = Some resource1,
     ta_operation = RO_UPDATE, ta_ticket = None\<rparr>"


text \<open>C26. A workflow registered with run type \<open>legacy\<close> slips through the checks: triggered like any
  other, without a resource and without a ticket, it creates a LEGACY run that carries no legacy
  request, and every attempt of its only step fails on the assertion that it has one.\<close>

theorem legacy_hole:
  assumes "find_workflow (ta_workflow_identifier a) db = Some flow" and "wf_run_type flow = RT_LEGACY"
    and "find_run (fr_run_id fr) db = None"
  shows "\<exists>r. trigger fr a db = (Inr r, db\<lparr>db_runs := db_runs db @ [r]\<rparr>) \<and> run_run_type r = RT_LEGACY \<and>
    (\<forall>lc s. run_run_state (dv_run s) = run_run_state r \<longrightarrow>
       submit_legacy_execute lc s = (Inl (AssertionError []), s))"
  using assms
  by (auto simp: trigger_result wf_get_def check_trigger_def run_create_cases new_run_def trigger_state_def
      new_run_state_def submit_legacy_execute_def eff_basic drive_basic Let_def)

lemma legacy_hole_witness:
  "\<exists>r. trigger fresh1 trigger_args1 (sample_db\<lparr>db_workflows := [workflow_row RT_LEGACY]\<rparr>) =
      (Inr r, sample_db\<lparr>db_workflows := [workflow_row RT_LEGACY], db_runs := db_runs sample_db @ [r]\<rparr>) \<and>
     run_run_type r = RT_LEGACY"
proof -
  let ?db = "sample_db\<lparr>db_workflows := [workflow_row RT_LEGACY]\<rparr>"
  have "find_workflow (ta_workflow_identifier trigger_args1) ?db = Some (workflow_row RT_LEGACY)"
    "wf_run_type (workflow_row RT_LEGACY) = RT_LEGACY" "find_run (fr_run_id fresh1) ?db = None"
    by (simp_all add: find_workflow_def trigger_args1_def workflow_row_def find_run_def sample_db_def fresh1_def run1_def)
  from legacy_hole [OF this] show ?thesis by (auto simp: sample_db_def)
qed

text \<open>A callback wakes every run that waits on the reference and nothing else: it reports how many
  were not terminal, each of them becomes due at a time read during the callback, and no row changes
  in any other way, so that a duplicate or a stray callback is harmless.\<close>

theorem callback_wakes:
  assumes "unique_ids db" and "at_path = find_by_ticket_id v \<and> cb = ticket_approval_callback \<or>
      at_path = find_by_engine_run_id v \<and> cb = engine_run_callback"
  shows "\<exists>at db'. cb now v db = (length (filter (\<lambda>r. \<not> terminal_status (run_status r)) (at_path db)), db') \<and>
    unique_ids db' \<and> (\<forall>q. at q \<in> range now) \<and>
    (\<forall>q. find_run q db' = map_option (\<lambda>r.
       if q \<in> run_id ` set (at_path db) \<and> \<not> terminal_status (run_status r)
       then r\<lparr>run_scheduled_at := Some (at q), run_updated_at := at q\<rparr> else r) (find_run q db))"
proof -
  obtain path where p: "at_path db = find_by_path path v db" "cb now v db = wake_all now (find_by_path path v db) db"
    using assms(2)
    by (auto simp: find_by_ticket_id_def find_by_engine_run_id_def ticket_approval_callback_def
        engine_run_callback_def wake_by_ticket_def wake_by_engine_run_def)
  from wake_all_spec [OF assms(1) find_by_path_rows(1) [OF assms(1)], of path v now]
    find_by_path_rows(2) [OF assms(1), of path v]
  show ?thesis
    unfolding p by (cases "wake_all now (find_by_path path v db) db") (auto simp: woken_to_def)
qed

lemma callback_wakes_witness:
  "\<exists>db'. ticket_approval_callback (\<lambda>_. 7) ''RITM1'' sample_db = (0, db')"
  using callback_wakes [of sample_db "find_by_ticket_id ''RITM1''" "''RITM1''" ticket_approval_callback "\<lambda>_. 7"]
    sample_db_unique
  by (auto simp: find_by_ticket_id_def find_by_path_def path_ticket_id_def sample_db_def run1_def new_run_state_def)

section \<open>The HTTP surface\<close>

lemma collect_ids_set: "set (collect_ids seen parts) = set seen \<union> (strip ` set parts - {[]})"
  by (induction seen parts rule: collect_ids.induct) (auto simp: Let_def)

lemma collect_ids_distinct: "distinct seen \<Longrightarrow> distinct (collect_ids seen parts)"
  by (induction seen parts rule: collect_ids.induct) (auto simp: Let_def)

text \<open>The ids of a batch query are the distinct non-blank parts of the parameter, trimmed; the
  query is refused with 422 exactly when there are none or more than 200 of them.\<close>

theorem parse_resource_ids_correct:
  "case parse_resource_ids raw of
     Inr ids \<Rightarrow> set ids = strip ` set (split_on (CHR '','') raw) - {[]} \<and> distinct ids \<and>
       0 < length ids \<and> length ids \<le> 200
   | Inl e \<Rightarrow> he_status e = 422 \<and>
       (let n = card (strip ` set (split_on (CHR '','') raw) - {[]}) in n = 0 \<or> 200 < n)"
proof -
  let ?ids = "collect_ids [] (split_on (CHR '','') raw)"
  have set: "set ?ids = strip ` set (split_on (CHR '','') raw) - {[]}" by (simp add: collect_ids_set)
  have dist: "distinct ?ids" by (rule collect_ids_distinct) simp
  have "card (strip ` set (split_on (CHR '','') raw) - {[]}) = length ?ids"
    using distinct_card [OF dist] unfolding set by simp
  then show ?thesis
    using set dist by (auto simp: parse_resource_ids_def max_batch_resource_ids_def http_def Let_def)
qed

lemma map_filter_cong': "(\<And>v. v \<in> set xs \<Longrightarrow> f v = g v) \<Longrightarrow> List.map_filter f xs = List.map_filter g xs"
  by (induction xs) (simp_all add: List.map_filter_simps split: option.split)

lemma identify_fold:
  "fold (\<lambda>(client, key) matched. if candidate = key then Some client else matched) keys m =
     (case filter (\<lambda>(c, k). k = candidate) keys of [] \<Rightarrow> m | _ \<Rightarrow> Some (fst (last (filter (\<lambda>(c, k). k = candidate) keys))))"
  by (induction keys arbitrary: m) (auto split: list.split)

text \<open>The gate of the versioned routes: a request passes exactly when no key is configured or the
  key it presents is one of the configured ones; an empty or missing key never passes a closed gate,
  and everything else is answered 401.\<close>

theorem api_key_gate:
  "case require_api_key keys presented of
     Inr _ \<Rightarrow> keys = [] \<or> (\<exists>k client. presented = Some k \<and> k \<noteq> [] \<and> (client, k) \<in> set keys \<and>
       identify keys presented \<noteq> None)
   | Inl e \<Rightarrow> he_status e = 401 \<and> keys \<noteq> [] \<and>
       (\<forall>k client. presented = Some k \<longrightarrow> k = [] \<or> (client, k) \<notin> set keys)"
  by (auto simp: require_api_key_def identify_def auth_enabled_def http_def identify_fold filter_empty_conv
      dest!: filter_eq_ConsD split: option.splits list.splits if_splits)

lemma api_key_gate_witness:
  "(\<exists>e. require_api_key (api_keys (Some ''k1'') None (Some [])) (Some ''k2'') = Inl e \<and> he_status e = 401) \<and>
   require_api_key (api_keys (Some ''k1'') None (Some [])) (Some ''k1'') = Inr ()"
proof -
  have "require_api_key (api_keys (Some ''k1'') None (Some [])) (Some ''k1'') = Inr ()"
    "isl (require_api_key (api_keys (Some ''k1'') None (Some [])) (Some ''k2''))" by code_simp+
  then show ?thesis
    using api_key_gate [of "api_keys (Some ''k1'') None (Some [])" "Some ''k2''"]
    by (auto simp: isl_def split: sum.splits)
qed

text \<open>C28. The batch route answers, in the order asked and without duplicates, what the single route
  answers for each of its ids; ids without a run are left out.\<close>

theorem latest_batch_matches_single:
  assumes "parse_resource_ids raw = Inr ids"
  shows "get_latest_resource_runs raw includes db =
    Inr (List.map_filter (\<lambda>v. case get_latest_resource_run v includes db of Inl _ \<Rightarrow> None | Inr s \<Rightarrow> Some s) ids)"
proof -
  let ?runs = "find_last_by_resource_ids ids db"
  have member: "r \<in> set ?runs \<longleftrightarrow> (\<exists>v \<in> set ids. find_last_by_resource_id v db = Some r)" for r
    by (rule find_last_by_resource_ids_iff)
  have path: "path_resource_id r = Some v" if "find_last_by_resource_id v db = Some r" for v r
  proof -
    from that have "r \<in> set (newest_first (find_by_path path_resource_id v db))"
      by (auto simp: find_last_by_resource_id_def split: list.splits)
    then show ?thesis by (simp add: newest_first_def find_by_path_def)
  qed
  have fold_by: "map_of (fold (\<lambda>run d. case st_resource (run_run_state run) of
     None \<Rightarrow> d | Some r \<Rightarrow> dset d (rs_resource_id r) run) runs d) v =
      (case filter (\<lambda>r. path_resource_id r = Some v) runs of [] \<Rightarrow> map_of d v
       | _ \<Rightarrow> Some (last (filter (\<lambda>r. path_resource_id r = Some v) runs)))" for runs d v
    by (induction runs arbitrary: d) (auto simp: path_resource_id_def split: option.split list.split)
  have "map_of (by_record ?runs) v = find_last_by_resource_id v db" if v: "v \<in> set ids" for v
  proof (cases "find_last_by_resource_id v db")
    case None
    then have "filter (\<lambda>r. path_resource_id r = Some v) ?runs = []"
      using member path by (fastforce simp: filter_empty_conv)
    then show ?thesis using None by (simp add: by_record_def fold_by)
  next
    case (Some r)
    let ?F = "filter (\<lambda>r. path_resource_id r = Some v) ?runs"
    have only: "x = r" if "x \<in> set ?runs" "path_resource_id x = Some v" for x
      using that member path Some by fastforce
    have "r \<in> set ?runs" using member v Some by blast
    then have "r \<in> set ?F" using path [OF Some] by simp
    then have nonempty: "?F \<noteq> []" by (metis empty_iff list.set(1))
    then have "last ?F \<in> set ?F" by (rule last_in_set)
    then have "last ?F = r" using only by simp
    moreover obtain y ys where "?F = y # ys" using nonempty by (cases ?F) auto
    ultimately show ?thesis using Some by (simp add: by_record_def fold_by)
  qed
  then have "List.map_filter (map_of (by_record ?runs)) ids =
      List.map_filter (\<lambda>v. find_last_by_resource_id v db) ids"
    by (rule map_filter_cong')
  moreover have "map (summarize_run includes) (List.map_filter (\<lambda>v. find_last_by_resource_id v db) ids) =
      List.map_filter (\<lambda>v. case get_latest_resource_run v includes db of Inl _ \<Rightarrow> None | Inr s \<Rightarrow> Some s) ids"
    by (induction ids) (simp_all add: List.map_filter_simps get_latest_resource_run_def split: option.split)
  ultimately show ?thesis
    unfolding get_latest_resource_runs_def assms sum.case Let_def by (simp only:)
qed

lemma latest_batch_matches_single_witness:
  "get_latest_resource_runs ''77, 12,77'' \<lparr>si_resource_data = False, si_ticket_data = False,
      si_engine_data = False, si_steps_data = False\<rparr> sample_db =
    Inr (List.map_filter (\<lambda>v. case get_latest_resource_run v \<lparr>si_resource_data = False,
        si_ticket_data = False, si_engine_data = False, si_steps_data = False\<rparr> sample_db of
        Inl _ \<Rightarrow> None | Inr s \<Rightarrow> Some s) [''77'', ''12''])"
  by (rule latest_batch_matches_single) code_simp

end
