(* ===== verification/Endings.thy ===== *)
theory Endings
  imports Executor_Laws
begin

text \<open>
  How a drive ends a run: from the moment the status is terminal, the executor only escalates, releases the
  resource and saves, and never takes the status back (\<open>closing\<close>). So whatever holds of the escalator's
  calls and of a save of an ended run (\<open>ending\<close>) holds of everything that a drive does from there on.
\<close>

definition ending :: "(event \<Rightarrow> bool) \<Rightarrow> run_status \<Rightarrow> bool" where
  "ending P c \<longleftrightarrow> (\<forall>e. escalation_event e \<longrightarrow> P e) \<and> (\<forall>q v. run_status q = c \<longrightarrow> P (Ev_save q v))"

definition closing :: "(event \<Rightarrow> bool) \<Rightarrow> run_status \<Rightarrow> 'w drive \<Rightarrow> 'w drive \<Rightarrow> bool" where
  "closing P c s t \<longleftrightarrow> (run_status (dv_run s) = c \<longrightarrow> run_status (dv_run t) = c \<and> extends P s t)"

text \<open>What such an end leaves, for a run that may have had another status before.\<close>

definition ended :: "(event \<Rightarrow> bool) \<Rightarrow> run_status \<Rightarrow> 'w drive \<Rightarrow> 'w drive \<Rightarrow> bool" where
  "ended P c s t \<longleftrightarrow> run_status (dv_run t) = c \<and> extends P s t"

interpretation closure: kept "closing P c" for P c
  by unfold_locales (simp add: closing_def, unfold closing_def, blast intro: extends_trans)

lemma save_closing: "ending P c \<Longrightarrow> keeps (closing P c) (save X)"
  unfolding keeps_def save_def repo_save_def wp by (auto simp: closing_def ending_def wp)

lemma calls_closing:
  assumes "ending P c" and "only_calls escalation_event m"
    and "keeps (\<lambda>s t. run_status (dv_run t) = run_status (dv_run s)) m"
  shows "keeps (closing P c) m"
proof (rule keepsI)
  fix s
  have "only_calls P m" by (rule only_calls_mono [OF assms(2)]) (use assms(1) in \<open>simp add: ending_def\<close>)
  from wp_conj [OF only_calls_wp [OF this] keepsD [OF assms(3)]]
  show "wpE m (\<lambda>_. closing P c s) (\<lambda>_. closing P c s) s"
    by (rule wp_mono) (auto simp: closing_def)
qed

lemma escalate_closing: "ending P c \<Longrightarrow> keeps (closing P c) (escalate es e)"
  by (rule calls_closing [OF _ escalate_escalation_calls])
     (auto simp: keeps_def esc_run_def intro!: escalate_wp)

lemma reject_closing: "ending P c \<Longrightarrow> keeps (closing P c) (reject es)"
  unfolding reject_def by (rule calls_closing [OF _ release_calls]) (auto simp: keeps_def intro!: release_wp)

lemma save_quietly_closing: "ending P c \<Longrightarrow> keeps (closing P c) (save_quietly X)"
  unfolding save_quietly_def by (intro closure.rules save_closing)

lemma end_run:
  assumes "keeps (closing P c) m" and "dv_trace s' = dv_trace s"
  shows "wpE (thenE (set_error k e) (thenE (set_terminal c) m)) (\<lambda>_. ended P c s) (\<lambda>_. ended P c s) s'"
    "wpE (thenE (set_terminal c) m) (\<lambda>_. ended P c s) (\<lambda>_. ended P c s) s'"
  unfolding set_error_def set_terminal_def wp
  by (rule wp_mono [OF keepsD [OF assms(1)]]; use assms(2) in \<open>auto simp: closing_def ended_def extends_def\<close>)+

text \<open>The two ends of a step, and the crash path. Only a current step that is no step escapes it, before anything is called.\<close>

lemma reject_run_ends:
  assumes "ending P RS_REJECTED"
  shows "wpE (reject_run X k e) (\<lambda>_. ended P RS_REJECTED s) (\<lambda>_. ended P RS_REJECTED s) s"
  unfolding reject_run_def
  by (rule end_run(1)) (auto intro: closure.after reject_closing save_closing assms)

lemma failure_ends:
  assumes "ending P RS_FAILED" and "dv_trace s' = dv_trace s"
  shows "wpE (thenE (set_error k e) (thenE (set_terminal RS_FAILED) (thenE (escalate (ex_escalator X) e) (save X))))
    (\<lambda>_. ended P RS_FAILED s) (\<lambda>_. ended P RS_FAILED s) s'"
  by (rule end_run(1) [OF _ assms(2)]) (auto intro: closure.after escalate_closing save_closing assms(1))

lemma crash_ends:
  assumes "ending P RS_FAILED"
  shows "wpE (crash X e) (\<lambda>_. ended P RS_FAILED s) (\<lambda>_. extends P s) s"
proof -
  have quiet: "keeps (closing P RS_FAILED) (save_quietly X)" by (rule save_quietly_closing [OF assms])
  have finish: "wpE (thenE (set_terminal RS_FAILED) (thenE (escalate (ex_escalator X) e) (save_quietly X)))
      (\<lambda>_. ended P RS_FAILED s) (\<lambda>_. extends P s) s'" if "dv_trace s' = dv_trace s" for s'
    by (rule wp_mono [OF end_run(2) [OF _ that]])
       (auto simp: ended_def intro: closure.after escalate_closing quiet assms)
  have again: "wpE (save_quietly X) (\<lambda>_. ended P RS_FAILED s) (\<lambda>_. extends P s) s" if "run_status (dv_run s) = RS_FAILED"
    by (rule wp_mono [OF keepsD [OF quiet]]) (use that in \<open>auto simp: closing_def ended_def\<close>)
  show ?thesis
    unfolding crash_def wp_bind wp_the_run
    using finish again by (auto simp: wp set_error_def split: option.split sum.split)
qed

end
