(* ===== verification/Budget.thy ===== *)
theory Budget
  imports Endings
begin

text \<open>
  The retry budget over a run's whole life, however many drives it takes. A row that is not terminal has
  failed no step more often than its budget allows (\<open>within_budget\<close>); a drive of such a run saves only such
  runs or terminal ones, and triggers the engine only under one of the names the budget has room for
  (\<open>dag_run_names\<close>). A drive goes through two phases: as long as it makes progress it keeps the budget
  (\<open>frugal\<close>), and once the status is terminal it only ends the run (\<open>Endings\<close>); the count that exceeds the
  budget lives only in between.
\<close>

section \<open>Budget and names\<close>

definition within_budget :: "workflow_run \<Rightarrow> bool" where
  "within_budget r \<longleftrightarrow> (\<forall>k. int (dget (st_step_attempts (run_run_state r)) k 0) \<le> max 0 (run_max_retries r))"

definition engine_key :: "uuid \<Rightarrow> nat \<Rightarrow> string" where
  "engine_key rid a = rid @ '':'' @ step_value SN_RUN_ENGINE @ '':'' @ str_nat a"

definition dag_run_names :: "workflow_run \<Rightarrow> string list" where
  "dag_run_names r = map (engine_key (run_id r)) [0..<Suc (nat (run_max_retries r))]"

lemma engine_run_key_eq: "engine_run_key r = engine_key (run_id r) (engine_attempt r)"
  by (simp add: engine_run_key_def engine_key_def Let_def)

lemma engine_key_inject [simp]: "engine_key rid a = engine_key rid b \<longleftrightarrow> a = b"
  by (simp add: engine_key_def)

lemma dag_run_names_distinct: "distinct (dag_run_names r)" "length (dag_run_names r) = Suc (nat (run_max_retries r))"
  by (simp_all add: dag_run_names_def distinct_map inj_on_def del: upt_Suc)

lemma dag_run_names_cong:
  "run_id r' = run_id r \<Longrightarrow> run_max_retries r' = run_max_retries r \<Longrightarrow> dag_run_names r' = dag_run_names r"
  by (simp add: dag_run_names_def)

lemma within_budget_key: "within_budget r \<Longrightarrow> engine_run_key r \<in> set (dag_run_names r)"
  unfolding within_budget_def dag_run_names_def engine_run_key_eq
  by (auto simp: nat_less_iff le_nat_iff less_Suc_eq_le image_iff simp del: upt_Suc dest: spec [of _ SN_RUN_ENGINE])

lemma within_budget_upd [simp]:
  "within_budget (r\<lparr>run_status := a\<rparr>) = within_budget r" "within_budget (r\<lparr>run_scheduled_at := b\<rparr>) = within_budget r"
  "within_budget (r\<lparr>run_version := c\<rparr>) = within_budget r" "within_budget (r\<lparr>run_updated_at := u\<rparr>) = within_budget r"
  "within_budget (r\<lparr>run_current_step := v\<rparr>) = within_budget r"
  by (simp_all add: within_budget_def)

lemma within_budget_cong:
  "within_budget r \<Longrightarrow> run_max_retries r' = run_max_retries r \<Longrightarrow>
   st_step_attempts (run_run_state r') = st_step_attempts (run_run_state r) \<Longrightarrow> within_budget r'"
  by (simp add: within_budget_def)

text \<open>What a row may be, and what a drive of the run may call.\<close>

definition affordable :: "workflow_run \<Rightarrow> bool" where
  "affordable r \<longleftrightarrow> terminal_status (run_status r) \<or> within_budget r"

lemma affordable_new: "st_step_attempts (run_run_state r) = [] \<Longrightarrow> affordable r"
  by (simp add: affordable_def within_budget_def)

lemma affordable_upd [simp]:
  "affordable (r\<lparr>run_scheduled_at := b\<rparr>) = affordable r" "affordable (r\<lparr>run_updated_at := u\<rparr>) = affordable r"
  by (simp_all add: affordable_def)

fun budget_event :: "workflow_run \<Rightarrow> event \<Rightarrow> bool" where
  "budget_event r (Ev_trigger_workflow _ _ key _) = (key \<in> set (dag_run_names r))"
| "budget_event r (Ev_save saved _) = affordable saved"
| "budget_event r _ = True"

lemma escalation_within: "escalation_event e \<Longrightarrow> budget_event r e"
  by (cases e) simp_all

section \<open>While the run makes progress\<close>

definition solvent :: "workflow_run \<Rightarrow> 'w drive \<Rightarrow> bool" where
  "solvent r s \<longleftrightarrow> run_id (dv_run s) = run_id r \<and> run_max_retries (dv_run s) = run_max_retries r \<and> within_budget (dv_run s)"

definition frugal :: "workflow_run \<Rightarrow> 'w drive \<Rightarrow> 'w drive \<Rightarrow> bool" where
  "frugal r s t \<longleftrightarrow> (solvent r s \<longrightarrow> solvent r t \<and> extends (budget_event r) s t)"

interpretation frugality: kept "frugal r" for r
  by unfold_locales (simp add: frugal_def, unfold frugal_def, blast intro: extends_trans)

lemma states_frugal: "keeps (frugal r) the_run" "keeps (frugal r) the_state" "keeps (frugal r) (clock_read c)"
  by (auto simp: keeps_def wp frugal_def solvent_def)

lemma upd_frugal:
  "(\<And>q. run_id (f q) = run_id q \<and> run_max_retries (f q) = run_max_retries q \<and> (within_budget q \<longrightarrow> within_budget (f q))) \<Longrightarrow>
   keeps (frugal r) (upd_run f)"
  by (auto simp: keeps_def wp frugal_def solvent_def)

lemma state_frugal: "(\<And>st. st_step_attempts (g st) = st_step_attempts st) \<Longrightarrow> keeps (frugal r) (upd_state g)"
  unfolding upd_state_def by (rule upd_frugal) (auto elim: within_budget_cong)

lemma pop_frugal:
  "keeps (frugal r) (upd_state (\<lambda>st. st\<lparr>st_step_attempts := dpop (st_step_attempts st) k, st_attempt_started_at := None\<rparr>))"
  unfolding upd_state_def by (rule upd_frugal) (simp add: within_budget_def)

lemma save_frugal: "keeps (frugal r) (save X)"
  unfolding keeps_def save_def repo_save_def wp by (auto simp: frugal_def solvent_def affordable_def wp)

lemmas frugal_rules = frugality.rules states_frugal state_frugal pop_frugal upd_frugal save_frugal

lemma step_frugal:
  assumes "build_handlers tc rc engines lc k = Some h"
  shows "keeps (frugal r) (h_execute h)"
proof (rule keepsI)
  fix s :: "'a drive"
  have frame: "keeps step_frame (h_execute h)"
    by (rule step_contract.frame [OF build_handlers_contract [OF assms]])
  have events: "wpE (h_execute h) (\<lambda>_ t. extends (budget_event r) s t) (\<lambda>_ t. extends (budget_event r) s t) s"
    if "solvent r s"
  proof -
    have "engine_run_key (dv_run s) \<in> set (dag_run_names r)"
      using that within_budget_key [of "dv_run s"] by (simp add: solvent_def dag_run_names_cong [of "dv_run s" r])
    then show ?thesis
      using assms by (cases k) (auto simp: step_defs execute_defs Let_def wp split: option.split json.split)
  qed
  show "wpE (h_execute h) (\<lambda>_. frugal r s) (\<lambda>_. frugal r s) s"
  proof (cases "solvent r s")
    case True
    show ?thesis
      by (rule wp_mono [OF wp_conj [OF keepsD [OF frame] events [OF True]]])
         (use True in \<open>auto simp: frugal_def solvent_def elim!: step_frameE within_budget_cong simp: st_frame_def\<close>)
  next
    case False
    then show ?thesis by (intro wp_mono [OF keepsD [OF frame]]) (simp_all add: frugal_def)
  qed
qed

lemma schedule_frugal: "keeps (frugal r) (schedule X d)"
  unfolding schedule_def utc_now_def by (intro frugal_rules) simp

section \<open>Once the status is terminal\<close>

abbreviation within :: "workflow_run \<Rightarrow> 'w drive \<Rightarrow> 'w drive \<Rightarrow> bool" where
  "within r \<equiv> extends (budget_event r)"

lemma budget_ending: "terminal_status c \<Longrightarrow> ending (budget_event r) c"
  by (auto simp: ending_def affordable_def intro: escalation_within)

lemma reject_run_within: "wpE (reject_run X k e) (\<lambda>_. within r s) (\<lambda>_. within r s) s"
  by (rule wp_mono [OF reject_run_ends [OF budget_ending [where r = r]]]) (simp_all add: ended_def)

lemma crash_within: "wpE (crash X e) (\<lambda>_. within r s) (\<lambda>_. within r s) s"
  by (rule wp_mono [OF crash_ends [OF budget_ending [where r = r]]]) (simp_all add: ended_def)

text \<open>A failed step: retried within the budget, or the end.\<close>

lemma on_step_error_within:
  assumes "solvent r s" and "step_contract h"
  shows "wpE (on_step_error X k h e) (\<lambda>_. within r s) (\<lambda>_. within r s) s"
proof -
  define s' where "s' = s\<lparr>dv_run := (dv_run s)\<lparr>run_run_state := (run_run_state (dv_run s))\<lparr>st_step_attempts :=
    dset (st_step_attempts (run_run_state (dv_run s))) k (dget (st_step_attempts (run_run_state (dv_run s))) k 0 + 1)\<rparr>\<rparr>\<rparr>"
  have same: "dv_trace s' = dv_trace s" by (simp add: s'_def)
  have retry: "wpE (thenE (upd_state (\<lambda>st. (h_reset h st)\<lparr>st_attempt_started_at := None\<rparr>))
        (bindE (clock_read (ck_uniform (ex_clock X))) (\<lambda>jitter. schedule X (d + jitter))))
      (\<lambda>_. within r s) (\<lambda>_. within r s) s'"
    if "int (dget (st_step_attempts (run_run_state (dv_run s'))) k 0) \<le> run_max_retries (dv_run s')" for d
  proof -
    have solvent: "solvent r s'" using assms(1) that by (auto simp: s'_def solvent_def within_budget_def)
    have "st_step_attempts ((h_reset h st)\<lparr>st_attempt_started_at := None\<rparr>) = st_step_attempts st" for st
      using step_contract.reset_frame [OF assms(2), of st] by (simp add: st_frame_def)
    then have "keeps (frugal r) (thenE (upd_state (\<lambda>st. (h_reset h st)\<lparr>st_attempt_started_at := None\<rparr>))
        (bindE (clock_read (ck_uniform (ex_clock X))) (\<lambda>jitter. schedule X (d + jitter))))"
      by (intro frugal_rules schedule_frugal)
    from keepsD [OF this] show ?thesis
      by (rule wp_mono) (use solvent in \<open>simp_all add: frugal_def extends_def same\<close>)
  qed
  have stop: "wpE (thenE (set_error k e) (thenE (set_terminal RS_FAILED) (thenE (escalate (ex_escalator X) e) (save X))))
      (\<lambda>_. within r s) (\<lambda>_. within r s) s'"
    by (rule wp_mono [OF failure_ends [OF budget_ending [where r = r] same]]) (simp_all add: ended_def)
  show ?thesis
    unfolding on_step_error_def wp_then wp_upd_state wp_bind wp_the_run s'_def [symmetric] Let_def
    using retry stop by (auto simp: wp_then)
qed

section \<open>A whole drive\<close>

text \<open>The invariant of the loop, for a drive that began in \<open>s\<close>.\<close>

definition budget_inv :: "workflow_run \<Rightarrow> 'w drive \<Rightarrow> step_name \<Rightarrow> 'w drive \<Rightarrow> bool" where
  "budget_inv r s k t \<longleftrightarrow> solvent r t \<and> within r s t"

lemma within_trans: "within r s t \<Longrightarrow> within r t u \<Longrightarrow> within r s u"
  by (rule extends_trans)

lemma iteration_within:
  assumes "ex_handlers X = build_handlers tc rc engines lc" and "budget_inv r s k t"
  shows "wpE (drive_iteration X rt k)
     (\<lambda>x u. case x of None \<Rightarrow> within r s u | Some n \<Rightarrow> budget_inv r s n u) (\<lambda>_. within r s) t"
proof -
  obtain h where h: "ex_handlers X k = Some h" "build_handlers tc rc engines lc k = Some h"
    using assms(1) build_handlers_total by (metis not_None_eq)
  have contract: "step_contract h" by (rule build_handlers_contract [OF h(2)])
  from assms(2) have t: "solvent r t" "within r s t" by (simp_all add: budget_inv_def)
  let ?frugal = "\<lambda>u. solvent r u \<and> within r s u"
  let ?goal = "\<lambda>x u. case x of None \<Rightarrow> within r s u | Some n \<Rightarrow> budget_inv r s n u"
  have frugal: "wpE m (\<lambda>_. ?frugal) (\<lambda>_. ?frugal) u" if "keeps (frugal r) m" "?frugal u" for m u
    by (rule wp_mono [OF keepsD [OF that(1)]]) (use that(2) in \<open>auto simp: frugal_def elim: within_trans\<close>)
  have start: "keeps (frugal r) (start_attempt X k)"
    unfolding start_attempt_def utc_now_def by (intro frugal_rules) simp_all
  have attempt: "keeps (frugal r) (tryE (attempt_step X k h started))" for started
    unfolding attempt_step_def utc_now_def by (intro frugal_rules step_frugal [OF h(2)])
  have finish: "keeps (frugal r) (finish_step X rt k)"
    unfolding finish_step_def by (intro frugal_rules) simp_all
  have outcome: "wpE (case out of
        Inl e \<Rightarrow> thenE (if is_rejected e then reject_run X k e else on_step_error X k h e) (ret None)
      | Inr False \<Rightarrow> thenE (schedule X (h_poll_interval h)) (ret None)
      | Inr True \<Rightarrow> finish_step X rt k) ?goal (\<lambda>_. within r s) u" if u: "?frugal u" for out u
  proof (cases out)
    case (Inl e)
    have "wpE (if is_rejected e then reject_run X k e else on_step_error X k h e) (\<lambda>_. within r u) (\<lambda>_. within r u) u"
      using u by (simp add: reject_run_within on_step_error_within [OF _ contract])
    then show ?thesis
      unfolding Inl sum.case wp_then wp_ret by (rule wp_mono) (use u in \<open>auto elim: within_trans\<close>)
  next
    case (Inr b)
    then show ?thesis
      by (cases b) (auto simp: wp_then wp_ret budget_inv_def split: option.split
          intro!: wp_mono [OF frugal [OF finish u]] wp_mono [OF frugal [OF schedule_frugal u]])
  qed
  have upd: "?frugal (t\<lparr>dv_run := (dv_run t)\<lparr>run_current_step := Some (step_value k)\<rparr>\<rparr>)"
    using t by (simp add: solvent_def extends_def)
  show ?thesis
    unfolding drive_iteration_def h(1) option.case wp_then [of "upd_run _"] wp_upd_run wp_bind utc_now_def wp_clock_read
  proof (rule wp_mono [OF frugal [OF start upd]], goal_cases)
    case (1 started u)
    have "wpE (tryE (attempt_step X k h started)) (\<lambda>x. wpE (case x of
          Inl e \<Rightarrow> thenE (if is_rejected e then reject_run X k e else on_step_error X k h e) (ret None)
        | Inr False \<Rightarrow> thenE (schedule X (h_poll_interval h)) (ret None)
        | Inr True \<Rightarrow> finish_step X rt k) ?goal (\<lambda>_. within r s)) (\<lambda>_. within r s) (u\<lparr>dv_world := w\<rparr>)" for w
      by (rule wp_mono [OF frugal [OF attempt]]) (use 1 outcome in \<open>simp_all add: solvent_def extends_def\<close>)
    then show ?case by blast
  qed simp
qed

lemma loop_within:
  assumes "ex_handlers X = build_handlers tc rc engines lc" and "budget_inv r s k t"
  shows "wpE (drive_loop X rt k) (\<lambda>_. within r s) (\<lambda>_. within r s) t"
  by (rule drive_loop_rule [where I = "budget_inv r s"]) (simp_all add: assms iteration_within)

lemma drive_within:
  assumes "ex_handlers X = build_handlers tc rc engines lc" and "solvent r s"
  shows "wpE (catchE (drive_run X) (crash X)) (\<lambda>_. within r s) (\<lambda>_. within r s) s"
proof -
  have crash: "wpE (crash X e) (\<lambda>_. within r s) (\<lambda>_. within r s) t" if "within r s t" for e t
    by (rule wp_mono [OF crash_within]) (use that in \<open>auto elim: within_trans\<close>)
  have "budget_inv r s k (s\<lparr>dv_run := (dv_run s)\<lparr>run_status := RS_RUNNING, run_current_step := Some (step_value k)\<rparr>\<rparr>)" for k
    using assms(2) by (simp add: budget_inv_def solvent_def)
  note loop = loop_within [OF assms(1) this]
  show ?thesis
    unfolding drive_run_def wp by (auto intro!: crash wp_mono [OF loop] split: sum.split)
qed

text \<open>From a run within its budget, a drive saves runs within theirs, or terminal ones, and names its DAG runs so.\<close>

lemma handle_within:
  assumes "ex_handlers X = build_handlers tc rc engines lc"
    and "rp_get (ex_runs X) rid (dv_world s) = (Inr (Some r), w)" and "within_budget r"
  shows "within r (loaded rid s r w) (snd (handle X rid s))"
proof (cases "terminal_status (run_status r)")
  case True
  then show ?thesis using handle_eqs(3) [OF assms(2)] by simp
next
  case False
  have "solvent r (loaded rid s r w)" using assms(3) by (simp add: solvent_def loaded_def)
  from drive_within [OF assms(1) this] show ?thesis
    using handle_eqs(4) [OF assms(2) False] by (auto simp: wpE_def split: prod.splits sum.splits)
qed

end
