(* ===== verification/Positions.thy ===== *)
theory Positions
  imports Budget
begin

text \<open>
  Where a run stands and what it carries there (\<open>well_typed\<close>): its current step is one of its plan, or
  none; a resource run has a resource, and past its first step a ticket; an automation run has a ticket.
  Every drive keeps this, saves nothing else, and makes no provider call but those of the steps of the
  run's plan and those of the escalator. The assertions of the handlers follow from it.
\<close>

section \<open>The calls of a step\<close>

fun calls_of :: "step_name \<Rightarrow> event \<Rightarrow> bool" where
  "calls_of SN_CREATE_TICKET e = (\<exists>a flds b k r. e = Ev_open_ticket a flds b k r)"
| "calls_of SN_CONFIGURE_RESOURCE e =
     ((\<exists>p y body k r. e = Ev_create_resource p y body k r) \<or> (\<exists>p y v flds r. e = Ev_update_resource p y v flds r))"
| "calls_of SN_AWAIT_APPROVAL e = (\<exists>tk r. e = Ev_get_approval_status tk r)"
| "calls_of SN_VALIDATE_RESOURCE e = (\<exists>q r. e = Ev_validate_resource q r)"
| "calls_of SN_RUN_ENGINE e =
     ((\<exists>a params k r. e = Ev_trigger_workflow a params k r) \<or> (\<exists>a i r. e = Ev_query_run_status a i r) \<or>
      (\<exists>a i r. e = Ev_get_failure a i r) \<or> (\<exists>a i k r. e = Ev_get_output a i k r))"
| "calls_of SN_FINALIZE_RESOURCE e =
     ((\<exists>p y v flds r. e = Ev_update_resource p y v flds r) \<or> (\<exists>p y v r. e = Ev_delete_resource p y v r))"
| "calls_of SN_SUBMIT_LEGACY e = (\<exists>q k r. e = Ev_submit q k r)"
| "calls_of SN_CLOSE_TICKET e = (\<exists>tk note r. e = Ev_close_ticket tk note TO_SUCCESSFUL r)"

lemma execute_calls_of:
  assumes "build_handlers tc rc engines lc k = Some h"
  shows "only_calls (calls_of k) (h_execute h)"
  using assms
  by (cases k)
     (auto simp: step_defs execute_defs Let_def intro!: calls split: option.split json.split)

lemma save_no_call [simp]: "\<not> calls_of k (Ev_save r v)"
  by (cases k) simp_all

section \<open>Well-typed runs\<close>

definition ticketed :: "run_type \<Rightarrow> step_name \<Rightarrow> run_state \<Rightarrow> bool" where
  "ticketed rt k st \<longleftrightarrow> (rt = RT_RESOURCE \<and> k \<noteq> SN_CREATE_TICKET \<longrightarrow> st_ticket st \<noteq> None)"

definition well_typed :: "workflow_run \<Rightarrow> bool" where
  "well_typed r \<longleftrightarrow>
     (case run_current_step r of
        None \<Rightarrow> True
      | Some v \<Rightarrow> \<exists>k \<in> set (run_plan (run_run_type r)). v = step_value k \<and> ticketed (run_run_type r) k (run_run_state r)) \<and>
     (run_run_type r = RT_RESOURCE \<longrightarrow> st_resource (run_run_state r) \<noteq> None) \<and>
     (run_run_type r = RT_AUTOMATION \<longrightarrow> st_ticket (run_run_state r) \<noteq> None)"

text \<open>What the state must keep for that.\<close>

definition refs_kept :: "run_state \<Rightarrow> run_state \<Rightarrow> bool" where
  "refs_kept a b \<longleftrightarrow> (st_ticket a \<noteq> None \<longrightarrow> st_ticket b \<noteq> None) \<and> (st_resource a \<noteq> None \<longrightarrow> st_resource b \<noteq> None)"

lemma refs_kept_same [simp]:
  "refs_kept a a" "refs_kept a b \<Longrightarrow> refs_kept a (b\<lparr>st_step_attempts := c\<rparr>)"
  "refs_kept a b \<Longrightarrow> refs_kept a (b\<lparr>st_attempt_started_at := d\<rparr>)"
  "refs_kept a b \<Longrightarrow> refs_kept a (b\<lparr>st_step_started_at := e\<rparr>)"
  "refs_kept a b \<Longrightarrow> refs_kept a (b\<lparr>st_errors := f\<rparr>)"
  "refs_kept a b \<Longrightarrow> refs_kept a (b\<lparr>st_incident_id := g\<rparr>)"
  "refs_kept a b \<Longrightarrow> refs_kept a (b\<lparr>st_ticket_closed := i\<rparr>)"
  by (simp_all add: refs_kept_def)

lemma frame_refs: "st_frame a b \<Longrightarrow> refs_kept a b"
  by (auto simp: st_frame_def refs_kept_def)

lemma well_typed_cong:
  assumes "well_typed r" and "run_current_step r' = run_current_step r" and "run_run_type r' = run_run_type r"
    and "refs_kept (run_run_state r) (run_run_state r')"
  shows "well_typed r'"
  using assms by (auto simp: well_typed_def ticketed_def refs_kept_def split: option.splits)

lemma well_typed_upd [simp]:
  "well_typed (r\<lparr>run_status := a\<rparr>) = well_typed r" "well_typed (r\<lparr>run_scheduled_at := b\<rparr>) = well_typed r"
  "well_typed (r\<lparr>run_version := c\<rparr>) = well_typed r" "well_typed (r\<lparr>run_updated_at := u\<rparr>) = well_typed r"
  "well_typed r \<Longrightarrow> well_typed (r\<lparr>run_current_step := None\<rparr>)"
  "well_typed r \<Longrightarrow> k \<in> set (run_plan (run_run_type r)) \<Longrightarrow> ticketed (run_run_type r) k (run_run_state r) \<Longrightarrow>
   well_typed (r\<lparr>run_current_step := Some (step_value k)\<rparr>)"
  unfolding well_typed_def by (cases "run_current_step r"; force)+

definition plan_event :: "run_type \<Rightarrow> event \<Rightarrow> bool" where
  "plan_event rt e \<longleftrightarrow> (if is_save e then \<exists>saved v. e = Ev_save saved v \<and> run_run_type saved = rt \<and> well_typed saved
     else driver_event e \<or> (\<exists>k \<in> set (run_plan rt). calls_of k e))"

definition standing :: "run_type \<Rightarrow> 'w drive \<Rightarrow> bool" where
  "standing rt s \<longleftrightarrow> run_run_type (dv_run s) = rt \<and> well_typed (dv_run s)"

definition on_plan :: "run_type \<Rightarrow> 'w drive \<Rightarrow> 'w drive \<Rightarrow> bool" where
  "on_plan rt s t \<longleftrightarrow> (standing rt s \<longrightarrow> standing rt t \<and> extends (plan_event rt) s t)"

lemma on_plan_trans: "on_plan rt s t \<Longrightarrow> on_plan rt t u \<Longrightarrow> on_plan rt s u"
  unfolding on_plan_def by (blast intro: extends_trans)

interpretation plan_path: kept "on_plan rt" for rt
  by unfold_locales (simp add: on_plan_def, rule on_plan_trans)

lemma states_on_plan: "keeps (on_plan rt) the_run" "keeps (on_plan rt) the_state"
  "keeps (on_plan rt) (clock_read c)"
  by (auto simp: keeps_def wp on_plan_def standing_def)

lemma state_on_plan: "(\<And>st. refs_kept st (g st)) \<Longrightarrow> keeps (on_plan rt) (upd_state g)"
  by (auto simp: keeps_def wp on_plan_def standing_def elim!: well_typed_cong)

lemma upd_on_plan:
  "(\<And>r. well_typed r \<Longrightarrow> run_run_type r = rt \<Longrightarrow> well_typed (f r) \<and> run_run_type (f r) = rt) \<Longrightarrow> keeps (on_plan rt) (upd_run f)"
  by (auto simp: keeps_def wp on_plan_def standing_def)

lemma save_on_plan: "keeps (on_plan rt) (save X)"
  unfolding keeps_def save_def repo_save_def wp
  by (auto simp: on_plan_def standing_def plan_event_def wp)

lemmas plan_rules = plan_path.rules states_on_plan state_on_plan upd_on_plan save_on_plan

text \<open>A computation of the escalator or of a step: no save, and the run stays where it is.\<close>

definition unmoved :: "'w drive \<Rightarrow> 'w drive \<Rightarrow> bool" where
  "unmoved s t \<longleftrightarrow> run_current_step (dv_run t) = run_current_step (dv_run s) \<and>
     run_run_type (dv_run t) = run_run_type (dv_run s) \<and> refs_kept (run_run_state (dv_run s)) (run_run_state (dv_run t))"

lemma calls_on_plan:
  assumes "only_calls P m" and "\<And>e. P e \<Longrightarrow> plan_event rt e" and "keeps unmoved m"
  shows "keeps (on_plan rt) m"
proof (rule keepsI)
  fix s
  show "wpE m (\<lambda>_. on_plan rt s) (\<lambda>_. on_plan rt s) s"
    by (rule wp_mono [OF wp_conj [OF only_calls_wp [OF only_calls_mono [OF assms(1,2)]] keepsD [OF assms(3)]]])
       (auto simp: on_plan_def standing_def unmoved_def elim: well_typed_cong)
qed

lemma step_unmoved:
  assumes "build_handlers tc rc engines lc k = Some h"
  shows "keeps unmoved (h_execute h)"
proof -
  have "keeps step_frame (h_execute h)"
    by (rule step_contract.frame [OF build_handlers_contract [OF assms]])
  then show ?thesis
    unfolding keeps_def unmoved_def by (fastforce intro: wp_mono frame_refs elim: step_frameE)
qed

lemma step_on_plan:
  assumes "build_handlers tc rc engines lc k = Some h" and "k \<in> set (run_plan rt)"
  shows "keeps (on_plan rt) (h_execute h)"
proof (rule calls_on_plan [OF execute_calls_of [OF assms(1)]])
  show "plan_event rt e" if "calls_of k e" for e
    using that assms(2) by (cases e) (auto simp: plan_event_def)
  show "keeps unmoved (h_execute h)" by (rule step_unmoved [OF assms(1)])
qed

section \<open>A whole drive\<close>

lemma escalation_on_plan: "escalation_event e \<Longrightarrow> plan_event rt e"
  by (simp add: plan_event_def)

lemma escalate_on_plan: "keeps (on_plan rt) (escalate es e)"
  by (rule calls_on_plan [OF escalate_escalation_calls escalation_on_plan])
     (auto simp: keeps_def unmoved_def esc_run_def intro!: escalate_wp)

lemma reject_on_plan: "keeps (on_plan rt) (reject es)"
  unfolding reject_def
  by (rule calls_on_plan [OF release_calls escalation_on_plan])
     (auto simp: keeps_def unmoved_def intro!: release_wp)

lemma schedule_on_plan: "keeps (on_plan rt) (schedule X d)"
  unfolding schedule_def utc_now_def by (intro plan_rules) simp

lemma reject_run_on_plan: "keeps (on_plan rt) (reject_run X k e)"
  unfolding reject_run_def set_error_def set_terminal_def by (intro plan_rules reject_on_plan) simp_all

lemma reset_refs: "step_contract h \<Longrightarrow> refs_kept st ((h_reset h st)\<lparr>st_attempt_started_at := None\<rparr>)"
  by (simp add: frame_refs step_contract.reset_frame)

lemma on_step_error_on_plan: "step_contract h \<Longrightarrow> keeps (on_plan rt) (on_step_error X k h e)"
  unfolding on_step_error_def set_error_def set_terminal_def Let_def
  by (intro plan_rules escalate_on_plan schedule_on_plan) (simp_all add: reset_refs)

lemma crash_on_plan: "keeps (on_plan rt) (crash X e)"
  unfolding crash_def save_quietly_def set_error_def set_terminal_def
  by (intro plan_rules escalate_on_plan) simp_all

lemma first_step_typed:
  assumes "well_typed r"
  shows "\<exists>k \<in> set (run_plan (run_run_type r)). first_step r = Inr k \<and> ticketed (run_run_type r) k (run_run_state r)"
proof (cases "run_current_step r")
  case None
  have "ticketed (run_run_type r) (run_plan (run_run_type r) ! 0) (run_run_state r)"
    by (cases "run_run_type r") (simp_all add: ticketed_def)
  with None show ?thesis by (simp add: first_step_def)
next
  case (Some v)
  with assms obtain k where "k \<in> set (run_plan (run_run_type r))" "v = step_value k"
      "ticketed (run_run_type r) k (run_run_state r)" by (auto simp: well_typed_def)
  then show ?thesis using Some by (intro bexI [of _ k]) (simp_all add: first_step_def parse_step_def)
qed

lemma typed_known_step: "well_typed r \<Longrightarrow> \<not> unknown_step r"
  by (auto simp: well_typed_def unknown_step_def split: option.splits)

text \<open>An executor over the handlers that \<open>plans.py\<close> builds.\<close>

locale planned =
  fixes X :: "'w executor"
  assumes built: "\<exists>tc rc engines lc. ex_handlers X = build_handlers tc rc engines lc"
begin

text \<open>What is left of an iteration once the run stands at its step.\<close>

lemma iteration_tail:
  assumes "k \<in> set (run_plan rt)" and "build_handlers tc rc engines lc k = Some h"
  shows "keeps (on_plan rt) (bindE (start_attempt X k) (\<lambda>started. bindE (utc_now X) (\<lambda>elapsed.
      bindE (tryE (attempt_step X k h started)) (\<lambda>out. case out of
          Inl e \<Rightarrow> thenE (if is_rejected e then reject_run X k e else on_step_error X k h e) (ret None)
        | Inr False \<Rightarrow> thenE (schedule X (h_poll_interval h)) (ret None)
        | Inr True \<Rightarrow> finish_step X rt k))))"
proof -
  have attempt: "keeps (on_plan rt) (attempt_step X k h started)" for started
    unfolding attempt_step_def utc_now_def by (intro plan_rules step_on_plan [OF assms(2,1)])
  have start: "keeps (on_plan rt) (start_attempt X k)"
    unfolding start_attempt_def utc_now_def by (intro plan_rules) simp_all
  have finish: "keeps (on_plan rt) (finish_step X rt k)"
    unfolding finish_step_def by (intro plan_rules) simp_all
  have "keeps (on_plan rt) (case out of Inl e \<Rightarrow> thenE (if is_rejected e then reject_run X k e
        else on_step_error X k h e) (ret None)
      | Inr False \<Rightarrow> thenE (schedule X (h_poll_interval h)) (ret None)
      | Inr True \<Rightarrow> finish_step X rt k)" for out
    by (auto split: sum.split bool.split intro!: plan_rules reject_run_on_plan
        on_step_error_on_plan build_handlers_contract [OF assms(2)] schedule_on_plan finish)
  then show ?thesis
    unfolding utc_now_def by (intro plan_rules start attempt)
qed

abbreviation has_ticket :: "'w drive \<Rightarrow> bool" where
  "has_ticket s \<equiv> st_ticket (run_run_state (dv_run s)) \<noteq> None"

lemma execute_ticket:
  assumes "build_handlers tc rc engines lc k = Some h" and "k \<noteq> SN_CREATE_TICKET \<longrightarrow> has_ticket s"
  shows "wpE (h_execute h) (\<lambda>x t. x \<longrightarrow> has_ticket t) (\<lambda>_ _. True) s"
proof (cases "k = SN_CREATE_TICKET")
  case True
  with assms(1) show ?thesis
    by (auto simp: create_ticket_step_def step_handler_def create_ticket_execute_def Let_def wp)
next
  case False
  with assms(2) show ?thesis
    by (intro wp_mono [OF keepsD [OF step_unmoved [OF assms(1)]]]) (auto simp: unmoved_def refs_kept_def)
qed

lemma iteration_ticket:
  assumes "k \<noteq> SN_CREATE_TICKET \<longrightarrow> has_ticket s"
  shows "wpE (drive_iteration X rt k) (\<lambda>r t. r \<noteq> None \<longrightarrow> has_ticket t) (\<lambda>_ _. True) s"
proof -
  obtain h tc rc engines lc where h: "ex_handlers X k = Some h" "build_handlers tc rc engines lc k = Some h"
    using built build_handlers_total by (metis not_None_eq)
  have finish: "wpE (finish_step X rt k) (\<lambda>r t. r \<noteq> None \<longrightarrow> has_ticket t) (\<lambda>_ _. True) t"
    if "has_ticket t" for t
    using that by (simp add: finish_step_def wp split: sum.split option.split)
  let ?ready = "\<lambda>t. k \<noteq> SN_CREATE_TICKET \<longrightarrow> has_ticket t"
  have attempt: "wpE (attempt_step X k h started)
      (\<lambda>x t. x \<longrightarrow> wpE (finish_step X rt k) (\<lambda>r t. r \<noteq> None \<longrightarrow> has_ticket t) (\<lambda>_ _. True) t) (\<lambda>_ _. True) t"
    if "?ready t" for started t
  proof -
    have "wpE (h_execute h)
        (\<lambda>x t. x \<longrightarrow> wpE (finish_step X rt k) (\<lambda>r t. r \<noteq> None \<longrightarrow> has_ticket t) (\<lambda>_ _. True) t) (\<lambda>_ _. True)
        (t\<lparr>dv_world := w\<rparr>)" for w
      by (rule wp_mono [OF execute_ticket [OF h(2)]]) (use that finish in simp_all)
    then show ?thesis unfolding attempt_step_def utc_now_def wp by simp
  qed
  have start: "wpE (start_attempt X k) (\<lambda>_. ?ready) (\<lambda>_ _. True) t" if "?ready t" for t
    unfolding start_attempt_def utc_now_def wp using that by (simp split: option.split)
  show ?thesis
    unfolding drive_iteration_def h(1) option.case wp_then wp_upd_run wp_bind utc_now_def wp_clock_read
  proof (rule wp_mono [OF start])
    fix started t assume t: "?ready t"
    have "wpE (tryE (attempt_step X k h started)) (\<lambda>x. wpE (case x of
        Inl e \<Rightarrow> thenE (if is_rejected e then reject_run X k e else on_step_error X k h e) (ret None)
      | Inr False \<Rightarrow> thenE (schedule X (h_poll_interval h)) (ret None)
      | Inr True \<Rightarrow> finish_step X rt k) (\<lambda>r t. r \<noteq> None \<longrightarrow> has_ticket t) (\<lambda>_ _. True)) (\<lambda>_ _. True) (t\<lparr>dv_world := w\<rparr>)" for w
      unfolding wp by (rule wp_mono [OF attempt]) (use t in simp_all)
    then show "\<forall>x w. ck_utcnow (ex_clock X) (dv_world t) = (x, w) \<longrightarrow> wpE (tryE (attempt_step X k h started)) (\<lambda>x. wpE (case x of
        Inl e \<Rightarrow> thenE (if is_rejected e then reject_run X k e else on_step_error X k h e) (ret None)
      | Inr False \<Rightarrow> thenE (schedule X (h_poll_interval h)) (ret None)
      | Inr True \<Rightarrow> finish_step X rt k) (\<lambda>r t. r \<noteq> None \<longrightarrow> has_ticket t) (\<lambda>_ _. True)) (\<lambda>_ _. True) (t\<lparr>dv_world := w\<rparr>)"
      by blast
  qed (use assms in simp_all)
qed

lemma iteration_next:
  "wpE (drive_iteration X rt k) (\<lambda>r _. \<forall>n. r = Some n \<longrightarrow> n \<in> set (run_plan rt)) (\<lambda>_ _. True) s"
proof -
  have "wpE (finish_step X rt k) (\<lambda>r _. \<forall>n. r = Some n \<longrightarrow> n \<in> set (run_plan rt)) (\<lambda>_ _. True) s" for s
    by (auto simp: finish_step_def wp dest: next_step_in_plan split: sum.split option.split)
  then show ?thesis
    by (simp add: drive_iteration_def wp split: option.split sum.split bool.split)
qed

text \<open>The invariant of the loop, for a drive that began in \<open>s\<close>.\<close>

definition plan_inv :: "run_type \<Rightarrow> 'w drive \<Rightarrow> step_name \<Rightarrow> 'w drive \<Rightarrow> bool" where
  "plan_inv rt s k t \<longleftrightarrow> k \<in> set (run_plan rt) \<and> on_plan rt s t \<and> ticketed rt k (run_run_state (dv_run t))"

lemma iteration_on_plan:
  assumes "plan_inv rt s k t"
  shows "wpE (drive_iteration X rt k)
     (\<lambda>r u. case r of None \<Rightarrow> on_plan rt s u | Some n \<Rightarrow> plan_inv rt s n u) (\<lambda>_. on_plan rt s) t"
proof -
  obtain h tc rc engines lc where h: "ex_handlers X k = Some h" "build_handlers tc rc engines lc k = Some h"
    using built build_handlers_total by (metis not_None_eq)
  from assms have k: "k \<in> set (run_plan rt)" and t: "on_plan rt s t" and tk: "ticketed rt k (run_run_state (dv_run t))"
    by (simp_all add: plan_inv_def)
  have "on_plan rt t (t\<lparr>dv_run := (dv_run t)\<lparr>run_current_step := Some (step_value k)\<rparr>\<rparr>)"
    using k tk by (auto simp: on_plan_def standing_def)
  then have plan: "wpE (drive_iteration X rt k) (\<lambda>_. on_plan rt s) (\<lambda>_. on_plan rt s) t"
    unfolding drive_iteration_def h(1) option.case wp_then wp_upd_run
    by (intro wp_mono [OF keepsD [OF iteration_tail [OF k h(2)]]]) (blast intro: on_plan_trans t)+
  show ?thesis
  proof (cases "rt = RT_RESOURCE")
    case True
    with tk have "k \<noteq> SN_CREATE_TICKET \<longrightarrow> has_ticket t" by (simp add: ticketed_def)
    from wp_conj [OF plan wp_conj [OF iteration_ticket [OF this, of rt] iteration_next [of rt k t]]] show ?thesis
      by (rule wp_mono) (auto simp: plan_inv_def ticketed_def split: option.split)
  next
    case False
    from wp_conj [OF plan iteration_next [of rt k t]] show ?thesis
      by (rule wp_mono) (use False in \<open>auto simp: plan_inv_def ticketed_def split: option.split\<close>)
  qed
qed

lemma loop_on_plan: "plan_inv rt s k t \<Longrightarrow> wpE (drive_loop X rt k) (\<lambda>_. on_plan rt s) (\<lambda>_. on_plan rt s) t"
  by (rule drive_loop_rule [where I = "plan_inv rt s"]) (simp_all add: iteration_on_plan)

text \<open>From a well-typed run a drive stays on the plan.\<close>

lemma drive_on_plan:
  assumes "standing rt s"
  shows "wpE (catchE (drive_run X) (crash X)) (\<lambda>_. on_plan rt s) (\<lambda>_. on_plan rt s) s"
proof -
  have s: "run_run_type (dv_run s) = rt" "well_typed (dv_run s)" using assms by (simp_all add: standing_def)
  obtain k where k: "k \<in> set (run_plan rt)" "first_step (dv_run s) = Inr k" "ticketed rt k (run_run_state (dv_run s))"
    using first_step_typed [OF s(2)] s(1) by auto
  have "plan_inv rt s k (s\<lparr>dv_run := (dv_run s)\<lparr>run_status := RS_RUNNING, run_current_step := Some (step_value k)\<rparr>\<rparr>)"
    using s k by (auto simp: plan_inv_def on_plan_def standing_def)
  then show ?thesis
    unfolding drive_run_def wp using s k
    by (simp, intro wp_mono [OF loop_on_plan]) (auto intro: wp_mono [OF keepsD [OF crash_on_plan]] on_plan_trans)
qed

lemma handle_on_plan:
  assumes "rp_get (ex_runs X) rid (dv_world s) = (Inr (Some run), w)" and "well_typed run"
    and "handle X rid s = (r, t)"
  shows "run_run_type (dv_run t) = run_run_type run \<and> well_typed (dv_run t) \<and>
    extends (plan_event (run_run_type run)) (loaded rid s run w) t"
proof -
  let ?s = "loaded rid s run w"
  have s: "standing (run_run_type run) ?s" using assms(2) by (simp add: standing_def loaded_def)
  have "on_plan (run_run_type run) ?s t"
  proof (cases "terminal_status (run_status run)")
    case True
    then show ?thesis using handle_eqs(3) [OF assms(1)] assms(3) by (simp add: plan_path.here)
  next
    case False
    then show ?thesis
      using handle_eqs(4) [OF assms(1)] assms(3) drive_on_plan [OF s]
      by (cases r) (auto simp: wpE_def)
  qed
  with s show ?thesis by (simp add: on_plan_def standing_def)
qed

end

interpretation built_plan: planned "build_executor tc rc engines lc runs clk base team"
  for tc rc engines lc runs clk base team
  by unfold_locales auto

text \<open>What a drive saves: the version and the core it loaded, settled, well-typed, and within its budget.\<close>

definition lawful_saves :: "workflow_run \<Rightarrow> event list \<Rightarrow> bool" where
  "lawful_saves r evs \<longleftrightarrow> (\<forall>saved res. Ev_save saved res \<in> set evs \<longrightarrow>
     run_fixed saved = run_fixed r \<and> settled saved \<and> well_typed saved \<and> affordable saved)"

lemma lawful_simps [simp]:
  "lawful_saves r []" "lawful_saves r (xs @ ys) \<longleftrightarrow> lawful_saves r xs \<and> lawful_saves r ys"
  "lawful_saves r [Ev_save saved res] \<longleftrightarrow>
     run_fixed saved = run_fixed r \<and> settled saved \<and> well_typed saved \<and> affordable saved"
  by (auto simp: lawful_saves_def)

lemma handle_lawful:
  assumes "rp_get runs rid (dv_world s) = (Inr (Some r), w)" and "\<not> terminal_status (run_status r)" and "well_typed r"
    and "affordable r"
  shows "\<exists>t evs. handle (build_executor tc rc engines lc runs clk base team) rid s = (Inr (), t) \<and>
     dv_trace t = dv_trace (loaded rid s r w) @ evs \<and> lawful_saves r evs"
proof -
  have get: "rp_get (ex_runs (build_executor tc rc engines lc runs clk base team)) rid (dv_world s) = (Inr (Some r), w)"
    using assms(1) by simp
  obtain t where t: "handle (build_executor tc rc engines lc runs clk base team) rid s = (Inr (), t)"
      and c: "concluded (loaded rid s r w) t"
    using built.handle_concludes [OF get assms(2) typed_known_step [OF assms(3)]] by blast
  then obtain evs where evs: "dv_trace t = dv_trace (loaded rid s r w) @ evs" "saves_ok r evs"
    by (auto simp: concluded_def loaded_def)
  have "extends (plan_event (run_run_type r)) (loaded rid s r w) t"
    using built_plan.handle_on_plan [OF get assms(3) t] by blast
  then have "\<forall>e \<in> set evs. plan_event (run_run_type r) e" using evs(1) by (auto simp: extends_def)
  moreover have "extends (budget_event r) (loaded rid s r w) t"
    using handle_within [OF _ get, of tc rc engines lc] assms(2,4) t by (simp add: affordable_def)
  then have "\<forall>e \<in> set evs. budget_event r e" using evs(1) by (auto simp: extends_def)
  ultimately have "lawful_saves r evs" using evs(2) by (fastforce simp: lawful_saves_def saves_ok_def plan_event_def)
  with t evs(1) show ?thesis by blast
qed

section \<open>The assertions of the handlers\<close>

text \<open>No step of a well-typed run fails on its own assertion: an \<open>AssertionError\<close> can only come back from
  a provider that was called. A legacy run is exempt: the trigger accepts one without a request.\<close>

lemma assertions_hold:
  assumes "well_typed (dv_run s)" and "run_run_type (dv_run s) \<noteq> RT_LEGACY" and "first_step (dv_run s) = Inr k"
    and "build_handlers tc rc engines lc k = Some h"
  shows "wpE (h_execute h) (\<lambda>_ _. True) (\<lambda>e t. e = AssertionError m \<longrightarrow> dv_trace t \<noteq> dv_trace s) s"
proof -
  obtain k' where "k' \<in> set (run_plan (run_run_type (dv_run s)))" "first_step (dv_run s) = Inr k'"
      "ticketed (run_run_type (dv_run s)) k' (run_run_state (dv_run s))"
    using first_step_typed [OF assms(1)] by blast
  then have k: "k \<in> set (run_plan (run_run_type (dv_run s)))" "ticketed (run_run_type (dv_run s)) k (run_run_state (dv_run s))"
    using assms(3) by simp_all
  have "run_run_type (dv_run s) = RT_RESOURCE \<longrightarrow> st_resource (run_run_state (dv_run s)) \<noteq> None"
    "run_run_type (dv_run s) = RT_AUTOMATION \<longrightarrow> st_ticket (run_run_state (dv_run s)) \<noteq> None"
    using assms(1) by (simp_all add: well_typed_def)
  with k assms(2) have st: "k \<in> {SN_CONFIGURE_RESOURCE, SN_VALIDATE_RESOURCE} \<longrightarrow> st_resource (run_run_state (dv_run s)) \<noteq> None"
      "k \<in> {SN_AWAIT_APPROVAL, SN_CLOSE_TICKET} \<longrightarrow> st_ticket (run_run_state (dv_run s)) \<noteq> None" "k \<noteq> SN_SUBMIT_LEGACY"
    by (cases "run_run_type (dv_run s)"; auto simp: ticketed_def)+
  show ?thesis
    using assms(4) st
    by (cases k) (auto simp: step_defs execute_defs Let_def wp split: option.split json.split)
qed

end
