(* ===== verification/System.thy ===== *)
theory System
  imports Services Positions
begin

text \<open>
  Workers, triggers and callbacks together over one database, as a step relation: each transaction is
  a step, and between a worker's loading a run and its saving it any other step may happen. What a
  drive does to the run in between is the contract of \<open>Executor_Laws\<close>: whatever it saves has the
  version and the core of the run it loaded, and is settled, well-typed and within its budget (\<open>handle_saves_allowed\<close> in
  \<open>System_Properties\<close> shows that \<open>handle\<close> saves nothing else). \<open>src/orchestrator/worker.py\<close> is the claiming loop.
\<close>

datatype worker =
  Idle
| Claimed uuid
| Driving workflow_run

record system =
  sy_db :: database
  sy_now :: datetime
  sy_workers :: "nat \<Rightarrow> worker"

text \<open>One turn of \<open>RunWorker.run\<close> up to the claim: a claim that failed or found nothing leaves the
  worker idle, otherwise it goes on with the first id.\<close>

definition worker_claim :: "exn + uuid list \<Rightarrow> worker" where
  "worker_claim result = (case result of
     Inl _ \<Rightarrow> Idle
   | Inr [] \<Rightarrow> Idle
   | Inr (rid # _) \<Rightarrow> Claimed rid)"

text \<open>\<open>handle\<close> up to its first guards: a missing or a terminal run ends the drive at once.\<close>

definition worker_load :: "workflow_run option \<Rightarrow> worker" where
  "worker_load found = (case found of
     None \<Rightarrow> Idle
   | Some r \<Rightarrow> if terminal_status (run_status r) then Idle else Driving r)"

inductive sys_step :: "timedelta \<Rightarrow> system \<Rightarrow> system \<Rightarrow> bool" for lease where
  tick: "sy_now s \<le> t \<Longrightarrow> sys_step lease s (s\<lparr>sy_now := t\<rparr>)"
| triggered: "trigger fr a (sy_db s) = (Inr r, db) \<Longrightarrow> sys_step lease s (s\<lparr>sy_db := db\<rparr>)"
| triggered_legacy: "trigger_legacy fr q c m (sy_db s) = (Inr r, db) \<Longrightarrow> sys_step lease s (s\<lparr>sy_db := db\<rparr>)"
| woken: "wake (sy_now s) rid (sy_db s) = (b, db) \<Longrightarrow> sys_step lease s (s\<lparr>sy_db := db\<rparr>)"
| claims: "sy_workers s w = Idle \<Longrightarrow> claim_due (sy_now s) locked 1 lease (sy_db s) = (ids, db) \<Longrightarrow>
    sys_step lease s (s\<lparr>sy_db := db, sy_workers := (sy_workers s)(w := worker_claim (Inr ids))\<rparr>)"
| loads: "sy_workers s w = Claimed rid \<Longrightarrow> found = find_run rid (sy_db s) \<Longrightarrow>
    sys_step lease s (s\<lparr>sy_workers := (sy_workers s)(w := worker_load found)\<rparr>)"
| saves: "sy_workers s w = Driving r \<Longrightarrow> run_fixed saved = run_fixed r \<Longrightarrow> settled saved \<Longrightarrow> well_typed saved \<Longrightarrow> affordable saved \<Longrightarrow>
    run_save (sy_now s) saved (sy_db s) = (res, db) \<Longrightarrow> sys_step lease s (s\<lparr>sy_db := db\<rparr>)"
| stops: "sys_step lease s (s\<lparr>sy_workers := (sy_workers s)(w := Idle)\<rparr>)"

inductive_cases sys_stepE: "sys_step lease s t"

definition initial :: "system \<Rightarrow> bool" where
  "initial s \<longleftrightarrow> db_runs (sy_db s) = [] \<and> sy_workers s = (\<lambda>_. Idle)"

inductive reachable :: "timedelta \<Rightarrow> system \<Rightarrow> bool" for lease where
  start: "initial s \<Longrightarrow> reachable lease s"
| step: "reachable lease s \<Longrightarrow> sys_step lease s t \<Longrightarrow> reachable lease t"

section \<open>The invariant\<close>

text \<open>A row is scheduled exactly while it is not terminal.\<close>

definition row_scheduled :: "workflow_run \<Rightarrow> bool" where
  "row_scheduled r \<longleftrightarrow> (run_scheduled_at r = None \<longleftrightarrow> terminal_status (run_status r))"

text \<open>What identifies a run and never changes once it is created.\<close>

definition run_identity :: "workflow_run \<Rightarrow> _" where
  "run_identity r = (run_id r, run_run_type r, run_workflow_identifier r, run_created_by r,
     run_max_retries r, run_created_at r, st_core (run_run_state r))"

text \<open>What every row meets.\<close>

definition row_ok :: "workflow_run \<Rightarrow> bool" where
  "row_ok r \<longleftrightarrow> row_scheduled r \<and> well_typed r \<and> affordable r"

text \<open>A run a worker holds: well-typed, its row is there, of the same identity, and if it still has the
  version that was loaded then it is not terminal.\<close>

definition held_ok :: "database \<Rightarrow> workflow_run \<Rightarrow> bool" where
  "held_ok db r \<longleftrightarrow> well_typed r \<and> (\<exists>row. find_run (run_id r) db = Some row \<and> run_identity row = run_identity r \<and>
     run_version r \<le> run_version row \<and>
     (run_version row = run_version r \<longrightarrow> \<not> terminal_status (run_status row)))"

definition sys_inv :: "system \<Rightarrow> bool" where
  "sys_inv s \<longleftrightarrow> unique_ids (sy_db s) \<and>
     (\<forall>rid r. find_run rid (sy_db s) = Some r \<longrightarrow> row_ok r) \<and>
     (\<forall>w r. sy_workers s w = Driving r \<longrightarrow> held_ok (sy_db s) r)"

text \<open>How one transaction may change the table: rows are added, or change so.\<close>

definition row_step :: "workflow_run \<Rightarrow> workflow_run \<Rightarrow> bool" where
  "row_step r r' \<longleftrightarrow> run_identity r' = run_identity r \<and>
     (r' = r \<or>
      (\<not> terminal_status (run_status r) \<and> row_ok r' \<and>
       (run_version r' = run_version r \<and> run_status r' = run_status r \<or> run_version r' = run_version r + 1)))"

definition db_step :: "database \<Rightarrow> database \<Rightarrow> bool" where
  "db_step db db' \<longleftrightarrow> unique_ids db' \<and>
     (\<forall>rid r. find_run rid db = Some r \<longrightarrow> (\<exists>r'. find_run rid db' = Some r' \<and> row_step r r')) \<and>
     (\<forall>rid r'. find_run rid db = None \<longrightarrow> find_run rid db' = Some r' \<longrightarrow> row_ok r')"

lemma row_step_refl [simp]: "row_step r r"
  by (simp add: row_step_def)

lemma db_step_refl: "unique_ids db \<Longrightarrow> db_step db db"
  by (auto simp: db_step_def)

lemma held_ok_step: "held_ok db r \<Longrightarrow> db_step db db' \<Longrightarrow> held_ok db' r"
  unfolding held_ok_def db_step_def row_step_def by fastforce

lemma sys_inv_db:
  assumes "sys_inv s" and "db_step (sy_db s) db"
  shows "sys_inv (s\<lparr>sy_db := db\<rparr>)"
  unfolding sys_inv_def
proof (intro conjI allI impI)
  show "unique_ids (sy_db (s\<lparr>sy_db := db\<rparr>))" using assms(2) by (simp add: db_step_def)
  fix rid r
  assume "find_run rid (sy_db (s\<lparr>sy_db := db\<rparr>)) = Some r"
  then have r: "find_run rid db = Some r" by simp
  show "row_ok r"
  proof (cases "find_run rid (sy_db s)")
    case None
    with r assms(2) show ?thesis by (auto simp: db_step_def)
  next
    case (Some q)
    with r assms(2) have "row_step q r" unfolding db_step_def by fastforce
    moreover have "row_ok q" using assms(1) Some by (auto simp: sys_inv_def)
    ultimately show ?thesis by (auto simp: row_step_def)
  qed
next
  fix w r
  assume "sy_workers (s\<lparr>sy_db := db\<rparr>) w = Driving r"
  with assms(1) have "held_ok (sy_db s) r" by (simp add: sys_inv_def)
  then show "held_ok (sy_db (s\<lparr>sy_db := db\<rparr>)) r"
    using held_ok_step [OF _ assms(2)] by simp
qed

text \<open>Each transaction is such a change.\<close>

lemma create_db_step:
  assumes "unique_ids db" and "run_create r db = (Inr r', db')" and "row_ok r"
  shows "db_step db db'"
proof -
  have n: "find_run (run_id r) db = None" "r' = r" using assms(2) by (auto simp: run_create_cases split: if_splits)
  then show ?thesis
    using postgres.create_new [OF assms(1) n(1)] assms(2,3) by (auto simp: db_step_def split: if_splits)
qed

lemma new_run_ok:
  assumes "st_step_attempts st = []" and "rt = RT_RESOURCE \<longrightarrow> st_resource st \<noteq> None" and "rt = RT_AUTOMATION \<longrightarrow> st_ticket st \<noteq> None"
  shows "row_ok (new_run fr rt i c m st)"
  using assms by (simp add: row_ok_def row_scheduled_def well_typed_def new_run_def affordable_new)

lemma trigger_run_ok:
  "check_trigger a flow = Inr u \<Longrightarrow> row_ok (new_run fr (wf_run_type flow) i c m (trigger_state a flow))"
  by (rule new_run_ok)
     (auto simp: check_trigger_def check_resource_def trigger_state_def new_run_state_def split: if_splits option.splits sum.splits)

lemma trigger_db_step: "unique_ids db \<Longrightarrow> trigger fr a db = (Inr r, db') \<Longrightarrow> db_step db db'"
  by (auto simp: trigger_result intro: create_db_step trigger_run_ok split: option.splits sum.splits)

lemma legacy_db_step: "unique_ids db \<Longrightarrow> trigger_legacy fr q c m db = (Inr r, db') \<Longrightarrow> db_step db db'"
  unfolding trigger_legacy_def
  by (erule (1) create_db_step) (rule new_run_ok; simp add: legacy_state_def new_run_state_def)

lemma reschedule_row_step:
  assumes "row_ok r" and "\<not> terminal_status (run_status r)"
  shows "row_step r (r\<lparr>run_scheduled_at := Some t, run_updated_at := u\<rparr>)"
  using assms by (simp add: row_step_def run_identity_def row_ok_def row_scheduled_def)

lemma wake_db_step:
  assumes "unique_ids db" and "\<forall>rid r. find_run rid db = Some r \<longrightarrow> row_ok r"
    and "wake t rid db = (b, db')"
  shows "db_step db db'"
  unfolding db_step_def
proof (intro conjI allI impI)
  note law = postgres.wake_laws [OF assms(1,3)]
  show "unique_ids db'" using law by blast
  show "\<exists>r'. find_run q db' = Some r' \<and> row_step r r'" if r: "find_run q db = Some r" for q r
  proof (cases "q = rid \<and> b")
    case True
    then have "\<not> terminal_status (run_status r)" using law r by auto
    then show ?thesis using law r assms(2) True by (auto intro: reschedule_row_step)
  next
    case False
    then show ?thesis using law r by auto
  qed
  show "row_ok r'" if "find_run q db = None" "find_run q db' = Some r'" for q r'
    using that law by (auto split: if_splits)
qed

lemma claim_db_step:
  assumes "unique_ids db" and "\<forall>rid r. find_run rid db = Some r \<longrightarrow> row_ok r"
    and "claim_due t locked limit lease db = (ids, db')"
  shows "db_step db db'"
  unfolding db_step_def
proof (intro conjI allI impI)
  note law = postgres.claim_laws [OF assms(1,3)]
  show "unique_ids db'" using law by blast
  show "\<exists>r'. find_run q db' = Some r' \<and> row_step r r'" if r: "find_run q db = Some r" for q r
  proof (cases "q \<in> set ids")
    case True
    then have "due t r" using law r by fastforce
    moreover have "row_ok r" using assms(2) r by blast
    ultimately have "\<not> terminal_status (run_status r)"
      by (auto simp: due_def row_ok_def row_scheduled_def)
    then show ?thesis using law r assms(2) True by (auto intro: reschedule_row_step)
  next
    case False
    then show ?thesis using law r by auto
  qed
  show "row_ok r'" if "find_run q db = None" "find_run q db' = Some r'" for q r'
    using that law by (auto split: if_splits)
qed

lemma settled_ok: "settled r \<Longrightarrow> well_typed r \<Longrightarrow> affordable r \<Longrightarrow> row_ok r"
  by (auto simp: settled_def row_ok_def row_scheduled_def split: if_splits)

lemma affordable_stored: "affordable saved \<Longrightarrow> run_max_retries row = run_max_retries saved \<Longrightarrow> affordable (stored t saved row)"
  by (simp add: affordable_def within_budget_def stored_def)

lemma save_db_step:
  assumes "unique_ids db" and "held_ok db r" and "run_fixed saved = run_fixed r" and "settled saved"
    and "run_save t saved db = (res, db')" and "well_typed saved" and "affordable saved"
  shows "db_step db db'"
proof -
  from assms(2) obtain row where row: "find_run (run_id r) db = Some row" "run_identity row = run_identity r"
    "run_version row = run_version r \<longrightarrow> \<not> terminal_status (run_status row)"
    unfolding held_ok_def by blast
  have same: "run_id saved = run_id r" "run_version saved = run_version r"
    "st_core (run_run_state saved) = st_core (run_run_state r)" "run_run_type saved = run_run_type r"
    "run_max_retries saved = run_max_retries r"
    using assms(3) by (simp_all add: run_fixed_def run_core_def)
  show ?thesis
  proof (cases "run_version row = run_version r")
    case True
    have "run_identity (stored t saved row) = run_identity row"
      using row(2) same by (simp add: run_identity_def stored_def)
    moreover have "row_ok (stored t saved row)"
      using settled_ok [OF assms(4,6,7)] same(4,5) row(2)
      by (auto simp: row_ok_def row_scheduled_def run_identity_def elim!: well_typed_cong affordable_stored)
    ultimately have "row_step row (stored t saved row)"
      using True row(3) same(2) by (simp add: row_step_def)
    moreover have "find_run (run_id saved) db = Some row" "run_version row = run_version saved"
      using row(1) same True by simp_all
    moreover note match = postgres.save_match [OF assms(1) this, of t]
    have "unique_ids db'" "find_run q db' = (if q = run_id saved then Some (stored t saved row) else find_run q db)" for q
      using match [of q] assms(5) by simp_all
    ultimately show ?thesis by (auto simp: db_step_def split: if_splits)
  next
    case False
    then have "\<exists>m. run_save t saved db = (Inl (StaleRunError m), db)"
      using row(1) same by (intro postgres.save_stale [OF assms(1)]) simp
    then have "db' = db" using assms(5) by auto
    then show ?thesis using assms(1) by (simp add: db_step_refl)
  qed
qed

lemma sys_step_db:
  assumes "sys_inv s" and "sys_step lease s t"
  shows "db_step (sy_db s) (sy_db t)"
  using assms(2)
proof cases
  case (saves w r saved res db)
  have "unique_ids (sy_db s)" "held_ok (sy_db s) r"
    using assms(1) saves(2) by (auto simp: sys_inv_def)
  then show ?thesis using saves save_db_step [of "sy_db s" r saved "sy_now s" res db] by simp
qed (use assms(1) in \<open>auto simp: sys_inv_def intro: db_step_refl trigger_db_step legacy_db_step
    wake_db_step claim_db_step\<close>)

lemma load_held:
  assumes "unique_ids db" and "worker_load (find_run rid db) = Driving r"
    and "\<forall>rid r. find_run rid db = Some r \<longrightarrow> row_ok r"
  shows "held_ok db r"
  using assms by (auto simp: worker_load_def held_ok_def row_ok_def split: option.splits if_splits dest: find_run_Some)

lemma sys_inv_step:
  assumes "sys_inv s" and "sys_step lease s t"
  shows "sys_inv t"
proof -
  have db: "sys_inv (s\<lparr>sy_db := sy_db t\<rparr>)"
    by (rule sys_inv_db [OF assms(1) sys_step_db [OF assms]])
  have "held_ok (sy_db t) r" if "sy_workers t w = Driving r" for w r
    using assms(2)
  proof cases
    case (loads v rid found)
    then show ?thesis
      using that assms(1) load_held [of "sy_db s" rid r]
      by (cases "w = v") (auto simp: sys_inv_def)
  qed (use that db in \<open>auto simp: sys_inv_def worker_claim_def split: if_splits list.splits\<close>)
  with db show ?thesis by (simp add: sys_inv_def)
qed

lemma reachable_inv: "reachable lease s \<Longrightarrow> sys_inv s"
proof (induction rule: reachable.induct)
  case (start s)
  then show ?case by (simp add: initial_def sys_inv_def unique_ids_def find_run_def)
next
  case (step s t)
  then show ?case by (blast intro: sys_inv_step)
qed

end
