(* ===== verification/System_Properties.thy ===== *)
theory System_Properties
  imports System Service_Properties Drive_Properties
begin

text \<open>
  The properties of workers, triggers and callbacks running together: they hold in every reachable
  state, whatever the order in which their transactions interleave and wherever workers crash.
\<close>

section \<open>A reachable state to try them on\<close>

definition empty_system :: system where
  "empty_system = \<lparr>sy_db = \<lparr>db_runs = [], db_workflows = [workflow_row RT_RESOURCE]\<rparr>, sy_now = 0,
     sy_workers = (\<lambda>_. Idle)\<rparr>"

definition legacy_request1 :: legacy_request where
  "legacy_request1 = \<lparr>lr_flow_type = ''old'', lr_project_id = None, lr_resource_type = None,
     lr_variables = [], lr_db_operation = ''x'', lr_name = ''n'', lr_region = ''r''\<rparr>"

definition legacy_run1 :: workflow_run where
  "legacy_run1 = new_run fresh1 RT_LEGACY ''old'' ''ann'' 3 (legacy_state legacy_request1)"

definition one_run :: system where
  "one_run = empty_system\<lparr>sy_db := (sy_db empty_system)\<lparr>db_runs := [legacy_run1]\<rparr>\<rparr>"

lemma one_run_step: "sys_step lease empty_system one_run"
proof -
  have "trigger_legacy fresh1 legacy_request1 ''ann'' 3 (sy_db empty_system) =
      (Inr legacy_run1, (sy_db empty_system)\<lparr>db_runs := [legacy_run1]\<rparr>)"
    by (simp add: trigger_legacy_def run_create_cases empty_system_def find_run_def legacy_run1_def legacy_request1_def)
  then show ?thesis unfolding one_run_def by (rule sys_step.triggered_legacy)
qed

lemma one_run_reachable: "reachable lease one_run"
  by (rule reachable.step [OF reachable.start one_run_step]) (simp add: initial_def empty_system_def)

lemma one_run_find: "find_run ''r9'' (sy_db one_run) = Some legacy_run1"
  by (simp add: find_run_def one_run_def legacy_run1_def new_run_def fresh1_def)

section \<open>Properties\<close>

text \<open>C15. No run is forgotten and none is driven after its end: in every reachable state a row has a
  time at which a worker will claim it exactly when its status is not terminal.\<close>

theorem no_run_forgotten:
  assumes "reachable lease s" and "find_run rid (sy_db s) = Some r"
  shows "run_scheduled_at r = None \<longleftrightarrow> terminal_status (run_status r)"
  using reachable_inv [OF assms(1)] assms(2) by (auto simp: sys_inv_def row_ok_def row_scheduled_def)

lemma no_run_forgotten_witness:
  "run_scheduled_at legacy_run1 = None \<longleftrightarrow> terminal_status (run_status legacy_run1)"
  by (rule no_run_forgotten [OF one_run_reachable one_run_find])

lemma row_steps:
  assumes "(sys_step lease)\<^sup>*\<^sup>* s t" and "reachable lease s" and "find_run rid (sy_db s) = Some r"
  shows "reachable lease t \<and> (\<exists>r'. find_run rid (sy_db t) = Some r' \<and> run_identity r' = run_identity r \<and>
    run_version r \<le> run_version r' \<and> (terminal_status (run_status r) \<longrightarrow> r' = r))"
  using assms(1)
proof (induction rule: rtranclp_induct)
  case base
  then show ?case using assms(2,3) by simp
next
  case (step t u)
  then obtain q where q: "find_run rid (sy_db t) = Some q" "run_identity q = run_identity r"
    "run_version r \<le> run_version q" "terminal_status (run_status r) \<longrightarrow> q = r" and reach: "reachable lease t"
    by blast
  have "db_step (sy_db t) (sy_db u)" by (rule sys_step_db [OF reachable_inv [OF reach] step.hyps(2)])
  then obtain r' where "find_run rid (sy_db u) = Some r'" "row_step q r'"
    using q(1) unfolding db_step_def by blast
  with q reach step.hyps(2) show ?case
    by (fastforce simp: row_step_def intro: reachable.step)
qed


definition resource_system :: system where
  "resource_system = empty_system\<lparr>sy_db := snd (trigger fresh1 trigger_args1 (sy_db empty_system))\<rparr>"

lemma resource_system_reachable: "reachable 300 resource_system"
proof -
  have "\<not> isl (fst (trigger fresh1 trigger_args1 (sy_db empty_system)))" by code_simp
  then obtain r where "trigger fresh1 trigger_args1 (sy_db empty_system) =
      (Inr r, snd (trigger fresh1 trigger_args1 (sy_db empty_system)))"
    by (metis isl_def prod.collapse sum.collapse(2))
  then have "sys_step 300 empty_system resource_system"
    unfolding resource_system_def by (rule sys_step.triggered)
  then show ?thesis
    by (intro reachable.step [OF reachable.start]) (simp_all add: initial_def empty_system_def)
qed


text \<open>C16. A terminal run is final: no later step of any worker, trigger or callback changes its row, in
  particular not a worker that still holds an older copy of the run.\<close>

theorem terminal_run_final:
  assumes "reachable lease s" and "(sys_step lease)\<^sup>*\<^sup>* s t" and "find_run rid (sy_db s) = Some r"
    and "terminal_status (run_status r)"
  shows "find_run rid (sy_db t) = Some r"
  using row_steps [OF assms(2,1,3)] assms(4) by blast

definition sys_claimed :: system where
  "sys_claimed = (let (ids, db) = claim_due 1 {} 1 300 (sy_db one_run) in
     one_run\<lparr>sy_now := 1, sy_db := db, sy_workers := (sy_workers one_run)(0 := worker_claim (Inr ids))\<rparr>)"

definition sys_driving :: system where
  "sys_driving = sys_claimed\<lparr>sy_workers := (sy_workers sys_claimed)
     (0 := worker_load (find_run ''r9'' (sy_db sys_claimed)))\<rparr>"

definition driven_run :: workflow_run where
  "driven_run = legacy_run1\<lparr>run_scheduled_at := Some 301, run_updated_at := 1\<rparr>"

definition ended_run :: workflow_run where
  "ended_run = driven_run\<lparr>run_status := RS_FAILED, run_scheduled_at := None\<rparr>"

definition sys_ended :: system where
  "sys_ended = sys_driving\<lparr>sy_db := snd (run_save 1 ended_run (sy_db sys_driving))\<rparr>"

lemma sys_driving_worker: "sy_workers sys_claimed 0 = Claimed ''r9''" "sy_workers sys_driving 0 = Driving driven_run"
  by code_simp+

lemma sys_driving_reachable: "reachable 300 sys_driving"
proof -
  let ?s = "one_run\<lparr>sy_now := 1\<rparr>"
  have s: "reachable 300 ?s"
    by (rule reachable.step [OF one_run_reachable], rule sys_step.tick) (simp add: one_run_def empty_system_def)
  have "sys_step 300 ?s (?s\<lparr>sy_db := snd (claim_due (sy_now ?s) {} 1 300 (sy_db ?s)),
      sy_workers := (sy_workers ?s)(0 := worker_claim (Inr (fst (claim_due (sy_now ?s) {} 1 300 (sy_db ?s)))))\<rparr>)"
    by (rule sys_step.claims) (simp_all add: one_run_def empty_system_def)
  then have "sys_step 300 ?s sys_claimed" by (simp add: sys_claimed_def split_beta)
  with s have c: "reachable 300 sys_claimed" by (rule reachable.step)
  show ?thesis
    unfolding sys_driving_def
    by (rule reachable.step [OF c], rule sys_step.loads [OF sys_driving_worker(1) refl])
qed

lemma driven_typed: "well_typed driven_run"
  by (simp add: well_typed_def driven_run_def legacy_run1_def new_run_def)

lemma sys_ended_reachable: "reachable 300 sys_ended"
proof -
  have "sys_step 300 sys_driving (sys_driving\<lparr>sy_db := snd (run_save (sy_now sys_driving) ended_run (sy_db sys_driving))\<rparr>)"
    by (rule sys_step.saves [OF sys_driving_worker(2) _ _ _ _ prod.collapse [symmetric]])
       (simp_all add: ended_run_def settled_def driven_typed affordable_def)
  moreover have "sy_now sys_driving = 1" by code_simp
  ultimately show ?thesis
    using reachable.step [OF sys_driving_reachable] by (simp add: sys_ended_def)
qed

lemma terminal_run_final_witness:
  "find_run ''r9'' (sy_db (sys_ended\<lparr>sy_now := 9\<rparr>)) = find_run ''r9'' (sy_db sys_ended) \<and>
   map_option run_status (find_run ''r9'' (sy_db sys_ended)) = Some RS_FAILED"
proof
  show status: "map_option run_status (find_run ''r9'' (sy_db sys_ended)) = Some RS_FAILED" by code_simp
  then obtain r where r: "find_run ''r9'' (sy_db sys_ended) = Some r" "terminal_status (run_status r)" by auto
  have "sy_now sys_ended = 1" by code_simp
  then have "(sys_step 300)\<^sup>*\<^sup>* sys_ended (sys_ended\<lparr>sy_now := 9\<rparr>)"
    by (intro r_into_rtranclp sys_step.tick) simp
  from terminal_run_final [OF sys_ended_reachable this r] r(1)
  show "find_run ''r9'' (sy_db (sys_ended\<lparr>sy_now := 9\<rparr>)) = find_run ''r9'' (sy_db sys_ended)" by simp
qed

text \<open>C17. What a run is never changes: through any steps its row stays, keeps its identity and the
  request it carries, and its version never decreases.\<close>

theorem run_identity_kept:
  assumes "reachable lease s" and "(sys_step lease)\<^sup>*\<^sup>* s t" and "find_run rid (sy_db s) = Some r"
  shows "\<exists>r'. find_run rid (sy_db t) = Some r' \<and> run_identity r' = run_identity r \<and>
    run_version r \<le> run_version r'"
  using row_steps [OF assms(2,1,3)] by blast

lemma run_identity_kept_witness:
  "\<exists>r'. find_run ''r9'' (sy_db (one_run\<lparr>sy_now := 5\<rparr>)) = Some r' \<and> run_identity r' = run_identity legacy_run1"
proof -
  have "(sys_step 300)\<^sup>*\<^sup>* one_run (one_run\<lparr>sy_now := 5\<rparr>)"
    by (rule r_into_rtranclp, rule sys_step.tick) (simp add: one_run_def empty_system_def)
  from run_identity_kept [OF one_run_reachable this one_run_find] show ?thesis by blast
qed



text \<open>The executor keeps to the system's rules: every save of a whole \<open>handle\<close> of a well-typed run, on
  the crash path too, carries the version and the identity the run was loaded with, and is settled,
  well-typed and within its budget, which is what the \<open>saves\<close> step allows a worker that holds the run.\<close>

theorem handle_saves_allowed:
  assumes "rp_get runs rid (dv_world s) = (Inr (Some r), w)" and "\<not> terminal_status (run_status r)"
    and "well_typed r" and "affordable r" and "sy_workers sys k = Driving r"
    and "dv_trace (snd (handle (build_executor tc rc engines lc runs clk base team) rid s)) = dv_trace s @ evs"
    and "Ev_save saved res \<in> set evs" and "run_save (sy_now sys) saved (sy_db sys) = (answer, db)"
  shows "sys_step lease sys (sys\<lparr>sy_db := db\<rparr>)"
proof -
  obtain t evs' where "handle (build_executor tc rc engines lc runs clk base team) rid s = (Inr (), t)"
      "dv_trace t = dv_trace (loaded rid s r w) @ evs'" "lawful_saves r evs'"
    using handle_lawful [OF assms(1-4)] by blast
  with assms(6,7) have "Ev_save saved res \<in> set evs'" "lawful_saves r evs'" by (auto simp: loaded_def)
  then have "run_fixed saved = run_fixed r" "settled saved" "well_typed saved" "affordable saved"
    unfolding lawful_saves_def by blast+
  then show ?thesis by (intro sys_step.saves [OF assms(5) _ _ _ _ assms(8)])
qed

definition held_system :: system where
  "held_system = empty_system\<lparr>sy_workers := (\<lambda>_. Driving (run_at SN_AWAIT_APPROVAL))\<rparr>"

lemma handle_saves_allowed_witness:
  "\<exists>saved res. Ev_save saved res \<in> set approved_drive \<and>
     sys_step 300 held_system (held_system\<lparr>sy_db := snd (run_save 0 saved (sy_db held_system))\<rparr>)"
proof -
  have "list_ex is_save approved_drive" by code_simp
  then obtain e where e: "e \<in> set approved_drive" "is_save e" unfolding list_ex_iff by blast
  from e(2) obtain saved res where "e = Ev_save saved res" by (cases e) simp_all
  with e(1) have ev: "Ev_save saved res \<in> set approved_drive" by simp
  have get: "rp_get (store_of (run_at SN_AWAIT_APPROVAL)) ''r1'' (dv_world (drive_of run1)) =
      (Inr (Some (run_at SN_AWAIT_APPROVAL)), ())"
    by (simp add: store_of_def answers_def)
  have run: "\<not> terminal_status (run_status (run_at SN_AWAIT_APPROVAL))" "well_typed (run_at SN_AWAIT_APPROVAL)"
    "affordable (run_at SN_AWAIT_APPROVAL)" "sy_workers held_system 0 = Driving (run_at SN_AWAIT_APPROVAL)" "sy_now held_system = 0"
    by (simp_all add: held_system_def empty_system_def affordable_new run_at_def run1_def new_run_state_def) code_simp+
  have "dv_trace (snd (handle (build_executor (sample_tickets AP_APPROVED)
      (sample_resources eligible_result) (engines_of (sample_engine ER_SUCCESS no_engine_failure))
      sample_legacy (store_of (run_at SN_AWAIT_APPROVAL)) sample_clock (seconds 10) ''cloudio'')
      ''r1'' (drive_of run1))) = dv_trace (drive_of run1) @ approved_drive"
    by (simp add: drive_of_def approved_drive_def executor_of_def)
  from handle_saves_allowed [OF get run(1-4) this ev, of "fst (run_save 0 saved (sy_db held_system))"
      "snd (run_save 0 saved (sy_db held_system))"] ev run(5)
  show ?thesis by auto
qed

end
