(* ===== verification/Http.thy ===== *)
theory Http
  imports Domain
begin

text \<open>
  What the provider adapters (\<open>src/orchestrator/adapters/\<close>) share: an HTTP exchange, and the Python
  operations they use on the JSON they are answered.

  \<^item> The service behind a client is a parameter: what it answers to a request, or the exception of a
    failed connection, over a state \<open>'w\<close> of its own. The text of an HTTP status error belongs to the
    response, the text of a pydantic error to the client library. Timeouts, pools and headers set once
    on the client are part of that parameter.
  \<^item> \<open>'w process\<close> is the state of the orchestrator process that adapters keep between calls (the
    ServiceNow groups resolved so far, the Airflow token), the state of the services, and the record of
    the exchanges so far, which no adapter reads.
\<close>

section \<open>Exchanges\<close>

datatype verb = GET | POST | PATCH | DELETE

record http_request =
  hq_verb :: verb
  hq_path :: string
  hq_params :: "(string, string) dict"
  hq_headers :: "(string, string) dict"
  hq_body :: "json option"

record response =
  rsp_status :: nat
  rsp_json :: "string + json"
  rsp_error :: string

record 'w http =
  ht_send :: "http_request \<Rightarrow> ('w, exn, response) eff"
  ht_model_error :: "string \<Rightarrow> string"

record 'w process =
  pr_groups :: "(string, string) dict"
  pr_token :: json
  pr_remote :: 'w
  pr_log :: "(http_request \<times> (exn + response)) list"

definition send :: "'w http \<Rightarrow> http_request \<Rightarrow> ('w process, exn, response) eff" where
  "send h q = (\<lambda>s. case ht_send h q (pr_remote s) of
     (r, w) \<Rightarrow> (r, s\<lparr>pr_remote := w, pr_log := pr_log s @ [(q, r)]\<rparr>))"

definition request :: "verb \<Rightarrow> string \<Rightarrow> http_request" where
  "request v path = \<lparr>hq_verb = v, hq_path = path, hq_params = [], hq_headers = [], hq_body = None\<rparr>"

definition request_json :: "verb \<Rightarrow> string \<Rightarrow> payload \<Rightarrow> http_request" where
  "request_json v path body = (request v path)\<lparr>hq_body := Some (JDict body)\<rparr>"

text \<open>\<open>raise_for_status()\<close> lets the 2xx answers pass, \<open>json()\<close> decodes the body.\<close>

definition is_success :: "response \<Rightarrow> bool" where
  "is_success r \<longleftrightarrow> 200 \<le> rsp_status r \<and> rsp_status r < 300"

definition raise_for_status :: "response \<Rightarrow> exn + unit" where
  "raise_for_status r = (if is_success r then Inr () else Inl (OtherError ''HTTPStatusError'' (rsp_error r)))"

definition resp_json :: "response \<Rightarrow> exn + json" where
  "resp_json r = (case rsp_json r of Inl m \<Rightarrow> Inl (OtherError ''JSONDecodeError'' m) | Inr j \<Rightarrow> Inr j)"

section \<open>Python on JSON values\<close>

fun py_type :: "json \<Rightarrow> string" where
  "py_type JNull = ''NoneType''"
| "py_type (JBool _) = ''bool''"
| "py_type (JInt _) = ''int''"
| "py_type (JFloat _) = ''float''"
| "py_type (JStr _) = ''str''"
| "py_type (JList _) = ''list''"
| "py_type (JDict _) = ''dict''"

text \<open>\<open>repr\<close> of a string: the quotes it takes, and the escapes, with bytes beyond ASCII as they are.\<close>

definition hex_digit :: "nat \<Rightarrow> char" where
  "hex_digit n = (if n < 10 then char_of (48 + n) else char_of (87 + n))"

definition repr_char :: "char \<Rightarrow> char \<Rightarrow> string" where
  "repr_char q c = (let n = of_char c :: nat in
     if c = q \<or> n = 92 then [char_of (92 :: nat), c]
     else if n = 10 then [char_of (92 :: nat), CHR ''n'']
     else if n = 13 then [char_of (92 :: nat), CHR ''r'']
     else if n = 9 then [char_of (92 :: nat), CHR ''t'']
     else if n < 32 \<or> n = 127 then [char_of (92 :: nat), CHR ''x'', hex_digit (n div 16), hex_digit (n mod 16)]
     else [c])"

definition repr_str :: "string \<Rightarrow> string" where
  "repr_str s = (let q = if CHR 0x27 \<in> set s \<and> CHR 0x22 \<notin> set s then CHR 0x22 else CHR 0x27 in
     [q] @ concat (map (repr_char q) s) @ [q])"

text \<open>\<open>sep.join(parts)\<close>.\<close>

fun join :: "string \<Rightarrow> string list \<Rightarrow> string" where
  "join sep [] = []"
| "join sep [x] = x"
| "join sep (x # y # xs) = x @ sep @ join sep (y # xs)"

definition int_text :: "int \<Rightarrow> string" where
  "int_text i = (if i < 0 then ''-'' @ str_nat (nat (- i)) else str_nat (nat i))"

fun py_repr :: "json \<Rightarrow> string" where
  "py_repr JNull = ''None''"
| "py_repr (JBool b) = (if b then ''True'' else ''False'')"
| "py_repr (JInt i) = int_text i"
| "py_repr (JFloat t) = t"
| "py_repr (JStr s) = repr_str s"
| "py_repr (JList xs) = ''['' @ join '', '' (map py_repr xs) @ '']''"
| "py_repr (JDict d) = ''{'' @ join '', '' (map (\<lambda>(k, v). repr_str k @ '': '' @ py_repr v) d) @ ''}''"

text \<open>\<open>str(v)\<close>, which is also what formatting \<open>v\<close> in an f-string gives.\<close>

definition py_str :: "json \<Rightarrow> string" where
  "py_str v = (case v of JStr s \<Rightarrow> s | _ \<Rightarrow> py_repr v)"

text \<open>\<open>bool(v)\<close>.\<close>

fun py_true :: "json \<Rightarrow> bool" where
  "py_true JNull = False"
| "py_true (JBool b) = b"
| "py_true (JInt i) = (i \<noteq> 0)"
| "py_true (JFloat t) = list_ex (\<lambda>c. c \<notin> set ''-0.'') (takeWhile (\<lambda>c. c \<noteq> CHR ''e'') t)"
| "py_true (JStr s) = (s \<noteq> [])"
| "py_true (JList xs) = (xs \<noteq> [])"
| "py_true (JDict d) = (d \<noteq> [])"

text \<open>\<open>v.get(k)\<close> with its default, and the subscripts \<open>v[k]\<close> and \<open>v[0]\<close>.\<close>

definition py_get :: "json \<Rightarrow> string \<Rightarrow> json \<Rightarrow> exn + json" where
  "py_get v k d = (case v of
     JDict m \<Rightarrow> Inr (dget m k d)
   | _ \<Rightarrow> Inl (OtherError ''AttributeError'' (repr_str (py_type v) @ '' object has no attribute '' @ repr_str ''get'')))"

definition not_subscriptable :: "json \<Rightarrow> exn" where
  "not_subscriptable v = OtherError ''TypeError'' (repr_str (py_type v) @ '' object is not subscriptable'')"

definition py_item :: "json \<Rightarrow> string \<Rightarrow> exn + json" where
  "py_item v k = (case v of
     JDict m \<Rightarrow> (case map_of m k of None \<Rightarrow> Inl (KeyError (repr_str k)) | Some x \<Rightarrow> Inr x)
   | JList _ \<Rightarrow> Inl (OtherError ''TypeError'' ''list indices must be integers or slices, not str'')
   | JStr _ \<Rightarrow> Inl (OtherError ''TypeError'' (''string indices must be integers, not '' @ repr_str ''str''))
   | _ \<Rightarrow> Inl (not_subscriptable v))"

definition py_first :: "json \<Rightarrow> exn + json" where
  "py_first v = (case v of
     JList (x # _) \<Rightarrow> Inr x
   | JList [] \<Rightarrow> Inl (OtherError ''IndexError'' ''list index out of range'')
   | JStr (c # _) \<Rightarrow> Inr (JStr [c])
   | JStr [] \<Rightarrow> Inl (OtherError ''IndexError'' ''string index out of range'')
   | JDict _ \<Rightarrow> Inl (KeyError ''0'')
   | _ \<Rightarrow> Inl (not_subscriptable v))"

text \<open>Iterating: a list's members, a dict's keys, a string's characters.\<close>

definition py_iter :: "json \<Rightarrow> exn + json list" where
  "py_iter v = (case v of
     JList xs \<Rightarrow> Inr xs
   | JDict m \<Rightarrow> Inr (map (JStr \<circ> fst) m)
   | JStr s \<Rightarrow> Inr (map (\<lambda>c. JStr [c]) s)
   | _ \<Rightarrow> Inl (OtherError ''TypeError'' (repr_str (py_type v) @ '' object is not iterable'')))"

text \<open>A \<open>str\<close> field of a pydantic model, given a value.\<close>

definition str_field :: "'w http \<Rightarrow> string \<Rightarrow> json \<Rightarrow> exn + string" where
  "str_field h model v = (case v of
     JStr s \<Rightarrow> Inr s | _ \<Rightarrow> Inl (OtherError ''ValidationError'' (ht_model_error h model)))"

text \<open>\<open>TicketRef(ticket_id=a, native_id=b)\<close>.\<close>

definition make_ticket_ref :: "'w http \<Rightarrow> json \<Rightarrow> json \<Rightarrow> exn + ticket_ref" where
  "make_ticket_ref h a b = (case str_field h ''TicketRef'' a of
     Inl e \<Rightarrow> Inl e
   | Inr i \<Rightarrow> (case str_field h ''TicketRef'' b of
       Inl e \<Rightarrow> Inl e
     | Inr n \<Rightarrow> Inr \<lparr>tr_ticket_id = i, tr_native_id = n\<rparr>))"

section \<open>Laws\<close>

lemma wp_send [wp]:
  "wpE (send h q) Q E = (\<lambda>s.
     (\<forall>r w. ht_send h q (pr_remote s) = (Inr r, w) \<longrightarrow>
        Q r (s\<lparr>pr_remote := w, pr_log := pr_log s @ [(q, Inr r)]\<rparr>)) \<and>
     (\<forall>e w. ht_send h q (pr_remote s) = (Inl e, w) \<longrightarrow>
        E e (s\<lparr>pr_remote := w, pr_log := pr_log s @ [(q, Inl e)]\<rparr>)))"
  by (auto simp: fun_eq_iff wpE_def send_def split: prod.splits sum.splits)

lemma raise_for_status_simps [simp]:
  "raise_for_status r = Inr u \<longleftrightarrow> is_success r"
  "raise_for_status r = Inl e \<longleftrightarrow> \<not> is_success r \<and> e = OtherError ''HTTPStatusError'' (rsp_error r)"
  by (auto simp: raise_for_status_def)

lemma py_str_JStr [simp]: "py_str (JStr s) = s"
  by (simp add: py_str_def)

lemma py_get_JDict [simp]: "py_get (JDict m) k d = Inr (dget m k d)"
  by (simp add: py_get_def)

lemma str_field_simps [simp]:
  "str_field h model (JStr s) = Inr s"
  "str_field h model v = Inr t \<longleftrightarrow> v = JStr t"
  by (auto simp: str_field_def split: json.splits)

lemma make_ticket_ref_ok [simp]:
  "make_ticket_ref h a b = Inr t \<longleftrightarrow> a = JStr (tr_ticket_id t) \<and> b = JStr (tr_native_id t)"
  by (auto simp: make_ticket_ref_def split: sum.splits)

end
