(* ===== verification/Session.thy ===== *)
theory Session
  imports Run_Store Ports Http
begin

text \<open>
  The run repository as the executor and the workers use it: the transactions of \<open>Run_Store\<close> run in a
  session of \<open>src/orchestrator/adapters/database.py\<close>, over the state of a process. What the session
  factory gives is a parameter: where the database is in the world, the clock, the rows other
  transactions hold, and how a transaction may fail. One that fails before its commit leaves the
  database as it was; a connection lost after it leaves the change and raises all the same.
\<close>

datatype fault =
  No_Fault
| Before_Commit exn
| After_Commit exn

record 'w session =
  ss_read :: "'w \<Rightarrow> database"
  ss_write :: "database \<Rightarrow> 'w \<Rightarrow> 'w"
  ss_fault :: "'w \<Rightarrow> fault"
  ss_locked :: "'w \<Rightarrow> uuid set"
  ss_utcnow :: "'w \<Rightarrow> datetime \<times> 'w"

text \<open>\<open>async with session.begin()\<close> around a transaction on the database.\<close>

definition transact :: "'w session \<Rightarrow> (database \<Rightarrow> (exn + 'a) \<times> database) \<Rightarrow> ('w process, exn, 'a) eff" where
  "transact S f = (\<lambda>s. let w = pr_remote s; (r, db) = f (ss_read S w) in
     case ss_fault S w of
       No_Fault \<Rightarrow> (r, s\<lparr>pr_remote := ss_write S db w\<rparr>)
     | Before_Commit e \<Rightarrow> (Inl e, s)
     | After_Commit e \<Rightarrow> (Inl e, s\<lparr>pr_remote := ss_write S db w\<rparr>))"

text \<open>\<open>utcnow()\<close>.\<close>

definition on_remote :: "('w \<Rightarrow> 'a \<times> 'w) \<Rightarrow> 'w process \<Rightarrow> 'a \<times> 'w process" where
  "on_remote f s = (case f (pr_remote s) of (x, w) \<Rightarrow> (x, s\<lparr>pr_remote := w\<rparr>))"

definition session_now :: "'w session \<Rightarrow> ('w process, exn, datetime) eff" where
  "session_now S = (\<lambda>s. case on_remote (ss_utcnow S) s of (t, s) \<Rightarrow> (Inr t, s))"

definition session_get :: "'w session \<Rightarrow> uuid \<Rightarrow> ('w process, exn, workflow_run option) eff" where
  "session_get S rid = transact S (run_get rid)"

definition session_save :: "'w session \<Rightarrow> workflow_run \<Rightarrow> ('w process, exn, int) eff" where
  "session_save S r = bindE (session_now S) (\<lambda>t. transact S (run_save t r))"

definition session_claim :: "'w session \<Rightarrow> nat \<Rightarrow> timedelta \<Rightarrow> ('w process, exn, uuid list) eff" where
  "session_claim S limit lease =
     bindE (session_now S) (\<lambda>t s. transact S (\<lambda>db. case claim_due t (ss_locked S (pr_remote s)) limit lease db of
       (ids, db) \<Rightarrow> (Inr ids, db)) s)"

definition session_runs :: "'w session \<Rightarrow> 'w process run_store" where
  "session_runs S = \<lparr>rp_get = session_get S, rp_save = session_save S\<rparr>"

text \<open>What the executor reads of its surroundings: the clock, and \<open>random.uniform(1, 5)\<close>.\<close>

definition process_clock :: "('w \<Rightarrow> datetime \<times> 'w) \<Rightarrow> ('w \<Rightarrow> timedelta \<times> 'w) \<Rightarrow> 'w process clock" where
  "process_clock now jitter = \<lparr>ck_utcnow = on_remote now, ck_uniform = on_remote jitter\<rparr>"

section \<open>Nothing goes over HTTP\<close>

lemma on_remote_log [simp]: "pr_log (snd (on_remote f s)) = pr_log s"
  by (simp add: on_remote_def split: prod.split)

lemma transact_log [simp]: "pr_log (snd (transact S f s)) = pr_log s"
  by (simp add: transact_def Let_def split: prod.split fault.split)

lemma session_now_eq: "session_now S s = (Inr (fst (ss_utcnow S (pr_remote s))), s\<lparr>pr_remote := snd (ss_utcnow S (pr_remote s))\<rparr>)"
  by (simp add: session_now_def on_remote_def split: prod.split)

lemma session_log [simp]:
  "pr_log (snd (session_get S rid s)) = pr_log s" "pr_log (snd (session_save S r s)) = pr_log s"
  "pr_log (snd (session_claim S limit lease s)) = pr_log s"
  by (simp_all add: session_get_def session_save_def session_claim_def bindE_def session_now_eq)

end
