(* ===== verification/Project_Manager.thy ===== *)
theory Project_Manager
  imports Ports Http
begin

text \<open>
  The resource manager's adapter, \<open>src/orchestrator/adapters/project_manager.py\<close>: the resource port
  over HTTP, with the Project Manager's statuses turned into verdicts and exceptions.
\<close>

definition resources_path :: "string \<Rightarrow> string \<Rightarrow> string" where
  "resources_path p y = ''/projects/'' @ p @ ''/project_resources/'' @ y"

definition resource_path :: "string \<Rightarrow> string \<Rightarrow> string \<Rightarrow> string" where
  "resource_path p y v = resources_path p y @ ''/'' @ v"

definition pm_create_resource ::
  "'w http \<Rightarrow> string \<Rightarrow> string \<Rightarrow> payload \<Rightarrow> string \<Rightarrow> ('w process, exn, string option) eff" where
  "pm_create_resource h p y body key =
     bindE (send h ((request_json POST (resources_path p y) body)\<lparr>hq_headers := [(''Idempotency-Key'', key)]\<rparr>)) (\<lambda>resp.
     thenE (liftE (raise_for_status resp))
     (bindE (liftE (resp_json resp)) (\<lambda>body.
      bindE (liftE (py_get body ''project_resource_id'' JNull)) (\<lambda>resource_id.
      ret (if resource_id = JNull then None else Some (py_str resource_id))))))"

text \<open>\<open>_refusal_reason\<close>: the first of the three keys that holds a text.\<close>

fun first_text :: "payload \<Rightarrow> string list \<Rightarrow> string option" where
  "first_text body [] = None"
| "first_text body (key # keys) = (case map_of body key of
     Some (JStr v) \<Rightarrow> if v \<noteq> [] then Some v else first_text body keys
   | _ \<Rightarrow> first_text body keys)"

definition stated_reason :: "response \<Rightarrow> string option" where
  "stated_reason resp = (case rsp_json resp of
     Inr (JDict body) \<Rightarrow> first_text body [''detail'', ''message'', ''error'']
   | _ \<Rightarrow> None)"

definition refusal_reason :: "response \<Rightarrow> string" where
  "refusal_reason resp = (case stated_reason resp of
     Some v \<Rightarrow> v
   | None \<Rightarrow> ''validation refused with status '' @ str_nat (rsp_status resp))"

definition refusal_codes :: "nat list" where
  "refusal_codes = [400, 404]"

definition validation_body :: "resource_validation_request \<Rightarrow> payload" where
  "validation_body q =
     (let body = [(''flow_type'', JStr (vq_workflow_identifier q)),
         (''db_operation'', JStr (operation_value (vq_operation q))),
         (''variables'', JDict (vq_params q)), (''name'', JStr (vq_name q))];
       body = (case vq_environment q of None \<Rightarrow> body | Some x \<Rightarrow> dset body ''environment'' (JStr x))
      in case vq_region q of None \<Rightarrow> body | Some x \<Rightarrow> dset body ''region'' (JStr x))"

definition pm_validate_resource ::
  "'w http \<Rightarrow> resource_validation_request \<Rightarrow> ('w process, exn, resource_validation_result) eff" where
  "pm_validate_resource h q =
     bindE (send h (request_json POST
       (resources_path (vq_project_id q) (vq_resource_type q) @ ''/validate_resource'') (validation_body q))) (\<lambda>resp.
     if rsp_status resp \<in> set refusal_codes then
       ret \<lparr>vr_eligible = False, vr_reason = Some (refusal_reason resp)\<rparr>
     else if rsp_status resp = 409 then ret \<lparr>vr_eligible = True, vr_reason = None\<rparr>
     else thenE (liftE (raise_for_status resp)) (ret \<lparr>vr_eligible = True, vr_reason = None\<rparr>))"

definition pm_update_resource ::
  "'w http \<Rightarrow> string \<Rightarrow> string \<Rightarrow> string \<Rightarrow> payload \<Rightarrow> ('w process, exn, unit) eff" where
  "pm_update_resource h p y v flds =
     bindE (send h (request_json PATCH (resource_path p y v) flds)) (\<lambda>resp.
     if rsp_status resp = 404 then
       raise (ResourceNotFoundError (''No '' @ y @ '' resource '' @ quote_char @ v @ quote_char @
         '' in project '' @ quote_char @ p @ quote_char @ ''.''))
     else liftE (raise_for_status resp))"

definition pm_delete_resource ::
  "'w http \<Rightarrow> string \<Rightarrow> string \<Rightarrow> string \<Rightarrow> ('w process, exn, unit) eff" where
  "pm_delete_resource h p y v =
     bindE (send h (request DELETE (resource_path p y v))) (\<lambda>resp.
     if rsp_status resp = 404 then ret () else liftE (raise_for_status resp))"

definition pm_client :: "'w http \<Rightarrow> 'w process resource_client" where
  "pm_client h = \<lparr>rc_create_resource = pm_create_resource h, rc_validate_resource = pm_validate_resource h,
     rc_update_resource = pm_update_resource h, rc_delete_resource = pm_delete_resource h\<rparr>"

lemmas pm_defs = pm_create_resource_def pm_validate_resource_def pm_update_resource_def pm_delete_resource_def

lemma first_text_spec:
  "first_text body keys = Some v \<Longrightarrow> v \<noteq> [] \<and> (\<exists>k \<in> set keys. map_of body k = Some (JStr v))"
  by (induction keys) (auto split: option.splits json.splits if_splits)

lemma stated_reason_not_Nil: "stated_reason resp = Some v \<Longrightarrow> v \<noteq> []"
  by (cases "rsp_json resp"; cases "projr (rsp_json resp)")
     (simp_all add: stated_reason_def first_text_spec del: first_text.simps)

lemma refusal_reason_not_Nil [simp]: "refusal_reason resp \<noteq> []"
  using stated_reason_not_Nil [of resp]
  unfolding refusal_reason_def by (cases "stated_reason resp") simp_all

text \<open>The verdict a response amounts to.\<close>

definition verdict :: "response \<Rightarrow> exn + resource_validation_result" where
  "verdict resp =
     (if rsp_status resp \<in> {400, 404} then Inr \<lparr>vr_eligible = False, vr_reason = Some (refusal_reason resp)\<rparr>
      else if rsp_status resp = 409 then Inr \<lparr>vr_eligible = True, vr_reason = None\<rparr>
      else case raise_for_status resp of Inl e \<Rightarrow> Inl e | Inr _ \<Rightarrow> Inr \<lparr>vr_eligible = True, vr_reason = None\<rparr>)"

lemma pm_validate_result:
  assumes "ht_send h (request_json POST (resources_path (vq_project_id q) (vq_resource_type q) @ ''/validate_resource'')
      (validation_body q)) (pr_remote s) = (answer, w)"
  shows "fst (pm_validate_resource h q s) = (case answer of Inl e \<Rightarrow> Inl e | Inr resp \<Rightarrow> verdict resp)"
  using assms
  by (simp add: pm_validate_resource_def eff_basic send_def refusal_codes_def verdict_def raise_for_status_def
      split: sum.split)

text \<open>Project Manager's verdict on a request: it is refused exactly on a 400 or a 404, with a reason
  that is never empty; it passes on any 2xx and on a 409, the name being the run's own; every other
  answer, like a failed connection, is an error of the check itself and is raised, to be retried.\<close>

theorem validation_verdict:
  assumes "ht_send h (request_json POST (resources_path (vq_project_id q) (vq_resource_type q) @ ''/validate_resource'')
      (validation_body q)) (pr_remote s) = (answer, w)"
  shows "case (answer, fst (pm_validate_resource h q s)) of
     (Inl e, r) \<Rightarrow> r = Inl e
   | (Inr resp, Inl e) \<Rightarrow> rsp_status resp \<notin> {400, 404, 409} \<and> \<not> is_success resp \<and>
       e = OtherError ''HTTPStatusError'' (rsp_error resp)
   | (Inr resp, Inr v) \<Rightarrow>
       (if vr_eligible v then rsp_status resp = 409 \<or> is_success resp
        else rsp_status resp \<in> {400, 404} \<and> vr_reason v = Some (refusal_reason resp) \<and> refusal_reason resp \<noteq> [])"
proof (cases answer)
  case (Inl e)
  then show ?thesis by (simp add: pm_validate_result [OF assms])
next
  case (Inr resp)
  then show ?thesis
    by (simp add: pm_validate_result [OF assms] verdict_def raise_for_status_def)
qed

text \<open>A service that answers everything with one status and body.\<close>

definition answering :: "nat \<Rightarrow> json \<Rightarrow> unit http" where
  "answering code j = \<lparr>ht_send = (\<lambda>q w. (Inr \<lparr>rsp_status = code, rsp_json = Inr j, rsp_error = ''error''\<rparr>, w)),
     ht_model_error = (\<lambda>m. m)\<rparr>"

definition idle_process :: "'w \<Rightarrow> 'w process" where
  "idle_process w = \<lparr>pr_groups = [], pr_token = JNull, pr_remote = w, pr_log = []\<rparr>"

definition sample_question :: resource_validation_request where
  "sample_question = \<lparr>vq_project_id = ''p1'', vq_resource_type = ''vm'', vq_name = ''web'', vq_operation = RO_CREATE,
     vq_workflow_identifier = ''vm'', vq_params = [], vq_region = None, vq_environment = Some ''prod''\<rparr>"

lemma validation_verdict_witness:
  "\<exists>v. fst (pm_validate_resource (answering 400 (JDict [(''detail'', JStr ''no capacity'')])) sample_question
     (idle_process ())) = Inr v \<and> \<not> vr_eligible v \<and> vr_reason v \<noteq> Some []"
proof -
  let ?h = "answering 400 (JDict [(''detail'', JStr ''no capacity'')])"
  let ?r = "\<lparr>rsp_status = 400, rsp_json = Inr (JDict [(''detail'', JStr ''no capacity'')]), rsp_error = ''error''\<rparr>"
  have "ht_send ?h q w = (Inr ?r, w)" for q and w :: unit by (simp add: answering_def)
  moreover have "\<not> is_success ?r" by (simp add: is_success_def)
  ultimately show ?thesis
    using validation_verdict [of ?h sample_question "idle_process ()" "Inr ?r" "()"]
    by (auto split: sum.splits if_splits)
qed

end
