(* ===== verification/Service_Now.thy ===== *)
theory Service_Now
  imports Ports Http
begin

text \<open>
  The ticket system's adapter, \<open>src/orchestrator/adapters/servicenow.py\<close>: the ticket port over
  ServiceNow's table and catalog APIs. A template is a catalog item, a ticket a request item (RITM), an
  incident an INC. The groups resolved so far (\<open>self._groups\<close>, seeded from the configuration) are
  \<open>pr_groups\<close> of the process. Log calls are left out, except that two of them decode the response and
  can raise.
\<close>

record 'w servicenow =
  sn_http :: "'w http"
  sn_default_group :: string
  sn_group_lookup_field :: string
  sn_user_lookup_field :: string

definition approval_group_variable :: string where
  "approval_group_variable = ''approval_group''"

text \<open>Text beyond ASCII, as its UTF-8 bytes.\<close>

definition utf8 :: "nat list \<Rightarrow> string" where
  "utf8 bytes = map char_of bytes"

definition business_service :: string where
  "business_service = utf8 [215, 168, 215, 169, 215, 170, 32, 215, 153, 215, 151, 215, 153, 215, 147, 215, 148]"

definition service_offering :: string where
  "service_offering = utf8 [215, 169, 215, 153, 215, 168, 215, 149, 215, 170, 215, 153, 32, 215, 164, 215, 153, 215, 170, 215, 149, 215, 151]"

definition doc_subcategory :: string where
  "doc_subcategory = utf8 [215, 156, 215, 166, 215, 149, 215, 168, 215, 154, 32, 215, 170, 215, 153, 215, 162, 215, 149, 215, 147, 32, 45, 32, 215, 160, 215, 161, 215, 146, 215, 168, 32, 215, 144, 215, 149, 215, 152, 215, 149, 215, 158, 215, 152, 215, 153, 215, 170]"

definition close_state :: "ticket_outcome \<Rightarrow> int option" where
  "close_state outcome = map_of [(TO_SUCCESSFUL, 3), (TO_UNSUCCESSFUL, 4)] outcome"

section \<open>Lookups\<close>

definition table_path :: "string \<Rightarrow> string" where
  "table_path tbl = ''/api/now/table/'' @ tbl"

definition first_row_query :: "string \<Rightarrow> string \<Rightarrow> string \<Rightarrow> http_request" where
  "first_row_query tbl query flds = (request GET (table_path tbl))\<lparr>hq_params :=
     [(''sysparm_query'', query), (''sysparm_fields'', flds), (''sysparm_limit'', ''1'')]\<rparr>"

text \<open>\<open>rows = resp.json().get("result", [])\<close> and \<open>rows[0] if rows\<close>.\<close>

definition first_row :: "response \<Rightarrow> exn + json option" where
  "first_row resp = (case resp_json resp of
     Inl e \<Rightarrow> Inl e
   | Inr j \<Rightarrow> (case py_get j ''result'' (JList []) of
       Inl e \<Rightarrow> Inl e
     | Inr rows \<Rightarrow> if py_true rows then (case py_first rows of Inl e \<Rightarrow> Inl e | Inr r \<Rightarrow> Inr (Some r))
                   else Inr None))"

definition lookup_sys_id :: "'w servicenow \<Rightarrow> string \<Rightarrow> string \<Rightarrow> string \<Rightarrow> ('w process, exn, string option) eff" where
  "lookup_sys_id S tbl fld v =
     bindE (send (sn_http S) (first_row_query tbl (fld @ ''='' @ v) ''sys_id'')) (\<lambda>resp.
     thenE (liftE (raise_for_status resp))
     (bindE (liftE (first_row resp)) (\<lambda>row.
      case row of
        None \<Rightarrow> ret None
      | Some r \<Rightarrow> bindE (liftE (py_item r ''sys_id'')) (\<lambda>x. ret (Some (py_str x))))))"

text \<open>The miss of \<open>_group_sys_id\<close>'s memo: ask ServiceNow, and remember a name that resolves.\<close>

definition group_lookup :: "'w servicenow \<Rightarrow> string \<Rightarrow> ('w process, exn, string option) eff" where
  "group_lookup S name =
     bindE (lookup_sys_id S ''sys_user_group'' (sn_group_lookup_field S) name) (\<lambda>sys_id.
     case sys_id of
       None \<Rightarrow> ret None
     | Some i \<Rightarrow> thenE (modifyS (\<lambda>s. s\<lparr>pr_groups := dset (pr_groups s) name i\<rparr>)) (ret (Some i)))"

definition group_sys_id :: "'w servicenow \<Rightarrow> string \<Rightarrow> ('w process, exn, string option) eff" where
  "group_sys_id S name =
     bindE getS (\<lambda>s.
     case map_of (pr_groups s) name of
       Some known \<Rightarrow> if known \<noteq> [] then ret (Some known) else group_lookup S name
     | None \<Rightarrow> group_lookup S name)"

definition find_ritm :: "'w servicenow \<Rightarrow> string \<Rightarrow> ('w process, exn, ticket_ref option) eff" where
  "find_ritm S key =
     bindE (send (sn_http S) (first_row_query ''sc_req_item'' (''correlation_id='' @ key) ''number,sys_id'')) (\<lambda>resp.
     thenE (liftE (raise_for_status resp))
     (bindE (liftE (first_row resp)) (\<lambda>row.
      case row of
        None \<Rightarrow> ret None
      | Some r \<Rightarrow>
          bindE (liftE (py_item r ''number'')) (\<lambda>n.
          bindE (liftE (py_item r ''sys_id'')) (\<lambda>i.
          bindE (liftE (make_ticket_ref (sn_http S) n i)) (\<lambda>t. ret (Some t)))))))"

definition user_sys_id :: "'w servicenow \<Rightarrow> string \<Rightarrow> ('w process, exn, string) eff" where
  "user_sys_id S login =
     bindE (lookup_sys_id S ''sys_user'' (sn_user_lookup_field S) login) (\<lambda>sys_id.
     ret (case sys_id of None \<Rightarrow> login | Some i \<Rightarrow> i))"

definition patch_row :: "'w servicenow \<Rightarrow> string \<Rightarrow> string \<Rightarrow> payload \<Rightarrow> ('w process, exn, unit) eff" where
  "patch_row S tbl sys_id body =
     bindE (send (sn_http S) (request_json PATCH (table_path tbl @ ''/'' @ sys_id) body)) (\<lambda>resp.
     liftE (raise_for_status resp))"

definition resolved_variables :: "'w servicenow \<Rightarrow> payload \<Rightarrow> ('w process, exn, payload) eff" where
  "resolved_variables S flds =
     (case map_of flds approval_group_variable of
        Some (JStr name) \<Rightarrow>
          if name = [] then ret flds
          else bindE (group_sys_id S name) (\<lambda>sys_id.
            case sys_id of
              None \<Rightarrow> ret flds
            | Some i \<Rightarrow> ret (dset flds approval_group_variable (JStr i)))
      | _ \<Rightarrow> ret flds)"

section \<open>Tickets\<close>

definition order_request :: "string \<Rightarrow> payload \<Rightarrow> string \<Rightarrow> http_request" where
  "order_request template_id variables requested_for =
     request_json POST (''/api/sn_sc/servicecatalog/items/'' @ template_id @ ''/order_now'')
       [(''variables'', JDict variables), (''sysparm_quantity'', JInt 1),
        (''sysparm_requested_for'', JStr requested_for)]"

text \<open>From the order to the tag. The tagging PATCH is not checked: whatever it is answered, the ticket
  is returned.\<close>

definition tag_ritm :: "'w servicenow \<Rightarrow> json \<Rightarrow> string \<Rightarrow> ('w process, exn, ticket_ref) eff" where
  "tag_ritm S r key =
     bindE (liftE (py_item r ''number'')) (\<lambda>n.
     bindE (liftE (py_item r ''sys_id'')) (\<lambda>i.
     thenE (send (sn_http S) (request_json PATCH (table_path ''sc_req_item/'' @ py_str i) [(''correlation_id'', JStr key)]))
       (liftE (make_ticket_ref (sn_http S) n i))))"

definition order_ticket :: "'w servicenow \<Rightarrow> http_request \<Rightarrow> string \<Rightarrow> ('w process, exn, ticket_ref) eff" where
  "order_ticket S q key =
     bindE (send (sn_http S) q) (\<lambda>order.
     bindE (liftE (resp_json order)) (\<lambda>j.
     thenE (liftE (raise_for_status order))
     (bindE (liftE (py_item j ''result'')) (\<lambda>result.
      bindE (liftE (py_item result ''sys_id'')) (\<lambda>request_sys_id.
      bindE (send (sn_http S) (first_row_query ''sc_req_item'' (''request='' @ py_str request_sys_id) ''number,sys_id'')) (\<lambda>ritm.
      thenE (liftE (raise_for_status ritm))
      (bindE (liftE (resp_json ritm)) (\<lambda>j.
       bindE (liftE (py_item j ''result'')) (\<lambda>rows.
       bindE (liftE (py_first rows)) (\<lambda>r. tag_ritm S r key))))))))))"

definition sn_open_ticket ::
  "'w servicenow \<Rightarrow> string \<Rightarrow> payload \<Rightarrow> string \<Rightarrow> string \<Rightarrow> ('w process, exn, ticket_ref) eff" where
  "sn_open_ticket S template_id flds requested_by key =
     bindE (find_ritm S key) (\<lambda>found.
     case found of
       Some t \<Rightarrow> ret t
     | None \<Rightarrow>
         bindE (user_sys_id S requested_by) (\<lambda>requested_for.
         bindE (resolved_variables S flds) (\<lambda>variables.
         order_ticket S (order_request template_id variables requested_for) key)))"

definition approval_of :: "json \<Rightarrow> exn + approval_status" where
  "approval_of v = (case v of
     JStr s \<Rightarrow> Inr (if s = ''approved'' then AP_APPROVED else if s = ''rejected'' then AP_REJECTED else AP_PENDING)
   | JList _ \<Rightarrow> Inl (OtherError ''TypeError'' (''unhashable type: '' @ repr_str ''list''))
   | JDict _ \<Rightarrow> Inl (OtherError ''TypeError'' (''unhashable type: '' @ repr_str ''dict''))
   | _ \<Rightarrow> Inr AP_PENDING)"

definition sn_get_approval_status :: "'w servicenow \<Rightarrow> ticket_ref \<Rightarrow> ('w process, exn, approval_status) eff" where
  "sn_get_approval_status S ticket =
     bindE (send (sn_http S) ((request GET (table_path ''sc_req_item/'' @ tr_native_id ticket))
       \<lparr>hq_params := [(''sysparm_fields'', ''approval'')]\<rparr>)) (\<lambda>resp.
     thenE (liftE (raise_for_status resp))
     (bindE (liftE (resp_json resp)) (\<lambda>j.
      bindE (liftE (py_item j ''result'')) (\<lambda>result.
      bindE (liftE (py_get result ''approval'' (JStr []))) (\<lambda>approval.
      liftE (approval_of approval))))))"

text \<open>\<open>if note\<close>: neither absent nor empty.\<close>

definition text_field :: "string \<Rightarrow> string option \<Rightarrow> payload" where
  "text_field key v = (case v of None \<Rightarrow> [] | Some t \<Rightarrow> if t = [] then [] else [(key, JStr t)])"

definition sn_close_ticket ::
  "'w servicenow \<Rightarrow> ticket_ref \<Rightarrow> string option \<Rightarrow> ticket_outcome \<Rightarrow> ('w process, exn, unit) eff" where
  "sn_close_ticket S ticket note outcome =
     (case close_state outcome of
        None \<Rightarrow> raise (KeyError (''<TicketOutcome.DOCUMENTATION: '' @ repr_str ''documentation'' @ ''>''))
      | Some code \<Rightarrow> patch_row S ''sc_req_item'' (tr_native_id ticket)
          ((''state'', JInt code) # text_field ''work_notes'' note))"

definition sn_annotate_ticket :: "'w servicenow \<Rightarrow> ticket_ref \<Rightarrow> string \<Rightarrow> ('w process, exn, unit) eff" where
  "sn_annotate_ticket S ticket note =
     patch_row S ''sc_req_item'' (tr_native_id ticket) [(''work_notes'', JStr note)]"

section \<open>Incidents\<close>

definition sn_close_incident ::
  "'w servicenow \<Rightarrow> ticket_ref \<Rightarrow> string option \<Rightarrow> ticket_outcome \<Rightarrow> ('w process, exn, unit) eff" where
  "sn_close_incident S incident note outcome =
     patch_row S ''incident'' (tr_native_id incident)
       ([(''state'', JInt 6), (''close_code'', JStr ''Solved (Work Around)''),
         (''close_notes'', JStr (case note of None \<Rightarrow> ''Incident closed automatically''
            | Some n \<Rightarrow> if n = [] then ''Incident closed automatically'' else n)),
         (''u_category_actual'', JStr ''CloudIO'')] @
        (if outcome = TO_DOCUMENTATION then [(''u_subcategory_actual'', JStr doc_subcategory)] else []))"

definition assignment_group :: "'w servicenow \<Rightarrow> string \<Rightarrow> ('w process, exn, string option) eff" where
  "assignment_group S responsible_group =
     bindE (group_sys_id S responsible_group) (\<lambda>sys_id.
     case sys_id of
       Some i \<Rightarrow> ret (Some i)
     | None \<Rightarrow>
         if responsible_group = sn_default_group S then ret None
         else group_sys_id S (sn_default_group S))"

definition incident_body :: "incident_request \<Rightarrow> string \<Rightarrow> string option \<Rightarrow> payload" where
  "incident_body q caller_id group_id =
     [(''u_noc'', JBool True), (''contact_type'', JStr ''self-service''),
      (''short_description'', JStr (ir_summary q)), (''urgency'', JInt 3), (''impact'', JInt 3),
      (''caller_id'', JStr caller_id), (''business_service'', JStr business_service),
      (''service_offering'', JStr service_offering), (''u_new_subcategory'', JStr ''CloudIO'')] @
     (case group_id of None \<Rightarrow> [] | Some i \<Rightarrow> [(''assignment_group'', JStr i)]) @
     text_field ''description'' (ir_description q) @
     text_field ''u_cloudio_flow_type'' (ir_flow_type q) @
     text_field ''u_cloudio_failed_task'' (ir_failed_task q) @
     text_field ''work_notes'' (ir_comment q)"

definition incident_ref :: "'w servicenow \<Rightarrow> response \<Rightarrow> ('w process, exn, ticket_ref) eff" where
  "incident_ref S resp =
     thenE (liftE (raise_for_status resp))
     (bindE (liftE (resp_json resp)) (\<lambda>j.
      bindE (liftE (py_item j ''result'')) (\<lambda>r.
      bindE (liftE (py_item r ''number'')) (\<lambda>n.
      bindE (liftE (py_item r ''sys_id'')) (\<lambda>i.
      liftE (make_ticket_ref (sn_http S) n i))))))"

definition sn_open_incident :: "'w servicenow \<Rightarrow> incident_request \<Rightarrow> ('w process, exn, ticket_ref) eff" where
  "sn_open_incident S q =
     bindE (user_sys_id S (ir_requested_by q)) (\<lambda>caller_id.
     bindE (assignment_group S (ir_responsible_group q)) (\<lambda>sys_id.
     bindE (send (sn_http S) (request_json POST (table_path ''incident'') (incident_body q caller_id sys_id)))
       (incident_ref S)))"

section \<open>The client\<close>

definition servicenow_client :: "'w servicenow \<Rightarrow> 'w process ticket_client" where
  "servicenow_client S = \<lparr>tc_open_ticket = sn_open_ticket S, tc_get_approval_status = sn_get_approval_status S,
     tc_close_ticket = sn_close_ticket S, tc_annotate_ticket = sn_annotate_ticket S,
     tc_open_incident = sn_open_incident S, tc_close_incident = sn_close_incident S\<rparr>"

section \<open>What the calls exchange\<close>

text \<open>\<open>gets n s t\<close>: from \<open>s\<close> to \<open>t\<close> at most \<open>n\<close> exchanges took place, all of them reads;
  \<open>orders s t\<close>: a \<open>POST\<close> and then at most two exchanges, none of them a \<open>POST\<close>.\<close>

definition gets :: "nat \<Rightarrow> 'w process \<Rightarrow> 'w process \<Rightarrow> bool" where
  "gets n s t \<longleftrightarrow> (\<exists>ex. pr_log t = pr_log s @ ex \<and> length ex \<le> n \<and> (\<forall>e \<in> set ex. hq_verb (fst e) = GET))"

definition orders :: "'w process \<Rightarrow> 'w process \<Rightarrow> bool" where
  "orders s t \<longleftrightarrow> (\<exists>e ex. pr_log t = pr_log s @ e # ex \<and> hq_verb (fst e) = POST \<and> length ex \<le> 2 \<and>
     (\<forall>e \<in> set ex. hq_verb (fst e) \<noteq> POST))"

text \<open>The memo only grows: a name once resolved keeps its id.\<close>

definition memo_kept :: "'w process \<Rightarrow> 'w process \<Rightarrow> bool" where
  "memo_kept s t \<longleftrightarrow> (\<forall>n i. map_of (pr_groups s) n = Some i \<longrightarrow> i \<noteq> [] \<longrightarrow> map_of (pr_groups t) n = Some i)"

lemma gets_trans: "gets n s t \<Longrightarrow> gets m t u \<Longrightarrow> n + m \<le> k \<Longrightarrow> gets k s u"
  unfolding gets_def by (elim exE, rule_tac x = "ex @ exa" in exI) auto

lemma gets_mono: "gets n s t \<Longrightarrow> n \<le> k \<Longrightarrow> gets k s t"
  by (auto simp: gets_def)

lemma gets_refl [simp]: "gets n s s"
  by (auto simp: gets_def)

lemma gets_1: "pr_log t = pr_log s @ [e] \<Longrightarrow> hq_verb (fst e) = GET \<Longrightarrow> gets (Suc n) s t"
  by (auto simp: gets_def)

lemma memo_kept_refl [simp]: "memo_kept s s"
  by (simp add: memo_kept_def)

lemma memo_kept_trans: "memo_kept s t \<Longrightarrow> memo_kept t u \<Longrightarrow> memo_kept s u"
  by (simp add: memo_kept_def)

lemma memo_kept_same: "pr_groups t = pr_groups s \<Longrightarrow> memo_kept s t"
  by (simp add: memo_kept_def)

lemma verb_simps [simp]:
  "hq_verb (request v p) = v" "hq_verb (request_json v p b) = v" "hq_verb (first_row_query x y z) = GET"
  by (simp_all add: request_def request_json_def first_row_query_def)

abbreviation read_only :: "nat \<Rightarrow> 'w process \<Rightarrow> 'w process \<Rightarrow> bool" where
  "read_only n s t \<equiv> gets n s t \<and> pr_groups t = pr_groups s"

lemma lookup_spec: "wpE (lookup_sys_id S tbl fld v) (\<lambda>_. read_only 1 s) (\<lambda>_. read_only 1 s) s"
  by (auto simp: lookup_sys_id_def wp gets_1 split: sum.split option.split)

lemma find_ritm_spec: "wpE (find_ritm S key) (\<lambda>_. read_only 1 s) (\<lambda>_. read_only 1 s) s"
  by (auto simp: find_ritm_def wp gets_1 split: sum.split option.split)

lemma user_spec: "wpE (user_sys_id S login) (\<lambda>_. read_only 1 s) (\<lambda>_. read_only 1 s) s"
  unfolding user_sys_id_def wp by (rule wp_mono [OF lookup_spec]) simp_all

text \<open>A group resolves to an id the memo holds from then on, or not at all; one read at most.\<close>

definition unresolved :: "'w process \<Rightarrow> string \<Rightarrow> bool" where
  "unresolved t name \<longleftrightarrow> map_of (pr_groups t) name \<in> {None, Some []}"

definition resolves :: "'w process \<Rightarrow> 'w process \<Rightarrow> string \<Rightarrow> string option \<Rightarrow> bool" where
  "resolves s t name r \<longleftrightarrow> (case r of
     None \<Rightarrow> unresolved t name \<and> pr_groups t = pr_groups s
   | Some i \<Rightarrow> map_of (pr_groups t) name = Some i \<and>
       (\<forall>n. n \<noteq> name \<longrightarrow> map_of (pr_groups t) n = map_of (pr_groups s) n))"

lemma group_spec:
  "wpE (group_sys_id S name) (\<lambda>r t. gets 1 s t \<and> memo_kept s t \<and> resolves s t name r)
     (\<lambda>_ t. gets 1 s t \<and> memo_kept s t) s"
proof -
  have "wpE (group_lookup S name) (\<lambda>r t. gets 1 s t \<and> memo_kept s t \<and> resolves s t name r)
     (\<lambda>_ t. gets 1 s t \<and> memo_kept s t) s"
    if "unresolved s name"
    unfolding group_lookup_def wp
    by (rule wp_mono [OF lookup_spec])
       (use that in \<open>auto simp: memo_kept_def gets_def resolves_def unresolved_def split: option.split\<close>)
  then show ?thesis
    by (auto simp: group_sys_id_def wp resolves_def unresolved_def split: option.split)
qed

lemma variables_spec:
  "wpE (resolved_variables S flds) (\<lambda>_ t. gets 1 s t \<and> memo_kept s t) (\<lambda>_ t. gets 1 s t \<and> memo_kept s t) s"
proof -
  have "wpE (group_sys_id S name) (\<lambda>_ t. gets 1 s t \<and> memo_kept s t) (\<lambda>_ t. gets 1 s t \<and> memo_kept s t) s" for name
    by (rule wp_mono [OF group_spec]) auto
  then show ?thesis
    by (auto simp: resolved_variables_def wp intro: wp_mono split: option.split json.split)
qed

lemma orders_1: "pr_log t = pr_log s @ [e] \<Longrightarrow> hq_verb (fst e) = POST \<Longrightarrow> orders s t"
  by (auto simp: orders_def)

lemma orders_2: "pr_log t = pr_log s @ [e, f] \<Longrightarrow> hq_verb (fst e) = POST \<Longrightarrow> hq_verb (fst f) \<noteq> POST \<Longrightarrow> orders s t"
  by (auto simp: orders_def)

lemma orders_3: "pr_log t = pr_log s @ [e, f, g] \<Longrightarrow> hq_verb (fst e) = POST \<Longrightarrow> hq_verb (fst f) \<noteq> POST \<Longrightarrow>
    hq_verb (fst g) \<noteq> POST \<Longrightarrow> orders s t"
  by (auto simp: orders_def)

lemma tag_spec:
  "pr_log s = pr_log r @ [e, f] \<Longrightarrow> hq_verb (fst e) = POST \<Longrightarrow> hq_verb (fst f) \<noteq> POST \<Longrightarrow>
   wpE (tag_ritm S row key) (\<lambda>_ t. orders r t \<and> pr_groups t = pr_groups s) (\<lambda>_ t. orders r t \<and> pr_groups t = pr_groups s) s"
  by (auto simp: tag_ritm_def wp intro: orders_2 orders_3 split: sum.split)

lemma order_spec:
  assumes "hq_verb q = POST"
  shows "wpE (order_ticket S q key) (\<lambda>_ t. orders s t \<and> pr_groups t = pr_groups s)
    (\<lambda>_ t. orders s t \<and> pr_groups t = pr_groups s) s"
proof -
  note tag = wp_mono [OF tag_spec [of _ s]]
  show ?thesis
    unfolding order_ticket_def
    by (auto simp: wp assms intro: orders_1 orders_2 split: sum.split intro!: tag)
qed

section \<open>Opening a ticket\<close>

definition search_request :: "string \<Rightarrow> http_request" where
  "search_request key = first_row_query ''sc_req_item'' (''correlation_id='' @ key) ''number,sys_id''"

text \<open>An answer that carries a row: the request item was ordered before.\<close>

definition found_row :: "exn + response \<Rightarrow> bool" where
  "found_row a \<longleftrightarrow> (case a of Inl _ \<Rightarrow> False
     | Inr resp \<Rightarrow> is_success resp \<and> (\<exists>row. first_row resp = Inr (Some row)))"

lemma search_spec:
  "wpE (find_ritm S key)
     (\<lambda>x t. \<exists>a. pr_log t = pr_log s @ [(search_request key, a)] \<and> (x = None \<longrightarrow> \<not> found_row a))
     (\<lambda>_ t. \<exists>a. pr_log t = pr_log s @ [(search_request key, a)]) s"
  by (auto simp: find_ritm_def search_request_def wp found_row_def split: sum.split option.split)

text \<open>What follows the search when it found nothing.\<close>

definition order_phase ::
  "'w servicenow \<Rightarrow> string \<Rightarrow> payload \<Rightarrow> string \<Rightarrow> string \<Rightarrow> ('w process, exn, ticket_ref) eff" where
  "order_phase S template_id flds requested_by key =
     bindE (user_sys_id S requested_by) (\<lambda>requested_for.
     bindE (resolved_variables S flds) (\<lambda>variables.
     order_ticket S (order_request template_id variables requested_for) key))"

definition ordering :: "'w process \<Rightarrow> 'w process \<Rightarrow> bool" where
  "ordering s t \<longleftrightarrow> gets 2 s t \<or> (\<exists>u. gets 2 s u \<and> orders u t)"

lemma order_phase_spec: "wpE (order_phase S tmpl flds by_whom key) (\<lambda>_. ordering s) (\<lambda>_. ordering s) s"
proof -
  have order: "wpE (order_ticket S (order_request tmpl vs who) key) (\<lambda>_. ordering s) (\<lambda>_. ordering s) t"
    if "gets 2 s t" for vs who t
    by (rule wp_mono [OF order_spec]) (use that in \<open>auto simp: ordering_def order_request_def\<close>)
  have vars: "wpE (resolved_variables S flds) (\<lambda>vs. wpE (order_ticket S (order_request tmpl vs who) key)
      (\<lambda>_. ordering s) (\<lambda>_. ordering s)) (\<lambda>_. ordering s) t"
    if "gets 1 s t" for who t
    by (rule wp_mono [OF variables_spec])
       (use that gets_trans [OF that, of 1] in \<open>auto simp: ordering_def intro!: order\<close>)
  show ?thesis
    unfolding order_phase_def wp
    by (rule wp_mono [OF user_spec]) (simp_all add: vars ordering_def gets_mono [of 1 s _ 2])
qed

lemma ordering_log:
  assumes "ordering s t" and "pr_log s = l"
  shows "\<exists>reads post. pr_log t = l @ reads @ post \<and> length reads \<le> 2 \<and> (\<forall>e \<in> set reads. hq_verb (fst e) = GET) \<and>
    (post = [] \<or> (\<exists>e rest. post = e # rest \<and> hq_verb (fst e) = POST \<and> length rest \<le> 2 \<and>
       (\<forall>f \<in> set rest. hq_verb (fst f) \<noteq> POST)))"
  using assms unfolding ordering_def gets_def orders_def
  by (elim disjE exE conjE) (rule_tac x = ex in exI, rule_tac x = "[]" in exI, simp, fastforce)

lemma open_ticket_spec:
  "wpE (sn_open_ticket S tmpl flds by_whom key)
     (\<lambda>_ t. \<exists>a u. pr_log u = pr_log s @ [(search_request key, a)] \<and> ordering u t \<and> (found_row a \<longrightarrow> t = u))
     (\<lambda>_ t. \<exists>a u. pr_log u = pr_log s @ [(search_request key, a)] \<and> ordering u t \<and> (found_row a \<longrightarrow> t = u)) s"
proof -
  let ?Q = "\<lambda>t. \<exists>a u. pr_log u = pr_log s @ [(search_request key, a)] \<and> ordering u t \<and> (found_row a \<longrightarrow> t = u)"
  have here: "?Q t" if "pr_log t = pr_log s @ [(search_request key, a)]" for a t
    using that by (intro exI [of _ a] exI [of _ t]) (simp add: ordering_def)
  have ord: "wpE (order_phase S tmpl flds by_whom key) (\<lambda>_. ?Q) (\<lambda>_. ?Q) t"
    if "pr_log t = pr_log s @ [(search_request key, a)]" "\<not> found_row a" for a t
    by (rule wp_mono [OF order_phase_spec]) (use that in auto)
  show ?thesis
    unfolding sn_open_ticket_def order_phase_def [symmetric] wp
    by (rule wp_mono [OF search_spec]) (auto split: option.split intro: here ord)
qed

section \<open>Opening an incident\<close>

text \<open>The group an incident is assigned to is one the memo names: the team's, else the default team's.\<close>

definition assigned :: "'w servicenow \<Rightarrow> string \<Rightarrow> string option \<Rightarrow> 'w process \<Rightarrow> bool" where
  "assigned S team g t \<longleftrightarrow> (case g of
     Some i \<Rightarrow> map_of (pr_groups t) team = Some i \<or>
       unresolved t team \<and> map_of (pr_groups t) (sn_default_group S) = Some i
   | None \<Rightarrow> unresolved t team \<and> unresolved t (sn_default_group S))"

lemma assigned_team: "resolves s t team (Some i) \<Longrightarrow> assigned S team (Some i) t"
  by (simp add: resolves_def assigned_def)

lemma assigned_nobody: "resolves s t (sn_default_group S) None \<Longrightarrow> assigned S (sn_default_group S) None t"
  by (simp add: resolves_def assigned_def)

lemma assigned_default:
  "unresolved u team \<Longrightarrow> resolves u t (sn_default_group S) g \<Longrightarrow> team \<noteq> sn_default_group S \<Longrightarrow> assigned S team g t"
  by (auto simp: resolves_def assigned_def unresolved_def split: option.splits)

lemma assigned_cong: "pr_groups t = pr_groups u \<Longrightarrow> assigned S team g t = assigned S team g u"
  by (simp add: assigned_def unresolved_def split: option.split)

lemma assignment_spec:
  "wpE (assignment_group S team) (\<lambda>g t. gets 2 s t \<and> memo_kept s t \<and> assigned S team g t)
     (\<lambda>_ t. gets 2 s t \<and> memo_kept s t) s"
proof -
  have fallback: "wpE (group_sys_id S (sn_default_group S))
      (\<lambda>g t. gets 2 s t \<and> memo_kept s t \<and> assigned S team g t) (\<lambda>_ t. gets 2 s t \<and> memo_kept s t) u"
    if u: "gets 1 s u" "memo_kept s u" "unresolved u team" "team \<noteq> sn_default_group S" for u
    by (rule wp_mono [OF group_spec])
       (use u gets_trans [OF u(1), of 1 _ 2] memo_kept_trans [OF u(2)] assigned_default [OF u(3) _ u(4)] in auto)
  show ?thesis
    unfolding assignment_group_def wp_bind
  proof (rule wp_mono [OF group_spec], goal_cases)
    case (1 r t)
    then have t: "gets 1 s t" "gets 2 s t" "memo_kept s t" "resolves s t team r"
      by (auto intro: gets_mono)
    show ?case
    proof (cases r)
      case None
      with t(4) have "unresolved t team" by (simp add: resolves_def)
      with None t show ?thesis
        using fallback [of t] assigned_nobody [of s t S] by (cases "team = sn_default_group S") (simp_all add: wp)
    qed (use t assigned_team in \<open>auto simp: wp\<close>)
  qed (auto intro: gets_mono)
qed

definition incident_post :: "'w servicenow \<Rightarrow> incident_request \<Rightarrow> 'w process \<Rightarrow> http_request \<Rightarrow> bool" where
  "incident_post S q t e \<longleftrightarrow> (\<exists>caller g. e = request_json POST (table_path ''incident'') (incident_body q caller g) \<and>
     assigned S (ir_responsible_group q) g t)"

definition reports :: "'w servicenow \<Rightarrow> incident_request \<Rightarrow> 'w process \<Rightarrow> 'w process \<Rightarrow> bool" where
  "reports S q s t \<longleftrightarrow> gets 3 s t \<or>
     (\<exists>u e. gets 3 s u \<and> pr_log t = pr_log u @ [e] \<and> incident_post S q t (fst e))"

lemma open_incident_spec:
  "wpE (sn_open_incident S q)
     (\<lambda>_ t. memo_kept s t \<and> reports S q s t) (\<lambda>_ t. memo_kept s t \<and> reports S q s t) s"
proof -
  let ?Q = "\<lambda>t. memo_kept s t \<and> reports S q s t"
  have posted: "?Q t" if "memo_kept s u" "gets 3 s u" "pr_groups t = pr_groups u" "assigned S (ir_responsible_group q) g u"
      "pr_log t = pr_log u @ [(request_json POST (table_path ''incident'') (incident_body q caller g), a)]"
    for u t g caller a
  proof -
    have "incident_post S q t (request_json POST (table_path ''incident'') (incident_body q caller g))"
      using that(3,4) assigned_cong [of t u] by (auto simp: incident_post_def)
    with that show ?thesis
      unfolding reports_def
      by (intro conjI disjI2 exI [of _ u] exI [of _ "(request_json POST (table_path ''incident'') (incident_body q caller g), a)"])
         (simp_all add: memo_kept_def)
  qed
  have after: "wpE (incident_ref S resp) (\<lambda>_. ?Q) (\<lambda>_. ?Q) t" if "?Q t" for resp t
    using that by (auto simp: incident_ref_def wp split: sum.split)
  have post: "wpE (bindE (assignment_group S (ir_responsible_group q)) (\<lambda>g. bindE (send (sn_http S)
      (request_json POST (table_path ''incident'') (incident_body q caller g))) (incident_ref S))) (\<lambda>_. ?Q) (\<lambda>_. ?Q) u"
    if "gets 1 s u" "memo_kept s u" for caller u
  proof (subst wp_bind, rule wp_mono [OF assignment_spec], goal_cases)
    case (1 g t)
    then have t: "gets 3 s t" "memo_kept s t" "assigned S (ir_responsible_group q) g t"
      using that gets_trans [of 1 s u 2 t 3] memo_kept_trans [of s u t] by auto
    show ?case
      unfolding wp_bind wp_send
      by (intro conjI allI impI after posted [OF t(2,1) _ t(3)]) simp_all
  next
    case (2 e t)
    then show ?case
      using that gets_trans [of 1 s u 2 t 3] memo_kept_trans [of s u t] by (auto simp: reports_def)
  qed
  show ?thesis
    unfolding sn_open_incident_def
  proof (subst wp_bind, rule wp_mono [OF user_spec], goal_cases)
    case (1 caller t)
    then show ?case by (intro post) (simp_all add: memo_kept_same)
  next
    case (2 e t)
    then show ?case by (simp add: reports_def memo_kept_same gets_mono [of 1 s _ 3])
  qed
qed

end
