(* ===== verification/Json_Codec.thy ===== *)
theory Json_Codec
  imports Http
begin

text \<open>
  Python's \<open>json.dumps\<close> and \<open>json.loads\<close>, through which a failure travels from a DAG's callback to the
  Airflow adapter. \<open>dumps\<close> escapes everything beyond printable ASCII; \<open>loads\<close> is the decoder's grammar,
  with \<open>None\<close> for \<open>JSONDecodeError\<close>. Each item, member and nested value is parsed with one
  unit less of fuel, and the whole text with twice as much as it has characters: an item takes at least
  one character, and so does the bracket around it. Python's limits on recursion
  depth and on the digits of an integer are not modelled.
\<close>

section \<open>Text\<close>

text \<open>Strings hold UTF-8; the code points of a text, and the bytes of a code point.\<close>

definition byte :: "char \<Rightarrow> nat" where
  "byte c = of_char c"

fun code_points :: "nat list \<Rightarrow> nat list" where
  "code_points [] = []"
| "code_points [a] = [a]"
| "code_points [a, b] = (if 192 \<le> a \<and> a < 224 then [(a - 192) * 64 + (b - 128)] else a # code_points [b])"
| "code_points [a, b, c] =
     (if 192 \<le> a \<and> a < 224 then ((a - 192) * 64 + (b - 128)) # code_points [c]
      else if 224 \<le> a \<and> a < 240 then [(a - 224) * 4096 + (b - 128) * 64 + (c - 128)]
      else a # code_points [b, c])"
| "code_points (a # b # c # d # r) =
     (if 192 \<le> a \<and> a < 224 then ((a - 192) * 64 + (b - 128)) # code_points (c # d # r)
      else if 224 \<le> a \<and> a < 240 then ((a - 224) * 4096 + (b - 128) * 64 + (c - 128)) # code_points (d # r)
      else if 240 \<le> a then ((a - 240) * 262144 + (b - 128) * 4096 + (c - 128) * 64 + (d - 128)) # code_points r
      else a # code_points (b # c # d # r))"

definition encode_point :: "nat \<Rightarrow> string" where
  "encode_point u = map char_of
     (if u < 128 then [u]
      else if u < 2048 then [192 + u div 64, 128 + u mod 64]
      else if u < 65536 then [224 + u div 4096, 128 + u div 64 mod 64, 128 + u mod 64]
      else [240 + u div 262144, 128 + u div 4096 mod 64, 128 + u div 64 mod 64, 128 + u mod 64])"

definition backslash :: char where
  "backslash = CHR 0x5C"

definition quotation :: char where
  "quotation = CHR 0x22"

section \<open>Encoding\<close>

definition hex4 :: "nat \<Rightarrow> string" where
  "hex4 u = [hex_digit (u div 4096 mod 16), hex_digit (u div 256 mod 16), hex_digit (u div 16 mod 16), hex_digit (u mod 16)]"

definition escape_point :: "nat \<Rightarrow> string" where
  "escape_point u =
     (if u = 34 then [backslash, quotation]
      else if u = 92 then [backslash, backslash]
      else if u = 10 then [backslash, CHR ''n'']
      else if u = 13 then [backslash, CHR ''r'']
      else if u = 9 then [backslash, CHR ''t'']
      else if u = 12 then [backslash, CHR ''f'']
      else if u = 8 then [backslash, CHR ''b'']
      else if 32 \<le> u \<and> u < 127 then [char_of u]
      else if u < 65536 then [backslash, CHR ''u''] @ hex4 u
      else [backslash, CHR ''u''] @ hex4 (55296 + (u - 65536) div 1024) @
        [backslash, CHR ''u''] @ hex4 (56320 + (u - 65536) mod 1024))"

definition dump_str :: "string \<Rightarrow> string" where
  "dump_str s = [quotation] @ concat (map escape_point (code_points (map byte s))) @ [quotation]"

fun json_dumps :: "json \<Rightarrow> string" where
  "json_dumps JNull = ''null''"
| "json_dumps (JBool b) = (if b then ''true'' else ''false'')"
| "json_dumps (JInt i) = int_text i"
| "json_dumps (JFloat t) = t"
| "json_dumps (JStr s) = dump_str s"
| "json_dumps (JList xs) = ''['' @ join '', '' (map json_dumps xs) @ '']''"
| "json_dumps (JDict d) = ''{'' @ join '', '' (map (\<lambda>(k, v). dump_str k @ '': '' @ json_dumps v) d) @ ''}''"

section \<open>Decoding\<close>

definition is_ws :: "char \<Rightarrow> bool" where
  "is_ws c \<longleftrightarrow> byte c \<in> {32, 9, 10, 13}"

definition skip_ws :: "string \<Rightarrow> string" where
  "skip_ws s = dropWhile is_ws s"

definition hex_val :: "char \<Rightarrow> nat option" where
  "hex_val c = (let n = byte c in
     if 48 \<le> n \<and> n \<le> 57 then Some (n - 48)
     else if 97 \<le> n \<and> n \<le> 102 then Some (n - 87)
     else if 65 \<le> n \<and> n \<le> 70 then Some (n - 55)
     else None)"

definition parse_hex4 :: "string \<Rightarrow> (nat \<times> string) option" where
  "parse_hex4 s = (case s of
     a # b # c # d # r \<Rightarrow>
       (case (hex_val a, hex_val b, hex_val c, hex_val d) of
          (Some w, Some x, Some y, Some z) \<Rightarrow> Some (w * 4096 + x * 256 + y * 16 + z, r)
        | _ \<Rightarrow> None)
   | _ \<Rightarrow> None)"

text \<open>After \<open>\u\<close>: a code unit, joined with the next when the two are a surrogate pair.\<close>

definition parse_unicode :: "string \<Rightarrow> (nat \<times> string) option" where
  "parse_unicode s = (case parse_hex4 s of
     None \<Rightarrow> None
   | Some (u, r) \<Rightarrow>
       (case r of
          a # b # r' \<Rightarrow>
            if 55296 \<le> u \<and> u \<le> 56319 \<and> a = backslash \<and> b = CHR ''u'' then
              (case parse_hex4 r' of
                 None \<Rightarrow> None
               | Some (v, r'') \<Rightarrow>
                   if 56320 \<le> v \<and> v \<le> 57343 then Some (65536 + (u - 55296) * 1024 + (v - 56320), r'')
                   else Some (u, r))
            else Some (u, r)
        | _ \<Rightarrow> Some (u, r)))"

definition escape_code :: "char \<Rightarrow> nat option" where
  "escape_code c = map_of [(quotation, 34), (backslash, 92), (CHR ''/'', 47), (CHR ''b'', 8),
     (CHR ''f'', 12), (CHR ''n'', 10), (CHR ''r'', 13), (CHR ''t'', 9)] c"

text \<open>One character of a string literal, or one escape.\<close>

definition str_char :: "string \<Rightarrow> (string \<times> string) option" where
  "str_char s = (case s of
     [] \<Rightarrow> None
   | c # cs \<Rightarrow>
       if c \<noteq> backslash then (if byte c < 32 then None else Some ([c], cs))
       else (case cs of
          [] \<Rightarrow> None
        | e # r \<Rightarrow>
            if e = CHR ''u'' then map_option (\<lambda>(u, r). (encode_point u, r)) (parse_unicode r)
            else map_option (\<lambda>u. ([char_of u], r)) (escape_code e)))"

lemma parse_hex4_length: "parse_hex4 s = Some (u, r) \<Longrightarrow> length r < length s"
  by (auto simp: parse_hex4_def split: list.splits option.splits)

lemma parse_unicode_length: "parse_unicode s = Some (u, r) \<Longrightarrow> length r < length s"
  by (fastforce simp: parse_unicode_def split: option.splits list.splits if_splits dest: parse_hex4_length)

lemma str_char_length: "str_char s = Some (e, r) \<Longrightarrow> length r < length s"
  by (fastforce simp: str_char_def split: list.splits if_splits dest: parse_unicode_length)

text \<open>The rest of a string literal, from after its opening quotation mark.\<close>

function parse_str :: "string \<Rightarrow> (string \<times> string) option" where
  "parse_str s = (case s of
     [] \<Rightarrow> None
   | c # cs \<Rightarrow> if c = quotation then Some ([], cs) else (case str_char s of
       None \<Rightarrow> None
     | Some (e, r) \<Rightarrow> map_option (\<lambda>(t, r'). (e @ t, r')) (parse_str r)))"
  by pat_completeness auto
termination
  by (relation "measure length") (auto dest: str_char_length)

declare parse_str.simps [simp del]

definition is_digit :: "char \<Rightarrow> bool" where
  "is_digit c \<longleftrightarrow> 48 \<le> byte c \<and> byte c \<le> 57"

text \<open>The integer part of a number is \<open>0\<close> or starts with another digit.\<close>

definition int_part :: "string \<Rightarrow> string" where
  "int_part s = (case s of [] \<Rightarrow> [] | c # cs \<Rightarrow> if c = CHR ''0'' then [c] else takeWhile is_digit s)"

definition frac_part :: "string \<Rightarrow> string" where
  "frac_part s = (case s of c # cs \<Rightarrow>
     if c = CHR ''.'' \<and> takeWhile is_digit cs \<noteq> [] then c # takeWhile is_digit cs else [] | [] \<Rightarrow> [])"

definition exp_part :: "string \<Rightarrow> string" where
  "exp_part s = (case s of c # cs \<Rightarrow>
     if c = CHR ''e'' \<or> c = CHR ''E'' then
       (let sign = takeWhile (\<lambda>c. c = CHR ''+'' \<or> c = CHR ''-'') (take 1 cs);
            digits = takeWhile is_digit (drop (length sign) cs)
        in if digits = [] then [] else c # sign @ digits)
     else [] | [] \<Rightarrow> [])"

definition parse_number :: "string \<Rightarrow> (json \<times> string) option" where
  "parse_number s =
     (let sign = takeWhile (\<lambda>c. c = CHR ''-'') (take 1 s); r = drop (length sign) s;
          i = int_part r; r = drop (length i) r;
          f = frac_part r; r = drop (length f) r;
          e = exp_part r; r = drop (length e) r
      in if i = [] then None
         else if f = [] \<and> e = [] then
           Some (JInt (if sign = [] then int (read_nat i) else - int (read_nat i)), r)
         else Some (JFloat (sign @ i @ f @ e), r))"

definition starts :: "string \<Rightarrow> string \<Rightarrow> bool" where
  "starts word s \<longleftrightarrow> take (length word) s = word"

definition parse_atom :: "string \<Rightarrow> (json \<times> string) option" where
  "parse_atom s =
     (if starts ''null'' s then Some (JNull, drop 4 s)
      else if starts ''true'' s then Some (JBool True, drop 4 s)
      else if starts ''false'' s then Some (JBool False, drop 5 s)
      else case parse_number s of
        Some x \<Rightarrow> Some x
      | None \<Rightarrow>
          if starts ''NaN'' s then Some (JFloat ''nan'', drop 3 s)
          else if starts ''Infinity'' s then Some (JFloat ''inf'', drop 8 s)
          else if starts ''-Infinity'' s then Some (JFloat ''-inf'', drop 9 s)
          else None)"

text \<open>After an item or a member: another one after a comma, or the end.\<close>

fun parse_value :: "nat \<Rightarrow> string \<Rightarrow> (json \<times> string) option"
  and parse_items :: "nat \<Rightarrow> string \<Rightarrow> (json list \<times> string) option"
  and parse_members :: "nat \<Rightarrow> string \<Rightarrow> ((string \<times> json) list \<times> string) option" where
  "parse_value 0 s = None"
| "parse_value (Suc n) s = (case s of
     [] \<Rightarrow> None
   | c # cs \<Rightarrow>
       if c = quotation then map_option (\<lambda>(t, r). (JStr t, r)) (parse_str cs)
       else if c = CHR ''['' then
         (case skip_ws cs of
            [] \<Rightarrow> None
          | d # ds \<Rightarrow> if d = CHR '']'' then Some (JList [], ds)
              else map_option (\<lambda>(xs, r). (JList xs, r)) (parse_items n (d # ds)))
       else if c = CHR ''{'' then
         (case skip_ws cs of
            [] \<Rightarrow> None
          | d # ds \<Rightarrow> if d = CHR ''}'' then Some (JDict [], ds)
              else map_option (\<lambda>(ms, r). (JDict (fold (\<lambda>(k, v) m. dset m k v) ms []), r)) (parse_members n (d # ds)))
       else parse_atom s)"
| "parse_items 0 s = None"
| "parse_items (Suc n) s = (case parse_value n s of
     None \<Rightarrow> None
   | Some (x, r) \<Rightarrow> (case skip_ws r of
       [] \<Rightarrow> None
     | c # cs \<Rightarrow>
         if c = CHR '']'' then Some ([x], cs)
         else if c = CHR '','' then map_option (\<lambda>(xs, r). (x # xs, r)) (parse_items n (skip_ws cs))
         else None))"
| "parse_members 0 s = None"
| "parse_members (Suc n) s = (case s of
     [] \<Rightarrow> None
   | c # cs \<Rightarrow> if c \<noteq> quotation then None else (case parse_str cs of
       None \<Rightarrow> None
     | Some (k, r) \<Rightarrow> (case skip_ws r of
         [] \<Rightarrow> None
       | d # ds \<Rightarrow> if d \<noteq> CHR '':'' then None else (case parse_value n (skip_ws ds) of
           None \<Rightarrow> None
         | Some (v, r) \<Rightarrow> (case skip_ws r of
             [] \<Rightarrow> None
           | c # cs \<Rightarrow>
               if c = CHR ''}'' then Some ([(k, v)], cs)
               else if c = CHR '','' then map_option (\<lambda>(ms, r). ((k, v) # ms, r)) (parse_members n (skip_ws cs))
               else None)))))"

definition json_loads :: "string \<Rightarrow> json option" where
  "json_loads s = (case parse_value (Suc (2 * length s)) (skip_ws s) of
     None \<Rightarrow> None
   | Some (v, r) \<Rightarrow> if skip_ws r = [] then Some v else None)"

section \<open>Decoding what was encoded\<close>

text \<open>Text of ASCII characters, and values made of such text, with no number but integers and no key
  twice.\<close>

definition ascii :: "string \<Rightarrow> bool" where
  "ascii s \<longleftrightarrow> list_all (\<lambda>c. byte c < 128) s"

fun clean :: "json \<Rightarrow> bool" where
  "clean (JFloat _) = False"
| "clean (JStr s) = ascii s"
| "clean (JList xs) = list_all clean xs"
| "clean (JDict d) = (distinct (map fst d) \<and> list_all (\<lambda>(k, v). ascii k \<and> clean v) d)"
| "clean _ = True"

lemma byte_char_of [simp]: "byte (char_of n) = n mod 256"
  by (simp add: byte_def)

lemma char_of_byte [simp]: "char_of (byte c) = c"
  by (simp add: byte_def)

lemma byte_special [simp]:
  "byte quotation = 34" "byte backslash = 92"
  by (simp_all add: byte_def quotation_def backslash_def)

lemma code_points_ascii: "list_all (\<lambda>n. n < 128) bs \<Longrightarrow> code_points bs = bs"
  by (induction bs rule: code_points.induct) simp_all

lemma hex_val_digit [simp]: "n < 16 \<Longrightarrow> hex_val (hex_digit n) = Some n"
  by (auto simp: hex_val_def hex_digit_def)

lemma parse_hex4_hex4 [simp]: "u < 128 \<Longrightarrow> parse_hex4 (hex4 u @ r) = Some (u, r)"
  by (simp add: hex4_def parse_hex4_def)

lemma parse_unicode_hex4: "u < 128 \<Longrightarrow> parse_unicode (hex4 u @ r) = Some (u, r)"
  by (simp add: parse_unicode_def split: list.split)

lemma char_of_neq: "(n :: nat) \<noteq> m \<Longrightarrow> n < 256 \<Longrightarrow> m < 256 \<Longrightarrow> (char_of n :: char) \<noteq> char_of m"
  using arg_cong [of "char_of n :: char" "char_of m" byte] by auto

lemma special_char_of: "quotation = char_of (34 :: nat)" "backslash = char_of (92 :: nat)"
  by code_simp+

text \<open>An escape is one character, or a short one of two, or a long one.\<close>

lemma escape_point_cases:
  assumes "u < 128"
  shows "(\<exists>e. escape_point u = [backslash, e] \<and> e \<noteq> CHR ''u'' \<and> escape_code e = Some u) \<or>
    escape_point u = [char_of u] \<and> 32 \<le> u \<and> u \<noteq> 34 \<and> u \<noteq> 92 \<or>
    escape_point u = backslash # CHR ''u'' # hex4 u"
proof (cases "u \<in> {34, 92, 10, 13, 9, 12, 8}")
  case True
  then show ?thesis
    by (elim insertE emptyE) (simp_all add: escape_point_def escape_code_def quotation_def backslash_def)
next
  case False
  with assms show ?thesis by (auto simp: escape_point_def)
qed

lemma str_char_escape:
  assumes "u < 128"
  shows "str_char (escape_point u @ r) = Some ([char_of u], r)"
  using escape_point_cases [OF assms]
proof (elim disjE exE conjE)
  assume "escape_point u = [char_of u]" "32 \<le> u" "u \<noteq> 34" "u \<noteq> 92"
  then show ?thesis
    using assms by (simp add: str_char_def special_char_of(2) char_of_neq)
qed (use assms in \<open>simp_all add: str_char_def parse_unicode_hex4 encode_point_def\<close>)

lemma escape_point_hd:
  assumes "u < 128"
  shows "\<exists>c cs. escape_point u = c # cs \<and> c \<noteq> quotation"
  using escape_point_cases [OF assms] assms char_of_neq [of u 34]
  by (auto simp: special_char_of)

lemma parse_str_escaped:
  "list_all (\<lambda>n. n < 128) us \<Longrightarrow>
   parse_str (concat (map escape_point us) @ quotation # r) = Some (map char_of us, r)"
proof (induction us)
  case Nil
  then show ?case by (simp add: parse_str.simps)
next
  case (Cons u us)
  then obtain c cs where "escape_point u = c # cs" "c \<noteq> quotation"
    using escape_point_hd [of u] by auto
  with Cons show ?case
    using str_char_escape [of u "concat (map escape_point us) @ quotation # r"]
    by (subst parse_str.simps) simp
qed

lemma ascii_bytes: "ascii s \<Longrightarrow> code_points (map byte s) = map byte s \<and> list_all (\<lambda>n. n < 128) (map byte s)"
  by (simp add: ascii_def code_points_ascii list_all_iff)

lemma dump_str_eq: "ascii s \<Longrightarrow> dump_str s = quotation # concat (map escape_point (map byte s)) @ [quotation]"
  by (simp add: dump_str_def ascii_bytes)

lemma parse_dump_str:
  assumes "ascii s"
  shows "\<exists>cs. dump_str s @ r = quotation # cs \<and> parse_str cs = Some (s, r)"
  using assms parse_str_escaped [of "map byte s" r] ascii_bytes [OF assms]
  by (simp add: dump_str_eq comp_def)

text \<open>Integers.\<close>

definition ends_value :: "string \<Rightarrow> bool" where
  "ends_value r \<longleftrightarrow> r = [] \<or> hd r = CHR '','' \<or> hd r = CHR '']'' \<or> hd r = CHR ''}''"

lemma ends_value_simps [simp]:
  "ends_value []" "ends_value (CHR '','' # r)" "ends_value (CHR '']'' # r)" "ends_value (CHR ''}'' # r)"
  by (simp_all add: ends_value_def)

lemma str_nat_digits: "c \<in> set (str_nat n) \<Longrightarrow> is_digit c"
  using str_nat_chars [of c n] by (simp add: is_digit_def byte_def)

lemma str_nat_hd: "0 < n \<Longrightarrow> hd (str_nat n) \<noteq> CHR ''0''"
proof (induction n rule: str_nat.induct)
  case (1 n)
  show ?case
  proof (cases "n < 10")
    case True
    then have "digit n \<noteq> char_of (48 :: nat)"
      using 1(2) unfolding digit_def by (intro char_of_neq) simp_all
    moreover have "CHR ''0'' = char_of (48 :: nat)" by code_simp
    ultimately show ?thesis using True by (simp add: str_nat.simps [of n])
  next
    case False
    with 1 show ?thesis by (simp add: str_nat.simps [of n])
  qed
qed

lemma str_nat_0: "str_nat 0 = ''0''"
  by code_simp

lemma ends_no_digit: "ends_value r \<Longrightarrow> takeWhile is_digit (str_nat n @ r) = str_nat n"
proof -
  assume "ends_value r"
  then have "takeWhile is_digit r = []"
    by (cases r) (auto simp: ends_value_def is_digit_def byte_def)
  then show ?thesis by (simp add: takeWhile_append2 str_nat_digits)
qed

lemma int_part_str_nat: "ends_value r \<Longrightarrow> int_part (str_nat n @ r) = str_nat n"
proof -
  assume r: "ends_value r"
  obtain c cs where c: "str_nat n = c # cs" by (cases "str_nat n") auto
  show ?thesis
  proof (cases "n = 0")
    case True
    then show ?thesis by (simp add: int_part_def str_nat_0)
  next
    case False
    then have "c \<noteq> CHR ''0''" using str_nat_hd [of n] c by simp
    then show ?thesis using ends_no_digit [OF r, of n] c by (simp add: int_part_def)
  qed
qed

lemma ends_no_part: "ends_value r \<Longrightarrow> frac_part r = [] \<and> exp_part r = []"
  by (cases r) (auto simp: ends_value_def frac_part_def exp_part_def)

lemma digit_not_minus: "is_digit c \<Longrightarrow> c \<noteq> CHR ''-''"
  by (auto simp: is_digit_def byte_def)

lemma parse_number_int:
  assumes "ends_value r"
  shows "parse_number (int_text i @ r) = Some (JInt i, r)"
proof -
  obtain c cs where c: "str_nat (nat i) = c # cs" "c \<noteq> CHR ''-''"
    using str_nat_digits [of _ "nat i"] digit_not_minus by (cases "str_nat (nat i)") auto
  have s: "takeWhile (\<lambda>c. c = CHR ''-'') (take 1 (int_text i @ r)) = (if i < 0 then ''-'' else [])"
    using c by (simp add: int_text_def)
  show ?thesis
    unfolding parse_number_def s
    using int_part_str_nat [OF assms, of "nat i"] int_part_str_nat [OF assms, of "nat (- i)"] ends_no_part [OF assms]
    by (simp add: Let_def int_text_def read_str_nat)
qed

lemma int_text_hd: "\<exists>c cs. int_text i = c # cs \<and> (c = CHR ''-'' \<or> is_digit c)"
  using str_nat_digits [of _ "nat i"] by (cases "str_nat (nat i)") (auto simp: int_text_def)

lemma parse_atom_int:
  assumes "ends_value r"
  shows "parse_atom (int_text i @ r) = Some (JInt i, r)"
proof -
  obtain c cs where "int_text i = c # cs" "c = CHR ''-'' \<or> is_digit c" using int_text_hd by blast
  then have "\<not> starts ''null'' (int_text i @ r)" "\<not> starts ''true'' (int_text i @ r)" "\<not> starts ''false'' (int_text i @ r)"
    by (auto simp: starts_def is_digit_def byte_def)
  then show ?thesis by (simp add: parse_atom_def parse_number_int [OF assms])
qed

text \<open>Every encoded value starts with a character that is neither space nor a closing bracket.\<close>

definition value_start :: "char \<Rightarrow> bool" where
  "value_start c \<longleftrightarrow> \<not> is_ws c \<and> c \<noteq> CHR '']'' \<and> c \<noteq> CHR ''}''"

lemma dumps_start:
  assumes "clean j"
  shows "\<exists>c cs. json_dumps j = c # cs \<and> value_start c"
proof (cases j)
  case (JInt i)
  obtain c cs where "int_text i = c # cs" "c = CHR ''-'' \<or> is_digit c" using int_text_hd by blast
  then show ?thesis using JInt by (auto simp: value_start_def is_ws_def is_digit_def byte_def)
qed (use assms in \<open>auto simp: dump_str_def value_start_def is_ws_def byte_def quotation_def\<close>)

lemma skip_ws_start: "value_start c \<Longrightarrow> skip_ws (c # cs) = c # cs"
  by (simp add: skip_ws_def value_start_def)

lemma skip_ws_simps [simp]:
  "skip_ws [] = []" "skip_ws (CHR '' '' # r) = skip_ws r" "skip_ws (CHR '','' # r) = CHR '','' # r"
  "skip_ws (CHR '':'' # r) = CHR '':'' # r" "skip_ws (CHR '']'' # r) = CHR '']'' # r" "skip_ws (CHR ''}'' # r) = CHR ''}'' # r"
  "skip_ws (quotation # r) = quotation # r"
  by (simp_all add: skip_ws_def is_ws_def byte_def quotation_def)

lemma skip_ws_dumps: "clean j \<Longrightarrow> skip_ws (json_dumps j @ r) = json_dumps j @ r"
  using dumps_start [of j] skip_ws_start by fastforce

text \<open>The fuel a value takes: one for it, and one more for each item or member than that takes itself.\<close>

fun need :: "json \<Rightarrow> nat" where
  "need (JList xs) = Suc (sum_list (map (\<lambda>x. Suc (need x)) xs))"
| "need (JDict d) = Suc (sum_list (map (\<lambda>(k, v). Suc (need v)) d))"
| "need _ = 1"

definition decodes :: "json \<Rightarrow> bool" where
  "decodes j \<longleftrightarrow> (\<forall>n r. need j \<le> n \<longrightarrow> ends_value r \<longrightarrow> parse_value n (json_dumps j @ r) = Some (j, r))"

lemma decodesD: "decodes j \<Longrightarrow> need j \<le> n \<Longrightarrow> ends_value r \<Longrightarrow> parse_value n (json_dumps j @ r) = Some (j, r)"
  by (simp add: decodes_def)

lemma items_decode:
  assumes "xs \<noteq> []" and "\<forall>x \<in> set xs. decodes x \<and> clean x"
    and "sum_list (map (\<lambda>x. Suc (need x)) xs) \<le> n"
  shows "parse_items n (join '', '' (map json_dumps xs) @ CHR '']'' # r) = Some (xs, r)"
  using assms
proof (induction xs arbitrary: n rule: induct_list012)
  case (2 x)
  then obtain m where "n = Suc m" "need x \<le> m" by (cases n) auto
  with 2 show ?case by (simp add: decodesD)
next
  case (3 x y xs)
  then obtain m where m: "n = Suc m" "need x \<le> m" "sum_list (map (\<lambda>x. Suc (need x)) (y # xs)) \<le> m"
    by (cases n) auto
  let ?rest = "join '', '' (map json_dumps (y # xs)) @ CHR '']'' # r"
  have "skip_ws ?rest = ?rest"
    using skip_ws_dumps [of y] 3 by (cases xs) simp_all
  moreover have "parse_items m ?rest = Some (y # xs, r)"
    using 3 m(3) by (intro "3.IH"(2)) simp_all
  ultimately show ?case using 3 m by (simp add: decodesD)
qed simp

lemma members_decode:
  assumes "d \<noteq> []" and "\<forall>(k, v) \<in> set d. ascii k \<and> decodes v \<and> clean v"
    and "sum_list (map (\<lambda>(k, v). Suc (need v)) d) \<le> n"
  shows "parse_members n (join '', '' (map (\<lambda>(k, v). dump_str k @ '': '' @ json_dumps v) d) @ CHR ''}'' # r) = Some (d, r)"
  using assms
proof (induction d arbitrary: n rule: induct_list012)
  case (2 p)
  obtain k v where p: "p = (k, v)" by fastforce
  with 2 obtain m where m: "n = Suc m" "need v \<le> m" by (cases n) auto
  obtain cs where "dump_str k @ '': '' @ json_dumps v @ CHR ''}'' # r = quotation # cs"
      "parse_str cs = Some (k, '': '' @ json_dumps v @ CHR ''}'' # r)"
    using parse_dump_str [of k "'': '' @ json_dumps v @ CHR ''}'' # r"] 2 p by auto
  with 2 p m show ?case by (simp add: decodesD skip_ws_dumps)
next
  case (3 p q d)
  obtain k v where p: "p = (k, v)" by fastforce
  with 3 obtain m where m: "n = Suc m" "need v \<le> m" "sum_list (map (\<lambda>(k, v). Suc (need v)) (q # d)) \<le> m"
    by (cases n) auto
  let ?rest = "join '', '' (map (\<lambda>(k, v). dump_str k @ '': '' @ json_dumps v) (q # d)) @ CHR ''}'' # r"
  obtain cs where cs: "dump_str k @ '': '' @ json_dumps v @ '', '' @ ?rest = quotation # cs"
      "parse_str cs = Some (k, '': '' @ json_dumps v @ '', '' @ ?rest)"
    using parse_dump_str [of k "'': '' @ json_dumps v @ '', '' @ ?rest"] 3 p by auto
  have "skip_ws ?rest = ?rest"
    by (cases d) (simp_all add: dump_str_def split: prod.split)
  moreover have "parse_members m ?rest = Some (q # d, r)"
    using 3 m(3) by (intro "3.IH"(2)) simp_all
  ultimately show ?case using 3 p m cs by (simp add: decodesD skip_ws_dumps)
qed simp

lemma update_new: "k \<notin> fst ` set acc \<Longrightarrow> dset acc k v = acc @ [(k, v)]"
  unfolding dset_def by (induction acc) auto

lemma fold_dset:
  "distinct (map fst (acc @ d)) \<Longrightarrow> fold (\<lambda>(k, v) m. dset m k v) d acc = acc @ d"
proof (induction d arbitrary: acc)
  case (Cons p d)
  then show ?case by (cases p) (simp add: update_new)
qed simp

lemma clean_decodes: "clean j \<Longrightarrow> decodes j"
proof (induction j)
  case (JStr s)
  show ?case
    unfolding decodes_def
  proof (intro allI impI)
    fix n r
    assume "need (JStr s) \<le> n"
    then show "parse_value n (json_dumps (JStr s) @ r) = Some (JStr s, r)"
      using parse_dump_str [of s r] JStr by (cases n) auto
  qed
next
  case (JInt i)
  have "\<exists>c cs. int_text i = c # cs \<and> c \<noteq> quotation \<and> c \<noteq> CHR ''['' \<and> c \<noteq> CHR ''{''"
    using int_text_hd [of i] by (auto simp: is_digit_def byte_def quotation_def)
  then show ?case
    using parse_atom_int [of _ i] by (auto simp: decodes_def gr0_conv_Suc Suc_le_eq)
next
  case (JList xs)
  have "parse_value n (json_dumps (JList xs) @ r) = Some (JList xs, r)" if le: "need (JList xs) \<le> n" for n r
  proof (cases "xs = []")
    case False
    obtain m where m: "n = Suc m" "sum_list (map (\<lambda>x. Suc (need x)) xs) \<le> m" using le by (cases n) auto
    let ?t = "join '', '' (map json_dumps xs) @ CHR '']'' # r"
    have "\<exists>c cs. ?t = c # cs \<and> value_start c"
      using False JList.prems dumps_start [of "hd xs"] by (cases xs; cases "tl xs") (auto simp: list_all_iff)
    then obtain c cs where "?t = c # cs" "value_start c" by blast
    moreover have "parse_items m ?t = Some (xs, r)"
      using JList False m by (intro items_decode) (auto simp: list_all_iff)
    ultimately show ?thesis using m by (simp add: quotation_def skip_ws_start value_start_def)
  qed (use that in \<open>auto simp: gr0_conv_Suc Suc_le_eq quotation_def\<close>)
  then show ?case by (simp add: decodes_def)
next
  case (JDict d)
  have "parse_value n (json_dumps (JDict d) @ r) = Some (JDict d, r)" if le: "need (JDict d) \<le> n" for n r
  proof (cases "d = []")
    case False
    obtain m where m: "n = Suc m" "sum_list (map (\<lambda>(k, v). Suc (need v)) d) \<le> m" using le by (cases n) auto
    let ?t = "join '', '' (map (\<lambda>(k, v). dump_str k @ '': '' @ json_dumps v) d) @ CHR ''}'' # r"
    have "\<exists>cs. ?t = quotation # cs"
      using False by (cases d; cases "tl d") (auto simp: dump_str_def)
    then obtain cs where "?t = quotation # cs" by blast
    moreover have "parse_members m ?t = Some (d, r)"
      using JDict False m by (intro members_decode) (auto simp: list_all_iff)
    moreover have "fold (\<lambda>(k, v) m. dset m k v) d [] = d"
      using fold_dset [of "[]" d] JDict.prems by simp
    ultimately show ?thesis using m by (simp add: quotation_def skip_ws_def is_ws_def byte_def)
  qed (use that in \<open>auto simp: gr0_conv_Suc Suc_le_eq quotation_def\<close>)
  then show ?case by (simp add: decodes_def)
qed (auto simp: decodes_def gr0_conv_Suc Suc_le_eq parse_atom_def starts_def quotation_def)

lemma join_length: "length (join '', '' xs) \<ge> sum_list (map length xs)"
  by (induction xs rule: induct_list012) simp_all

lemma sum_need:
  assumes "\<And>x. x \<in> set xs \<Longrightarrow> Suc (f x) \<le> 2 * length (g x)"
  shows "sum_list (map (\<lambda>x. Suc (f x)) xs) \<le> 2 * length (join '', '' (map g xs))"
proof -
  have "sum_list (map (\<lambda>x. Suc (f x)) xs) \<le> sum_list (map (\<lambda>x. 2 * length (g x)) xs)"
    using assms by (intro sum_list_mono) simp
  also have "\<dots> = 2 * sum_list (map length (map g xs))"
    by (simp add: sum_list_const_mult comp_def)
  also have "\<dots> \<le> 2 * length (join '', '' (map g xs))" using join_length by (intro mult_le_mono2)
  finally show ?thesis .
qed

lemma need_length: "clean j \<Longrightarrow> Suc (need j) \<le> 2 * length (json_dumps j)"
proof (induction j)
  case (JList xs)
  then show ?case using sum_need [of xs need json_dumps] by (auto simp: list_all_iff)
next
  case (JDict d)
  then have "sum_list (map (\<lambda>p. Suc (need (snd p))) d) \<le>
      2 * length (join '', '' (map (\<lambda>p. dump_str (fst p) @ '': '' @ json_dumps (snd p)) d))"
    by (intro sum_need) (fastforce simp: list_all_iff)
  then show ?case by (simp add: case_prod_unfold)
next
  case (JInt i)
  then show ?case using int_text_hd [of i] by auto
qed (simp_all add: dump_str_def)

lemma json_round_trip: "clean j \<Longrightarrow> json_loads (json_dumps j) = Some j"
  using decodesD [OF clean_decodes, of j "Suc (2 * length (json_dumps j))" "[]"] need_length [of j]
    skip_ws_dumps [of j "[]"]
  by (simp add: json_loads_def)

end
