(* ===== verification/Airflow.thy ===== *)
theory Airflow
  imports Ports Json_Codec
begin

text \<open>
  The workflow engine's adapter, \<open>src/orchestrator/adapters/airflow.py\<close>: the engine port over Airflow's
  REST API v2. An automation id is a DAG id, an engine run id a \<open>dag_run_id\<close>. The bearer token kept
  between calls is \<open>pr_token\<close> of the process, \<open>JNull\<close> before the first. A \<open>dag_run_id\<close> that Airflow
  would answer as anything but text is taken as its text.
\<close>

record 'w airflow =
  af_http :: "'w http"
  af_username :: string
  af_password :: string

section \<open>Classifying a failure\<close>

definition failure_kinds :: "(string, failure_kind) dict" where
  "failure_kinds = [(''ValidationException'', FK_VALIDATION), (''InfraPrecheckException'', FK_INFRA_PRECHECK),
     (''TaskException'', FK_TASK)]"

definition flow_failed_output :: string where
  "flow_failed_output = ''flow_failed''"

definition failed_tasks_output :: string where
  "failed_tasks_output = ''failed_tasks''"

definition truthy :: "string list" where
  "truthy = [''true'', ''1'', ''yes'']"

text \<open>A \<open>str | None\<close> field of a pydantic model, given a value.\<close>

definition opt_str_field :: "'w http \<Rightarrow> json \<Rightarrow> exn + string option" where
  "opt_str_field h v = (case v of
     JNull \<Rightarrow> Inr None
   | JStr s \<Rightarrow> Inr (Some s)
   | _ \<Rightarrow> Inl (OtherError ''ValidationError'' (ht_model_error h ''EngineFailure'')))"

definition make_failure ::
  "'w http \<Rightarrow> json \<Rightarrow> json \<Rightarrow> json \<Rightarrow> string option \<Rightarrow> failure_kind \<Rightarrow> exn + engine_failure" where
  "make_failure h failed_task owner detail exception_name kind =
     (case (opt_str_field h failed_task, opt_str_field h owner, opt_str_field h detail) of
        (Inr t, Inr g, Inr d) \<Rightarrow> Inr \<lparr>ef_failed_task = t, ef_responsible_group = g, ef_detail = d,
          ef_exception_name = exception_name, ef_kind = kind\<rparr>
      | (Inl e, _, _) \<Rightarrow> Inl e
      | (_, Inl e, _) \<Rightarrow> Inl e
      | (_, _, Inl e) \<Rightarrow> Inl e)"

definition failure_of_dict :: "'w http \<Rightarrow> json \<Rightarrow> payload \<Rightarrow> exn + engine_failure" where
  "failure_of_dict h failed_task v =
     (let exception_name = (case map_of v ''exception'' of Some (JStr n) \<Rightarrow> Some n | _ \<Rightarrow> None) in
      make_failure h failed_task (dget v ''responsible_group'' JNull) (dget v ''message'' JNull) exception_name
        (dget failure_kinds (case exception_name of None \<Rightarrow> [] | Some n \<Rightarrow> n) FK_TASK))"

definition failure_from_xcom :: "'w http \<Rightarrow> json \<Rightarrow> json \<Rightarrow> exn + engine_failure" where
  "failure_from_xcom h failed_task body =
     (let bare = make_failure h failed_task JNull JNull None FK_TASK;
          parsed = (case body of
            JDict b \<Rightarrow> (case dget b ''value'' JNull of
                JStr t \<Rightarrow> (case json_loads t of None \<Rightarrow> Inl t | Some v \<Rightarrow> Inr v)
              | v \<Rightarrow> Inr v)
          | _ \<Rightarrow> Inr JNull)
      in case parsed of
           Inl t \<Rightarrow> make_failure h failed_task JNull (JStr t) None FK_TASK
         | Inr (JDict v) \<Rightarrow> failure_of_dict h failed_task v
         | Inr _ \<Rightarrow> bare)"

section \<open>Requests\<close>

definition bearer :: "json \<Rightarrow> (string, string) dict" where
  "bearer token = [(''Authorization'', ''Bearer '' @ py_str token)]"

text \<open>\<open>data.get("access_token") or data["token"]\<close>.\<close>

definition token_of :: "json \<Rightarrow> exn + json" where
  "token_of data = (case py_get data ''access_token'' JNull of
     Inl e \<Rightarrow> Inl e
   | Inr t \<Rightarrow> if py_true t then Inr t else py_item data ''token'')"

definition auth_request :: "'w airflow \<Rightarrow> http_request" where
  "auth_request A = request_json POST ''/auth/token''
     [(''username'', JStr (af_username A)), (''password'', JStr (af_password A))]"

definition authenticate :: "'w airflow \<Rightarrow> ('w process, exn, json) eff" where
  "authenticate A =
     bindE (send (af_http A) (auth_request A)) (\<lambda>resp.
     thenE (liftE (raise_for_status resp))
     (bindE (liftE (resp_json resp)) (\<lambda>data.
      bindE (liftE (token_of data)) (\<lambda>token.
      thenE (modifyS (\<lambda>s. s\<lparr>pr_token := token\<rparr>)) (ret token)))))"

definition authorized :: "http_request \<Rightarrow> json \<Rightarrow> http_request" where
  "authorized q token = q\<lparr>hq_headers := bearer token\<rparr>"

definition af_request :: "'w airflow \<Rightarrow> http_request \<Rightarrow> ('w process, exn, response) eff" where
  "af_request A q =
     bindE getS (\<lambda>s.
     bindE (if py_true (pr_token s) then ret (pr_token s) else authenticate A) (\<lambda>token.
     bindE (send (af_http A) (authorized q token)) (\<lambda>resp.
     if rsp_status resp = 401 then
       bindE (authenticate A) (\<lambda>token. send (af_http A) (authorized q token))
     else ret resp)))"

definition dag_runs_path :: "string \<Rightarrow> string" where
  "dag_runs_path aid = ''/api/v2/dags/'' @ aid @ ''/dagRuns''"

definition run_path :: "string \<Rightarrow> string \<Rightarrow> string" where
  "run_path aid rid = dag_runs_path aid @ ''/'' @ rid"

definition xcom_path :: "string \<Rightarrow> string \<Rightarrow> json \<Rightarrow> string \<Rightarrow> string" where
  "xcom_path aid rid tsk key =
     run_path aid rid @ ''/taskInstances/'' @ py_str tsk @ ''/xcomEntries/'' @ key"

definition dag_run_request :: "string \<Rightarrow> payload \<Rightarrow> string \<Rightarrow> http_request" where
  "dag_run_request aid params key = request_json POST (dag_runs_path aid)
     [(''dag_run_id'', JStr key), (''conf'', JDict params), (''logical_date'', JNull)]"

definition af_trigger_workflow :: "'w airflow \<Rightarrow> string \<Rightarrow> payload \<Rightarrow> string \<Rightarrow> ('w process, exn, string) eff" where
  "af_trigger_workflow A aid params key =
     bindE (af_request A (dag_run_request aid params key)) (\<lambda>resp.
     if rsp_status resp = 409 then ret key
     else if rsp_status resp = 404 then
       raise (RuntimeError (''DAG '' @ quote_char @ aid @ quote_char @ '' not found.''))
     else thenE (liftE (raise_for_status resp))
       (bindE (liftE (resp_json resp)) (\<lambda>j.
        bindE (liftE (py_item j ''dag_run_id'')) (\<lambda>i. ret (py_str i)))))"

section \<open>Outputs\<close>

text \<open>The loop of \<open>get_output\<close>: the first task of the run that pushed the key.\<close>

fun probe_tasks :: "'w airflow \<Rightarrow> string \<Rightarrow> string \<Rightarrow> string \<Rightarrow> json list \<Rightarrow> ('w process, exn, string option) eff" where
  "probe_tasks A aid rid key [] = ret None"
| "probe_tasks A aid rid key (ti # tis) =
     bindE (liftE (py_item ti ''task_id'')) (\<lambda>tsk.
     bindE (af_request A (request GET (xcom_path aid rid tsk key))) (\<lambda>entry.
     if rsp_status entry = 404 then probe_tasks A aid rid key tis
     else thenE (liftE (raise_for_status entry))
       (bindE (liftE (resp_json entry)) (\<lambda>j.
        bindE (liftE (py_get j ''value'' JNull)) (\<lambda>v.
        if v = JNull then probe_tasks A aid rid key tis else ret (Some (py_str v)))))))"

text \<open>\<open>resp.json().get("task_instances", [])\<close>, to iterate over.\<close>

definition task_instances :: "response \<Rightarrow> exn + json list" where
  "task_instances resp = (case resp_json resp of
     Inl e \<Rightarrow> Inl e
   | Inr j \<Rightarrow> (case py_get j ''task_instances'' (JList []) of Inl e \<Rightarrow> Inl e | Inr tis \<Rightarrow> py_iter tis))"

definition af_get_output :: "'w airflow \<Rightarrow> string \<Rightarrow> string \<Rightarrow> string \<Rightarrow> ('w process, exn, string option) eff" where
  "af_get_output A aid rid key =
     bindE (af_request A (request GET (run_path aid rid @ ''/taskInstances''))) (\<lambda>resp.
     thenE (liftE (raise_for_status resp))
     (bindE (liftE (task_instances resp)) (\<lambda>tis. probe_tasks A aid rid key tis)))"

section \<open>Status\<close>

definition is_truthy :: "string option \<Rightarrow> bool" where
  "is_truthy v \<longleftrightarrow> (case v of None \<Rightarrow> False | Some t \<Rightarrow> map lower_char (strip t) \<in> set truthy)"

definition flow_failed :: "'w airflow \<Rightarrow> string \<Rightarrow> string \<Rightarrow> ('w process, exn, bool) eff" where
  "flow_failed A aid rid = bindE (af_get_output A aid rid flow_failed_output) (\<lambda>v. ret (is_truthy v))"

text \<open>\<open>{"failed": FAILED}.get(state, IN_PROGRESS)\<close>: a list or a dict is no key.\<close>

definition other_status :: "json \<Rightarrow> exn + engine_run_status" where
  "other_status state = (case state of
     JStr s \<Rightarrow> Inr (if s = ''failed'' then ER_FAILED else ER_IN_PROGRESS)
   | JList _ \<Rightarrow> Inl (OtherError ''TypeError'' (''unhashable type: '' @ repr_str ''list''))
   | JDict _ \<Rightarrow> Inl (OtherError ''TypeError'' (''unhashable type: '' @ repr_str ''dict''))
   | _ \<Rightarrow> Inr ER_IN_PROGRESS)"

definition af_query_run_status :: "'w airflow \<Rightarrow> string \<Rightarrow> string \<Rightarrow> ('w process, exn, engine_run_status) eff" where
  "af_query_run_status A aid rid =
     bindE (af_request A (request GET (run_path aid rid))) (\<lambda>resp.
     thenE (liftE (raise_for_status resp))
     (bindE (liftE (resp_json resp)) (\<lambda>j.
      bindE (liftE (py_get j ''state'' JNull)) (\<lambda>state.
      if state = JStr ''success'' then
        bindE (flow_failed A aid rid) (\<lambda>failed. ret (if failed then ER_FAILED else ER_SUCCESS))
      else liftE (other_status state)))))"

section \<open>Failures\<close>

text \<open>The first entry of \<open>failed_tasks\<close>, where the controller published any.\<close>

definition collected_failure :: "string option \<Rightarrow> (json \<times> json) option" where
  "collected_failure raw = (case raw of
     None \<Rightarrow> None
   | Some t \<Rightarrow> (case json_loads t of
       Some (JDict ((tsk, owner) # _)) \<Rightarrow>
         Some (JStr tsk, if py_true owner then JStr (py_str owner) else JNull)
     | _ \<Rightarrow> None))"

fun collect_items :: "string \<Rightarrow> json list \<Rightarrow> exn + json list" where
  "collect_items key [] = Inr []"
| "collect_items key (x # xs) = (case py_item x key of
     Inl e \<Rightarrow> Inl e
   | Inr v \<Rightarrow> (case collect_items key xs of Inl e \<Rightarrow> Inl e | Inr vs \<Rightarrow> Inr (v # vs)))"

definition first_failed_task :: "'w airflow \<Rightarrow> string \<Rightarrow> string \<Rightarrow> ('w process, exn, json \<times> json) eff" where
  "first_failed_task A aid rid =
     bindE (af_get_output A aid rid failed_tasks_output) (\<lambda>raw.
     case collected_failure raw of
       Some f \<Rightarrow> ret f
     | None \<Rightarrow>
         bindE (af_request A ((request GET (run_path aid rid @ ''/taskInstances''))
           \<lparr>hq_params := [(''state'', ''failed'')]\<rparr>)) (\<lambda>resp.
         thenE (liftE (raise_for_status resp))
         (bindE (liftE (task_instances resp)) (\<lambda>tis.
          bindE (liftE (collect_items ''task_id'' tis)) (\<lambda>tasks.
          ret (case tasks of [] \<Rightarrow> (JNull, JNull) | t # _ \<Rightarrow> (t, JNull)))))))"

text \<open>The exception's own owner wins over the controller's.\<close>

definition with_group :: "engine_failure \<Rightarrow> json \<Rightarrow> engine_failure" where
  "with_group f owner = (case ef_responsible_group f of
     Some g \<Rightarrow> if g \<noteq> [] then f else f\<lparr>ef_responsible_group := (case owner of JStr s \<Rightarrow> Some s | _ \<Rightarrow> None)\<rparr>
   | None \<Rightarrow> f\<lparr>ef_responsible_group := (case owner of JStr s \<Rightarrow> Some s | _ \<Rightarrow> None)\<rparr>)"

definition af_get_failure :: "'w airflow \<Rightarrow> string \<Rightarrow> string \<Rightarrow> ('w process, exn, engine_failure) eff" where
  "af_get_failure A aid rid =
     bindE (first_failed_task A aid rid) (\<lambda>(failed_task, owner).
     if failed_task = JNull then ret no_engine_failure
     else bindE (af_request A (request GET (xcom_path aid rid failed_task ''exception_type''))) (\<lambda>exc.
       if rsp_status exc = 404 then liftE (make_failure (af_http A) failed_task owner JNull None FK_TASK)
       else thenE (liftE (raise_for_status exc))
         (bindE (liftE (resp_json exc)) (\<lambda>body.
          bindE (liftE (failure_from_xcom (af_http A) failed_task body)) (\<lambda>failure.
          ret (with_group failure owner))))))"

definition airflow_client :: "'w airflow \<Rightarrow> 'w process engine_client" where
  "airflow_client A = \<lparr>ec_trigger_workflow = af_trigger_workflow A, ec_query_run_status = af_query_run_status A,
     ec_get_failure = af_get_failure A, ec_get_output = af_get_output A\<rparr>"

end
