(* ===== verification/Legacy_Runner.thy ===== *)
theory Legacy_Runner
  imports Ports Http
begin

text \<open>
  The legacy runner's adapter, \<open>src/orchestrator/adapters/legacy_automation.py\<close>: one submit call, and the
  reference the acknowledgement may carry.
\<close>

record 'w legacy_runner =
  lg_http :: "'w http"
  lg_submit_path :: string

definition optional_text :: "string \<Rightarrow> string option \<Rightarrow> payload" where
  "optional_text key v = (case v of None \<Rightarrow> [] | Some t \<Rightarrow> [(key, JStr t)])"

text \<open>\<open>request.model_dump(mode="json", exclude_none=True)\<close>.\<close>

definition legacy_body :: "legacy_request \<Rightarrow> payload" where
  "legacy_body q = [(''flow_type'', JStr (lr_flow_type q))] @
     optional_text ''project_id'' (lr_project_id q) @ optional_text ''resource_type'' (lr_resource_type q) @
     [(''variables'', JDict (lr_variables q)), (''db_operation'', JStr (lr_db_operation q)),
      (''name'', JStr (lr_name q)), (''region'', JStr (lr_region q))]"

definition reference_keys :: "string list" where
  "reference_keys = [''request_id'', ''id'', ''reference'', ''run_id'']"

text \<open>The first of the keys that holds a text or a number; a \<open>bool\<close> is an \<open>int\<close> too.\<close>

fun first_reference :: "payload \<Rightarrow> string list \<Rightarrow> string option" where
  "first_reference body [] = None"
| "first_reference body (key # keys) =
     (let v = dget body key JNull in
      if (case v of JStr s \<Rightarrow> s \<noteq> [] | JInt _ \<Rightarrow> True | JBool _ \<Rightarrow> True | _ \<Rightarrow> False) then Some (py_str v)
      else first_reference body keys)"

definition reference_of :: "response \<Rightarrow> string option" where
  "reference_of resp = (case rsp_json resp of
     Inr (JDict body) \<Rightarrow> first_reference body reference_keys
   | _ \<Rightarrow> None)"

definition legacy_submit :: "'w legacy_runner \<Rightarrow> legacy_request \<Rightarrow> string \<Rightarrow> ('w process, exn, string option) eff" where
  "legacy_submit L q key =
     bindE (send (lg_http L) ((request_json POST (lg_submit_path L) (legacy_body q))
       \<lparr>hq_headers := [(''Idempotency-Key'', key)]\<rparr>)) (\<lambda>resp.
     thenE (liftE (raise_for_status resp)) (ret (reference_of resp)))"

definition legacy_runner_client :: "'w legacy_runner \<Rightarrow> 'w process legacy_client" where
  "legacy_runner_client L = \<lparr>lc_submit = legacy_submit L\<rparr>"

text \<open>An accepted handover is never turned into a failure: on a 2xx the call returns, whatever the body.\<close>

lemma submit_accepted:
  assumes "ht_send (lg_http L) ((request_json POST (lg_submit_path L) (legacy_body q))
      \<lparr>hq_headers := [(''Idempotency-Key'', key)]\<rparr>) (pr_remote s) = (Inr resp, w)"
    and "is_success resp"
  shows "fst (legacy_submit L q key s) = Inr (reference_of resp)"
  using assms by (simp add: legacy_submit_def eff_basic send_def raise_for_status_def)

end
