(* ===== verification/Worker.thy ===== *)
theory Worker
  imports Domain
begin

text \<open>
  One loop of the daemon, \<open>RunWorker.run\<close> of \<open>src/orchestrator/worker.py\<close>, and the pool's stop request.
  The repository, the executor, the wait and the stop event are parameters over a world that other
  workers and the outside change too: the event may be set during any of them. The loop has no bound,
  so it is a partial function: \<open>None\<close> is never returning.
\<close>

record 'w run_worker =
  wk_claim_due :: "nat \<Rightarrow> timedelta \<Rightarrow> ('w, exn, uuid list) eff"
  wk_handle :: "uuid \<Rightarrow> ('w, exn, unit) eff"
  wk_wait :: "timedelta \<Rightarrow> 'w \<Rightarrow> 'w"
  wk_stopped :: "'w \<Rightarrow> bool"
  wk_poll_interval :: timedelta
  wk_lease :: timedelta

definition wk_idle :: "'w run_worker \<Rightarrow> 'w \<Rightarrow> 'w" where
  "wk_idle W w = wk_wait W (wk_poll_interval W) w"

text \<open>One turn of the loop: a failed claim and an empty one idle; a drive that raises is left to the
  lease.\<close>

definition wk_turn :: "'w run_worker \<Rightarrow> 'w \<Rightarrow> 'w" where
  "wk_turn W w = (case wk_claim_due W 1 (wk_lease W) w of
     (Inl e, w) \<Rightarrow> wk_idle W w
   | (Inr [], w) \<Rightarrow> wk_idle W w
   | (Inr (rid # _), w) \<Rightarrow> snd (wk_handle W rid w))"

partial_function (option) wk_run :: "'w run_worker \<Rightarrow> 'w \<Rightarrow> 'w option" where
  "wk_run W w = (if wk_stopped W w then Some w else wk_run W (wk_turn W w))"

text \<open>\<open>request_stop\<close> of a worker and of the pool, over the stop events of all workers.\<close>

definition request_stop :: "nat \<Rightarrow> (nat \<Rightarrow> bool) \<Rightarrow> nat \<Rightarrow> bool" where
  "request_stop k stops = stops(k := True)"

definition request_stop_all :: "nat list \<Rightarrow> (nat \<Rightarrow> bool) \<Rightarrow> nat \<Rightarrow> bool" where
  "request_stop_all ks stops = fold request_stop ks stops"

lemma request_stop_all_iff: "request_stop_all ks stops k \<longleftrightarrow> k \<in> set ks \<or> stops k"
  unfolding request_stop_all_def by (induction ks arbitrary: stops) (auto simp: request_stop_def)

lemma wk_run_first_stop:
  assumes "\<And>i. i < n \<Longrightarrow> \<not> wk_stopped W ((wk_turn W ^^ i) w)" and "wk_stopped W ((wk_turn W ^^ n) w)"
  shows "wk_run W w = Some ((wk_turn W ^^ n) w)"
  using assms
proof (induction n arbitrary: w)
  case 0
  then show ?case by (subst wk_run.simps) simp
next
  case (Suc n)
  have "\<not> wk_stopped W w" using Suc.prems(1) [of 0] by simp
  moreover have "wk_run W (wk_turn W w) = Some ((wk_turn W ^^ n) (wk_turn W w))"
    using Suc.prems(1) [of "Suc i" for i] Suc.prems(2) by (intro Suc.IH) (simp_all add: funpow_Suc_right del: funpow.simps)
  ultimately show ?case
    by (subst wk_run.simps) (simp add: funpow_Suc_right del: funpow.simps)
qed

lemma wk_run_returns:
  assumes "wk_run W w = Some w'"
  shows "\<exists>n. w' = (wk_turn W ^^ n) w \<and> wk_stopped W w'"
proof (rule wk_run.raw_induct [where P = "\<lambda>W w w'. \<exists>n. w' = (wk_turn W ^^ n) w \<and> wk_stopped W w'", OF _ assms])
  fix f and W :: "'a run_worker" and w w'
  assume IH: "\<And>W w w'. f W w = Some w' \<Longrightarrow> \<exists>n. w' = (wk_turn W ^^ n) w \<and> wk_stopped W w'"
    and run: "(if wk_stopped W w then Some w else f W (wk_turn W w)) = Some w'"
  show "\<exists>n. w' = (wk_turn W ^^ n) w \<and> wk_stopped W w'"
  proof (cases "wk_stopped W w")
    case True
    with run show ?thesis by (intro exI [of _ 0]) simp
  next
    case False
    with run IH [of W "wk_turn W w" w'] obtain n where "w' = (wk_turn W ^^ n) (wk_turn W w)" "wk_stopped W w'" by auto
    then show ?thesis by (intro exI [of _ "Suc n"]) (simp add: funpow_Suc_right del: funpow.simps)
  qed
qed

end
