(* ===== verification/Bootstrap.thy ===== *)
theory Bootstrap
  imports Executor_Laws Api Session Project_Manager Service_Now Airflow Legacy_Runner Worker
begin

text \<open>
  The composition root, \<open>src/orchestrator/bootstrap.py\<close>, and the settings it reads,
  \<open>src/orchestrator/config.py\<close>: the provider clients, the four adapters over them, the engine table, the
  handlers, the escalator, the executor, the pool of workers and the API keys. What a client
  configuration connects to, the database session, the clock, the wait and the stop events are the
  process' surroundings, a parameter. TLS verification is off on every client and not modelled.
\<close>

section \<open>Settings\<close>

record settings =
  se_database_url :: string
  se_log_level :: string
  se_api_key_ui :: "string option"
  se_api_key_portal :: "string option"
  se_api_key_servicenow :: "string option"
  se_retry_base :: timedelta
  se_worker_concurrency_limit :: nat
  se_worker_poll_interval :: timedelta
  se_redrive_lease :: timedelta
  se_airflow_base_url :: string
  se_airflow_username :: string
  se_airflow_password :: string
  se_servicenow_base_url :: string
  se_servicenow_username :: string
  se_servicenow_password :: string
  se_responsible_groups :: "(string, string) dict"
  se_incident_team :: string
  se_group_lookup_field :: string
  se_user_lookup_field :: string
  se_pm_base_url :: string
  se_pm_token :: string
  se_legacy_base_url :: string
  se_legacy_token :: string
  se_legacy_submit_path :: string
  se_call_timeout :: timedelta
  se_max_connections :: nat
  se_max_keepalive :: nat
  se_acquire_timeout :: timedelta

text \<open>The settings that have no default, and the values the others take.\<close>

definition default_settings ::
  "string \<Rightarrow> string \<times> string \<times> string \<Rightarrow> string \<times> string \<times> string \<Rightarrow> string \<times> string \<Rightarrow> string \<Rightarrow> settings" where
  "default_settings database_url airflow servicenow pm legacy_base_url =
     (case (airflow, servicenow, pm) of ((au, an, ap), (su, sn, sp), (pu, pt)) \<Rightarrow>
      \<lparr>se_database_url = database_url, se_log_level = ''INFO'', se_api_key_ui = None, se_api_key_portal = None,
       se_api_key_servicenow = None, se_retry_base = seconds 10, se_worker_concurrency_limit = 16,
       se_worker_poll_interval = seconds 1, se_redrive_lease = seconds 300,
       se_airflow_base_url = au, se_airflow_username = an, se_airflow_password = ap,
       se_servicenow_base_url = su, se_servicenow_username = sn, se_servicenow_password = sp,
       se_responsible_groups = [], se_incident_team = ''cloudio'', se_group_lookup_field = ''name'',
       se_user_lookup_field = ''user_param'', se_pm_base_url = pu, se_pm_token = pt,
       se_legacy_base_url = legacy_base_url, se_legacy_token = [], se_legacy_submit_path = ''/api/v1/requests'',
       se_call_timeout = seconds 10, se_max_connections = 10, se_max_keepalive = 5, se_acquire_timeout = seconds 60\<rparr>)"

section \<open>Provider clients\<close>

record client_config =
  cc_provider :: string
  cc_base_url :: string
  cc_timeout :: timedelta
  cc_pool_timeout :: timedelta
  cc_max_connections :: nat
  cc_max_keepalive :: nat
  cc_headers :: "(string, string) dict"
  cc_auth :: "(string \<times> string) option"

definition provider_client ::
  "settings \<Rightarrow> string \<Rightarrow> string \<Rightarrow> (string, string) dict \<Rightarrow> (string \<times> string) option \<Rightarrow> client_config" where
  "provider_client st provider base_url headers auth =
     \<lparr>cc_provider = provider, cc_base_url = rstrip_slash base_url, cc_timeout = se_call_timeout st,
      cc_pool_timeout = se_acquire_timeout st, cc_max_connections = se_max_connections st,
      cc_max_keepalive = se_max_keepalive st,
      cc_headers = dmerge [(''Accept'', ''application/json'')] headers, cc_auth = auth\<rparr>"

definition servicenow_http :: "settings \<Rightarrow> client_config" where
  "servicenow_http st = provider_client st ''ServiceNow'' (se_servicenow_base_url st) []
     (Some (se_servicenow_username st, se_servicenow_password st))"

definition pm_http :: "settings \<Rightarrow> client_config" where
  "pm_http st = provider_client st ''Project Manager'' (se_pm_base_url st)
     [(''Authorization'', ''Bearer '' @ se_pm_token st)] None"

definition airflow_http :: "settings \<Rightarrow> client_config" where
  "airflow_http st = provider_client st ''Airflow'' (se_airflow_base_url st) [] None"

definition legacy_http :: "settings \<Rightarrow> client_config" where
  "legacy_http st = provider_client st ''Legacy automation runner'' (se_legacy_base_url st)
     (if se_legacy_token st \<noteq> [] then [(''Authorization'', ''Bearer '' @ se_legacy_token st)] else []) None"

section \<open>Adapters\<close>

record 'w surroundings =
  su_connect :: "client_config \<Rightarrow> 'w http"
  su_session :: "string \<Rightarrow> 'w session"
  su_utcnow :: "'w \<Rightarrow> datetime \<times> 'w"
  su_uniform :: "'w \<Rightarrow> timedelta \<times> 'w"
  su_wait :: "timedelta \<Rightarrow> 'w \<Rightarrow> 'w"
  su_stopped :: "nat \<Rightarrow> 'w \<Rightarrow> bool"

definition ticket_adapter :: "settings \<Rightarrow> 'w surroundings \<Rightarrow> 'w servicenow" where
  "ticket_adapter st U = \<lparr>sn_http = su_connect U (servicenow_http st), sn_default_group = se_incident_team st,
     sn_group_lookup_field = se_group_lookup_field st, sn_user_lookup_field = se_user_lookup_field st\<rparr>"

definition engine_adapter :: "settings \<Rightarrow> 'w surroundings \<Rightarrow> 'w airflow" where
  "engine_adapter st U = \<lparr>af_http = su_connect U (airflow_http st), af_username = se_airflow_username st,
     af_password = se_airflow_password st\<rparr>"

definition legacy_adapter :: "settings \<Rightarrow> 'w surroundings \<Rightarrow> 'w legacy_runner" where
  "legacy_adapter st U = \<lparr>lg_http = su_connect U (legacy_http st), lg_submit_path = se_legacy_submit_path st\<rparr>"

text \<open>The engines by type: the legacy runner is none of them.\<close>

definition engine_table :: "settings \<Rightarrow> 'w surroundings \<Rightarrow> workflow_engine_type \<Rightarrow> 'w process engine_client option" where
  "engine_table st U = map_of [(WE_AIRFLOW, airflow_client (engine_adapter st U))]"

section \<open>The container\<close>

definition the_executor :: "settings \<Rightarrow> 'w surroundings \<Rightarrow> 'w process executor" where
  "the_executor st U =
     build_executor (servicenow_client (ticket_adapter st U)) (pm_client (su_connect U (pm_http st))) (engine_table st U)
       (legacy_runner_client (legacy_adapter st U)) (session_runs (su_session U (se_database_url st)))
       (process_clock (su_utcnow U) (su_uniform U)) (se_retry_base st) (se_incident_team st)"

text \<open>\<open>executor.handle(run_id)\<close> as a worker calls it: on the process alone. A drive starts without a run;
  \<open>handle\<close> reads none before it has loaded its own.\<close>

definition no_run :: workflow_run where
  "no_run = \<lparr>run_id = [], run_run_type = RT_RESOURCE, run_status = RS_PENDING, run_current_step = None,
     run_workflow_identifier = [], run_created_by = [], run_max_retries = 0, run_scheduled_at = None,
     run_created_at = 0, run_updated_at = 0, run_version = 0,
     run_run_state = new_run_state \<lparr>rw_identifier = [], rw_name = None, rw_engine_type = WE_AIRFLOW,
       rw_automation_id = [], rw_ticket_template_id = []\<rparr>\<rparr>"

definition start_drive :: "'w \<Rightarrow> 'w drive" where
  "start_drive s = \<lparr>dv_run = no_run, dv_world = s, dv_trace = []\<rparr>"

definition drive_on :: "'w executor \<Rightarrow> uuid \<Rightarrow> ('w, exn, unit) eff" where
  "drive_on X rid = (\<lambda>s. case handle X rid (start_drive s) of (r, t) \<Rightarrow> (r, dv_world t))"

definition the_worker :: "settings \<Rightarrow> 'w surroundings \<Rightarrow> nat \<Rightarrow> 'w process run_worker" where
  "the_worker st U i =
     \<lparr>wk_claim_due = session_claim (su_session U (se_database_url st)), wk_handle = drive_on (the_executor st U),
      wk_wait = (\<lambda>d s. s\<lparr>pr_remote := su_wait U d (pr_remote s)\<rparr>), wk_stopped = (\<lambda>s. su_stopped U i (pr_remote s)),
      wk_poll_interval = se_worker_poll_interval st, wk_lease = se_redrive_lease st\<rparr>"

record 'w container =
  co_executor :: "'w process executor"
  co_workers :: "'w process run_worker list"
  co_api_keys :: "(string, string) dict"
  co_http_clients :: "client_config list"

definition build :: "settings \<Rightarrow> 'w surroundings \<Rightarrow> 'w container" where
  "build st U = \<lparr>co_executor = the_executor st U,
     co_workers = map (the_worker st U) [0..<se_worker_concurrency_limit st],
     co_api_keys = api_keys (se_api_key_ui st) (se_api_key_portal st) (se_api_key_servicenow st),
     co_http_clients = [servicenow_http st, pm_http st, airflow_http st, legacy_http st]\<rparr>"

text \<open>A freshly started process: the configured groups, no token.\<close>

definition start_process :: "settings \<Rightarrow> 'w \<Rightarrow> 'w process" where
  "start_process st w = \<lparr>pr_groups = se_responsible_groups st, pr_token = JNull, pr_remote = w, pr_log = []\<rparr>"

end
