(* ===== verification/Resource_Manager.thy ===== *)
theory Resource_Manager
  imports Step_Contract
begin

text \<open>
  What the steps need of a resource manager, as the locale \<open>resource_manager\<close>: how it treats a request
  it has seen before, and a record it does not know. The steps' behaviour when a worker died between a
  call and the save, and the step is driven again, is proved once here from these laws.

  \<open>recs\<close> is the part of the world that holds the records, \<open>plain\<close> says which identifiers may appear in
  a path, \<open>made p y body key i\<close> that this create was answered with the id \<open>i\<close>, \<open>known p y v\<close> that there
  is such a record.
\<close>

locale resource_manager =
  fixes rc :: "'w resource_client"
    and recs :: "'w \<Rightarrow> 'v"
    and plain :: "string \<Rightarrow> bool"
    and made :: "string \<Rightarrow> string \<Rightarrow> payload \<Rightarrow> string \<Rightarrow> string \<Rightarrow> 'v \<Rightarrow> bool"
    and known :: "string \<Rightarrow> string \<Rightarrow> string \<Rightarrow> 'v \<Rightarrow> bool"
  assumes create_makes: "plain p \<Longrightarrow> plain y \<Longrightarrow> map_of body ''vendor_id'' \<noteq> None \<Longrightarrow>
      \<exists>i w'. rc_create_resource rc p y body key w = (Inr (Some i), w') \<and> i \<noteq> [] \<and> made p y body key i (recs w')"
    and create_made: "plain p \<Longrightarrow> plain y \<Longrightarrow> map_of body ''vendor_id'' \<noteq> None \<Longrightarrow> made p y body key i (recs w) \<Longrightarrow>
      \<exists>w'. rc_create_resource rc p y body key w = (Inr (Some i), w') \<and> recs w' = recs w"
    and update_unknown: "plain p \<Longrightarrow> plain y \<Longrightarrow> plain v \<Longrightarrow> \<not> known p y v (recs w) \<Longrightarrow>
      \<exists>m w'. rc_update_resource rc p y v fs w = (Inl (ResourceNotFoundError m), w') \<and> recs w' = recs w"
    and update_known: "plain p \<Longrightarrow> plain y \<Longrightarrow> plain v \<Longrightarrow> known p y v (recs w) \<Longrightarrow>
      \<exists>w'. rc_update_resource rc p y v fs w = (Inr (), w')"
    and delete_any: "plain p \<Longrightarrow> plain y \<Longrightarrow> plain v \<Longrightarrow> \<exists>w'. rc_delete_resource rc p y v w = (Inr (), w')"
begin

lemma create_body_vendor: "map_of (create_body run r (resource_state_fields st)) ''vendor_id'' \<noteq> None"
  by (simp add: create_body_eq)

text \<open>Registering a new resource: done, it leaves the provider's id on the run; done again from the same
  run it leaves the same, and the records as they are.\<close>

lemma configure_once:
  assumes "st = run_run_state (dv_run s)" and "st_resource st = Some r" and "st_operation st = RO_CREATE"
    and "\<not> st_resource_configured st" and "plain (rs_project_id r)" and "plain (rs_resource_type r)"
  shows "\<exists>i t. configure_resource_execute rc s = (Inr True, t) \<and>
    st_resource (run_run_state (dv_run t)) = Some (r\<lparr>rs_vendor_id := run_id (dv_run s), rs_resource_id := i\<rparr>) \<and>
    (\<forall>again. dv_run again = dv_run s \<and> recs (dv_world again) = recs (dv_world t) \<longrightarrow>
       (\<exists>u. configure_resource_execute rc again = (Inr True, u) \<and> dv_run u = dv_run t \<and>
          recs (dv_world u) = recs (dv_world t)))"
proof -
  let ?r = "r\<lparr>rs_vendor_id := run_id (dv_run s)\<rparr>"
  let ?b = "create_body (dv_run s) ?r (resource_state_fields ST_PROVISIONING)"
  let ?k = "idem_key (dv_run s) SN_CONFIGURE_RESOURCE"
  let ?create = "rc_create_resource rc (rs_project_id r) (rs_resource_type r) ?b ?k"
  let ?run = "\<lambda>i. (dv_run s)\<lparr>run_run_state := st\<lparr>st_resource := Some (?r\<lparr>rs_resource_id := i\<rparr>),
    st_resource_configured := True\<rparr>\<rparr>"
  have exec: "\<exists>evs. configure_resource_execute rc x =
      (Inr True, x\<lparr>dv_world := w, dv_trace := dv_trace x @ evs, dv_run := ?run i\<rparr>)"
    if "?create (dv_world x) = (Inr (Some i), w)" "i \<noteq> []" "dv_run x = dv_run s" for x i w
    using assms that
    by (intro exI [of _ "[Ev_create_resource (rs_project_id r) (rs_resource_type r) ?b ?k (Inr (Some i))]"])
       (simp add: configure_resource_execute_def set_resource_def eff_basic drive_basic Let_def)
  obtain i w where made: "?create (dv_world s) = (Inr (Some i), w)" "i \<noteq> []"
      "made (rs_project_id r) (rs_resource_type r) ?b ?k i (recs w)"
    using create_makes [OF assms(5,6) create_body_vendor] by blast
  obtain evs where t: "configure_resource_execute rc s =
      (Inr True, s\<lparr>dv_world := w, dv_trace := dv_trace s @ evs, dv_run := ?run i\<rparr>)" (is "_ = (_, ?t)")
    using exec [OF made(1,2) refl] by blast
  have "\<exists>u. configure_resource_execute rc again = (Inr True, u) \<and> dv_run u = dv_run ?t \<and>
      recs (dv_world u) = recs (dv_world ?t)"
    if again: "dv_run again = dv_run s" "recs (dv_world again) = recs (dv_world ?t)" for again
  proof -
    obtain w' where w': "?create (dv_world again) = (Inr (Some i), w')" "recs w' = recs (dv_world again)"
      using create_made [OF assms(5,6) create_body_vendor, of "dv_run s" ?r ST_PROVISIONING ?k i "dv_world again"]
        made(3) again(2) by auto
    from exec [OF w'(1) made(2) again(1)] w'(2) again(2) show ?thesis by fastforce
  qed
  with t show ?thesis by (intro exI [of _ i] exI [of _ ?t]) auto
qed

text \<open>Finishing a delete always succeeds, whatever an earlier attempt already did.\<close>

lemma delete_finishes:
  assumes "st = run_run_state (dv_run s)" and "st_resource st = Some r" and "st_operation st = RO_DELETE"
    and "plain (rs_project_id r)" and "plain (rs_resource_type r)" and "plain (rs_vendor_id r)"
  shows "\<exists>t. finalize_resource_execute rc s = (Inr True, t) \<and>
    (st_resource_finalized st \<or> st_resource_finalized (run_run_state (dv_run t)))"
proof (cases "st_resource_finalized st")
  case False
  let ?fs = "resource_state_fields ST_DELETED"
  obtain res w where upd: "rc_update_resource rc (rs_project_id r) (rs_resource_type r) (rs_vendor_id r) ?fs (dv_world s) = (res, w)"
      "res = Inr () \<or> (\<exists>m. res = Inl (ResourceNotFoundError m))"
    using update_unknown [OF assms(4-6), of "dv_world s" ?fs] update_known [OF assms(4-6), of "dv_world s" ?fs] by blast
  obtain w' where "rc_delete_resource rc (rs_project_id r) (rs_resource_type r) (rs_vendor_id r) w = (Inr (), w')"
    using delete_any [OF assms(4-6), of w] by blast
  with upd False assms(1-3) show ?thesis
    by (auto simp: finalize_resource_execute_def finalize_delete_def eff_basic drive_basic Let_def)
qed (use assms finalize_marked [of s rc] in auto)

end

end
