(* ===== verification/Dev_PM.thy ===== *)
theory Dev_PM
  imports Project_Manager Resource_Manager
begin

text \<open>
  The Project Manager mock of \<open>src/dev/project_manager/app.py\<close>, and the adapter working against it: the
  two together meet the contract \<open>resource_manager\<close>.

  \<^item> A MongoDB collection is a list of documents in insertion order; \<open>find_one\<close> takes the first match.
    The ids its driver mints are a parameter \<open>oid\<close>, a text for each insertion. Each route is one atomic
    function of the collections.
  \<^item> FastAPI's routing matches the path by segments and passes those named in braces; a request it
    cannot parse is answered 422, an \<open>HTTPException\<close> by its status and \<open>{"detail": ...}\<close>, any other
    exception by 500. Percent-encoding is not modelled: the laws speak of identifiers that need none.
  \<^item> Values are compared as JSON, so \<open>1\<close>, \<open>1.0\<close> and \<open>True\<close> are different values here.
\<close>

section \<open>The collections\<close>

record pm_document =
  pd_id :: nat
  pd_key :: string
  pd_project :: string
  pd_type :: string
  pd_vendor :: json
  pd_body :: payload

record pm_store =
  pm_projects :: "(json \<times> payload) list"
  pm_resources :: "pm_document list"
  pm_next :: nat

datatype pm_exn =
  Http_Exception nat string
| Server_Fault

definition find_resource :: "string \<Rightarrow> string \<Rightarrow> json \<Rightarrow> pm_store \<Rightarrow> pm_document option" where
  "find_resource p y v db =
     List.find (\<lambda>d. pd_project d = p \<and> pd_type d = y \<and> pd_vendor d = v) (pm_resources db)"

definition find_by_key :: "string \<Rightarrow> pm_store \<Rightarrow> pm_document option" where
  "find_by_key key db = List.find (\<lambda>d. pd_key d = key) (pm_resources db)"

definition resources_of :: "string \<Rightarrow> string \<Rightarrow> pm_store \<Rightarrow> pm_document list" where
  "resources_of p y db = filter (\<lambda>d. pd_project d = p \<and> pd_type d = y) (pm_resources db)"

section \<open>Routes\<close>

definition ack :: "string \<Rightarrow> json" where
  "ack i = JDict [(''message'', JStr ''resource created''), (''project_resource_id'', JStr i)]"

definition pm_create_project :: "payload \<Rightarrow> (pm_store, pm_exn, json) eff" where
  "pm_create_project body =
     (let pid = dget body ''project_id'' JNull in
      if \<not> py_true pid then raise (Http_Exception 422 ''project_id is required'')
      else bindE getS (\<lambda>db.
        case map_of (pm_projects db) pid of
          Some existing \<Rightarrow> ret (JDict existing)
        | None \<Rightarrow>
            let project = dset body ''name'' (dget body ''name'' pid) in
            thenE (modifyS (\<lambda>db. db\<lparr>pm_projects := pm_projects db @ [(pid, project)]\<rparr>))
              (ret (JDict project))))"

definition pm_list_projects :: "(pm_store, pm_exn, json) eff" where
  "pm_list_projects = bindE getS (\<lambda>db. ret (JList (map (JDict \<circ> snd) (pm_projects db))))"

definition pm_insert :: "string \<Rightarrow> string \<Rightarrow> string \<Rightarrow> json \<Rightarrow> payload \<Rightarrow> pm_store \<Rightarrow> pm_store" where
  "pm_insert key p y v body db =
     db\<lparr>pm_resources := pm_resources db @ [\<lparr>pd_id = pm_next db, pd_key = key, pd_project = p, pd_type = y,
          pd_vendor = v, pd_body = dset body ''in_progress'' (dget body ''in_progress'' (JBool True))\<rparr>],
       pm_next := pm_next db + 1\<rparr>"

definition pm_create :: "(nat \<Rightarrow> string) \<Rightarrow> string \<Rightarrow> string \<Rightarrow> payload \<Rightarrow> string \<Rightarrow> (pm_store, pm_exn, json) eff" where
  "pm_create oid p y body key =
     bindE getS (\<lambda>db.
     case find_by_key key db of
       Some d \<Rightarrow> ret (ack (oid (pd_id d)))
     | None \<Rightarrow>
         (case map_of body ''vendor_id'' of
            None \<Rightarrow> raise Server_Fault
          | Some v \<Rightarrow>
              (case find_resource p y v db of
                 Some d \<Rightarrow> ret (ack (oid (pd_id d)))
               | None \<Rightarrow> thenE (modifyS (pm_insert key p y v body)) (ret (ack (oid (pm_next db)))))))"

definition pm_validate :: "string \<Rightarrow> string \<Rightarrow> payload \<Rightarrow> (pm_store, pm_exn, json) eff" where
  "pm_validate p y body =
     (let name = dget body ''name'' JNull; operation = dget body ''db_operation'' JNull in
      if \<not> py_true name then raise (Http_Exception 400 ''name is required'')
      else bindE getS (\<lambda>db.
        let named = filter (\<lambda>d. dget (pd_body d) ''name'' JNull = name) (resources_of p y db) in
        if operation = JStr ''create'' \<and> named \<noteq> [] then
          raise (Http_Exception 409 (''resource name '' @ quote_char @ py_str name @ quote_char @ '' already exists''))
        else if operation \<noteq> JStr ''create'' \<and> named = [] then
          raise (Http_Exception 404 (''no resource named '' @ quote_char @ py_str name @ quote_char))
        else ret (JDict [(''message'', JStr ''validation passed'')])))"

definition not_found_detail :: "string \<Rightarrow> string" where
  "not_found_detail v = ''resource '' @ quote_char @ v @ quote_char @ '' not found''"

definition pm_update :: "string \<Rightarrow> string \<Rightarrow> string \<Rightarrow> payload \<Rightarrow> (pm_store, pm_exn, json) eff" where
  "pm_update p y v body =
     bindE getS (\<lambda>db.
     case find_resource p y (JStr v) db of
       None \<Rightarrow> raise (Http_Exception 404 (not_found_detail v))
     | Some row \<Rightarrow>
         let updated = dmerge (pd_body row) body;
             new_vendor = dget body ''vendor_id'' JNull
         in thenE (modifyS (\<lambda>db. db\<lparr>pm_resources := map (\<lambda>d. if pd_id d = pd_id row
                then (if py_true new_vendor then d\<lparr>pd_body := updated, pd_vendor := new_vendor\<rparr>
                      else d\<lparr>pd_body := updated\<rparr>)
                else d) (pm_resources db)\<rparr>))
              (ret (JDict updated)))"

text \<open>\<open>delete_one\<close> removes the first match.\<close>

fun remove_first :: "('a \<Rightarrow> bool) \<Rightarrow> 'a list \<Rightarrow> 'a list" where
  "remove_first P [] = []"
| "remove_first P (x # xs) = (if P x then xs else x # remove_first P xs)"

definition pm_delete :: "string \<Rightarrow> string \<Rightarrow> string \<Rightarrow> (pm_store, pm_exn, json) eff" where
  "pm_delete p y v =
     bindE getS (\<lambda>db.
     case find_resource p y (JStr v) db of
       None \<Rightarrow> raise (Http_Exception 404 (not_found_detail v))
     | Some _ \<Rightarrow> thenE (modifyS (\<lambda>db. db\<lparr>pm_resources := remove_first
           (\<lambda>d. pd_project d = p \<and> pd_type d = y \<and> pd_vendor d = JStr v) (pm_resources db)\<rparr>))
         (ret JNull))"

definition pm_list :: "(nat \<Rightarrow> string) \<Rightarrow> string \<Rightarrow> string \<Rightarrow> (pm_store, pm_exn, json) eff" where
  "pm_list oid p y = bindE getS (\<lambda>db. ret (JList (map
     (\<lambda>d. JDict (dset (pd_body d) ''project_resource_id'' (JStr (oid (pd_id d))))) (resources_of p y db))))"

definition pm_healthz :: "(pm_store, pm_exn, json) eff" where
  "pm_healthz = ret (JDict [(''status'', JStr ''ok'')])"

section \<open>Dispatch\<close>

definition json_body :: "http_request \<Rightarrow> (payload \<Rightarrow> (pm_store, pm_exn, json) eff) \<Rightarrow> (pm_store, pm_exn, json) eff" where
  "json_body q f = (case hq_body q of
     Some (JDict body) \<Rightarrow> f body | _ \<Rightarrow> raise (Http_Exception 422 ''unprocessable body''))"

definition pm_collection :: "(nat \<Rightarrow> string) \<Rightarrow> string \<Rightarrow> string \<Rightarrow> http_request \<Rightarrow> (pm_store, pm_exn, json) eff" where
  "pm_collection oid p y q =
     (case hq_verb q of
        POST \<Rightarrow> (case map_of (hq_headers q) ''Idempotency-Key'' of
            None \<Rightarrow> raise (Http_Exception 422 ''missing header'')
          | Some key \<Rightarrow> json_body q (\<lambda>body. pm_create oid p y body key))
      | GET \<Rightarrow> pm_list oid p y
      | _ \<Rightarrow> raise (Http_Exception 405 ''Method Not Allowed''))"

definition pm_item :: "string \<Rightarrow> string \<Rightarrow> string \<Rightarrow> http_request \<Rightarrow> (pm_store, pm_exn, json) eff" where
  "pm_item p y v q =
     (case hq_verb q of
        POST \<Rightarrow> if v = ''validate_resource'' then json_body q (pm_validate p y)
                else raise (Http_Exception 405 ''Method Not Allowed'')
      | PATCH \<Rightarrow> json_body q (pm_update p y v)
      | DELETE \<Rightarrow> pm_delete p y v
      | _ \<Rightarrow> raise (Http_Exception 405 ''Method Not Allowed''))"

definition pm_route :: "(nat \<Rightarrow> string) \<Rightarrow> http_request \<Rightarrow> (pm_store, pm_exn, json) eff" where
  "pm_route oid q =
     (case split_on (CHR ''/'') (hq_path q) of
        [_, a] \<Rightarrow>
          if a = ''healthz'' \<and> hq_verb q = GET then pm_healthz
          else if a = ''projects'' \<and> hq_verb q = GET then pm_list_projects
          else if a = ''projects'' \<and> hq_verb q = POST then json_body q pm_create_project
          else raise (Http_Exception 404 ''Not Found'')
      | [_, a, p, b, y] \<Rightarrow>
          if a = ''projects'' \<and> b = ''project_resources'' then pm_collection oid p y q
          else raise (Http_Exception 404 ''Not Found'')
      | [_, a, p, b, y, v] \<Rightarrow>
          if a = ''projects'' \<and> b = ''project_resources'' then pm_item p y v q
          else raise (Http_Exception 404 ''Not Found'')
      | _ \<Rightarrow> raise (Http_Exception 404 ''Not Found''))"

text \<open>The answer on the wire: a successful DELETE is 204 without a body. The texts of the client library
  (of a status error, of a body that is not JSON) are the parameter \<open>msg\<close>.\<close>

definition pm_respond :: "string \<Rightarrow> verb \<Rightarrow> pm_exn + json \<Rightarrow> response" where
  "pm_respond msg v r = (case r of
     Inl (Http_Exception code detail) \<Rightarrow>
       \<lparr>rsp_status = code, rsp_json = Inr (JDict [(''detail'', JStr detail)]), rsp_error = msg\<rparr>
   | Inl Server_Fault \<Rightarrow> \<lparr>rsp_status = 500, rsp_json = Inl msg, rsp_error = msg\<rparr>
   | Inr j \<Rightarrow> if v = DELETE then \<lparr>rsp_status = 204, rsp_json = Inl msg, rsp_error = msg\<rparr>
       else \<lparr>rsp_status = 200, rsp_json = Inr j, rsp_error = msg\<rparr>)"

definition pm_mock :: "(nat \<Rightarrow> string) \<Rightarrow> string \<Rightarrow> pm_store http" where
  "pm_mock oid msg = \<lparr>ht_send = (\<lambda>q db. case pm_route oid q db of
       (r, db') \<Rightarrow> (Inr (pm_respond msg (hq_verb q) r), db')),
     ht_model_error = (\<lambda>_. msg)\<rparr>"

section \<open>The adapter against the mock\<close>

text \<open>Identifiers made of letters, digits, \<open>-\<close> and \<open>_\<close> appear in a path as they are.\<close>

definition plain_id :: "string \<Rightarrow> bool" where
  "plain_id s \<longleftrightarrow> s \<noteq> [] \<and> list_all (\<lambda>c. let n = of_char c :: nat in
     (48 \<le> n \<and> n \<le> 57) \<or> (65 \<le> n \<and> n \<le> 90) \<or> (97 \<le> n \<and> n \<le> 122) \<or> n = 45 \<or> n = 95) s"

definition pm_known :: "string \<Rightarrow> string \<Rightarrow> string \<Rightarrow> pm_store \<Rightarrow> bool" where
  "pm_known p y v db \<longleftrightarrow> find_resource p y (JStr v) db \<noteq> None"

definition pm_made ::
  "(nat \<Rightarrow> string) \<Rightarrow> string \<Rightarrow> string \<Rightarrow> payload \<Rightarrow> string \<Rightarrow> string \<Rightarrow> pm_store \<Rightarrow> bool" where
  "pm_made oid p y body key i db \<longleftrightarrow>
     (case find_by_key key db of
        Some d \<Rightarrow> i = oid (pd_id d)
      | None \<Rightarrow> \<exists>v d. map_of body ''vendor_id'' = Some v \<and> find_resource p y v db = Some d \<and> i = oid (pd_id d))"

lemma plain_no_slash: "plain_id s \<Longrightarrow> CHR ''/'' \<notin> set s"
  by (auto simp: plain_id_def list_all_iff Let_def)

lemma split_projects:
  "split_on (CHR ''/'') (''/projects/'' @ s) = [] # ''projects'' # split_on (CHR ''/'') s"
  "split_on (CHR ''/'') (''/project_resources/'' @ s) = [] # ''project_resources'' # split_on (CHR ''/'') s"
  by (simp_all split: list.split)

lemma split_resources_path:
  assumes "plain_id p" and "CHR ''/'' \<notin> set y"
  shows "split_on (CHR ''/'') (resources_path p y) = [[], ''projects'', p, ''project_resources'', y]"
proof -
  have "split_on (CHR ''/'') (p @ CHR ''/'' # (''project_resources'' @ CHR ''/'' # y)) =
      [p, ''project_resources'', y]"
    using assms by (subst split_on_append, simp add: plain_no_slash, subst split_on_append)
      (simp_all add: split_on_plain)
  then show ?thesis by (simp add: resources_path_def split: list.split)
qed

lemma split_resource_path:
  assumes "plain_id p" and "plain_id y" and "plain_id v"
  shows "split_on (CHR ''/'') (resource_path p y v) = [[], ''projects'', p, ''project_resources'', y, v]"
proof -
  have "split_on (CHR ''/'') (p @ CHR ''/'' # (''project_resources'' @ CHR ''/'' # (y @ CHR ''/'' # v))) =
      [p, ''project_resources'', y, v]"
    using assms by (subst split_on_append, simp add: plain_no_slash, subst split_on_append, simp,
        subst split_on_append) (simp_all add: split_on_plain plain_no_slash)
  then show ?thesis by (simp add: resources_path_def resource_path_def split: list.split)
qed

lemma mock_collection:
  "plain_id p \<Longrightarrow> plain_id y \<Longrightarrow> hq_path q = resources_path p y \<Longrightarrow> pm_route oid q = pm_collection oid p y q"
  by (simp add: pm_route_def split_resources_path plain_no_slash)

lemma mock_item:
  "plain_id p \<Longrightarrow> plain_id y \<Longrightarrow> plain_id v \<Longrightarrow> hq_path q = resource_path p y v \<Longrightarrow>
   pm_route oid q = pm_item p y v q"
  by (simp add: pm_route_def split_resource_path)

lemma send_mock: "send (pm_mock oid msg) q s = (case pm_route oid q (pr_remote s) of
     (r, db) \<Rightarrow> (Inr (pm_respond msg (hq_verb q) r),
       s\<lparr>pr_remote := db, pr_log := pr_log s @ [(q, Inr (pm_respond msg (hq_verb q) r))]\<rparr>))"
  by (simp add: send_def pm_mock_def split: prod.split)

text \<open>The adapter's calls, carried through the mock.\<close>

lemma create_through_mock:
  assumes "plain_id p" and "plain_id y" and "map_of body ''vendor_id'' = Some v"
  shows "\<exists>w'. pm_create_resource (pm_mock oid msg) p y body key w =
      (Inr (Some (oid (case find_by_key key (pr_remote w) of
          Some d \<Rightarrow> pd_id d
        | None \<Rightarrow> (case find_resource p y v (pr_remote w) of Some d \<Rightarrow> pd_id d | None \<Rightarrow> pm_next (pr_remote w))))), w') \<and>
    pr_remote w' = (if find_by_key key (pr_remote w) = None \<and> find_resource p y v (pr_remote w) = None
       then pm_insert key p y v body (pr_remote w) else pr_remote w)"
  using assms
  by (simp add: pm_create_resource_def eff_basic send_mock mock_collection request_json_def request_def
      pm_collection_def json_body_def pm_create_def pm_respond_def ack_def raise_for_status_def is_success_def
      resp_json_def dget_def split: option.split)

lemma update_through_mock:
  assumes "plain_id p" and "plain_id y" and "plain_id v"
  shows "case find_resource p y (JStr v) (pr_remote w) of
      None \<Rightarrow> \<exists>m w'. pm_update_resource (pm_mock oid msg) p y v fs w = (Inl (ResourceNotFoundError m), w') \<and>
        pr_remote w' = pr_remote w
    | Some _ \<Rightarrow> \<exists>w'. pm_update_resource (pm_mock oid msg) p y v fs w = (Inr (), w')"
  using assms
  by (simp add: pm_update_resource_def eff_basic send_mock mock_item request_json_def request_def pm_item_def
      json_body_def pm_update_def pm_respond_def raise_for_status_def is_success_def Let_def split: option.split)

lemma delete_through_mock:
  assumes "plain_id p" and "plain_id y" and "plain_id v"
  shows "\<exists>w'. pm_delete_resource (pm_mock oid msg) p y v w = (Inr (), w')"
  using assms
  by (simp add: pm_delete_resource_def eff_basic send_mock mock_item request_def pm_item_def pm_delete_def
      pm_respond_def raise_for_status_def is_success_def split: option.split)

lemma find_by_key_insert:
  "find_by_key key db = None \<Longrightarrow> \<exists>d. find_by_key key (pm_insert key p y v body db) = Some d \<and> pd_id d = pm_next db"
proof -
  have "List.find P (xs @ [x]) = (case List.find P xs of Some r \<Rightarrow> Some r | None \<Rightarrow> if P x then Some x else None)"
    for P :: "pm_document \<Rightarrow> bool" and xs x
    by (induction xs) auto
  then show "find_by_key key db = None \<Longrightarrow> \<exists>d. find_by_key key (pm_insert key p y v body db) = Some d \<and> pd_id d = pm_next db"
    by (simp add: find_by_key_def pm_insert_def)
qed

lemma create_law:
  assumes "plain_id p" and "plain_id y" and "map_of body ''vendor_id'' \<noteq> None" and "\<And>n. oid n \<noteq> []"
  shows "\<exists>i w'. pm_create_resource (pm_mock oid msg) p y body key w = (Inr (Some i), w') \<and> i \<noteq> [] \<and>
    pm_made oid p y body key i (pr_remote w')"
proof -
  obtain v where v: "map_of body ''vendor_id'' = Some v" using assms(3) by blast
  show ?thesis
    using create_through_mock [OF assms(1,2) v, of oid msg key w] assms(4) v
      find_by_key_insert [of key "pr_remote w" p y v body]
    by (fastforce simp: pm_made_def split: option.splits if_splits)
qed

lemma made_law:
  assumes "plain_id p" and "plain_id y" and "map_of body ''vendor_id'' \<noteq> None" and "pm_made oid p y body key i (pr_remote w)"
  shows "\<exists>w'. pm_create_resource (pm_mock oid msg) p y body key w = (Inr (Some i), w') \<and> pr_remote w' = pr_remote w"
proof -
  obtain v where v: "map_of body ''vendor_id'' = Some v" using assms(3) by blast
  show ?thesis
    using create_through_mock [OF assms(1,2) v, of oid msg key w] assms(4) v
    by (auto simp: pm_made_def split: option.splits)
qed

text \<open>The ids a MongoDB driver mints are not empty; \<open>mongo_id\<close> stands for any such text.\<close>

definition mongo_id :: "(nat \<Rightarrow> string) \<Rightarrow> nat \<Rightarrow> string" where
  "mongo_id oid n = (if oid n = [] then ''0'' else oid n)"

interpretation dev: resource_manager "pm_client (pm_mock (mongo_id oid) msg)" pr_remote plain_id
    "pm_made (mongo_id oid)" pm_known for oid msg
proof (unfold_locales, goal_cases)
  case (1 p y body key w)
  then show ?case using create_law [of p y body "mongo_id oid" msg key w] by (simp add: pm_client_def mongo_id_def)
next
  case (2 p y body key i w)
  then show ?case using made_law [of p y body "mongo_id oid" key i w msg] by (simp add: pm_client_def)
next
  case (3 p y v w fs)
  then show ?case
    using update_through_mock [of p y v, where w = w and oid = "mongo_id oid" and msg = msg and fs = fs] by (simp add: pm_client_def pm_known_def)
next
  case (4 p y v w fs)
  then show ?case
    using update_through_mock [of p y v, where w = w and oid = "mongo_id oid" and msg = msg and fs = fs] by (auto simp: pm_client_def pm_known_def)
next
  case (5 p y v w)
  then show ?case using delete_through_mock [of p y v, where w = w and oid = "mongo_id oid" and msg = msg] by (simp add: pm_client_def)
qed

end
