(* ===== verification/Dag_Callbacks.thy ===== *)
theory Dag_Callbacks
  imports Airflow
begin

text \<open>
  The callbacks of \<open>src/airflow/dags/cloudio_callbacks.py\<close> that run inside Airflow: what a failed task
  publishes, and the notification that wakes the waiting run; and the failures the sample DAG of
  \<open>provision_vm.py\<close> raises on demand.

  The error of a task context is an exception, with its class name, its text and the group it carries,
  or a text, or missing. Pushing the XCom and sending the notification are the environment's: the
  result is what is pushed or sent.
\<close>

definition exception_xcom_key :: string where
  "exception_xcom_key = ''exception_type''"

definition callback_path :: string where
  "callback_path = ''/api/v1/callbacks/engine-run''"

datatype raised =
  Raised string string "string option"
| Raised_Text string

record task_context =
  cx_task_instance :: bool
  cx_exception :: "raised option"

text \<open>\<open>getattr(error, "responsible_group", None) or responsible_group\<close>.\<close>

definition owner_of :: "string option \<Rightarrow> raised option \<Rightarrow> string option" where
  "owner_of fallback error = (case error of
     Some (Raised _ _ (Some g)) \<Rightarrow> if g \<noteq> [] then Some g else fallback
   | _ \<Rightarrow> fallback)"

definition no_exception_message :: string where
  "no_exception_message = ''Task failed without an exception.''"

definition exception_payload :: "string option \<Rightarrow> raised option \<Rightarrow> payload" where
  "exception_payload fallback error =
     [(''message'', JStr (case error of
         Some (Raised _ m _) \<Rightarrow> m
       | Some (Raised_Text t) \<Rightarrow> if t \<noteq> [] then t else no_exception_message
       | None \<Rightarrow> no_exception_message)),
      (''exception'', case error of Some (Raised c _ _) \<Rightarrow> JStr c | _ \<Rightarrow> JNull),
      (''responsible_group'', opt_str (owner_of fallback error))]"

text \<open>\<open>exception_callback(responsible_group)\<close>: the XCom it pushes, its key and its value.\<close>

definition publish_exception :: "string option \<Rightarrow> task_context \<Rightarrow> (string \<times> string) option" where
  "publish_exception fallback ctx =
     (if \<not> cx_task_instance ctx then None
      else Some (exception_xcom_key, json_dumps (JDict (exception_payload fallback (cx_exception ctx)))))"

definition notify_orchestrator :: "string option \<Rightarrow> string \<Rightarrow> (string \<times> string) option" where
  "notify_orchestrator base_url dag_run = (case base_url of
     None \<Rightarrow> None
   | Some b \<Rightarrow> if b = [] then None
       else Some (rstrip_slash b @ callback_path, json_dumps (JDict [(''engine_run_id'', JStr dag_run)])))"

section \<open>The sample DAG\<close>

definition dag_responsible_group :: string where
  "dag_responsible_group = ''storage''"

definition dag_failures :: "(string, string) dict" where
  "dag_failures = [(''validation'', ''ValidationException''), (''precheck'', ''InfraPrecheckException''),
     (''task'', ''TaskException'')]"

text \<open>\<open>provision\<close>: the exception the configuration asks for, or the vendor id drawn.\<close>

definition provision :: "payload \<Rightarrow> string \<Rightarrow> raised + string" where
  "provision conf drawn =
     (let fail_as = dget conf ''fail'' JNull in
      if py_true fail_as then
        (let failure = dget dag_failures (if fail_as = JBool True then ''task'' else py_str fail_as) ''TaskException''
         in Inl (Raised failure (''Simulated '' @ failure @ '' (conf.fail='' @ py_repr fail_as @ '').'')
              (Some dag_responsible_group)))
      else Inr (''vm-'' @ drawn))"

section \<open>What reaches the adapter\<close>

text \<open>The failure the adapter should report for a task and what it raised.\<close>

definition reported_failure :: "string \<Rightarrow> string option \<Rightarrow> raised option \<Rightarrow> engine_failure" where
  "reported_failure tsk fallback error =
     \<lparr>ef_failed_task = Some tsk, ef_responsible_group = owner_of fallback error,
      ef_detail = Some (case error of
         Some (Raised _ m _) \<Rightarrow> m
       | Some (Raised_Text t) \<Rightarrow> if t \<noteq> [] then t else no_exception_message
       | None \<Rightarrow> no_exception_message),
      ef_exception_name = (case error of Some (Raised c _ _) \<Rightarrow> Some c | _ \<Rightarrow> None),
      ef_kind = (case error of
         Some (Raised c _ _) \<Rightarrow>
           if c = ''ValidationException'' then FK_VALIDATION
           else if c = ''InfraPrecheckException'' then FK_INFRA_PRECHECK
           else FK_TASK
       | _ \<Rightarrow> FK_TASK)\<rparr>"

definition ascii_error :: "raised option \<Rightarrow> bool" where
  "ascii_error error \<longleftrightarrow> (case error of
     None \<Rightarrow> True
   | Some (Raised_Text t) \<Rightarrow> ascii t
   | Some (Raised c m g) \<Rightarrow> ascii c \<and> ascii m \<and> pred_option ascii g)"

lemma ascii_literals: "ascii no_exception_message" "ascii ''message''" "ascii ''exception''" "ascii ''responsible_group''"
  by code_simp+

lemma payload_clean:
  "ascii_error error \<Longrightarrow> pred_option ascii fallback \<Longrightarrow> clean (JDict (exception_payload fallback error))"
  by (cases error; cases "the error")
     (auto simp: exception_payload_def ascii_error_def owner_of_def opt_str_def ascii_literals
       split: option.split)

lemma payload_failure:
  "failure_of_dict h (JStr tsk) (exception_payload fallback error) = Inr (reported_failure tsk fallback error)"
  by (cases error; cases "the error")
     (auto simp: failure_of_dict_def exception_payload_def make_failure_def opt_str_field_def opt_str_def
       reported_failure_def failure_kinds_def dget_def split: option.split)

end
