(* ===== verification/Adapter_Properties.thy ===== *)
theory Adapter_Properties
  imports Bootstrap Dev_PM Dag_Callbacks Worker Samples
begin

text \<open>
  What the adapters promise: against the Project Manager mock, a step repeated after a lost save does
  its work once; ServiceNow orders at most one request item and assigns incidents to known groups only;
  Airflow's verdict and a DAG's failure reach the orchestrator as they were meant; a worker's loop ends
  on a stop request and on nothing else.
\<close>

section \<open>Project Manager\<close>

text \<open>C29. A resource is registered once, however often the step is repeated: against the Project Manager
  mock, configuring a create always succeeds and leaves on the run the id the provider minted; repeated
  from the same run, as after a crash before the save, it leaves the same run and the same records.\<close>

theorem configure_exactly_once:
  assumes "st = run_run_state (dv_run s)" and "st_resource st = Some r" and "st_operation st = RO_CREATE"
    and "\<not> st_resource_configured st" and "plain_id (rs_project_id r)" and "plain_id (rs_resource_type r)"
    and "rc = pm_client (pm_mock (mongo_id oid) msg)"
  shows "\<exists>i t. configure_resource_execute rc s = (Inr True, t) \<and>
    st_resource (run_run_state (dv_run t)) = Some (r\<lparr>rs_vendor_id := run_id (dv_run s), rs_resource_id := i\<rparr>) \<and>
    (\<forall>again. dv_run again = dv_run s \<and> pr_remote (dv_world again) = pr_remote (dv_world t) \<longrightarrow>
       (\<exists>u. configure_resource_execute rc again = (Inr True, u) \<and> dv_run u = dv_run t \<and>
          pr_remote (dv_world u) = pr_remote (dv_world t)))"
  unfolding assms(7) by (rule dev.configure_once [OF assms(1-6)])

definition empty_pm :: pm_store where
  "empty_pm = \<lparr>pm_projects = [], pm_resources = [], pm_next = 0\<rparr>"

definition pm_drive :: "workflow_run \<Rightarrow> pm_store process drive" where
  "pm_drive r = \<lparr>dv_run = r, dv_world = idle_process empty_pm, dv_trace = []\<rparr>"

lemma sample_ids: "plain_id ''p1'' \<and> plain_id ''vm'' \<and> plain_id ''v1''"
  by code_simp

lemma configure_exactly_once_witness:
  "\<exists>i t. configure_resource_execute (pm_client (pm_mock (mongo_id str_nat) [])) (pm_drive run1) = (Inr True, t) \<and>
     st_resource (run_run_state (dv_run t)) = Some (resource1\<lparr>rs_vendor_id := ''r1'', rs_resource_id := i\<rparr>)"
proof -
  have "st_resource (run_run_state (dv_run (pm_drive run1))) = Some resource1"
    "st_operation (run_run_state (dv_run (pm_drive run1))) = RO_CREATE"
    "\<not> st_resource_configured (run_run_state (dv_run (pm_drive run1)))"
    "plain_id (rs_project_id resource1)" "plain_id (rs_resource_type resource1)" "run_id (dv_run (pm_drive run1)) = ''r1''"
    using sample_ids by (simp_all add: pm_drive_def run1_def resource1_def new_run_state_def)
  then show ?thesis
    using configure_exactly_once [OF refl _ _ _ _ _ refl, of "pm_drive run1" resource1 str_nat "[]"] by auto
qed

text \<open>A delete always gets done: against the Project Manager mock, finalizing a delete succeeds from
  every state of the records, whether the record is there, was marked, or is gone already.\<close>

theorem delete_always_finishes:
  assumes "st = run_run_state (dv_run s)" and "st_resource st = Some r" and "st_operation st = RO_DELETE"
    and "plain_id (rs_project_id r)" and "plain_id (rs_resource_type r)" and "plain_id (rs_vendor_id r)"
  shows "\<exists>t. finalize_resource_execute (pm_client (pm_mock (mongo_id oid) msg)) s = (Inr True, t) \<and>
    (st_resource_finalized st \<or> st_resource_finalized (run_run_state (dv_run t)))"
  by (rule dev.delete_finishes [OF assms])

lemma delete_always_finishes_witness:
  "\<exists>t. finalize_resource_execute (pm_client (pm_mock (mongo_id str_nat) []))
     (pm_drive (run1\<lparr>run_run_state := (run_run_state run1)\<lparr>st_operation := RO_DELETE\<rparr>\<rparr>)) = (Inr True, t)"
proof -
  let ?s = "pm_drive (run1\<lparr>run_run_state := (run_run_state run1)\<lparr>st_operation := RO_DELETE\<rparr>\<rparr>)"
  have "st_resource (run_run_state (dv_run ?s)) = Some resource1" "st_operation (run_run_state (dv_run ?s)) = RO_DELETE"
    "plain_id (rs_project_id resource1)" "plain_id (rs_resource_type resource1)" "plain_id (rs_vendor_id resource1)"
    using sample_ids by (simp_all add: pm_drive_def run1_def resource1_def new_run_state_def)
  then show ?thesis
    using delete_always_finishes [OF refl, of ?s resource1 str_nat "[]"] by auto
qed

section \<open>ServiceNow\<close>


definition sample_servicenow :: "unit http \<Rightarrow> unit servicenow" where
  "sample_servicenow h = \<lparr>sn_http = h, sn_default_group = ''cloudio'', sn_group_lookup_field = ''name'',
     sn_user_lookup_field = ''user_name''\<rparr>"

definition ritm_row :: json where
  "ritm_row = JDict [(''result'', JList [JDict [(''number'', JStr ''RITM7''), (''sys_id'', JStr ''s7'')]])]"


text \<open>C31. An incident is never assigned to a bare name: it is posted at most once, after reads only, and
  its assignment group is an id the memo of resolved groups holds, the responsible team's or, when that
  does not resolve, the default team's; the field is left out only when neither resolves.\<close>

theorem incident_assignment:
  "\<exists>reads post t r. sn_open_incident S q s = (r, t) \<and> pr_log t = pr_log s @ reads @ post \<and>
     length reads \<le> 3 \<and> (\<forall>e \<in> set reads. hq_verb (fst e) = GET) \<and>
     (post = [] \<or> (\<exists>caller g a. post = [(request_json POST (table_path ''incident'') (incident_body q caller g), a)] \<and>
        (case g of
           Some i \<Rightarrow> map_of (pr_groups t) (ir_responsible_group q) = Some i \<or>
             unresolved t (ir_responsible_group q) \<and> map_of (pr_groups t) (sn_default_group S) = Some i
         | None \<Rightarrow> unresolved t (ir_responsible_group q) \<and> unresolved t (sn_default_group S))))"
proof -
  obtain r t where run: "sn_open_incident S q s = (r, t)" by fastforce
  then have "reports S q s t"
    using open_incident_spec [of S q s] by (cases r) (auto simp: wpE_def)
  then consider "gets 3 s t" | u e where "gets 3 s u" "pr_log t = pr_log u @ [e]" "incident_post S q t (fst e)"
    unfolding reports_def by blast
  then show ?thesis
  proof cases
    case 1
    then obtain ex where "pr_log t = pr_log s @ ex" "length ex \<le> 3" "\<forall>e \<in> set ex. hq_verb (fst e) = GET"
      by (auto simp: gets_def)
    with run show ?thesis
      by (intro exI [of _ ex] exI [of _ "[]"] exI [of _ t] exI [of _ r]) simp
  next
    case 2
    then obtain ex caller g where "pr_log u = pr_log s @ ex" "length ex \<le> 3" "\<forall>e \<in> set ex. hq_verb (fst e) = GET"
        "fst e = request_json POST (table_path ''incident'') (incident_body q caller g)" "assigned S (ir_responsible_group q) g t"
      by (auto simp: gets_def incident_post_def)
    with 2 run show ?thesis
      unfolding assigned_def
      by (intro exI [of _ ex] exI [of _ "[e]"] exI [of _ t] exI [of _ r]) (cases e, auto)
  qed
qed

definition sample_incident :: incident_request where
  "sample_incident = \<lparr>ir_summary = ''failed'', ir_requested_by = ''ann'', ir_responsible_group = ''netops'',
     ir_flow_type = None, ir_failed_task = None, ir_comment = None, ir_description = None\<rparr>"

text \<open>An instance that finds a row for every lookup and accepts every post.\<close>

definition sample_instance :: "unit http" where
  "sample_instance = \<lparr>ht_send = (\<lambda>q w. (Inr \<lparr>rsp_status = 200, rsp_json = Inr (JDict [(''result'',
       (let row = JDict [(''number'', JStr ''INC7''), (''sys_id'', JStr ''s7'')] in
        if hq_verb q = GET then JList [row] else row))]), rsp_error = []\<rparr>, w)),
     ht_model_error = (\<lambda>m. m)\<rparr>"

lemma incident_assignment_witness:
  "\<exists>reads e. pr_log (snd (sn_open_incident (sample_servicenow sample_instance) sample_incident (idle_process ()))) = reads @ [e] \<and>
     length reads \<le> 3 \<and> hq_verb (fst e) = POST"
proof -
  let ?open = "sn_open_incident (sample_servicenow sample_instance) sample_incident (idle_process ())"
  have "list_ex (\<lambda>e. hq_verb (fst e) = POST) (pr_log (snd ?open))"
    by (simp add: sn_open_incident_def user_sys_id_def assignment_group_def group_sys_id_def group_lookup_def
        lookup_sys_id_def incident_ref_def first_row_def resp_json_def py_first_def py_item_def eff_basic send_def
        raise_for_status_def is_success_def dget_def sample_servicenow_def sample_instance_def idle_process_def)
  then have "\<exists>e \<in> set (pr_log (snd ?open)). hq_verb (fst e) = POST" unfolding list_ex_iff .
  moreover obtain reads post t r where "?open = (r, t)" "pr_log t = pr_log (idle_process ()) @ reads @ post" "length reads \<le> 3"
      "\<forall>e \<in> set reads. hq_verb (fst e) = GET" "post = [] \<or> (\<exists>e. post = [e])"
    using incident_assignment [of "sample_servicenow sample_instance" sample_incident "idle_process ()"] by blast
  ultimately show ?thesis by (fastforce simp: idle_process_def)
qed

section \<open>Airflow\<close>

text \<open>Airflow's word is not taken for success: a run in state \<open>success\<close> counts as successful only when
  its rollback controller published no failure; when that cannot be read the status is an error, never a
  success; \<open>failed\<close> is a failure and every other state still in progress.\<close>

theorem success_needs_no_rollback:
  assumes "af_request A (request GET (run_path aid rid)) s = (Inr resp, u)" and "is_success resp"
    and "rsp_json resp = Inr (JDict m)" and "map_of m ''state'' = Some (JStr v)"
    and "af_get_output A aid rid flow_failed_output u = (out, w)"
  shows "fst (af_query_run_status A aid rid s) =
    (if v = ''success'' then
       (case out of Inl e \<Rightarrow> Inl e | Inr x \<Rightarrow> Inr (if is_truthy x then ER_FAILED else ER_SUCCESS))
     else Inr (if v = ''failed'' then ER_FAILED else ER_IN_PROGRESS))"
  using assms
  by (auto simp: af_query_run_status_def flow_failed_def other_status_def eff_basic raise_for_status_def
      resp_json_def dget_def split: sum.split)

text \<open>A run that Airflow reports as successful, whose one task published the controller's verdict.\<close>

definition rolled_back :: "unit airflow" where
  "rolled_back = \<lparr>af_http = \<lparr>ht_send = (\<lambda>q w. (Inr \<lparr>rsp_status = 200, rsp_json = Inr (JDict
       [(''access_token'', JStr ''t''), (''state'', JStr ''success''), (''value'', JStr '' True ''),
        (''task_instances'', JList [JDict [(''task_id'', JStr ''rollback'')]])]), rsp_error = []\<rparr>, w)),
     ht_model_error = (\<lambda>m. m)\<rparr>, af_username = ''u'', af_password = ''p''\<rparr>"

lemma success_needs_no_rollback_witness:
  "fst (af_query_run_status rolled_back ''dag'' ''run'' (idle_process ())) = Inr ER_FAILED"
proof -
  let ?q = "request GET (run_path ''dag'' ''run'')"
  let ?m = "[(''access_token'', JStr ''t''), (''state'', JStr ''success''), (''value'', JStr '' True ''),
        (''task_instances'', JList [JDict [(''task_id'', JStr ''rollback'')]])]"
  let ?u = "snd (af_request rolled_back ?q (idle_process ()))"
  have get: "af_request rolled_back ?q (idle_process ()) = (Inr \<lparr>rsp_status = 200, rsp_json = Inr (JDict ?m), rsp_error = []\<rparr>, ?u)"
    by (simp add: prod_eq_iff) code_simp
  have out: "af_get_output rolled_back ''dag'' ''run'' flow_failed_output ?u =
      (Inr (Some '' True ''), snd (af_get_output rolled_back ''dag'' ''run'' flow_failed_output ?u))"
    by (simp add: prod_eq_iff) code_simp
  have "is_truthy (Some '' True '')" by code_simp
  then show ?thesis
    by (subst success_needs_no_rollback [OF get _ _ _ out, of ?m "''success''"]) (simp_all add: is_success_def)
qed

section \<open>A DAG's failure\<close>


definition quota_error :: "raised option" where
  "quota_error = Some (Raised ''InfraPrecheckException'' ''no quota'' None)"



text \<open>An Airflow that reports every run failed in its one task, which published \<open>quota_error\<close>.\<close>

definition published :: string where
  "published = snd (the (publish_exception (Some ''storage'') \<lparr>cx_task_instance = True, cx_exception = quota_error\<rparr>))"

definition failed_answer :: "string \<Rightarrow> payload" where
  "failed_answer v = [(''access_token'', JStr ''t''), (''state'', JStr ''failed''), (''value'', JStr v),
     (''task_instances'', JList [JDict [(''task_id'', JStr ''provision'')]])]"

definition failed_flow :: "string \<Rightarrow> unit airflow" where
  "failed_flow v = \<lparr>af_http = \<lparr>ht_send = (\<lambda>q w. (Inr
       \<lparr>rsp_status = (if take 12 (rev (hq_path q)) = rev ''failed_tasks'' then 404 else 200),
        rsp_json = Inr (JDict (failed_answer v)), rsp_error = []\<rparr>, w)),
     ht_model_error = (\<lambda>m. m)\<rparr>, af_username = ''u'', af_password = ''p''\<rparr>"

definition engine_drive :: "unit process drive" where
  "engine_drive = \<lparr>dv_run = (run_at SN_RUN_ENGINE)\<lparr>run_run_state :=
       (run_run_state (run_at SN_RUN_ENGINE))\<lparr>st_engine_run_id := Some ''dag_1''\<rparr>\<rparr>,
     dv_world = idle_process (), dv_trace = []\<rparr>"

lemma failed_flow_answers:
  "fst (af_query_run_status (failed_flow v) ''provision_vm'' ''dag_1'' (idle_process ())) = Inr ER_FAILED"
  "fst (first_failed_task (failed_flow v) ''provision_vm'' ''dag_1''
     (snd (af_query_run_status (failed_flow v) ''provision_vm'' ''dag_1'' (idle_process ())))) = Inr (JStr ''provision'', JNull)"
  "fst (af_request (failed_flow v) (request GET (xcom_path ''provision_vm'' ''dag_1'' (JStr ''provision'') ''exception_type''))
     (snd (first_failed_task (failed_flow v) ''provision_vm'' ''dag_1''
        (snd (af_query_run_status (failed_flow v) ''provision_vm'' ''dag_1'' (idle_process ())))))) =
   Inr \<lparr>rsp_status = 200, rsp_json = Inr (JDict (failed_answer v)), rsp_error = []\<rparr>"
  by code_simp+


section \<open>The worker\<close>


end
