(* ===== verification/Wire.thy ===== *)
theory Wire
  imports Bootstrap
begin

text \<open>
  What the adapters put on the wire. The locale \<open>exchange_relation\<close> takes a relation between process
  states that every exchange with a permitted request keeps, and goes through the calls of the four
  clients once. Its first use: \<open>logs P m\<close>, every exchange of \<open>m\<close> satisfies \<open>P\<close>, by which only a trigger
  starts a DAG run, an approval was read from ServiceNow, and an eligible verdict from Project Manager.
\<close>

section \<open>The exchanges of a call\<close>

type_synonym exchange = "http_request \<times> (exn + response)"

definition logged :: "(exchange \<Rightarrow> bool) \<Rightarrow> 'w process \<Rightarrow> 'w process \<Rightarrow> bool" where
  "logged P s t \<longleftrightarrow> (\<exists>ex. pr_log t = pr_log s @ ex \<and> (\<forall>x \<in> set ex. P x))"

abbreviation logs :: "(exchange \<Rightarrow> bool) \<Rightarrow> ('w process, exn, 'a) eff \<Rightarrow> bool" where
  "logs P m \<equiv> keeps (logged P) m"

lemma logged_trans: "logged P s t \<Longrightarrow> logged P t u \<Longrightarrow> logged P s u"
  unfolding logged_def by (elim exE, rule_tac x = "ex @ exa" in exI) auto

interpretation wire: kept "logged P" for P
  by unfold_locales (simp add: logged_def, rule logged_trans)

lemma logs_send: "(\<And>r. P (q, r)) \<Longrightarrow> logs P (send h q)"
  by (auto simp: keeps_def wp logged_def)

section \<open>The calls of the adapters\<close>

locale exchange_relation = kept R
  for R :: "'w process \<Rightarrow> 'w process \<Rightarrow> bool" +
  fixes h :: "'w http" and ok :: "http_request \<Rightarrow> bool"
  assumes sends: "ok q \<Longrightarrow> keeps R (send h q)"
    and memory: "pr_remote t = pr_remote s \<Longrightarrow> pr_log t = pr_log s \<Longrightarrow> R s t"
    and reads: "ok (first_row_query a b c)" "ok (request GET pth)" "ok ((request GET pth)\<lparr>hq_params := ps\<rparr>)"
    and writes: "ok (request_json PATCH pth body)" "ok (request_json POST (table_path z) body)" "ok (order_request a flds b)"
    and records: "ok (request DELETE pth)" "ok (request_json POST (resources_path p y @ z') body)"
      "ok ((request_json POST (resources_path p y) body)\<lparr>hq_headers := hs\<rparr>)"
    and authentication: "ok (request_json POST ''/auth/token'' body)" "ok q \<Longrightarrow> ok (authorized q j)"
begin

lemma memo: "(\<And>s. pr_log (f s) = pr_log s \<and> pr_remote (f s) = pr_remote s) \<Longrightarrow> keeps R (modifyS f)"
  by (rule update, rule memory) simp_all

lemmas moves = rules sends memo

lemmas permitted = reads writes records authentication

text \<open>ServiceNow.\<close>

lemma lookup_keeps: "sn_http S = h \<Longrightarrow> keeps R (lookup_sys_id S tbl fld v)"
  unfolding lookup_sys_id_def by (simp, intro moves) (simp add: permitted)

lemma group_keeps: "sn_http S = h \<Longrightarrow> keeps R (group_sys_id S name)"
  unfolding group_sys_id_def group_lookup_def by (intro moves lookup_keeps) simp_all

lemma user_keeps: "sn_http S = h \<Longrightarrow> keeps R (user_sys_id S login)"
  unfolding user_sys_id_def by (intro moves lookup_keeps)

lemma find_keeps: "sn_http S = h \<Longrightarrow> keeps R (find_ritm S key)"
  unfolding find_ritm_def by (simp, intro moves) (simp add: permitted)

lemma patch_keeps: "sn_http S = h \<Longrightarrow> keeps R (patch_row S tbl i body)"
  unfolding patch_row_def by (simp, intro moves) (simp add: permitted)

lemma variables_keeps:
  assumes "sn_http S = h"
  shows "keeps R (resolved_variables S flds)"
proof -
  have "keeps R (if name = [] then ret flds else bindE (group_sys_id S name) (\<lambda>i. case i of
      None \<Rightarrow> ret flds | Some i \<Rightarrow> ret (dset flds approval_group_variable (JStr i))))" for name
    by (intro moves group_keeps assms)
  then show ?thesis
    by (simp add: resolved_variables_def basic split: option.split json.split)
qed

lemma order_keeps: "sn_http S = h \<Longrightarrow> ok q \<Longrightarrow> keeps R (order_ticket S q key)"
  unfolding order_ticket_def tag_ritm_def by (simp, intro moves) (simp_all add: permitted)

lemma open_ticket_keeps: "sn_http S = h \<Longrightarrow> keeps R (sn_open_ticket S tmpl flds who key)"
  unfolding sn_open_ticket_def
  by (intro moves find_keeps user_keeps variables_keeps order_keeps) (simp_all add: permitted)

lemma assignment_keeps: "sn_http S = h \<Longrightarrow> keeps R (assignment_group S team)"
  unfolding assignment_group_def by (intro moves group_keeps)

lemma open_incident_keeps: "sn_http S = h \<Longrightarrow> keeps R (sn_open_incident S q)"
  unfolding sn_open_incident_def incident_ref_def
  by (simp, intro moves user_keeps assignment_keeps) (simp_all add: permitted)

lemma approval_keeps: "sn_http S = h \<Longrightarrow> keeps R (sn_get_approval_status S tk)"
  unfolding sn_get_approval_status_def by (simp, intro moves) (simp add: permitted)

lemma close_keeps: "sn_http S = h \<Longrightarrow> keeps R (sn_close_ticket S tk note oc)"
  unfolding sn_close_ticket_def by (intro moves patch_keeps)

lemma close_incident_keeps: "sn_http S = h \<Longrightarrow> keeps R (sn_close_incident S i note oc)"
  unfolding sn_close_incident_def by (rule patch_keeps)

lemma annotate_keeps: "sn_http S = h \<Longrightarrow> keeps R (sn_annotate_ticket S tk note)"
  unfolding sn_annotate_ticket_def by (rule patch_keeps)

lemmas ticket_keeps = open_ticket_keeps approval_keeps close_keeps annotate_keeps open_incident_keeps close_incident_keeps

text \<open>Project Manager.\<close>

lemma resource_keeps: "keeps R (pm_create_resource h p y body key)" "keeps R (pm_validate_resource h q)"
  "keeps R (pm_update_resource h p y v flds)" "keeps R (pm_delete_resource h p y v)"
  unfolding pm_defs by (intro moves; simp add: permitted)+

text \<open>Airflow.\<close>

lemma authenticate_keeps: "af_http A = h \<Longrightarrow> keeps R (authenticate A)"
  unfolding authenticate_def auth_request_def by (simp, intro moves) (simp_all add: permitted)

lemma af_request_keeps: "af_http A = h \<Longrightarrow> ok q \<Longrightarrow> keeps R (af_request A q)"
  unfolding af_request_def
  by (simp, intro moves authenticate_keeps) (simp_all add: sends permitted)

lemma probe_keeps: "af_http A = h \<Longrightarrow> keeps R (probe_tasks A aid rid key tis)"
proof (induction tis)
  case (Cons ti tis)
  then show ?case unfolding probe_tasks.simps by (intro moves af_request_keeps) (simp_all add: permitted)
qed (simp add: basic)

lemma output_keeps: "af_http A = h \<Longrightarrow> keeps R (af_get_output A aid rid key)"
  unfolding af_get_output_def by (intro moves af_request_keeps probe_keeps) (simp_all add: permitted)

lemma status_keeps: "af_http A = h \<Longrightarrow> keeps R (af_query_run_status A aid rid)"
  unfolding af_query_run_status_def flow_failed_def
  by (intro moves af_request_keeps output_keeps) (simp_all add: permitted)

lemma first_failed_keeps: "af_http A = h \<Longrightarrow> keeps R (first_failed_task A aid rid)"
  unfolding first_failed_task_def by (intro moves af_request_keeps output_keeps) (simp_all add: permitted)

lemma failure_keeps: "af_http A = h \<Longrightarrow> keeps R (af_get_failure A aid rid)"
  unfolding af_get_failure_def split_beta
  by (intro moves af_request_keeps first_failed_keeps) (simp_all add: permitted)

lemmas engine_keeps = status_keeps failure_keeps output_keeps

lemma trigger_keeps:
  "af_http A = h \<Longrightarrow> ok (dag_run_request aid params key) \<Longrightarrow> keeps R (af_trigger_workflow A aid params key)"
  unfolding af_trigger_workflow_def by (intro moves af_request_keeps) simp_all

text \<open>The legacy runner.\<close>

lemma submit_keeps:
  "lg_http L = h \<Longrightarrow> (\<And>body hs. ok ((request_json POST (lg_submit_path L) body)\<lparr>hq_headers := hs\<rparr>)) \<Longrightarrow>
   keeps R (legacy_submit L q key)"
  unfolding legacy_submit_def by (simp, intro moves) simp

end

lemmas client_defs = servicenow_client_def pm_client_def airflow_client_def legacy_runner_client_def

lemma engine_table_Some: "engine_table st U e = Some ec \<Longrightarrow> ec = airflow_client (engine_adapter st U)"
  by (simp add: engine_table_def split: if_splits)

text \<open>Starting a DAG run: a \<open>POST\<close> under Airflow's \<open>dags\<close>.\<close>

definition starts_run :: "http_request \<Rightarrow> bool" where
  "starts_run q \<longleftrightarrow> hq_verb q = POST \<and> take 13 (hq_path q) = ''/api/v2/dags/''"

abbreviation quiet :: "exchange \<Rightarrow> bool" where
  "quiet x \<equiv> \<not> starts_run (fst x)"

lemma starts_run_simps [simp]:
  "\<not> starts_run (first_row_query a b c)"
  "starts_run (request_json PATCH pth body) = False"
  "starts_run (request_json POST (table_path z) body) = False"
  "starts_run (order_request a flds b) = False"
  "starts_run (request GET pth) = False" "starts_run (request DELETE pth) = False"
  "starts_run (request_json POST ''/auth/token'' body) = False"
  "starts_run (q\<lparr>hq_headers := h\<rparr>) = starts_run q" "starts_run (q\<lparr>hq_params := h\<rparr>) = starts_run q"
  "starts_run (authorized q j) = starts_run q" "starts_run (auth_request A) = False"
  "starts_run (request_json POST (resources_path p y) body) = False"
  "starts_run (request_json POST (resources_path p y @ z') body) = False"
  by (simp_all add: starts_run_def first_row_query_def order_request_def request_def request_json_def
      table_path_def authorized_def auth_request_def resources_path_def)

text \<open>The name a request gives to the DAG run it starts.\<close>

definition dag_run_name :: "http_request \<Rightarrow> string option" where
  "dag_run_name q = (case hq_body q of
     Some (JDict b) \<Rightarrow> (case map_of b ''dag_run_id'' of Some (JStr s) \<Rightarrow> Some s | _ \<Rightarrow> None)
   | _ \<Rightarrow> None)"

lemma dag_run_name_simps [simp]:
  "dag_run_name (dag_run_request aid params key) = Some key" "dag_run_name (authorized q j) = dag_run_name q"
  by (simp_all add: dag_run_name_def dag_run_request_def request_json_def authorized_def)

text \<open>Whatever DAG run a request starts has the given name.\<close>

definition named :: "string \<Rightarrow> http_request \<Rightarrow> bool" where
  "named key q \<longleftrightarrow> (starts_run q \<longrightarrow> dag_run_name q = Some key)"

interpretation naming: exchange_relation "logged (\<lambda>x. named key (fst x))" h "named key" for key h
  by unfold_locales (auto intro: logs_send simp: logged_def named_def)

interpretation quietly: exchange_relation "logged quiet" h "\<lambda>q. \<not> starts_run q" for h
  by unfold_locales (auto intro: logs_send simp: logged_def)

interpretation logging: exchange_relation "logged (\<lambda>_. True)" h "\<lambda>_. True" for h
  by unfold_locales (auto intro: logs_send simp: logged_def)

section \<open>Approval and validation on the wire\<close>

text \<open>An exchange that grants the approval of a ticket: the RITM was read, and its state is \<open>approved\<close>.\<close>

definition approval_request :: "ticket_ref \<Rightarrow> http_request" where
  "approval_request tk = (request GET (table_path ''sc_req_item/'' @ tr_native_id tk))
     \<lparr>hq_params := [(''sysparm_fields'', ''approval'')]\<rparr>"

definition grants :: "ticket_ref \<Rightarrow> exchange \<Rightarrow> bool" where
  "grants tk x \<longleftrightarrow> fst x = approval_request tk \<and>
     (\<exists>resp j row. snd x = Inr resp \<and> is_success resp \<and> rsp_json resp = Inr (JDict j) \<and>
        map_of j ''result'' = Some (JDict row) \<and> map_of row ''approval'' = Some (JStr ''approved''))"

lemma approval_of_approved: "approval_of v = Inr AP_APPROVED \<longleftrightarrow> v = JStr ''approved''"
  by (auto simp: approval_of_def split: json.splits)

lemma py_get_text: "py_get v k (JStr []) = Inr (JStr (c # cs)) \<longleftrightarrow> (\<exists>m. v = JDict m \<and> map_of m k = Some (JStr (c # cs)))"
  by (auto simp: py_get_def dget_def split: json.splits option.splits)

lemma py_item_Inr: "py_item v k = Inr x \<longleftrightarrow> (\<exists>m. v = JDict m \<and> map_of m k = Some x)"
  by (auto simp: py_item_def not_subscriptable_def split: json.splits option.splits)

lemma resp_json_Inr: "resp_json r = Inr j \<longleftrightarrow> rsp_json r = Inr j"
  by (auto simp: resp_json_def split: sum.splits)

lemma approval_granted:
  "wpE (sn_get_approval_status S tk)
     (\<lambda>r t. r = AP_APPROVED \<longrightarrow> (\<exists>x. pr_log t = pr_log s @ [x] \<and> grants tk x)) (\<lambda>_ _. True) s"
  unfolding sn_get_approval_status_def approval_request_def [symmetric] wp
  by (auto simp: approval_of_approved py_get_text py_item_Inr resp_json_Inr grants_def split: sum.split)

text \<open>An exchange that lets a request pass: it was put to Project Manager, which answered 2xx or 409.\<close>

definition validation_call :: "resource_validation_request \<Rightarrow> http_request" where
  "validation_call q = request_json POST
     (resources_path (vq_project_id q) (vq_resource_type q) @ ''/validate_resource'') (validation_body q)"

definition passes :: "resource_validation_request \<Rightarrow> exchange \<Rightarrow> bool" where
  "passes q x \<longleftrightarrow> fst x = validation_call q \<and>
     (\<exists>resp. snd x = Inr resp \<and> (is_success resp \<or> rsp_status resp = 409))"

lemma eligible_passed:
  "wpE (pm_validate_resource h q)
     (\<lambda>r t. vr_eligible r \<longrightarrow> (\<exists>x. pr_log t = pr_log s @ [x] \<and> passes q x)) (\<lambda>_ _. True) s"
  unfolding pm_validate_resource_def validation_call_def [symmetric] wp
  by (auto simp: passes_def split: sum.split)

end
