(* ===== verification/Traversal.thy ===== *)
theory Traversal
  imports Executor_Laws
begin

text \<open>
  A relation between the states of a drive that every port call keeps is kept by the whole of \<open>handle\<close>:
  the locale \<open>traversal\<close> takes such a relation, closed under composition, and its laws for the calls of
  the four clients, the run store and the clock, and goes through the handlers, the escalator and the
  executor once and for all.
\<close>

locale traversal = kept R
  for R :: "'w drive \<Rightarrow> 'w drive \<Rightarrow> bool" +
  fixes tc :: "'w ticket_client" and rc :: "'w resource_client"
    and engines :: "workflow_engine_type \<Rightarrow> 'w engine_client option" and lc :: "'w legacy_client"
    and runs :: "'w run_store" and clk :: "'w clock"
  assumes memory: "R s (s\<lparr>dv_run := r\<rparr>)"
    and tickets: "keeps R (port (Ev_open_ticket a flds b key) (tc_open_ticket tc a flds b key))"
      "keeps R (port (Ev_get_approval_status tk) (tc_get_approval_status tc tk))"
      "keeps R (port (Ev_close_ticket tk note oc) (tc_close_ticket tc tk note oc))"
      "keeps R (port (Ev_annotate_ticket tk what) (tc_annotate_ticket tc tk what))"
      "keeps R (port (Ev_open_incident iq) (tc_open_incident tc iq))"
      "keeps R (port (Ev_close_incident tk note oc) (tc_close_incident tc tk note oc))"
    and resources: "keeps R (port (Ev_create_resource p y body key) (rc_create_resource rc p y body key))"
      "keeps R (port (Ev_validate_resource vq) (rc_validate_resource rc vq))"
      "keeps R (port (Ev_update_resource p y v flds) (rc_update_resource rc p y v flds))"
      "keeps R (port (Ev_delete_resource p y v) (rc_delete_resource rc p y v))"
    and engine: "engines e = Some ec \<Longrightarrow>
        keeps R (port (Ev_trigger_workflow aid params key) (ec_trigger_workflow ec aid params key))"
      "engines e = Some ec \<Longrightarrow> keeps R (port (Ev_query_run_status aid i) (ec_query_run_status ec aid i))"
      "engines e = Some ec \<Longrightarrow> keeps R (port (Ev_get_failure aid i) (ec_get_failure ec aid i))"
      "engines e = Some ec \<Longrightarrow> keeps R (port (Ev_get_output aid i key) (ec_get_output ec aid i key))"
    and legacy: "keeps R (port (Ev_submit lq key) (lc_submit lc lq key))"
    and store: "keeps R (port (Ev_get_run rid) (rp_get runs rid))" "keeps R (port (Ev_save run) (rp_save runs run))"
    and clock: "keeps R (clock_read (ck_utcnow clk))" "keeps R (clock_read (ck_uniform clk))"
begin

lemma states: "keeps R the_run" "keeps R the_state" "keeps R (upd_run f)" "keeps R (upd_state g)"
  by (simp_all add: keeps_def wp here memory)

lemmas moves = rules states

lemma execute_keeps:
  assumes "build_handlers tc rc engines lc k = Some h"
  shows "keeps R (h_execute h)"
  using assms
  by (cases k)
     (auto simp: step_defs execute_defs Let_def split: option.split json.split
       intro!: moves tickets resources engine legacy)

text \<open>The escalator.\<close>

abbreviation escalation :: "string \<Rightarrow> 'w escalator" where
  "escalation team \<equiv> \<lparr>es_ticket = tc, es_resources = rc, es_default_team = team\<rparr>"

lemma release_keeps: "keeps R (release_resource (escalation team))"
  unfolding release_resource_def Let_def by (auto intro!: moves resources split: option.split)

lemma documentation_keeps: "keeps R (log_documentation_incident (escalation team) t d)"
  unfolding log_documentation_incident_def open_incident_call_def Let_def
  by (auto intro!: moves tickets)

lemma escalate_keeps: "keeps R (escalate (escalation team) e)"
  unfolding escalate_def escalate_by_policy_def escalate_unclassified_def open_incident_call_def Let_def
  by (auto intro!: moves tickets release_keeps documentation_keeps split: option.split)

text \<open>The executor.\<close>

abbreviation driver :: "timedelta \<Rightarrow> string \<Rightarrow> 'w executor" where
  "driver base team \<equiv> build_executor tc rc engines lc runs clk base team"

lemma now_keeps: "keeps R (utc_now (driver base team))"
  unfolding utc_now_def by (simp add: clock)

lemma save_keeps: "keeps R (save (driver base team))"
  unfolding save_def repo_save_def by (intro moves) (simp add: store)

lemma schedule_keeps: "keeps R (schedule (driver base team) d)"
  unfolding schedule_def by (intro moves now_keeps save_keeps)

lemma escalates: "ex_escalator (driver base team) = escalation team"
  by (simp add: build_executor_def)

lemma reject_run_keeps: "keeps R (reject_run (driver base team) k e)"
  unfolding reject_run_def set_error_def set_terminal_def reject_def escalates
  by (intro moves release_keeps save_keeps)

lemma on_step_error_keeps: "keeps R (on_step_error (driver base team) k h e)"
  unfolding on_step_error_def set_error_def set_terminal_def escalates Let_def
  by (intro moves escalate_keeps save_keeps schedule_keeps) (simp add: clock)

lemma crash_keeps: "keeps R (crash (driver base team) e)"
  unfolding crash_def save_quietly_def set_error_def set_terminal_def escalates
  by (intro moves escalate_keeps save_keeps)

lemma iteration_keeps: "keeps R (drive_iteration (driver base team) rt k)"
proof -
  let ?X = "driver base team"
  obtain h where h: "build_handlers tc rc engines lc k = Some h"
    using build_handlers_total [of tc rc engines lc k] by blast
  have attempt: "keeps R (attempt_step ?X k h started)" for started
    unfolding attempt_step_def by (intro moves now_keeps execute_keeps [OF h])
  have start: "keeps R (start_attempt ?X k)"
    unfolding start_attempt_def by (intro moves now_keeps)
  have finish: "keeps R (finish_step ?X rt k)"
    unfolding finish_step_def by (intro moves save_keeps)
  have "keeps R (case out of Inl e \<Rightarrow> thenE (if is_rejected e then reject_run ?X k e
        else on_step_error ?X k h e) (ret None)
      | Inr False \<Rightarrow> thenE (schedule ?X (h_poll_interval h)) (ret None)
      | Inr True \<Rightarrow> finish_step ?X rt k)" for out
    by (auto split: sum.split bool.split intro!: moves reject_run_keeps on_step_error_keeps schedule_keeps finish)
  then show ?thesis
    unfolding drive_iteration_def build_executor_simps h option.case
    by (intro moves start now_keeps attempt)
qed

lemma loop_keeps: "keeps R (drive_loop (driver base team) rt k)"
proof (rule keepsI)
  fix s
  show "wpE (drive_loop (driver base team) rt k) (\<lambda>_. R s) (\<lambda>_. R s) s"
  proof (rule drive_loop_rule [where I = "\<lambda>_. R s"])
    fix k t assume "R s t"
    then show "wpE (drive_iteration (driver base team) rt k) (\<lambda>r u. case r of None \<Rightarrow> R s u | Some _ \<Rightarrow> R s u)
        (\<lambda>_. R s) t"
      by (intro wp_mono [OF keepsD [OF iteration_keeps]]) (auto intro: onwards split: option.split)
  qed (rule here)
qed

lemma guarded_drive_keeps: "keeps R (catchE (drive_run (driver base team)) (crash (driver base team)))"
  unfolding drive_run_def by (intro moves loop_keeps crash_keeps)

lemma handle_keeps: "keeps R (handle (driver base team) rid)"
  unfolding handle_def build_executor_simps by (intro moves guarded_drive_keeps store)

end

end
