(* ===== verification/Exchanges.thy ===== *)
theory Exchanges
  imports Wire Call_Order Positions Traversal Samples
begin

text \<open>
  A drive and its HTTP traffic: the call record of a drive of the executor that \<open>bootstrap.py\<close> builds
  is a summary of what went over the wire. The relation \<open>exchanged\<close> pairs every event of the drive
  with the exchanges behind it; each call of the four adapters, of the session and of the clock keeps it,
  so the whole of \<open>handle\<close> does (an interpretation of \<open>traversal\<close>).
\<close>

section \<open>Events and the exchanges behind them\<close>

text \<open>The legacy runner's path is configuration, so nothing is said of a submission's requests.\<close>

fun is_submit :: "event \<Rightarrow> bool" where
  "is_submit (Ev_submit _ _ _) = True"
| "is_submit _ = False"

definition explains :: "event \<Rightarrow> exchange list \<Rightarrow> bool" where
  "explains ev ex \<longleftrightarrow>
     (\<not> is_trigger ev \<and> \<not> is_submit ev \<longrightarrow> (\<forall>x \<in> set ex. quiet x)) \<and>
     (\<forall>aid params key r. ev = Ev_trigger_workflow aid params key r \<longrightarrow> (\<forall>x \<in> set ex. named key (fst x))) \<and>
     (\<forall>tk. ev = Ev_get_approval_status tk (Inr AP_APPROVED) \<longrightarrow> (\<exists>x \<in> set ex. grants tk x)) \<and>
     (\<forall>q r. ev = Ev_validate_resource q (Inr r) \<longrightarrow> vr_eligible r \<longrightarrow> (\<exists>x \<in> set ex. passes q x))"

definition exchanged :: "'w process drive \<Rightarrow> 'w process drive \<Rightarrow> bool" where
  "exchanged s t \<longleftrightarrow> (\<exists>parts. dv_trace t = dv_trace s @ map fst parts \<and>
     pr_log (dv_world t) = pr_log (dv_world s) @ concat (map snd parts) \<and>
     (\<forall>(ev, ex) \<in> set parts. explains ev ex))"

lemma exchanged_refl: "exchanged s s"
  unfolding exchanged_def by (intro exI [of _ "[]"]) simp

lemma exchanged_trans: "exchanged s t \<Longrightarrow> exchanged t u \<Longrightarrow> exchanged s u"
  unfolding exchanged_def by (elim exE, rule_tac x = "parts @ partsa" in exI) auto

interpretation drive_wire: kept exchanged
  by unfold_locales (rule exchanged_refl, rule exchanged_trans)

text \<open>A call that the exchanges of each of its runs explain.\<close>

definition explained :: "(exn + 'a \<Rightarrow> event) \<Rightarrow> ('w process, exn, 'a) eff \<Rightarrow> bool" where
  "explained ev act \<longleftrightarrow> (\<forall>w r w'. act w = (r, w') \<longrightarrow>
     (\<exists>ex. pr_log w' = pr_log w @ ex \<and> explains (ev r) ex))"

lemma explained_step:
  assumes "explained ev act" and "act (dv_world s) = (r, w)"
  shows "exchanged s (s\<lparr>dv_world := w, dv_trace := dv_trace s @ [ev r]\<rparr>)"
proof -
  obtain ex where "pr_log w = pr_log (dv_world s) @ ex" "explains (ev r) ex"
    using assms unfolding explained_def by blast
  then show ?thesis
    unfolding exchanged_def by (intro exI [of _ "[(ev r, ex)]"]) simp
qed

lemma port_exchanged: "explained ev act \<Longrightarrow> keeps exchanged (port ev act)"
  by (simp add: keeps_def wp explained_step)

lemma clock_exchanged: "(\<And>w. pr_log (snd (c w)) = pr_log w) \<Longrightarrow> keeps exchanged (clock_read c)"
  unfolding keeps_def wp exchanged_def by (auto intro!: exI [of _ "[]"]) (metis snd_conv)

text \<open>Most events only say that no DAG run was started.\<close>

fun plain_event :: "event \<Rightarrow> bool" where
  "plain_event (Ev_trigger_workflow _ _ _ _) = False"
| "plain_event (Ev_get_approval_status _ r) = (r \<noteq> Inr AP_APPROVED)"
| "plain_event (Ev_validate_resource _ r) = (case r of Inl _ \<Rightarrow> True | Inr v \<Rightarrow> \<not> vr_eligible v)"
| "plain_event _ = True"

lemma plain_explains: "plain_event ev \<Longrightarrow> \<forall>x \<in> set ex. quiet x \<Longrightarrow> explains ev ex"
  by (auto simp: explains_def)

lemma logged_explained:
  assumes "logs P act" and "\<And>r ex. \<forall>x \<in> set ex. P x \<Longrightarrow> explains (ev r) ex"
  shows "explained ev act"
  unfolding explained_def
proof (intro allI impI)
  fix w r w' assume "act w = (r, w')"
  then have "logged P w w'" using keeps_snd [OF assms(1), of w] by simp
  then show "\<exists>ex. pr_log w' = pr_log w @ ex \<and> explains (ev r) ex" unfolding logged_def using assms(2) by blast
qed

lemma quiet_explained:
  assumes "logs quiet act" and "\<And>r. plain_event (ev r)"
  shows "explained ev act"
  by (rule logged_explained [OF assms(1)]) (rule plain_explains [OF assms(2)])

text \<open>The other two.\<close>

lemma keeps_result: "wpE act Q E w \<Longrightarrow> act w = (r, w') \<Longrightarrow> (case r of Inl e \<Rightarrow> E e w' | Inr x \<Rightarrow> Q x w')"
  by (auto simp: wpE_def split: sum.splits)

lemma approval_explained: "explained (Ev_get_approval_status tk) (sn_get_approval_status S tk)"
  unfolding explained_def
proof (intro allI impI)
  fix w r w' assume run: "sn_get_approval_status S tk w = (r, w')"
  have "logged quiet w w'" using keeps_snd [OF quietly.approval_keeps [OF refl, of S tk], of w] run by simp
  then obtain ex where "pr_log w' = pr_log w @ ex" "\<forall>x \<in> set ex. quiet x" unfolding logged_def by blast
  moreover have "\<exists>x \<in> set ex. grants tk x" if "r = Inr AP_APPROVED"
    using keeps_result [OF approval_granted [of S tk w] run] that calculation(1) by auto
  ultimately show "\<exists>ex. pr_log w' = pr_log w @ ex \<and> explains (Ev_get_approval_status tk r) ex"
    by (auto simp: explains_def)
qed

lemma validation_explained: "explained (Ev_validate_resource q) (pm_validate_resource h q)"
  unfolding explained_def
proof (intro allI impI)
  fix w r w' assume run: "pm_validate_resource h q w = (r, w')"
  have "logged quiet w w'" using keeps_snd [OF quietly.resource_keeps(2) [of h q], of w] run by simp
  then obtain ex where "pr_log w' = pr_log w @ ex" "\<forall>x \<in> set ex. quiet x" unfolding logged_def by blast
  moreover have "\<exists>x \<in> set ex. passes q x" if "r = Inr v" "vr_eligible v" for v
    using keeps_result [OF eligible_passed [of h q w] run] that calculation(1) by auto
  ultimately show "\<exists>ex. pr_log w' = pr_log w @ ex \<and> explains (Ev_validate_resource q r) ex"
    by (auto simp: explains_def)
qed

section \<open>The executor of the composition root\<close>

lemma trigger_explained: "explained (Ev_trigger_workflow aid params key) (af_trigger_workflow A aid params key)"
  by (rule logged_explained [OF naming.trigger_keeps [of A "af_http A" key]]) (simp_all add: named_def explains_def)

lemma submit_explained: "explained (Ev_submit q key) (legacy_submit L q key)"
  by (rule logged_explained [OF logging.submit_keeps [OF refl TrueI]]) (simp add: explains_def)

lemmas quiet_calls = quietly.ticket_keeps [OF refl] quietly.resource_keeps quietly.engine_keeps [OF refl]

lemma exchanged_memory: "exchanged s (s\<lparr>dv_run := r\<rparr>)"
  unfolding exchanged_def by (intro exI [of _ "[]"]) simp

lemma silent_explained:
  assumes "\<And>w. pr_log (snd (act w)) = pr_log w" and "\<And>r. plain_event (ev r)"
  shows "explained ev act"
proof (rule quiet_explained [OF _ assms(2)])
  show "logs quiet act"
    by (rule keeps_sndI) (simp add: logged_def assms(1))
qed

lemma session_explained:
  "explained (Ev_get_run rid) (session_get S rid)" "explained (Ev_save r) (session_save S r)"
  by (rule silent_explained; simp)+

interpretation wired: traversal exchanged "servicenow_client S" "pm_client h" "engine_table st U"
    "legacy_runner_client L" "session_runs se" "process_clock now jitter"
  for S h st U L se now jitter
  by (unfold_locales; (rule exchanged_memory)?; (drule engine_table_Some)?;
      (rule port_exchanged | rule clock_exchanged);
      simp add: client_defs session_runs_def process_clock_def approval_explained validation_explained
        trigger_explained submit_explained session_explained;
      rule quiet_explained; simp add: quiet_calls)

lemma executor_exchanged: "exchanged s (snd (handle (the_executor st U) rid s))"
  unfolding the_executor_def by (rule keeps_snd [OF wired.handle_keeps])

section \<open>No DAG run without approval\<close>

text \<open>Where the exchanges of a drive start a DAG run, the drive has reached a trigger, or a submission.\<close>

lemma explained_split:
  assumes "\<forall>(ev, ex) \<in> set parts. explains ev ex" and "concat (map snd parts) = pre @ x # post" and "\<not> quiet x"
  shows "\<exists>ps ev ex qs. parts = ps @ (ev, ex) # qs \<and> (is_trigger ev \<or> is_submit ev) \<and> set (concat (map snd ps)) \<subseteq> set pre"
  using assms
proof (induction parts arbitrary: pre)
  case (Cons p parts)
  obtain ev ex where p: "p = (ev, ex)" by fastforce
  from Cons.prems(2) consider us where "ex = pre @ x # us" | us where "pre = ex @ us" "concat (map snd parts) = us @ x # post"
    by (auto simp: p append_eq_append_conv2 Cons_eq_append_conv append_eq_Cons_conv)
  then show ?case
  proof cases
    case 1
    then have "is_trigger ev \<or> is_submit ev" using Cons.prems(1,3) by (auto simp: p explains_def)
    then show ?thesis using p by (intro exI [of _ "[]"]) auto
  next
    case 2
    with Cons obtain ps ev' ex' qs where "parts = ps @ (ev', ex') # qs" "is_trigger ev' \<or> is_submit ev'"
        "set (concat (map snd ps)) \<subseteq> set us" by (metis (no_types, lifting) list.set_intros(2))
    then show ?thesis using p 2 by (intro exI [of _ "p # ps"]) auto
  qed
qed simp

lemma resource_plan_no_submit: "plan_event RT_RESOURCE ev \<Longrightarrow> \<not> is_submit ev"
  by (cases ev) (auto simp: plan_event_def)


section \<open>A concrete installation\<close>

text \<open>Services that grant everything, over a world that is the database alone.\<close>

definition grant_all :: "http_request \<Rightarrow> json" where
  "grant_all q =
     (if hq_path q = ''/auth/token'' then JDict [(''access_token'', JStr ''t'')]
      else if hq_verb q = GET then JDict [(''result'', JDict [(''approval'', JStr ''approved'')])]
      else JDict [(''dag_run_id'', JStr ''dag_1'')])"

definition sample_session :: "database session" where
  "sample_session = \<lparr>ss_read = (\<lambda>db. db), ss_write = (\<lambda>db _. db), ss_fault = (\<lambda>_. No_Fault), ss_locked = (\<lambda>_. {}),
     ss_utcnow = (\<lambda>db. (0, db))\<rparr>"

definition sample_surroundings :: "database surroundings" where
  "sample_surroundings = \<lparr>
     su_connect = (\<lambda>_. \<lparr>ht_send = (\<lambda>q db. (Inr \<lparr>rsp_status = 200, rsp_json = Inr (grant_all q), rsp_error = []\<rparr>, db)),
       ht_model_error = (\<lambda>m. m)\<rparr>),
     su_session = (\<lambda>_. sample_session), su_utcnow = (\<lambda>db. (0, db)), su_uniform = (\<lambda>db. (1, db)),
     su_wait = (\<lambda>_ db. db), su_stopped = (\<lambda>_ _. True)\<rparr>"

definition sample_settings :: settings where
  "sample_settings = default_settings ''db'' (''af'', ''u'', ''p'') (''sn'', ''u'', ''p'') (''pm'', ''t'') ''lg''"

definition waiting_db :: database where
  "waiting_db = \<lparr>db_runs = [run_at SN_AWAIT_APPROVAL], db_workflows = []\<rparr>"

definition sample_drive :: "database process drive" where
  "sample_drive = start_drive (start_process sample_settings waiting_db)"

definition sample_log :: "exchange list" where
  "sample_log = pr_log (dv_world (snd (handle (the_executor sample_settings sample_surroundings) ''r1'' sample_drive)))"

lemma sample_log_starts: "list_ex (\<lambda>x. starts_run (fst x)) sample_log"
  by code_simp


end
