(* ===== verification/Dag_Runs.thy ===== *)
theory Dag_Runs
  imports Exchanges System_Properties
begin

text \<open>
  How many DAG runs there can be. The budget of a run (\<open>Budget\<close>), that every reachable row keeps to it
  (\<open>System\<close>), and the traffic of a drive (\<open>Exchanges\<close>) together: whichever worker drives a run, however often,
  the requests that start a DAG run for it carry one of as many names as the run has attempts. Airflow keeps
  one DAG run per name and answers 409 to a second, which the adapter takes for success, so a run starts no more
  DAG runs than it has attempts.
\<close>

text \<open>The events of a drive within its budget, and the exchanges behind them.\<close>

lemma drive_names:
  assumes "rp_get (ex_runs (the_executor st U)) rid (dv_world d) = (Inr (Some run), w)"
    and "within_budget run" and "well_typed run" and "run_run_type run \<noteq> RT_LEGACY"
    and "pr_log (dv_world (snd (handle (the_executor st U) rid d))) = pr_log (dv_world d) @ ex"
    and "x \<in> set ex" and "starts_run (fst x)"
  shows "\<exists>name \<in> set (dag_run_names run). dag_run_name (fst x) = Some name"
proof -
  define t where "t = snd (handle (the_executor st U) rid d)"
  obtain parts where tr: "dv_trace t = dv_trace d @ map fst parts"
      and lg: "pr_log (dv_world t) = pr_log (dv_world d) @ concat (map snd parts)"
      and parts: "\<forall>(ev, ex) \<in> set parts. explains ev ex"
    using executor_exchanged [of d st U rid] unfolding exchanged_def t_def by blast
  from lg assms(5,6) obtain ev e where e: "(ev, e) \<in> set parts" "x \<in> set e" by (auto simp: t_def)
  then have ev: "explains ev e" using parts by auto
  have events: "budget_event run ev'" "ev' = Ev_get_run rid (Inr (Some run)) \<or> plan_event (run_run_type run) ev'"
    if "ev' \<in> set (map fst parts)" for ev'
  proof -
    have "extends (budget_event run) (loaded rid d run w) t"
      using handle_within [OF _ assms(1,2)] by (simp add: t_def the_executor_def)
    moreover have "extends (plan_event (run_run_type run)) (loaded rid d run w) t"
      using built_plan.handle_on_plan [OF assms(1) [unfolded the_executor_def] assms(3)]
      by (metis prod.collapse t_def the_executor_def)
    ultimately have "map fst parts = Ev_get_run rid (Inr (Some run)) # tl (map fst parts)"
        "\<forall>e \<in> set (tl (map fst parts)). budget_event run e \<and> plan_event (run_run_type run) e"
      using tr by (auto simp: extends_def loaded_def)
    then have "ev' = Ev_get_run rid (Inr (Some run)) \<or> budget_event run ev' \<and> plan_event (run_run_type run) ev'"
      using that by (metis set_ConsD)
    then show "budget_event run ev'" "ev' = Ev_get_run rid (Inr (Some run)) \<or> plan_event (run_run_type run) ev'" by auto
  qed
  have in_parts: "ev \<in> set (map fst parts)" using e(1) by force
  have "\<not> is_submit ev"
    using events(2) [OF in_parts] assms(4)
    by (cases ev; cases "run_run_type run") (auto simp: plan_event_def)
  then have "is_trigger ev" using ev e(2) assms(7) by (auto simp: explains_def)
  then obtain aid params key r where "ev = Ev_trigger_workflow aid params key r" by (cases ev) simp_all
  then show ?thesis using ev e(2) assms(7) events(1) [OF in_parts] by (auto simp: explains_def named_def)
qed

text \<open>C22. A run starts at most as many DAG runs as its budget allows attempts, over its whole life: in the HTTP
  traffic of whatever drive of a resource or automation run, at whatever point of any interleaving of workers,
  triggers, callbacks and crashes, a request that starts a DAG run names it by one of \<open>max_retries + 1\<close> names that
  are fixed when the run is first seen.\<close>

theorem dag_runs_within_budget:
  assumes "reachable lease s0" and "find_run rid (sy_db s0) = Some run0" and "(sys_step lease)\<^sup>*\<^sup>* s0 s"
    and "find_run rid (sy_db s) = Some run" and "\<not> terminal_status (run_status run)" and "run_run_type run \<noteq> RT_LEGACY"
    and "rp_get (ex_runs (the_executor st U)) rid (dv_world d) = (Inr (Some run), w)"
    and "pr_log (dv_world (snd (handle (the_executor st U) rid d))) = pr_log (dv_world d) @ ex"
    and "x \<in> set ex" and "starts_run (fst x)"
  shows "(\<exists>name \<in> set (dag_run_names run0). dag_run_name (fst x) = Some name) \<and>
    length (dag_run_names run0) = nat (run_max_retries run0) + 1"
proof -
  have "reachable lease s" "run_identity run = run_identity run0"
    using row_steps [OF assms(3,1,2)] assms(4) by auto
  then have "row_ok run" "dag_run_names run = dag_run_names run0"
    using reachable_inv assms(4) by (auto simp: sys_inv_def run_identity_def intro: dag_run_names_cong)
  then show ?thesis
    using drive_names [OF assms(7) _ _ assms(6,8-10)] assms(5)
    by (simp add: row_ok_def affordable_def dag_run_names_distinct)
qed

text \<open>An automation run, just triggered, and the traffic of its first drive.\<close>

definition automation_args :: trigger_args where
  "automation_args = trigger_args1\<lparr>ta_resource := None, ta_operation := RO_CREATE, ta_ticket := Some ticket1\<rparr>"

definition automation_db :: database where
  "automation_db = \<lparr>db_runs = [], db_workflows = [workflow_row RT_AUTOMATION]\<rparr>"

definition automation_run :: workflow_run where
  "automation_run = new_run fresh1 RT_AUTOMATION ''vm'' ''ann'' 3 (trigger_state automation_args (workflow_row RT_AUTOMATION))"

definition automation_system :: system where
  "automation_system = empty_system\<lparr>sy_db := automation_db\<lparr>db_runs := [automation_run]\<rparr>\<rparr>"

definition automation_drive :: "database process drive" where
  "automation_drive = start_drive (start_process sample_settings (sy_db automation_system))"

definition automation_log :: "exchange list" where
  "automation_log = pr_log (dv_world (snd (handle (the_executor sample_settings sample_surroundings) ''r9'' automation_drive)))"

lemma automation_reachable: "reachable 300 automation_system"
proof -
  have "trigger fresh1 automation_args automation_db = (Inr automation_run, automation_db\<lparr>db_runs := [automation_run]\<rparr>)"
    by (simp add: trigger_result automation_args_def trigger_args1_def automation_db_def wf_get_def find_workflow_def
        workflow_row_def check_trigger_def automation_run_def run_create_cases find_run_def)
  then have "sys_step 300 (empty_system\<lparr>sy_db := automation_db\<rparr>) automation_system"
    using sys_step.triggered [of fresh1 automation_args "empty_system\<lparr>sy_db := automation_db\<rparr>"]
    by (simp add: automation_system_def)
  then show ?thesis
    by (rule reachable.step [OF reachable.start, rotated]) (simp add: initial_def empty_system_def automation_db_def)
qed

lemma automation_starts: "list_ex (\<lambda>x. starts_run (fst x)) automation_log"
  by code_simp

lemma dag_runs_within_budget_witness:
  "\<exists>x \<in> set automation_log. starts_run (fst x) \<and>
     dag_run_name (fst x) \<in> {Some ''r9:running_engine:0'', Some ''r9:running_engine:1'', Some ''r9:running_engine:2'',
       Some ''r9:running_engine:3''}"
proof -
  obtain x where x: "x \<in> set automation_log" "starts_run (fst x)" using automation_starts unfolding list_ex_iff by blast
  have find: "find_run ''r9'' (sy_db automation_system) = Some automation_run"
    by (simp add: automation_system_def find_run_def automation_run_def new_run_def fresh1_def)
  have run: "\<not> terminal_status (run_status automation_run)" "run_run_type automation_run \<noteq> RT_LEGACY"
    by (simp_all add: automation_run_def new_run_def)
  have get: "rp_get (ex_runs (the_executor sample_settings sample_surroundings)) ''r9'' (dv_world automation_drive) =
      (Inr (Some automation_run), dv_world automation_drive)"
    using find
    by (simp add: the_executor_def sample_surroundings_def session_runs_def session_get_def transact_def run_get_def
        sample_session_def automation_drive_def start_drive_def start_process_def)
  have log: "pr_log (dv_world (snd (handle (the_executor sample_settings sample_surroundings) ''r9'' automation_drive))) =
      pr_log (dv_world automation_drive) @ automation_log"
    by (simp add: automation_log_def [symmetric]) (simp add: automation_drive_def start_drive_def start_process_def)
  have names: "dag_run_names automation_run = [''r9:running_engine:0'', ''r9:running_engine:1'', ''r9:running_engine:2'',
      ''r9:running_engine:3'']" by code_simp
  show ?thesis
    using dag_runs_within_budget [OF automation_reachable find rtranclp.rtrancl_refl find run get log x] x names by auto
qed

end
