(* ===== verification/Deadlines.thy ===== *)
theory Deadlines
  imports Positions Call_Order Samples
begin

text \<open>
  No run waits for ever. A step that asks to be polled again keeps the time its attempt began
  (\<open>attempt_started_at\<close>), so the wait runs against the step's budget across drives; the first drive past the
  budget calls none of the step's providers and counts a failed attempt (\<open>moved_on\<close>), of which there
  are \<open>max_retries + 1\<close>.
\<close>

definition attempts_at :: "step_name \<Rightarrow> workflow_run \<Rightarrow> nat" where
  "attempts_at k r = dget (st_step_attempts (run_run_state r)) k 0"

text \<open>The run was failed, or it is one attempt further, within its retries, and the next attempt has a clock of its own.\<close>

definition moved_on :: "step_name \<Rightarrow> workflow_run \<Rightarrow> workflow_run \<Rightarrow> bool" where
  "moved_on k r q \<longleftrightarrow> run_status q = RS_FAILED \<or>
     (attempts_at k q = Suc (attempts_at k r) \<and> int (Suc (attempts_at k r)) \<le> run_max_retries r \<and>
      st_attempt_started_at (run_run_state q) = None)"

text \<open>The calls of such a drive: none of a step, and every save is of a run that moved on.\<close>

definition overdue_event :: "step_name \<Rightarrow> workflow_run \<Rightarrow> event \<Rightarrow> bool" where
  "overdue_event k r e \<longleftrightarrow> driver_event e \<and> (case e of Ev_save q _ \<Rightarrow> moved_on k r q | _ \<Rightarrow> True)"

lemma overdue_ending: "ending (overdue_event k r) RS_FAILED"
  unfolding ending_def overdue_event_def by (auto simp: moved_on_def split: event.split)

definition given_up :: "step_name \<Rightarrow> workflow_run \<Rightarrow> 'w drive \<Rightarrow> 'w drive \<Rightarrow> bool" where
  "given_up k r s t \<longleftrightarrow> moved_on k r (dv_run t) \<and> extends (overdue_event k r) s t"

lemma ended_given_up: "ended (overdue_event k r) RS_FAILED s t \<Longrightarrow> given_up k r s t"
  by (simp add: ended_def given_up_def moved_on_def)

lemma on_step_error_moves_on:
  assumes "step_contract h" and "attempts_at k (dv_run s) = attempts_at k r"
    and "run_max_retries (dv_run s) = run_max_retries r"
  shows "wpE (on_step_error X k h e) (\<lambda>_. given_up k r s) (\<lambda>_. extends (overdue_event k r) s) s"
proof -
  define s' where "s' = s\<lparr>dv_run := (dv_run s)\<lparr>run_run_state := (run_run_state (dv_run s))\<lparr>st_step_attempts :=
    dset (st_step_attempts (run_run_state (dv_run s))) k (dget (st_step_attempts (run_run_state (dv_run s))) k 0 + 1)\<rparr>\<rparr>\<rparr>"
  have same: "dv_trace s' = dv_trace s" by (simp add: s'_def)
  have reset: "st_step_attempts (h_reset h st) = st_step_attempts st" for st
    using step_contract.reset_frame [OF assms(1), of st] by (simp add: st_frame_def)
  have retry: "wpE (thenE (upd_state (\<lambda>st. (h_reset h st)\<lparr>st_attempt_started_at := None\<rparr>))
        (bindE (clock_read (ck_uniform (ex_clock X))) (\<lambda>jitter. schedule X (d + jitter))))
      (\<lambda>_. given_up k r s) (\<lambda>_. extends (overdue_event k r) s) s'"
    if "int (dget (st_step_attempts (run_run_state (dv_run s'))) k 0) \<le> run_max_retries (dv_run s')" for d
    using that assms(2,3) reset
    unfolding schedule_def utc_now_def wp
    by (auto intro!: save_wp simp: given_up_def overdue_event_def moved_on_def attempts_at_def s'_def)
  have stop: "wpE (thenE (set_error k e) (thenE (set_terminal RS_FAILED) (thenE (escalate (ex_escalator X) e) (save X))))
      (\<lambda>_. given_up k r s) (\<lambda>_. extends (overdue_event k r) s) s'"
    by (rule wp_mono [OF failure_ends [OF overdue_ending [of k r] same]]) (auto intro: ended_given_up simp: ended_def)
  show ?thesis
    unfolding on_step_error_def wp_then wp_upd_state wp_bind wp_the_run s'_def [symmetric] Let_def
    using retry stop by (auto simp: wp_then)
qed

text \<open>The clock reads past the deadline, whenever it is read.\<close>

definition past_deadline :: "'w clock \<Rightarrow> datetime \<Rightarrow> timedelta \<Rightarrow> bool" where
  "past_deadline clk started budget \<longleftrightarrow> (\<forall>w. fst (ck_utcnow clk w) - started > budget)"

lemma iteration_overdue:
  assumes "ex_handlers X k = Some h" and "step_contract h"
    and "st_attempt_started_at (run_run_state (dv_run s)) = Some started"
    and "past_deadline (ex_clock X) started (h_max_duration h)"
    and "attempts_at k (dv_run s) = attempts_at k r" and "run_max_retries (dv_run s) = run_max_retries r"
  shows "wpE (drive_iteration X rt k) (\<lambda>x t. x = None \<and> given_up k r s t) (\<lambda>_. extends (overdue_event k r) s) s"
proof -
  have late: "h_max_duration h < t - started" if "ck_utcnow (ex_clock X) w = (t, w')" for w t w'
    using assms(4) that by (auto simp: past_deadline_def dest: spec [of _ w])
  have fail: "wpE (on_step_error X k h e) (\<lambda>_. given_up k r s) (\<lambda>_. extends (overdue_event k r) s) u"
    if "dv_trace u = dv_trace s" "attempts_at k (dv_run u) = attempts_at k r" "run_max_retries (dv_run u) = run_max_retries r" for u e
    by (rule wp_mono [OF on_step_error_moves_on [OF assms(2) that(2,3)]]) (simp_all add: given_up_def extends_def that(1))
  show ?thesis
    unfolding drive_iteration_def assms(1) option.case start_attempt_def attempt_step_def utc_now_def
    using assms(3,5,6) by (auto simp: wp attempts_at_def dest!: late intro!: wp_mono [OF fail])
qed

text \<open>C7. A wait ends: a drive of a run whose current attempt began longer ago than its step may take, whatever the
  providers do, returns, calls no provider on the step's behalf, and leaves and saves the run either as \<open>FAILED\<close> or one
  attempt further, within its retries, with the clock of the attempt reset. So a step that is polled and polled is
  given up after at most \<open>max_retries + 1\<close> budgets.\<close>

theorem waiting_ends:
  assumes "rp_get runs rid (dv_world s) = (Inr (Some r), w)" and "\<not> terminal_status (run_status r)" and "first_step r = Inr k"
    and "build_handlers tc rc engines lc k = Some h"
    and "st_attempt_started_at (run_run_state r) = Some started" and "past_deadline clk started (h_max_duration h)"
  shows "\<exists>t evs. handle (build_executor tc rc engines lc runs clk base team) rid s = (Inr (), t) \<and>
    dv_trace t = dv_trace s @ Ev_get_run rid (Inr (Some r)) # evs \<and>
    list_all (\<lambda>e. driver_event e \<and> (case e of Ev_save q _ \<Rightarrow> moved_on k r q | _ \<Rightarrow> True)) evs \<and>
    moved_on k r (dv_run t)"
proof -
  let ?X = "build_executor tc rc engines lc runs clk base team" and ?s = "loaded rid s r w"
  have get: "rp_get (ex_runs ?X) rid (dv_world s) = (Inr (Some r), w)" using assms(1) by simp
  have known: "\<not> unknown_step r" using assms(3) by (auto simp: unknown_step_def first_step_def parse_step_def split: option.splits)
  let ?s1 = "?s\<lparr>dv_run := r\<lparr>run_status := RS_RUNNING, run_current_step := Some (step_value k)\<rparr>\<rparr>"
  have turn: "wpE (drive_iteration ?X rt k) (\<lambda>x t. x = None \<and> given_up k r ?s1 t) (\<lambda>_. extends (overdue_event k r) ?s1) ?s1" for rt
    by (rule iteration_overdue [OF _ build_handlers_contract [OF assms(4)]]) (use assms in \<open>simp_all add: attempts_at_def\<close>)
  have crash: "wpE (crash ?X e) (\<lambda>_. given_up k r ?s) (\<lambda>_ _. True) t" if "extends (overdue_event k r) ?s1 t" for e t
    by (rule wp_mono [OF crash_ends [OF overdue_ending [of k r]]])
       (use that in \<open>auto simp: ended_def given_up_def moved_on_def extends_def\<close>)
  have run: "dv_run ?s = r" "dv_trace ?s1 = dv_trace ?s" by (simp_all add: loaded_def)
  have loop: "wpE (drive_loop ?X rt k) (\<lambda>_. given_up k r ?s) (\<lambda>e. wpE (crash ?X e) (\<lambda>_. given_up k r ?s) (\<lambda>_ _. True)) ?s1" for rt
    by (subst wp_drive_loop, rule wp_mono [OF turn]) (use crash run(2) in \<open>auto simp: given_up_def extends_def\<close>)
  have "wpE (catchE (drive_run ?X) (crash ?X)) (\<lambda>_. given_up k r ?s) (\<lambda>_ _. True) ?s"
    unfolding drive_run_def wp run(1) using loop by (simp add: assms(3))
  moreover obtain t where "handle ?X rid s = (Inr (), t)"
    using built.handle_concludes [OF get assms(2) known] by blast
  ultimately show ?thesis
    using handle_eqs(4) [OF get assms(2)]
    by (auto simp: wpE_def given_up_def extends_def loaded_def overdue_event_def list_all_iff)
qed

text \<open>A ticket that nobody has approved for eight days.\<close>

definition waiting_run :: workflow_run where
  "waiting_run = (run_at SN_AWAIT_APPROVAL)\<lparr>run_run_state := (run_run_state (run_at SN_AWAIT_APPROVAL))
     \<lparr>st_attempt_started_at := Some (- seconds (8 * 24 * 3600))\<rparr>\<rparr>"

abbreviation waiting_executor :: "unit executor" where
  "waiting_executor \<equiv> executor_of AP_PENDING eligible_result (sample_engine ER_SUCCESS no_engine_failure) waiting_run"

lemma waiting_ends_witness:
  "moved_on SN_AWAIT_APPROVAL waiting_run (dv_run (snd (handle waiting_executor ''r1'' (drive_of waiting_run)))) \<and>
   \<not> list_ex step_event (dv_trace (snd (handle waiting_executor ''r1'' (drive_of waiting_run))))"
proof -
  have get: "rp_get (store_of waiting_run) ''r1'' (dv_world (drive_of waiting_run)) = (Inr (Some waiting_run), ())"
    by (simp add: store_of_def answers_def)
  have run: "\<not> terminal_status (run_status waiting_run)" "first_step waiting_run = Inr SN_AWAIT_APPROVAL"
    "st_attempt_started_at (run_run_state waiting_run) = Some (- seconds (8 * 24 * 3600))"
    by code_simp+
  have late: "past_deadline sample_clock (- seconds (8 * 24 * 3600))
      (h_max_duration (await_approval_step (sample_tickets AP_PENDING)))"
    by (simp add: past_deadline_def sample_clock_def await_approval_step_def step_handler_def seconds_def)
  have handler: "build_handlers (sample_tickets AP_PENDING) (sample_resources eligible_result)
      (engines_of (sample_engine ER_SUCCESS no_engine_failure)) sample_legacy SN_AWAIT_APPROVAL =
      Some (await_approval_step (sample_tickets AP_PENDING))" by simp
  obtain t evs where t: "handle waiting_executor ''r1'' (drive_of waiting_run) = (Inr (), t)"
      "dv_trace t = dv_trace (drive_of waiting_run) @ Ev_get_run ''r1'' (Inr (Some waiting_run)) # evs"
      "list_all (\<lambda>e. driver_event e \<and> (case e of Ev_save q _ \<Rightarrow> moved_on SN_AWAIT_APPROVAL waiting_run q | _ \<Rightarrow> True)) evs"
      "moved_on SN_AWAIT_APPROVAL waiting_run (dv_run t)"
    using waiting_ends [OF get run(1,2) handler run(3) late, of "seconds 10" "''cloudio''"]
    unfolding executor_of_def by blast
  moreover have "\<not> list_ex step_event (dv_trace (snd (handle waiting_executor ''r1'' (drive_of waiting_run))))" by code_simp
  ultimately show ?thesis by simp
qed

end
