(* ===== verification/Daemon.thy ===== *)
theory Daemon
  imports Bootstrap System Traversal Wire
begin

text \<open>
  The daemon and the system. A worker of the composition root is the code of \<open>Bootstrap\<close>: its claims, the
  whole \<open>handle\<close> over the adapters and the session, its idling. \<open>System\<close> has a step per transaction.
  Here the first is shown to be a path of the second: whatever happens meanwhile, where the rest
  of the world makes steps of the system too, every turn of the worker goes from idle to idle by steps
  that \<open>System\<close> allows. So what holds in every reachable state holds of the running daemon.
\<close>

section \<open>A worker among the others\<close>

definition slot :: "nat \<Rightarrow> worker \<Rightarrow> system \<Rightarrow> system" where
  "slot k x s = s\<lparr>sy_workers := (sy_workers s)(k := x)\<rparr>"

lemma slot_simps [simp]:
  "sy_db (slot k x s) = sy_db s" "sy_now (slot k x s) = sy_now s" "sy_workers (slot k x s) k = x"
  "slot k y (slot k x s) = slot k y s"
  by (simp_all add: slot_def)

text \<open>The rest of the world: steps of the system that leave the worker where it is.\<close>

definition others :: "timedelta \<Rightarrow> nat \<Rightarrow> system \<Rightarrow> system \<Rightarrow> bool" where
  "others lease k s t \<longleftrightarrow> (\<forall>x. (sys_step lease)\<^sup>*\<^sup>* (slot k x s) (slot k x t))"

lemma others_refl: "others lease k s s"
  by (simp add: others_def)

lemma others_trans: "others lease k s t \<Longrightarrow> others lease k t u \<Longrightarrow> others lease k s u"
  unfolding others_def by (meson rtranclp_trans)

text \<open>The surroundings of a worker, seen through \<open>view\<close> as a state of the system: the session works
  on the database of the view and its clock reads the time of the view, and whatever the world does during
  a reading of the clock, a wait or a provider call is a path of the others.\<close>

definition fair_surroundings :: "settings \<Rightarrow> 'w surroundings \<Rightarrow> nat \<Rightarrow> ('w \<Rightarrow> system) \<Rightarrow> bool" where
  "fair_surroundings st U k view \<longleftrightarrow>
     (let S = su_session U (se_database_url st);
          goes_on = (\<lambda>w w'. others (se_redrive_lease st) k (view w) (view w')) in
      (\<forall>w. ss_read S w = sy_db (view w)) \<and>
      (\<forall>db w. view (ss_write S db w) = (view w)\<lparr>sy_db := db\<rparr>) \<and>
      (\<forall>w. fst (ss_utcnow S w) = sy_now (view (snd (ss_utcnow S w))) \<and> goes_on w (snd (ss_utcnow S w))) \<and>
      (\<forall>w. goes_on w (snd (su_utcnow U w))) \<and> (\<forall>w. goes_on w (snd (su_uniform U w))) \<and>
      (\<forall>d w. goes_on w (su_wait U d w)) \<and>
      (\<forall>c q w. goes_on w (snd (ht_send (su_connect U c) q w))))"

section \<open>What a call of the process does to the system\<close>

text \<open>A path of the others between the views of two states of the process.\<close>

definition meanwhile :: "settings \<Rightarrow> 'w surroundings \<Rightarrow> nat \<Rightarrow> ('w \<Rightarrow> system) \<Rightarrow> 'w process \<Rightarrow> 'w process \<Rightarrow> bool" where
  "meanwhile st U k view s t \<longleftrightarrow> (fair_surroundings st U k view \<longrightarrow>
     others (se_redrive_lease st) k (view (pr_remote s)) (view (pr_remote t)))"

lemma meanwhile_trans: "meanwhile st U k view s t \<Longrightarrow> meanwhile st U k view t u \<Longrightarrow> meanwhile st U k view s u"
  unfolding meanwhile_def by (blast intro: others_trans)

lemma send_meanwhile: "keeps (meanwhile st U k view) (send (su_connect U c) q)"
  unfolding keeps_def wp meanwhile_def fair_surroundings_def Let_def by (auto) (metis snd_conv)+

interpretation provider_call: exchange_relation "meanwhile st U k view" "su_connect U c" "\<lambda>_. True" for st U k view c
  by unfold_locales (auto intro: send_meanwhile others_trans simp: meanwhile_def others_refl)

lemma adapter_http:
  "sn_http (ticket_adapter st U) = su_connect U (servicenow_http st)"
  "af_http (engine_adapter st U) = su_connect U (airflow_http st)"
  "lg_http (legacy_adapter st U) = su_connect U (legacy_http st)"
  by (simp_all add: ticket_adapter_def engine_adapter_def legacy_adapter_def)

lemmas calls_meanwhile = provider_call.ticket_keeps [OF adapter_http(1)] provider_call.resource_keeps
  provider_call.engine_keeps [OF adapter_http(2)] provider_call.trigger_keeps [OF adapter_http(2) TrueI]
  provider_call.submit_keeps [OF adapter_http(3) TrueI]

section \<open>A drive\<close>

abbreviation seen :: "nat \<Rightarrow> ('w \<Rightarrow> system) \<Rightarrow> worker \<Rightarrow> 'w process \<Rightarrow> system" where
  "seen k view x s \<equiv> slot k x (view (pr_remote s))"

text \<open>From one state of a drive of \<open>r\<close> to another: as long as it saves what it may, by steps of the system.\<close>

definition drives :: "settings \<Rightarrow> 'w surroundings \<Rightarrow> nat \<Rightarrow> ('w \<Rightarrow> system) \<Rightarrow> workflow_run \<Rightarrow> 'w process drive \<Rightarrow> 'w process drive \<Rightarrow> bool" where
  "drives st U k view r s t \<longleftrightarrow> (fair_surroundings st U k view \<longrightarrow>
     (\<exists>evs. dv_trace t = dv_trace s @ evs \<and> (lawful_saves r evs \<longrightarrow>
        (sys_step (se_redrive_lease st))\<^sup>*\<^sup>* (seen k view (Driving r) (dv_world s)) (seen k view (Driving r) (dv_world t)))))"

lemma drives_refl: "drives st U k view r s s"
  unfolding drives_def by (intro impI exI [of _ "[]"]) simp

lemma drives_trans:
  assumes "drives st U k view r s t" and "drives st U k view r t u"
  shows "drives st U k view r s u"
  unfolding drives_def
proof
  assume "fair_surroundings st U k view"
  with assms obtain xs ys where "dv_trace t = dv_trace s @ xs" "dv_trace u = dv_trace t @ ys"
    "lawful_saves r xs \<Longrightarrow> (sys_step (se_redrive_lease st))\<^sup>*\<^sup>* (seen k view (Driving r) (dv_world s)) (seen k view (Driving r) (dv_world t))"
    "lawful_saves r ys \<Longrightarrow> (sys_step (se_redrive_lease st))\<^sup>*\<^sup>* (seen k view (Driving r) (dv_world t)) (seen k view (Driving r) (dv_world u))"
    unfolding drives_def by blast
  then show "\<exists>evs. dv_trace u = dv_trace s @ evs \<and> (lawful_saves r evs \<longrightarrow>
      (sys_step (se_redrive_lease st))\<^sup>*\<^sup>* (seen k view (Driving r) (dv_world s)) (seen k view (Driving r) (dv_world u)))"
    by (intro exI [of _ "xs @ ys"]) (auto intro: rtranclp_trans)
qed

lemma drives_memory: "drives st U k view r s (s\<lparr>dv_run := q\<rparr>)"
  unfolding drives_def by (intro impI exI [of _ "[]"]) simp

lemma call_drives:
  assumes "keeps (meanwhile st U k view) act"
  shows "keeps (drives st U k view r) (port ev act)"
proof (rule keeps_sndI)
  fix s :: "'a process drive"
  obtain x w where act: "act (dv_world s) = (x, w)" by fastforce
  then have "meanwhile st U k view (dv_world s) w" using keeps_snd [OF assms, of "dv_world s"] by simp
  moreover have "snd (port ev act s) = s\<lparr>dv_world := w, dv_trace := dv_trace s @ [ev x]\<rparr>"
    using act by (simp add: port_def)
  ultimately show "drives st U k view r s (snd (port ev act s))"
    by (auto simp: drives_def meanwhile_def others_def)
qed

lemma clock_drives:
  assumes "\<And>s. meanwhile st U k view s (snd (c s))"
  shows "keeps (drives st U k view r) (clock_read c)"
  unfolding keeps_def wp drives_def
  using assms by (auto intro!: exI [of _ "[]"] simp: meanwhile_def others_def) (metis snd_conv)

lemma clock_meanwhile:
  "meanwhile st U k view s (snd (ck_utcnow (process_clock (su_utcnow U) (su_uniform U)) s))"
  "meanwhile st U k view s (snd (ck_uniform (process_clock (su_utcnow U) (su_uniform U)) s))"
  by (auto simp: meanwhile_def fair_surroundings_def Let_def process_clock_def on_remote_def split: prod.split)
    (metis snd_conv)+

text \<open>Reading a run changes nothing; saving it is a step, if it is lawful.\<close>

lemma session_get_view:
  assumes "fair_surroundings st U k view"
  shows "view (pr_remote (snd (session_get (su_session U (se_database_url st)) rid s))) = view (pr_remote s)"
  using assms
  by (auto simp: session_get_def transact_def run_get_def fair_surroundings_def Let_def split: fault.split)

lemma get_meanwhile: "keeps (meanwhile st U k view) (session_get (su_session U (se_database_url st)) rid)"
  by (rule keeps_sndI) (auto simp: meanwhile_def session_get_view others_refl)

lemma save_drives: "keeps (drives st U k view r) (port (Ev_save q) (session_save (su_session U (se_database_url st)) q))"
proof (rule keeps_sndI)
  fix s :: "'a process drive"
  let ?S = "su_session U (se_database_url st)" and ?lease = "se_redrive_lease st"
  let ?path = "(sys_step ?lease)\<^sup>*\<^sup>*" and ?at = "seen k view (Driving r)"
  let ?act = "session_save ?S q (dv_world s)"
  have "?path (?at (dv_world s)) (?at (snd ?act))"
    if fair: "fair_surroundings st U k view" and q: "run_fixed q = run_fixed r" "settled q" "well_typed q" "affordable q"
  proof -
    define w where "w = snd (ss_utcnow ?S (pr_remote (dv_world s)))"
    have now: "fst (ss_utcnow ?S (pr_remote (dv_world s))) = sy_now (view w)"
        "others ?lease k (view (pr_remote (dv_world s))) (view w)"
      using fair by (simp_all add: fair_surroundings_def Let_def w_def)
    obtain res db where save: "run_save (sy_now (view w)) q (sy_db (view w)) = (res, db)" by fastforce
    have "?act = transact ?S (run_save (sy_now (view w)) q) ((dv_world s)\<lparr>pr_remote := w\<rparr>)"
      by (simp add: session_save_def bindE_def session_now_eq now(1) w_def)
    moreover have "ss_read ?S w = sy_db (view w)" "view (ss_write ?S db w) = (view w)\<lparr>sy_db := db\<rparr>"
      using fair by (simp_all add: fair_surroundings_def Let_def)
    ultimately have "view (pr_remote (snd ?act)) \<in> {view w, (view w)\<lparr>sy_db := db\<rparr>}"
      by (simp add: transact_def save split: fault.split)
    moreover have "sys_step ?lease (slot k (Driving r) (view w)) ((slot k (Driving r) (view w))\<lparr>sy_db := db\<rparr>)"
      by (rule sys_step.saves [where w = k, OF _ q]) (simp_all add: save)
    moreover have "(slot k (Driving r) (view w))\<lparr>sy_db := db\<rparr> = slot k (Driving r) ((view w)\<lparr>sy_db := db\<rparr>)"
      by (simp add: slot_def)
    ultimately show ?thesis using now(2) by (auto simp: others_def intro: rtranclp.rtrancl_into_rtrancl)
  qed
  then show "drives st U k view r s (snd (port (Ev_save q) (session_save ?S q) s))"
    by (auto simp: drives_def port_def split: prod.split)
qed

interpretation on_course: traversal "drives st U k view r" "servicenow_client (ticket_adapter st U)"
    "pm_client (su_connect U (pm_http st))" "engine_table st U" "legacy_runner_client (legacy_adapter st U)"
    "session_runs (su_session U (se_database_url st))" "process_clock (su_utcnow U) (su_uniform U)"
  for st U k view r
  by (unfold_locales; (rule drives_refl | erule (1) drives_trans | rule drives_memory)?; (drule engine_table_Some)?;
      ((rule call_drives | rule clock_drives); simp add: client_defs calls_meanwhile clock_meanwhile)?;
      simp add: session_runs_def save_drives call_drives get_meanwhile)

section \<open>A turn\<close>

lemma stop_path: "(sys_step lease)\<^sup>*\<^sup>* s (slot k x t) \<Longrightarrow> (sys_step lease)\<^sup>*\<^sup>* s (slot k Idle t)"
  by (rule rtranclp.rtrancl_into_rtrancl, assumption)
     (use sys_step.stops [of lease "slot k x t" k] in \<open>simp add: slot_def\<close>)

lemma reachable_path: "(sys_step lease)\<^sup>*\<^sup>* s t \<Longrightarrow> reachable lease s \<Longrightarrow> reachable lease t"
  by (induction rule: rtranclp_induct) (auto intro: reachable.step)

text \<open>The claim, whether it succeeds, fails, or is lost after its commit.\<close>

lemma claim_path:
  assumes fair: "fair_surroundings st U k view"
    and run: "session_claim (su_session U (se_database_url st)) limit (se_redrive_lease st) p = (res, p')" and "limit = 1"
  shows "(sys_step (se_redrive_lease st))\<^sup>*\<^sup>* (seen k view Idle p) (seen k view (worker_claim res) p')"
proof -
  let ?S = "su_session U (se_database_url st)" and ?lease = "se_redrive_lease st"
  define w where "w = snd (ss_utcnow ?S (pr_remote p))"
  have now: "fst (ss_utcnow ?S (pr_remote p)) = sy_now (view w)" "others ?lease k (view (pr_remote p)) (view w)"
    using fair by (simp_all add: fair_surroundings_def Let_def w_def)
  obtain ids db where claim: "claim_due (sy_now (view w)) (ss_locked ?S w) 1 ?lease (sy_db (view w)) = (ids, db)"
    by fastforce
  have S: "ss_read ?S w = sy_db (view w)" "view (ss_write ?S db w) = (view w)\<lparr>sy_db := db\<rparr>"
    using fair by (simp_all add: fair_surroundings_def Let_def)
  have "sys_step ?lease (slot k Idle (view w)) ((slot k Idle (view w))\<lparr>sy_db := db,
      sy_workers := (sy_workers (slot k Idle (view w)))(k := worker_claim (Inr ids))\<rparr>)"
    by (rule sys_step.claims [where w = k and locked = "ss_locked ?S w"]) (use claim in simp_all)
  then have "sys_step ?lease (slot k Idle (view w)) (slot k (worker_claim (Inr ids)) ((view w)\<lparr>sy_db := db\<rparr>))"
    by (simp add: slot_def)
  then have claimed: "(sys_step ?lease)\<^sup>*\<^sup>* (seen k view Idle p) (slot k (worker_claim (Inr ids)) ((view w)\<lparr>sy_db := db\<rparr>))"
    using now(2) by (auto simp: others_def intro: rtranclp.rtrancl_into_rtrancl)
  have idle: "(sys_step ?lease)\<^sup>*\<^sup>* (seen k view Idle p) (slot k Idle (view w))" using now(2) by (simp add: others_def)
  show ?thesis
  proof (cases "ss_fault ?S w")
    case No_Fault
    then have "res = Inr ids" "view (pr_remote p') = (view w)\<lparr>sy_db := db\<rparr>"
      using run S claim now(1) assms(3)
      by (auto simp: session_claim_def bindE_def session_now_eq transact_def w_def [symmetric])
    then show ?thesis using claimed by simp
  next
    case (Before_Commit e)
    then have "res = Inl e" "view (pr_remote p') = view w"
      using run S claim now(1) assms(3)
      by (auto simp: session_claim_def bindE_def session_now_eq transact_def w_def [symmetric] split: prod.splits)
    then show ?thesis using idle by (simp add: worker_claim_def)
  next
    case (After_Commit e)
    then have "res = Inl e" "view (pr_remote p') = (view w)\<lparr>sy_db := db\<rparr>"
      using run S claim now(1) assms(3)
      by (auto simp: session_claim_def bindE_def session_now_eq transact_def w_def [symmetric] split: prod.splits)
    then show ?thesis using stop_path [OF claimed] by (simp add: worker_claim_def)
  qed
qed

text \<open>The drive of a claimed run.\<close>

lemma get_result:
  "session_get S rid p = (Inr found, p') \<Longrightarrow> found = find_run rid (ss_read S (pr_remote p))"
  by (auto simp: session_get_def transact_def run_get_def Let_def split: fault.splits)

lemma drive_path:
  assumes fair: "fair_surroundings st U k view" and "reachable (se_redrive_lease st) (seen k view (Claimed rid) p)"
  shows "(sys_step (se_redrive_lease st))\<^sup>*\<^sup>* (seen k view (Claimed rid) p) (seen k view Idle (snd (drive_on (the_executor st U) rid p)))"
proof -
  let ?S = "su_session U (se_database_url st)" and ?lease = "se_redrive_lease st" and ?X = "the_executor st U"
  obtain x p1 where get: "session_get ?S rid p = (x, p1)" by fastforce
  have view1: "view (pr_remote p1) = view (pr_remote p)" using session_get_view [OF fair, of rid p] get by simp
  have load: "rp_get (ex_runs ?X) rid (dv_world (start_drive p)) = (x, p1)"
    using get by (simp add: the_executor_def session_runs_def start_drive_def)
  have stop: ?thesis if "dv_world (snd (handle ?X rid (start_drive p))) = p1"
    using that view1 stop_path [OF rtranclp.rtrancl_refl, of ?lease k "Claimed rid" "view (pr_remote p)"]
    by (simp add: drive_on_def split_beta)
  consider e where "x = Inl e" | "x = Inr None" | r where "x = Inr (Some r)" by (metis not_None_eq sum.exhaust_sel)
  then show ?thesis
  proof cases
    case (1 e)
    then show ?thesis using handle_eqs(1) [OF load [unfolded 1]] by (intro stop) simp
  next
    case 2
    then show ?thesis using handle_eqs(2) [OF load [unfolded 2]] by (intro stop) simp
  next
    case 3
    have found: "find_run rid (sy_db (view (pr_remote p))) = Some r"
      using get_result [OF get [unfolded 3]] fair by (simp add: fair_surroundings_def Let_def)
    show ?thesis
    proof (cases "terminal_status (run_status r)")
      case True
      then show ?thesis using handle_eqs(3) [OF load [unfolded 3] True] by (intro stop) (simp add: loaded_def)
    next
      case False
      have "well_typed r" "affordable r" using reachable_inv [OF assms(2)] found by (auto simp: sys_inv_def row_ok_def)
      then obtain t evs where t: "handle ?X rid (start_drive p) = (Inr (), t)"
          "dv_trace t = dv_trace (loaded rid (start_drive p) r p1) @ evs" "lawful_saves r evs"
        using handle_lawful [OF load [unfolded 3 the_executor_def build_executor_simps] False] unfolding the_executor_def by blast
      have "drives st U k view r (loaded rid (start_drive p) r p1) t"
        using keeps_snd [OF on_course.guarded_drive_keeps, of st U k view r "loaded rid (start_drive p) r p1"]
          handle_eqs(4) [OF load [unfolded 3] False] t(1) unfolding the_executor_def by (metis snd_conv)
      with fair t(2,3) have "(sys_step ?lease)\<^sup>*\<^sup>* (seen k view (Driving r) p1) (seen k view (Driving r) (dv_world t))"
        by (auto simp: drives_def loaded_def)
      moreover have "sys_step ?lease (seen k view (Claimed rid) p) (seen k view (Driving r) p1)"
        using sys_step.loads [of "seen k view (Claimed rid) p" k rid, OF _ refl] found False view1
        by (simp add: worker_load_def slot_def)
      ultimately have "(sys_step ?lease)\<^sup>*\<^sup>* (seen k view (Claimed rid) p) (seen k view (Driving r) (dv_world t))" by simp
      then show ?thesis using stop_path t(1) by (simp add: drive_on_def)
    qed
  qed
qed

lemma turn_path:
  assumes fair: "fair_surroundings st U k view" and reach: "reachable (se_redrive_lease st) (seen k view Idle p)"
  shows "(sys_step (se_redrive_lease st))\<^sup>*\<^sup>* (seen k view Idle p) (seen k view Idle (wk_turn (the_worker st U k) p))"
proof -
  let ?W = "the_worker st U k" and ?lease = "se_redrive_lease st"
  obtain res p1 where claim: "wk_claim_due ?W 1 (wk_lease ?W) p = (res, p1)" by fastforce
  then have path: "(sys_step ?lease)\<^sup>*\<^sup>* (seen k view Idle p) (seen k view (worker_claim res) p1)"
    using claim_path [OF fair, of 1 p res p1] by (simp add: the_worker_def)
  have idle: "(sys_step ?lease)\<^sup>*\<^sup>* (seen k view Idle p) (seen k view Idle (wk_idle ?W p1))" if "worker_claim res = Idle"
  proof -
    have "others ?lease k (view (pr_remote p1)) (view (pr_remote (wk_idle ?W p1)))"
      using fair by (simp add: wk_idle_def the_worker_def fair_surroundings_def Let_def)
    then show ?thesis using path that by (auto simp: others_def intro: rtranclp_trans)
  qed
  consider e where "res = Inl e" | "res = Inr []" | rid ids where "res = Inr (rid # ids)"
    by (metis list.exhaust sum.exhaust_sel)
  then show ?thesis
  proof cases
    case 3
    then have "(sys_step ?lease)\<^sup>*\<^sup>* (seen k view Idle p) (seen k view (Claimed rid) p1)" using path by (simp add: worker_claim_def)
    with drive_path [OF fair reachable_path [OF this reach]] have
      "(sys_step ?lease)\<^sup>*\<^sup>* (seen k view Idle p) (seen k view Idle (snd (drive_on (the_executor st U) rid p1)))"
      by (rule rtranclp_trans [rotated])
    then show ?thesis using claim 3 by (simp add: wk_turn_def) (simp add: the_worker_def)
  qed (use idle claim in \<open>simp_all add: wk_turn_def worker_claim_def\<close>)
qed

lemma turns_path:
  assumes "fair_surroundings st U k view" and "reachable (se_redrive_lease st) (seen k view Idle p)"
  shows "(sys_step (se_redrive_lease st))\<^sup>*\<^sup>* (seen k view Idle p) (seen k view Idle ((wk_turn (the_worker st U k) ^^ n) p))"
proof (induction n)
  case (Suc n)
  then show ?case
    using turn_path [OF assms(1) reachable_path [OF Suc assms(2)]] by (auto intro: rtranclp_trans)
qed simp

end
