(* ===== verification/Daemon_Properties.thy ===== *)
theory Daemon_Properties
  imports Daemon Exchanges System_Properties
begin

text \<open>The running daemon keeps to the system, and so has the properties of every reachable state.\<close>

text \<open>C19. A worker of the daemon, with the adapters, the session and the settings of the composition root,
  refines the system: however often its loop turns, whatever its calls answer, whichever of its transactions
  fail, and whatever steps the rest of the world makes meanwhile, it goes from idle to idle through a
  path of steps of the system; so a state it stops in is reachable.\<close>

theorem daemon_refines:
  assumes "fair_surroundings st U k view" and "reachable (se_redrive_lease st) (seen k view Idle p)"
  shows "(sys_step (se_redrive_lease st))\<^sup>*\<^sup>* (seen k view Idle p) (seen k view Idle ((wk_turn (the_worker st U k) ^^ n) p)) \<and>
    (wk_run (the_worker st U k) p = Some p' \<longrightarrow> reachable (se_redrive_lease st) (seen k view Idle p'))"
  using turns_path [OF assms] wk_run_returns [of "the_worker st U k" p p'] reachable_path [OF turns_path [OF assms] assms(2)]
  by blast

text \<open>A world that is the state of the system, whose clock goes on with every reading, and where every
  provider grants what it is asked; the workers are stopped when there is nothing left to do.\<close>

definition live_session :: "system session" where
  "live_session = \<lparr>ss_read = sy_db, ss_write = (\<lambda>db s. s\<lparr>sy_db := db\<rparr>), ss_fault = (\<lambda>_. No_Fault), ss_locked = (\<lambda>_. {}),
     ss_utcnow = (\<lambda>s. (sy_now s + 1, s\<lparr>sy_now := sy_now s + 1\<rparr>))\<rparr>"

definition live_surroundings :: "system surroundings" where
  "live_surroundings = \<lparr>
     su_connect = (\<lambda>_. \<lparr>ht_send = (\<lambda>q s. (Inr \<lparr>rsp_status = 200, rsp_json = Inr (grant_all q), rsp_error = []\<rparr>, s\<lparr>sy_now := sy_now s + 2\<rparr>)),
       ht_model_error = (\<lambda>m. m)\<rparr>),
     su_session = (\<lambda>_. live_session), su_utcnow = (\<lambda>s. (sy_now s, s)), su_uniform = (\<lambda>s. (1, s)),
     su_wait = (\<lambda>_ s. s), su_stopped = (\<lambda>_ s. list_all (\<lambda>r. terminal_status (run_status r)) (db_runs (sy_db s)))\<rparr>"

lemma tick_others: "sy_now s \<le> t \<Longrightarrow> others lease k s (s\<lparr>sy_now := t\<rparr>)"
proof -
  assume "sy_now s \<le> t"
  then have "sys_step lease (slot k x s) (slot k x (s\<lparr>sy_now := t\<rparr>))" for x
    using sys_step.tick [of "slot k x s" t lease] by (cases s) (simp add: slot_def)
  then show ?thesis by (simp add: others_def r_into_rtranclp)
qed

lemma live_fair: "fair_surroundings st live_surroundings k (\<lambda>s. s)"
  by (simp add: fair_surroundings_def live_surroundings_def live_session_def others_refl tick_others)

definition live_worker :: "system process run_worker" where
  "live_worker = the_worker sample_settings live_surroundings 0"

definition live_start :: "system process" where
  "live_start = start_process sample_settings one_run"

definition live_end :: "system process" where
  "live_end = wk_turn live_worker live_start"

lemma live_run_completes:
  "map run_status (db_runs (sy_db (pr_remote live_start))) = [RS_PENDING]"
  "map run_status (db_runs (sy_db (pr_remote live_end))) = [RS_COMPLETED]"
  by code_simp+

lemma daemon_refines_witness:
  "reachable (se_redrive_lease sample_settings) (seen 0 (\<lambda>s. s) Idle live_end) \<and> wk_run live_worker live_start = Some live_end"
proof
  have start: "seen 0 (\<lambda>s. s) Idle live_start = one_run"
    by (simp add: slot_def live_start_def start_process_def one_run_def empty_system_def fun_eq_iff)
  have stops: "wk_stopped live_worker s \<longleftrightarrow> list_all (\<lambda>r. terminal_status (run_status r)) (db_runs (sy_db (pr_remote s)))" for s
    by (simp add: live_worker_def the_worker_def live_surroundings_def)
  have all: "list_all (\<lambda>r. terminal_status (run_status r)) rs \<longleftrightarrow> list_all terminal_status (map run_status rs)" for rs
    by (simp add: list.pred_map comp_def)
  show run: "wk_run live_worker live_start = Some live_end"
    using wk_run_first_stop [of 1 live_worker live_start] live_run_completes
    by (simp add: stops all live_end_def)
  show "reachable (se_redrive_lease sample_settings) (seen 0 (\<lambda>s. s) Idle live_end)"
    using daemon_refines [OF live_fair, of sample_settings 0 live_start 0 live_end] run one_run_reachable
    by (simp only: start live_worker_def)
qed

end
