(* ===== verification/Routes.thy ===== *)
theory Routes
  imports Api
begin

text \<open>
  The application of \<open>src/orchestrator/api.py\<close> as a whole: its routers, the key gate on the versioned one,
  the bounds of the request models, and every route with its status code and response model. FastAPI's
  matching of paths and parsing of bodies is the framework's: a call arrives as a value of \<open>api_call\<close>.
\<close>

section \<open>Calls\<close>

datatype api_call =
  Call_healthz
| Call_readyz
| Call_register_workflow string workflow_request
| Call_list_workflows
| Call_get_workflow string
| Call_update_workflow string workflow_request
| Call_trigger trigger_args
| Call_trigger_legacy legacy_run_request
| Call_latest string run_summary_includes
| Call_latest_batch string run_summary_includes
| Call_get_run uuid
| Call_list_runs "string option" "string option"
| Call_ticket_approval string
| Call_engine_run string

datatype router = App | V1 | Callbacks

fun router_of :: "api_call \<Rightarrow> router" where
  "router_of Call_healthz = App"
| "router_of Call_readyz = App"
| "router_of (Call_ticket_approval _) = Callbacks"
| "router_of (Call_engine_run _) = Callbacks"
| "router_of _ = V1"

text \<open>The calls by \<open>GET\<close>.\<close>

fun reads :: "api_call \<Rightarrow> bool" where
  "reads (Call_register_workflow _ _) = False"
| "reads (Call_update_workflow _ _) = False"
| "reads (Call_trigger _) = False"
| "reads (Call_trigger_legacy _) = False"
| "reads (Call_ticket_approval _) = False"
| "reads (Call_engine_run _) = False"
| "reads _ = True"

definition legacy_request_ok :: "legacy_run_request \<Rightarrow> bool" where
  "legacy_request_ok q \<longleftrightarrow> length (lq_flow_type q) \<le> 255 \<and> length (lq_created_by q) \<le> 255 \<and>
     0 \<le> lq_max_retries q \<and> lq_max_retries q \<le> 10"

fun request_ok :: "api_call \<Rightarrow> bool" where
  "request_ok (Call_register_workflow identifier _) = (length identifier \<le> 255)"
| "request_ok (Call_trigger a) = trigger_request_ok a"
| "request_ok (Call_trigger_legacy q) = legacy_request_ok q"
| "request_ok _ = True"

section \<open>Responses\<close>

record workflow_response =
  wr_workflow_id :: uuid
  wr_identifier :: string
  wr_name :: "string option"
  wr_run_type :: run_type
  wr_engine_type :: workflow_engine_type
  wr_automation_id :: string
  wr_ticket_template_id :: string

definition workflow_response_of :: "workflow \<Rightarrow> workflow_response" where
  "workflow_response_of w = \<lparr>wr_workflow_id = wf_workflow_id w, wr_identifier = wf_identifier w, wr_name = wf_name w,
     wr_run_type = wf_run_type w, wr_engine_type = wf_engine_type w, wr_automation_id = wf_automation_id w,
     wr_ticket_template_id = wf_ticket_template_id w\<rparr>"

record run_response =
  rr_run_id :: uuid
  rr_run_type :: run_type
  rr_status :: run_status
  rr_current_step :: "string option"
  rr_created_by :: string
  rr_max_retries :: int
  rr_run_state :: run_state

definition run_response_of :: "workflow_run \<Rightarrow> run_response" where
  "run_response_of r = \<lparr>rr_run_id = run_id r, rr_run_type = run_run_type r, rr_status = run_status r,
     rr_current_step = run_current_step r, rr_created_by = run_created_by r, rr_max_retries = run_max_retries r,
     rr_run_state = run_run_state r\<rparr>"

datatype api_body =
  Body_detail string
| Body_invalid
| Body_health string
| Body_workflow workflow_response
| Body_workflows "workflow_response list"
| Body_run run_response
| Body_runs "run_response list"
| Body_summary resource_run_summary
| Body_summaries "resource_run_summary list"
| Body_woken nat

type_synonym api_answer = "nat \<times> api_body"

text \<open>A route's value with its success code, or its \<open>HTTPException\<close>.\<close>

definition answered :: "nat \<Rightarrow> ('a \<Rightarrow> api_body) \<Rightarrow> http_error + 'a \<Rightarrow> api_answer" where
  "answered code body r = (case r of Inl e \<Rightarrow> (he_status e, Body_detail (he_detail e)) | Inr x \<Rightarrow> (code, body x))"

definition answering :: "nat \<Rightarrow> ('a \<Rightarrow> api_body) \<Rightarrow> (database, http_error, 'a) eff \<Rightarrow> database \<Rightarrow> api_answer \<times> database" where
  "answering code body m db = (case m db of (r, db') \<Rightarrow> (answered code body r, db'))"

section \<open>The application\<close>

text \<open>What a call draws from its surroundings: a new run's \<open>fresh\<close> values, a new workflow's id and time, the clock
  of the wakes and the outcome of the probe.\<close>

record api_env =
  av_fresh :: fresh
  av_workflow_id :: uuid
  av_now :: datetime
  av_clock :: "nat \<Rightarrow> datetime"
  av_ping :: "exn + unit"

fun route :: "api_env \<Rightarrow> api_call \<Rightarrow> database \<Rightarrow> api_answer \<times> database" where
  "route env Call_healthz db = ((200, Body_health healthz), db)"
| "route env Call_readyz db = (answered 200 Body_health (readyz (av_ping env)), db)"
| "route env (Call_register_workflow identifier q) db = answering 201 (Body_workflow \<circ> workflow_response_of)
     (register_workflow (av_workflow_id env) (av_now env) identifier q) db"
| "route env Call_list_workflows db = ((200, Body_workflows (map workflow_response_of (list_workflows db))), db)"
| "route env (Call_get_workflow identifier) db = answering 200 (Body_workflow \<circ> workflow_response_of) (get_workflow identifier) db"
| "route env (Call_update_workflow identifier q) db = answering 200 (Body_workflow \<circ> workflow_response_of)
     (update_workflow (av_workflow_id env) (av_now env) identifier q) db"
| "route env (Call_trigger a) db = answering 201 (Body_run \<circ> run_response_of) (trigger_workflow_run (av_fresh env) a) db"
| "route env (Call_trigger_legacy q) db = answering 201 (Body_run \<circ> run_response_of) (trigger_legacy_run (av_fresh env) q) db"
| "route env (Call_latest resource_id includes) db = (answered 200 Body_summary (get_latest_resource_run resource_id includes db), db)"
| "route env (Call_latest_batch raw includes) db = (answered 200 Body_summaries (get_latest_resource_runs raw includes db), db)"
| "route env (Call_get_run rid) db = (answered 200 (Body_run \<circ> run_response_of) (get_workflow_run rid db), db)"
| "route env (Call_list_runs ticket_id vendor_id) db =
     ((200, Body_runs (map run_response_of (list_workflow_runs ticket_id vendor_id db))), db)"
| "route env (Call_ticket_approval ticket_id) db =
     (case ticket_approval_callback (av_clock env) ticket_id db of (n, db') \<Rightarrow> ((202, Body_woken n), db'))"
| "route env (Call_engine_run engine_run_id) db =
     (case engine_run_callback (av_clock env) engine_run_id db of (n, db') \<Rightarrow> ((202, Body_woken n), db'))"

text \<open>The dependencies of the router come first, then the request model, then the route.\<close>

definition gate :: "(string, string) dict \<Rightarrow> string option \<Rightarrow> api_call \<Rightarrow> http_error + unit" where
  "gate keys api_key c = (if router_of c = V1 then require_api_key keys api_key else Inr ())"

definition serve ::
  "(string, string) dict \<Rightarrow> string option \<Rightarrow> api_env \<Rightarrow> api_call \<Rightarrow> database \<Rightarrow> api_answer \<times> database" where
  "serve keys api_key env c db = (case gate keys api_key c of
     Inl e \<Rightarrow> ((he_status e, Body_detail (he_detail e)), db)
   | Inr _ \<Rightarrow> if \<not> request_ok c then ((422, Body_invalid), db) else route env c db)"

section \<open>Laws\<close>

text \<open>A route's effect that raises leaves the database as it was.\<close>

lemma raising_unchanged:
  "register_workflow i now identifier q db = (Inl e, db') \<Longrightarrow> db' = db"
  "get_workflow identifier db = (r, db') \<Longrightarrow> db' = db"
  "update_workflow i now identifier q db = (Inl e, db') \<Longrightarrow> db' = db"
  "trigger_workflow_run fr a db = (Inl e, db') \<Longrightarrow> db' = db"
  "trigger_legacy_run fr lq db = (Inl e, db') \<Longrightarrow> db' = db"
  by (auto simp: register_workflow_def wf_register_def get_workflow_def update_workflow_def wf_update_def
      trigger_workflow_run_def trigger_result trigger_legacy_run_def trigger_legacy_def run_create_cases eff_basic
      split: option.splits exn.splits if_splits sum.splits)

lemma answering_unchanged:
  assumes "\<And>e db'. m db = (Inl e, db') \<Longrightarrow> db' = db" and "answering code body m db = (a, db')" and "400 \<le> fst a" and "code < 400"
  shows "db' = db"
  using assms by (auto simp: answering_def answered_def split: prod.splits sum.splits)

lemma route_refused: "route env c db = (a, db') \<Longrightarrow> 400 \<le> fst a \<Longrightarrow> db' = db"
  by (cases c)
     (auto dest!: answering_unchanged [rotated] intro: raising_unchanged split: prod.splits)

lemma route_reads: "route env c db = (a, db') \<Longrightarrow> reads c \<Longrightarrow> db' = db"
  by (cases c) (auto simp: answering_def dest: raising_unchanged split: prod.splits)

end
