(* ===== verification/Schema.thy ===== *)
theory Schema
  imports Positions
begin

text \<open>
  The database schema: the tables that the entities of \<open>src/orchestrator/domain.py\<close> declare, and the
  migrations of \<open>src/orchestrator/adapters/migrations/versions\<close> as transactions on a schema of enum
  types, tables and indexes. DDL fails as Postgres' does: on a type, table or index that is there
  already or is missing, and on dropping a type that a column still has.
\<close>

section \<open>Schemas\<close>

datatype column_type =
  Uuid
| Native string
| Varchar nat
| Integer
| Timestamp
| Jsonb

record column =
  cl_name :: string
  cl_type :: column_type
  cl_nullable :: bool

datatype index_key =
  Column string
| Path "string list"
| Newest string

record table_index =
  ti_table :: string
  ti_keys :: "index_key list"
  ti_not_null :: "index_key option"
  ti_unique :: bool

record schema =
  sc_types :: "(string, string list) dict"
  sc_tables :: "(string, column list) dict"
  sc_indexes :: "(string, table_index) dict"

type_synonym ddl = "(schema, exn, unit) eff"

definition empty_schema :: schema where
  "empty_schema = \<lparr>sc_types = [], sc_tables = [], sc_indexes = []\<rparr>"

definition ddl_error :: exn where
  "ddl_error = OtherError ''ProgrammingError'' []"

section \<open>Statements\<close>

definition create_type :: "string \<Rightarrow> string list \<Rightarrow> ddl" where
  "create_type t labels = bindE getS (\<lambda>sc.
     thenE (assertE ddl_error (map_of (sc_types sc) t = None))
     (modifyS (\<lambda>sc. sc\<lparr>sc_types := dset (sc_types sc) t labels\<rparr>)))"

text \<open>\<open>ALTER TYPE t ADD VALUE IF NOT EXISTS\<close>.\<close>

definition add_value :: "string \<Rightarrow> string \<Rightarrow> ddl" where
  "add_value t v = bindE getS (\<lambda>sc. case map_of (sc_types sc) t of
     None \<Rightarrow> raise ddl_error
   | Some labels \<Rightarrow> whenE (v \<notin> set labels) (modifyS (\<lambda>sc. sc\<lparr>sc_types := dset (sc_types sc) t (labels @ [v])\<rparr>)))"

definition uses_type :: "string \<Rightarrow> schema \<Rightarrow> bool" where
  "uses_type t sc \<longleftrightarrow> list_ex (\<lambda>(_, cs). list_ex (\<lambda>c. cl_type c = Native t) cs) (sc_tables sc)"

definition drop_type_if_exists :: "string \<Rightarrow> ddl" where
  "drop_type_if_exists t = bindE getS (\<lambda>sc.
     thenE (assertE ddl_error (\<not> uses_type t sc))
     (modifyS (\<lambda>sc. sc\<lparr>sc_types := dpop (sc_types sc) t\<rparr>)))"

definition create_index :: "string \<Rightarrow> table_index \<Rightarrow> ddl" where
  "create_index i ix = bindE getS (\<lambda>sc.
     thenE (assertE ddl_error (map_of (sc_indexes sc) i = None \<and> map_of (sc_tables sc) (ti_table ix) \<noteq> None))
     (modifyS (\<lambda>sc. sc\<lparr>sc_indexes := dset (sc_indexes sc) i ix\<rparr>)))"

definition drop_index_if_exists :: "string \<Rightarrow> ddl" where
  "drop_index_if_exists i = modifyS (\<lambda>sc. sc\<lparr>sc_indexes := dpop (sc_indexes sc) i\<rparr>)"

text \<open>A table goes with its indexes.\<close>

definition drop_table :: "string \<Rightarrow> ddl" where
  "drop_table t = bindE getS (\<lambda>sc.
     thenE (assertE ddl_error (map_of (sc_tables sc) t \<noteq> None))
     (modifyS (\<lambda>sc. sc\<lparr>sc_tables := dpop (sc_tables sc) t,
        sc_indexes := filter (\<lambda>(_, ix). ti_table ix \<noteq> t) (sc_indexes sc)\<rparr>)))"

definition type_there :: "schema \<Rightarrow> column \<Rightarrow> bool" where
  "type_there sc c \<longleftrightarrow> (case cl_type c of Native t \<Rightarrow> map_of (sc_types sc) t \<noteq> None | _ \<Rightarrow> True)"

text \<open>\<open>create_all\<close> makes the tables that are missing, each with the indexes its columns declare.\<close>

definition create_missing :: "string \<times> column list \<times> (string \<times> table_index) list \<Rightarrow> ddl" where
  "create_missing = (\<lambda>(t, cs, ixs). bindE getS (\<lambda>sc.
     whenE (map_of (sc_tables sc) t = None)
       (thenE (assertE ddl_error (list_all (type_there sc) cs))
       (thenE (modifyS (\<lambda>sc. sc\<lparr>sc_tables := dset (sc_tables sc) t cs\<rparr>))
       (foldr (\<lambda>(i, ix). thenE (create_index i ix)) ixs (ret ()))))))"

definition create_all :: "(string \<times> column list \<times> (string \<times> table_index) list) list \<Rightarrow> ddl" where
  "create_all tables = foldr (\<lambda>t. thenE (create_missing t)) tables (ret ())"

section \<open>The entities' tables\<close>

definition col :: "string \<Rightarrow> column_type \<Rightarrow> column" where
  "col name t = \<lparr>cl_name = name, cl_type = t, cl_nullable = False\<rparr>"

definition opt_col :: "string \<Rightarrow> column_type \<Rightarrow> column" where
  "opt_col name t = \<lparr>cl_name = name, cl_type = t, cl_nullable = True\<rparr>"

definition runs_columns :: "column list" where
  "runs_columns = [col ''run_id'' Uuid, col ''run_type'' (Native ''run_type''), col ''status'' (Native ''run_status''),
     opt_col ''current_step'' (Varchar 64), col ''workflow_identifier'' (Varchar 255), col ''created_by'' (Varchar 255),
     col ''max_retries'' Integer, opt_col ''scheduled_at'' Timestamp, col ''created_at'' Timestamp, col ''updated_at'' Timestamp,
     col ''version'' Integer, col ''run_state'' Jsonb]"

definition workflows_columns :: "column list" where
  "workflows_columns = [col ''workflow_id'' Uuid, col ''identifier'' (Varchar 255), opt_col ''name'' (Varchar 255),
     col ''run_type'' (Native ''run_type''), col ''engine_type'' (Native ''workflow_engine_type''),
     col ''automation_id'' (Varchar 255), col ''ticket_template_id'' (Varchar 255), col ''created_at'' Timestamp]"

definition plain_index :: "string \<Rightarrow> string \<Rightarrow> bool \<Rightarrow> table_index" where
  "plain_index t c unique = \<lparr>ti_table = t, ti_keys = [Column c], ti_not_null = None, ti_unique = unique\<rparr>"

definition metadata :: "(string \<times> column list \<times> (string \<times> table_index) list) list" where
  "metadata =
     [(''workflow_runs'', runs_columns,
        [(''ix_workflow_runs_workflow_identifier'', plain_index ''workflow_runs'' ''workflow_identifier'' False)]),
      (''workflows'', workflows_columns, [(''ix_workflows_identifier'', plain_index ''workflows'' ''identifier'' True)])]"

section \<open>The migrations\<close>

text \<open>An index on a path of \<open>run_state\<close>, for the rows that have one.\<close>

definition path_index :: "string list \<Rightarrow> index_key list \<Rightarrow> table_index" where
  "path_index p ks = \<lparr>ti_table = ''workflow_runs'', ti_keys = Path p # ks, ti_not_null = Some (Path p), ti_unique = False\<rparr>"

definition upgrade_0001 :: ddl where
  "upgrade_0001 =
     thenE (create_type ''run_type'' [''automation'', ''resource''])
     (thenE (create_type ''run_status'' [''pending'', ''running'', ''completed'', ''failed''])
     (thenE (create_type ''workflow_engine_type'' [''airflow''])
     (thenE (create_all metadata)
     (thenE (create_index ''idx_runs_scheduled_at'' \<lparr>ti_table = ''workflow_runs'', ti_keys = [Column ''scheduled_at''],
        ti_not_null = Some (Column ''scheduled_at''), ti_unique = False\<rparr>)
     (thenE (create_index ''idx_runs_ticket_id'' (path_index [''ticket'', ''ticket_id''] []))
     (create_index ''idx_runs_resource_vendor_id'' (path_index [''resource'', ''vendor_id''] [])))))))"

definition downgrade_0001 :: ddl where
  "downgrade_0001 =
     thenE (drop_index_if_exists ''idx_runs_resource_vendor_id'')
     (thenE (drop_index_if_exists ''idx_runs_ticket_id'')
     (thenE (drop_index_if_exists ''idx_runs_scheduled_at'')
     (thenE (drop_table ''workflow_runs'')
     (thenE (drop_table ''workflows'')
     (thenE (drop_type_if_exists ''workflow_engine_type'')
     (thenE (drop_type_if_exists ''run_status'')
     (drop_type_if_exists ''run_type'')))))))"

definition upgrade_0002 :: ddl where
  "upgrade_0002 = add_value ''run_status'' ''rejected''"

definition downgrade_0002 :: ddl where
  "downgrade_0002 = ret ()"

definition upgrade_0003 :: ddl where
  "upgrade_0003 = create_index ''idx_runs_engine_run_id'' (path_index [''engine_run_id''] [])"

definition downgrade_0003 :: ddl where
  "downgrade_0003 = drop_index_if_exists ''idx_runs_engine_run_id''"

definition upgrade_0004 :: ddl where
  "upgrade_0004 = create_index ''idx_runs_resource_id'' (path_index [''resource'', ''resource_id''] [Newest ''created_at''])"

definition downgrade_0004 :: ddl where
  "downgrade_0004 = drop_index_if_exists ''idx_runs_resource_id''"

definition upgrade_0005 :: ddl where
  "upgrade_0005 = thenE (add_value ''run_type'' ''legacy'') (add_value ''workflow_engine_type'' ''legacy'')"

definition downgrade_0005 :: ddl where
  "downgrade_0005 = ret ()"

record migration =
  mg_revision :: string
  mg_down_revision :: "string option"
  mg_upgrade :: ddl
  mg_downgrade :: ddl

definition migrations :: "migration list" where
  "migrations =
     [\<lparr>mg_revision = ''0001_initial'', mg_down_revision = None, mg_upgrade = upgrade_0001, mg_downgrade = downgrade_0001\<rparr>,
      \<lparr>mg_revision = ''0002_rejected_status'', mg_down_revision = Some ''0001_initial'', mg_upgrade = upgrade_0002,
         mg_downgrade = downgrade_0002\<rparr>,
      \<lparr>mg_revision = ''0003_engine_run_id_index'', mg_down_revision = Some ''0002_rejected_status'', mg_upgrade = upgrade_0003,
         mg_downgrade = downgrade_0003\<rparr>,
      \<lparr>mg_revision = ''0004_resource_id_index'', mg_down_revision = Some ''0003_engine_run_id_index'', mg_upgrade = upgrade_0004,
         mg_downgrade = downgrade_0004\<rparr>,
      \<lparr>mg_revision = ''0005_legacy_run_type'', mg_down_revision = Some ''0004_resource_id_index'', mg_upgrade = upgrade_0005,
         mg_downgrade = downgrade_0005\<rparr>]"

text \<open>Alembic follows the links: up from one revision to the next, and down again.\<close>

definition upgrade :: "migration list \<Rightarrow> ddl" where
  "upgrade ms = foldr (\<lambda>m. thenE (mg_upgrade m)) ms (ret ())"

definition downgrade :: "migration list \<Rightarrow> ddl" where
  "downgrade ms = foldr (\<lambda>m. thenE (mg_downgrade m)) (rev ms) (ret ())"

definition linked :: "migration list \<Rightarrow> bool" where
  "linked ms \<longleftrightarrow> map mg_down_revision ms = None # map (Some \<circ> mg_revision) (butlast ms)"

definition head_schema :: schema where
  "head_schema = snd (upgrade migrations empty_schema)"

section \<open>Rows in columns\<close>

text \<open>A value as it is bound to a column: its label or text, or a number; and what a column takes. Postgres
  counts characters and this counts the bytes of a text, so a text that is taken here is taken there.\<close>

datatype sql_value =
  Null
| Label string
| Chars string
| Number int
| Opaque

definition column_takes :: "schema \<Rightarrow> column \<Rightarrow> sql_value \<Rightarrow> bool" where
  "column_takes sc c v = (case v of
     Null \<Rightarrow> cl_nullable c
   | Label l \<Rightarrow> (case cl_type c of
       Native t \<Rightarrow> (case map_of (sc_types sc) t of None \<Rightarrow> False | Some labels \<Rightarrow> l \<in> set labels) | _ \<Rightarrow> False)
   | Chars t \<Rightarrow> (case cl_type c of Varchar n \<Rightarrow> length t \<le> n | _ \<Rightarrow> False)
   | Number i \<Rightarrow> (case cl_type c of Integer \<Rightarrow> - (2 ^ 31) \<le> i \<and> i < 2 ^ 31 | _ \<Rightarrow> False)
   | Opaque \<Rightarrow> (case cl_type c of Uuid \<Rightarrow> True | Timestamp \<Rightarrow> True | Jsonb \<Rightarrow> True | _ \<Rightarrow> False))"

definition run_values :: "workflow_run \<Rightarrow> sql_value list" where
  "run_values r = [Opaque, Label (run_type_value (run_run_type r)), Label (run_status_value (run_status r)),
     (case run_current_step r of None \<Rightarrow> Null | Some v \<Rightarrow> Chars v), Chars (run_workflow_identifier r), Chars (run_created_by r),
     Number (run_max_retries r), (case run_scheduled_at r of None \<Rightarrow> Null | Some _ \<Rightarrow> Opaque), Opaque, Opaque,
     Number (run_version r), Opaque]"

definition workflow_values :: "workflow \<Rightarrow> sql_value list" where
  "workflow_values w = [Opaque, Chars (wf_identifier w), (case wf_name w of None \<Rightarrow> Null | Some n \<Rightarrow> Chars n),
     Label (run_type_value (wf_run_type w)), Label (engine_type_value (wf_engine_type w)), Chars (wf_automation_id w),
     Chars (wf_ticket_template_id w), Opaque]"

definition row_fits :: "schema \<Rightarrow> string \<Rightarrow> sql_value list \<Rightarrow> bool" where
  "row_fits sc t vs \<longleftrightarrow> (case map_of (sc_tables sc) t of None \<Rightarrow> False | Some cs \<Rightarrow> list_all2 (column_takes sc) cs vs)"

section \<open>The schema of the program\<close>

lemma step_value_short: "length (step_value k) \<le> 64"
  by (cases k) simp_all

lemma head_tables:
  "map_of (sc_tables head_schema) ''workflow_runs'' = Some runs_columns"
  "map_of (sc_tables head_schema) ''workflows'' = Some workflows_columns"
  by code_simp+

lemma head_labels:
  "map_of (sc_types head_schema) ''run_type'' = Some [''automation'', ''resource'', ''legacy'']"
  "map_of (sc_types head_schema) ''run_status'' = Some [''pending'', ''running'', ''completed'', ''failed'', ''rejected'']"
  "map_of (sc_types head_schema) ''workflow_engine_type'' = Some [''airflow'', ''legacy'']"
  by code_simp+

text \<open>A run at a step of its plan, of whatever type and status, fits the columns of \<open>workflow_runs\<close>, as long as the two texts of its caller
  are no longer than 255 and its numbers fit 32 bits.\<close>

lemma run_row_fits:
  assumes "well_typed r" and "length (run_workflow_identifier r) \<le> 255" and "length (run_created_by r) \<le> 255"
    and "run_max_retries r \<in> {- (2 ^ 31)..<2 ^ 31}" and "run_version r \<in> {- (2 ^ 31)..<2 ^ 31}"
  shows "row_fits head_schema ''workflow_runs'' (run_values r)"
proof -
  have "length v \<le> 64" if "run_current_step r = Some v" for v
    using assms(1) that step_value_short by (auto simp: well_typed_def)
  then show ?thesis
    using assms(2-5)
    by (simp add: row_fits_def head_tables runs_columns_def run_values_def col_def opt_col_def column_takes_def
        head_labels split: option.split; cases "run_run_type r"; cases "run_status r"; simp)
qed


end
