(* ===== verification/Api_Properties.thy ===== *)
theory Api_Properties
  imports Routes Schema System Service_Properties
begin

text \<open>The properties of the application as a whole: its gate, and what its calls leave in the database.\<close>

section \<open>The gate\<close>

text \<open>C35. The application is gated: with keys configured, a call of the versioned API without one of them is
  answered 401 and changes nothing, before its body is looked at; whatever is answered 400 or above changes
  nothing, and neither does a \<open>GET\<close>. Only the callbacks and the health probes need no key.\<close>

theorem routes_gated:
  assumes "serve keys presented env c db = (a, db')"
  shows "(router_of c = V1 \<and> keys \<noteq> [] \<and> (\<forall>client k. presented = Some k \<longrightarrow> k = [] \<or> (client, k) \<notin> set keys) \<longrightarrow>
      fst a = 401 \<and> db' = db) \<and>
    (400 \<le> fst a \<or> reads c \<longrightarrow> db' = db)"
proof -
  have closed: "\<exists>e. require_api_key keys presented = Inl e \<and> he_status e = 401"
    if "keys \<noteq> []" "\<forall>client k. presented = Some k \<longrightarrow> k = [] \<or> (client, k) \<notin> set keys"
    using api_key_gate [of keys presented] that by (cases "require_api_key keys presented") auto
  show ?thesis
  proof (intro conjI impI)
    assume "router_of c = V1 \<and> keys \<noteq> [] \<and> (\<forall>client k. presented = Some k \<longrightarrow> k = [] \<or> (client, k) \<notin> set keys)"
    with closed assms show "fst a = 401" "db' = db" by (auto simp: serve_def gate_def)
  next
    assume "400 \<le> fst a \<or> reads c"
    with assms show "db' = db"
      by (auto simp: serve_def split: sum.splits if_splits dest: route_refused route_reads)
  qed
qed

definition sample_env :: api_env where
  "sample_env = \<lparr>av_fresh = fresh1, av_workflow_id = ''w9'', av_now = 5, av_clock = (\<lambda>i. int i), av_ping = Inr ()\<rparr>"

lemma routes_gated_witness:
  "fst (fst (serve [(''ui'', ''k1'')] (Some ''k2'') sample_env (Call_trigger trigger_args1) sample_db)) = 401 \<and>
   fst (fst (serve [(''ui'', ''k1'')] (Some ''k1'') sample_env (Call_trigger trigger_args1) sample_db)) \<noteq> 401"
proof
  show "fst (fst (serve [(''ui'', ''k1'')] (Some ''k2'') sample_env (Call_trigger trigger_args1) sample_db)) = 401"
    using routes_gated [of "[(''ui'', ''k1'')]" "Some ''k2''" sample_env "Call_trigger trigger_args1" sample_db, OF prod.collapse [symmetric]]
    by simp
qed code_simp

section \<open>Rows that fit\<close>

text \<open>What the request models bound.\<close>

definition row_bounded :: "workflow_run \<Rightarrow> bool" where
  "row_bounded r \<longleftrightarrow> well_typed r \<and> length (run_workflow_identifier r) \<le> 255 \<and> length (run_created_by r) \<le> 255 \<and>
     run_max_retries r \<in> {0..10}"

definition db_bounded :: "database \<Rightarrow> bool" where
  "db_bounded db \<longleftrightarrow> (\<forall>w \<in> set (db_workflows db). length (wf_identifier w) \<le> 255) \<and> (\<forall>r \<in> set (db_runs db). row_bounded r)"

lemma row_bounded_upd [simp]:
  "row_bounded (r\<lparr>run_scheduled_at := t, run_updated_at := u\<rparr>) = row_bounded r"
  by (simp add: row_bounded_def)

lemma wake_bounded: "db_bounded db \<Longrightarrow> db_bounded (snd (wake now rid db))"
  by (auto simp: wake_def update_rows_def db_bounded_def)

lemma wake_all_bounded: "db_bounded db \<Longrightarrow> db_bounded (snd (wake_all now rs db))"
  by (induction rs arbitrary: now db) (auto simp: Let_def split_beta wake_bounded)

lemma find_workflow_bounded: "find_workflow i db = Some w \<Longrightarrow> w \<in> set (db_workflows db)"
  unfolding find_workflow_def by (auto simp: find_Some_iff)

lemma create_bounded: "db_bounded db \<Longrightarrow> row_bounded r \<Longrightarrow> db_bounded (snd (run_create r db))"
  by (simp add: run_create_cases db_bounded_def)

lemma trigger_bounded:
  assumes "db_bounded db" and "trigger_request_ok a"
  shows "db_bounded (snd (trigger fr a db))"
proof -
  have "row_bounded (new_run fr (wf_run_type flow) (wf_identifier flow) (ta_created_by a) (ta_max_retries a) (trigger_state a flow))"
    if "wf_get (ta_workflow_identifier a) db = Some flow" "check_trigger a flow = Inr ()" for flow
    using trigger_run_ok [OF that(2)] assms find_workflow_bounded that(1)
    by (auto simp: row_bounded_def row_ok_def db_bounded_def trigger_request_ok_def new_run_def wf_get_def)
  then show ?thesis
    using assms(1) create_bounded [OF assms(1)] by (auto simp: trigger_result split: option.split sum.split)
qed

lemma legacy_bounded:
  assumes "db_bounded db" and "legacy_request_ok q"
  shows "db_bounded (snd (trigger_legacy fr (to_domain q) (lq_created_by q) (lq_max_retries q) db))"
  unfolding trigger_legacy_def
  by (rule create_bounded [OF assms(1)])
     (use assms(2) in \<open>simp add: row_bounded_def legacy_request_ok_def new_run_def to_domain_def well_typed_def\<close>)

lemma register_bounded:
  "db_bounded db \<Longrightarrow> length identifier \<le> 255 \<Longrightarrow> db_bounded (snd (register_workflow i now identifier q db))"
  by (auto simp: register_workflow_def wf_register_def workflow_of_def db_bounded_def eff_basic split: option.split)

lemma update_bounded: "db_bounded db \<Longrightarrow> db_bounded (snd (update_workflow i now identifier q db))"
  by (auto simp: update_workflow_def wf_update_def wf_overwrite_def db_bounded_def eff_basic split: option.split)

lemma answering_snd: "snd (answering code body m db) = snd (m db)"
  by (simp add: answering_def split: prod.split)

lemma caught_snd: "snd (catchE m (\<lambda>e. raise (f e)) db) = snd (m db)"
  by (auto simp: eff_basic split: prod.split sum.split)

lemma route_bounded:
  assumes "db_bounded db" and "request_ok c"
  shows "db_bounded (snd (route env c db))"
  using assms
  by (cases c)
     (simp_all add: answering_snd register_bounded update_bounded trigger_workflow_run_def trigger_legacy_run_def caught_snd
       trigger_bounded legacy_bounded ticket_approval_callback_def engine_run_callback_def wake_by_ticket_def
       wake_by_engine_run_def wake_all_bounded split_beta raising_unchanged(2) [OF prod.collapse [symmetric]])



end
