(* ===== verification/Logging.thy ===== *)
theory Logging
  imports Http
begin

text \<open>
  Logging, \<open>src/orchestrator/log.py\<close> and \<open>src/orchestrator/adapters/logging_transport.py\<close>: the context
  variables, the filters that read them when a record is emitted, the installation of the filters, the
  configuration of levels and handlers, and the transport that reports failed calls. A run and a request
  are objects with an address, since the filters read them live; the formatting of a handler's
  output, the stack traces and what \<open>dictConfig\<close> makes of a document are the library's.
\<close>

section \<open>Records, objects and context variables\<close>

type_synonym address = nat

record log_record =
  rec_logger :: string
  rec_level :: nat
  rec_message :: string
  rec_fields :: payload

record incoming =
  in_method :: string
  in_path :: string
  in_url :: string
  in_query :: string
  in_path_params :: "(string, string) dict"

record context_vars =
  cv_request :: "address option"
  cv_run :: "address option"
  cv_worker :: "nat option"

text \<open>The two filters of the module, and those a mounted document declares.\<close>

datatype filter_class = RequestContextFilter | RunContextFilter | OtherFilter string

record log_handler =
  hd_filters :: "filter_class list"
  hd_written :: "log_record list"

record 'w logging =
  lg_vars :: context_vars
  lg_requests :: "address \<Rightarrow> incoming"
  lg_runs :: "address \<Rightarrow> workflow_run"
  lg_handlers :: "log_handler list"
  lg_levels :: "(string, nat) dict"
  lg_other :: "string \<Rightarrow> log_record \<Rightarrow> bool \<times> log_record"
  lg_world :: 'w

definition http_url_field :: string where "http_url_field = ''cloudio.operation.http.url''"
definition http_query_field :: string where "http_query_field = ''cloudio.operation.http.query_params''"
definition http_path_field :: string where "http_path_field = ''cloudio.operation.http.path_params''"
definition run_id_field :: string where "run_id_field = ''cloudio.run.id''"
definition run_type_field :: string where "run_type_field = ''cloudio.run.type''"
definition run_status_field :: string where "run_status_field = ''cloudio.run.status''"
definition run_step_field :: string where "run_step_field = ''cloudio.run.step''"
definition run_attempt_field :: string where "run_attempt_field = ''cloudio.run.attempt''"
definition run_workflow_field :: string where "run_workflow_field = ''cloudio.run.workflow''"
definition run_created_by_field :: string where "run_created_by_field = ''cloudio.run.created_by''"
definition run_version_field :: string where "run_version_field = ''cloudio.run.version''"
definition run_ticket_id_field :: string where "run_ticket_id_field = ''cloudio.run.ticket_id''"
definition run_engine_run_id_field :: string where "run_engine_run_id_field = ''cloudio.run.engine_run_id''"
definition worker_id_field :: string where "worker_id_field = ''cloudio.worker.id''"

definition context_fields :: "string list" where
  "context_fields = [http_url_field, http_query_field, http_path_field, run_id_field, run_type_field, run_status_field,
     run_step_field, run_attempt_field, run_workflow_field, run_created_by_field, run_version_field,
     run_ticket_id_field, run_engine_run_id_field, worker_id_field]"

lemma fields_distinct: "distinct context_fields" "distinct (rev context_fields)"
  by code_simp+

lemmas field_names = fields_distinct [unfolded context_fields_def, simplified]

definition set_field :: "string \<Rightarrow> json \<Rightarrow> log_record \<Rightarrow> log_record" where
  "set_field key v rec = rec\<lparr>rec_fields := dset (rec_fields rec) key v\<rparr>"

section \<open>The filters\<close>

definition request_filter :: "'w logging \<Rightarrow> log_record \<Rightarrow> bool \<times> log_record" where
  "request_filter s rec = (True, case cv_request (lg_vars s) of
     None \<Rightarrow> rec
   | Some a \<Rightarrow> (let q = lg_requests s a;
         rec = set_field http_query_field (JStr (in_query q)) (set_field http_url_field (JStr (in_url q)) rec)
       in if in_path_params q \<noteq> [] then set_field http_path_field (JDict (map (\<lambda>(k, v). (k, JStr v)) (in_path_params q))) rec
          else rec))"

text \<open>\<open>step_attempts.get(step, 0) + 1\<close>; the fields a run always gives, and those it may give.\<close>

definition attempt_of :: "workflow_run \<Rightarrow> string \<Rightarrow> nat" where
  "attempt_of run v = (case step_of_value v of
     None \<Rightarrow> 0 | Some k \<Rightarrow> dget (st_step_attempts (run_run_state run)) k 0) + 1"

definition run_fields :: "workflow_run \<Rightarrow> log_record \<Rightarrow> log_record" where
  "run_fields run rec =
     set_field run_version_field (JInt (run_version run)) (
     set_field run_created_by_field (JStr (run_created_by run)) (
     set_field run_workflow_field (JStr (run_workflow_identifier run)) (
     set_field run_status_field (JStr (run_status_value (run_status run))) (
     set_field run_type_field (JStr (run_type_value (run_run_type run))) (
     set_field run_id_field (JStr (run_id run)) rec)))))"

definition progress_fields :: "workflow_run \<Rightarrow> log_record \<Rightarrow> log_record" where
  "progress_fields run rec =
     (let rec = (case run_current_step run of
            None \<Rightarrow> rec
          | Some v \<Rightarrow> set_field run_attempt_field (JInt (int (attempt_of run v))) (set_field run_step_field (JStr v) rec));
          rec = (case st_ticket (run_run_state run) of
            None \<Rightarrow> rec | Some tk \<Rightarrow> set_field run_ticket_id_field (JStr (tr_ticket_id tk)) rec)
      in case st_engine_run_id (run_run_state run) of
           None \<Rightarrow> rec | Some i \<Rightarrow> set_field run_engine_run_id_field (JStr i) rec)"

definition run_filter :: "'w logging \<Rightarrow> log_record \<Rightarrow> bool \<times> log_record" where
  "run_filter s rec =
     (let rec = (case cv_worker (lg_vars s) of None \<Rightarrow> rec | Some i \<Rightarrow> set_field worker_id_field (JInt (int i)) rec)
      in (True, case cv_run (lg_vars s) of
           None \<Rightarrow> rec
         | Some a \<Rightarrow> progress_fields (lg_runs s a) (run_fields (lg_runs s a) rec)))"

definition filter_record :: "'w logging \<Rightarrow> filter_class \<Rightarrow> log_record \<Rightarrow> bool \<times> log_record" where
  "filter_record s f = (case f of
     RequestContextFilter \<Rightarrow> request_filter s
   | RunContextFilter \<Rightarrow> run_filter s
   | OtherFilter name \<Rightarrow> lg_other s name)"

section \<open>Emitting a record\<close>

text \<open>The record is one object: what one handler's filters add, the next handler sees.\<close>

fun pass_filters :: "'w logging \<Rightarrow> filter_class list \<Rightarrow> log_record \<Rightarrow> bool \<times> log_record" where
  "pass_filters s [] rec = (True, rec)"
| "pass_filters s (f # fs) rec = (case filter_record s f rec of
     (False, rec) \<Rightarrow> (False, rec)
   | (True, rec) \<Rightarrow> pass_filters s fs rec)"

fun handle_record :: "'w logging \<Rightarrow> log_handler list \<Rightarrow> log_record \<Rightarrow> log_handler list" where
  "handle_record s [] rec = []"
| "handle_record s (h # hs) rec = (case pass_filters s (hd_filters h) rec of
     (True, rec) \<Rightarrow> h\<lparr>hd_written := hd_written h @ [rec]\<rparr> # handle_record s hs rec
   | (False, rec) \<Rightarrow> h # handle_record s hs rec)"

text \<open>The level of a logger is its own, or that of the next one above it that has one; \<open>''''\<close> is the root.\<close>

definition parent_logger :: "string \<Rightarrow> string" where
  "parent_logger name = rev (drop 1 (dropWhile (\<lambda>c. c \<noteq> CHR ''.'') (rev name)))"

lemma parent_logger_shorter: "name \<noteq> [] \<Longrightarrow> length (parent_logger name) < length name"
proof -
  assume "name \<noteq> []"
  then have "0 < length name" by simp
  moreover have "length (dropWhile (\<lambda>c. c \<noteq> CHR ''.'') (rev name)) \<le> length name"
    by (metis length_dropWhile_le length_rev)
  ultimately show ?thesis unfolding parent_logger_def length_rev length_drop by linarith
qed

function effective_level :: "(string, nat) dict \<Rightarrow> string \<Rightarrow> nat" where
  "effective_level levels name =
     (let own = dget levels name 0 in
      if own \<noteq> 0 \<or> name = [] then own else effective_level levels (parent_logger name))"
  by auto

termination by (relation "measure (\<lambda>(_, name). length name)") (auto simp: parent_logger_shorter)

declare effective_level.simps [simp del]

definition emit :: "string \<Rightarrow> nat \<Rightarrow> string \<Rightarrow> 'w logging \<Rightarrow> 'w logging" where
  "emit name level message s =
     (if effective_level (lg_levels s) name \<le> level
      then s\<lparr>lg_handlers := handle_record s (lg_handlers s)
        \<lparr>rec_logger = name, rec_level = level, rec_message = message, rec_fields = []\<rparr>\<rparr>
      else s)"

section \<open>Contexts\<close>

text \<open>A context variable is set for a block and reset to its token, however the block ends.\<close>

definition run_log_context :: "address \<Rightarrow> ('w logging, exn, 'a) eff \<Rightarrow> ('w logging, exn, 'a) eff" where
  "run_log_context a block = (\<lambda>s. let token = cv_run (lg_vars s) in
     case block (s\<lparr>lg_vars := (lg_vars s)\<lparr>cv_run := Some a\<rparr>\<rparr>) of
       (r, t) \<Rightarrow> (r, t\<lparr>lg_vars := (lg_vars t)\<lparr>cv_run := token\<rparr>\<rparr>))"

definition worker_log_context :: "nat \<Rightarrow> ('w logging, exn, 'a) eff \<Rightarrow> ('w logging, exn, 'a) eff" where
  "worker_log_context i block = (\<lambda>s. let token = cv_worker (lg_vars s) in
     case block (s\<lparr>lg_vars := (lg_vars s)\<lparr>cv_worker := Some i\<rparr>\<rparr>) of
       (r, t) \<Rightarrow> (r, t\<lparr>lg_vars := (lg_vars t)\<lparr>cv_worker := token\<rparr>\<rparr>))"

text \<open>The middleware, over a scope that is an HTTP request or not; the request object lives at \<open>a\<close>.\<close>

definition request_middleware :: "('w logging, exn, unit) eff \<Rightarrow> string \<Rightarrow> address \<Rightarrow> incoming \<Rightarrow> ('w logging, exn, unit) eff" where
  "request_middleware app scope_type a q = (\<lambda>s.
     if scope_type \<noteq> ''http'' then app s
     else let token = cv_request (lg_vars s);
         (r, t) = app (s\<lparr>lg_requests := (lg_requests s)(a := q), lg_vars := (lg_vars s)\<lparr>cv_request := Some a\<rparr>\<rparr>);
         t = (case r of
             Inr _ \<Rightarrow> t
           | Inl _ \<Rightarrow> emit ''orchestrator.log'' 40
               (''Unhandled exception serving '' @ in_method q @ '' '' @ in_path q @ ''.'') t)
       in (r, t\<lparr>lg_vars := (lg_vars t)\<lparr>cv_request := token\<rparr>\<rparr>))"

section \<open>Configuration\<close>

definition install_missing :: "filter_class list \<Rightarrow> filter_class \<Rightarrow> filter_class list \<Rightarrow> filter_class list" where
  "install_missing installed f fs = (if f \<notin> set installed then fs @ [f] else fs)"

definition install_context_filters :: "'w logging \<Rightarrow> 'w logging" where
  "install_context_filters s = s\<lparr>lg_handlers := map (\<lambda>h. h\<lparr>hd_filters :=
     fold (install_missing (hd_filters h)) [RequestContextFilter, RunContextFilter] (hd_filters h)\<rparr>) (lg_handlers s)\<rparr>"

text \<open>What a document asks for: the handlers of the root logger, and levels.\<close>

record log_document =
  dc_handlers :: "log_handler list"
  dc_levels :: "(string, nat) dict"

definition level_names :: "(string, nat) dict" where
  "level_names = [(''CRITICAL'', 50), (''FATAL'', 50), (''ERROR'', 40), (''WARN'', 30), (''WARNING'', 30), (''INFO'', 20),
     (''DEBUG'', 10), (''NOTSET'', 0)]"

definition level_name :: "nat \<Rightarrow> string" where
  "level_name n = dget [(50, ''CRITICAL''), (40, ''ERROR''), (30, ''WARNING''), (20, ''INFO''), (10, ''DEBUG''), (0, ''NOTSET'')] n
     (''Level '' @ str_nat n)"

definition upper :: "string \<Rightarrow> string" where
  "upper = map (\<lambda>c. let n = of_char c :: nat in if 97 \<le> n \<and> n \<le> 122 then char_of (n - 32) else c)"

definition resolved_level :: "string \<Rightarrow> nat" where
  "resolved_level level = dget level_names (upper level) 20"

definition uvicorn_loggers :: "string list" where
  "uvicorn_loggers = [''uvicorn'', ''uvicorn.error'', ''uvicorn.access'']"

text \<open>The file: absent, one that cannot be read or applied, or a document.\<close>

definition shape_logging :: "(exn + log_document) option \<Rightarrow> string \<Rightarrow> ('w logging, exn, string) eff" where
  "shape_logging file path = (\<lambda>s. case file of
     None \<Rightarrow> (Inr (''built-in default (no file at '' @ path @ '')''),
        s\<lparr>lg_handlers := [\<lparr>hd_filters = [], hd_written = []\<rparr>], lg_levels := dset (lg_levels s) [] 20\<rparr>)
   | Some (Inl e) \<Rightarrow> (Inl e, s)
   | Some (Inr doc) \<Rightarrow> (Inr path, s\<lparr>lg_handlers := dc_handlers doc, lg_levels := dmerge (lg_levels s) (dc_levels doc)\<rparr>))"

definition set_levels :: "nat \<Rightarrow> 'w logging \<Rightarrow> 'w logging" where
  "set_levels n s = s\<lparr>lg_levels := fold (\<lambda>name levels. dset levels name n) ([] # uvicorn_loggers) (lg_levels s)\<rparr>"

definition configure_logging :: "string \<Rightarrow> (exn + log_document) option \<Rightarrow> string \<Rightarrow> ('w logging, exn, unit) eff" where
  "configure_logging level file path =
     bindE (shape_logging file path) (\<lambda>source.
     thenE (modifyS (set_levels (resolved_level level)))
     (thenE (modifyS install_context_filters)
     (thenE (whenE (map_of level_names (upper level) = None)
        (modifyS (emit ''orchestrator.log'' 30 (''Unknown log level '' @ repr_str level @ ''; falling back to INFO.''))))
     (modifyS (emit ''orchestrator.log'' 20
        (''Logging configured from '' @ source @ ''; stdout sink at level '' @ level_name (resolved_level level) @ ''.''))))))"

section \<open>The transport of a provider\<close>

definition verb_text :: "verb \<Rightarrow> string" where
  "verb_text v = (case v of GET \<Rightarrow> ''GET'' | POST \<Rightarrow> ''POST'' | PATCH \<Rightarrow> ''PATCH'' | DELETE \<Rightarrow> ''DELETE'')"

definition failure_logging_transport ::
  "string \<Rightarrow> (http_request \<Rightarrow> ('w, exn, response) eff) \<Rightarrow> http_request \<Rightarrow> ('w logging, exn, response) eff" where
  "failure_logging_transport provider transport q = (\<lambda>s.
     case transport q (lg_world s) of
       (Inl e, w) \<Rightarrow> (Inl e, emit ''orchestrator.adapters.logging_transport'' 40
         (provider @ '' call failed: '' @ verb_text (hq_verb q) @ '' '' @ hq_path q @ '' did not complete.'') (s\<lparr>lg_world := w\<rparr>))
     | (Inr resp, w) \<Rightarrow> (Inr resp,
         if 400 \<le> rsp_status resp then emit ''orchestrator.adapters.logging_transport'' 30
           (provider @ '' call returned '' @ str_nat (rsp_status resp) @ '': '' @ verb_text (hq_verb q) @ '' '' @ hq_path q @ ''.'')
           (s\<lparr>lg_world := w\<rparr>)
         else s\<lparr>lg_world := w\<rparr>))"

section \<open>Laws\<close>

text \<open>A record that names a run, at the step it stands at.\<close>

definition names_run :: "workflow_run \<Rightarrow> log_record \<Rightarrow> bool" where
  "names_run run rec \<longleftrightarrow> (let field = map_of (rec_fields rec) in
     field run_id_field = Some (JStr (run_id run)) \<and> field run_status_field = Some (JStr (run_status_value (run_status run))) \<and>
     field run_version_field = Some (JInt (run_version run)) \<and>
     (\<forall>v. run_current_step run = Some v \<longrightarrow>
        field run_step_field = Some (JStr v) \<and> field run_attempt_field = Some (JInt (int (attempt_of run v)))))"

definition plain_filters :: "filter_class list \<Rightarrow> bool" where
  "plain_filters fs \<longleftrightarrow> set fs \<subseteq> {RequestContextFilter, RunContextFilter}"

lemma set_field_simps [simp]:
  "rec_level (set_field k v rec) = rec_level rec" "rec_message (set_field k v rec) = rec_message rec"
  "map_of (rec_fields (set_field k v rec)) = (map_of (rec_fields rec))(k \<mapsto> v)"
  by (simp_all add: set_field_def)

lemma run_filter_names:
  "cv_run (lg_vars s) = Some a \<Longrightarrow> names_run (lg_runs s a) (snd (run_filter s rec))"
  by (simp add: names_run_def run_filter_def progress_fields_def run_fields_def Let_def field_names split: option.split)

lemma request_filter_names: "names_run run rec \<Longrightarrow> names_run run (snd (request_filter s rec))"
  by (simp add: names_run_def request_filter_def Let_def field_names split: option.split)

lemma pass_plain_names:
  assumes "plain_filters fs" and "cv_run (lg_vars s) = Some a" and "RunContextFilter \<in> set fs \<or> names_run (lg_runs s a) rec"
  shows "\<exists>rec'. pass_filters s fs rec = (True, rec') \<and> names_run (lg_runs s a) rec'"
  using assms
proof (induction fs arbitrary: rec)
  case (Cons f fs)
  have "fst (request_filter s rec)" "fst (run_filter s rec)" by (simp_all add: request_filter_def run_filter_def Let_def)
  moreover have "f = RequestContextFilter \<or> f = RunContextFilter" "plain_filters fs"
    using Cons.prems(1) by (auto simp: plain_filters_def)
  moreover note IH = Cons.IH [OF this(2) Cons.prems(2)]
  ultimately show ?case
    using Cons.prems(3) IH [of "snd (request_filter s rec)"] IH [of "snd (run_filter s rec)"]
      run_filter_names [OF Cons.prems(2), of rec] request_filter_names [of "lg_runs s a" rec s]
    by (auto simp: filter_record_def split_beta split: prod.split bool.split)
qed simp

lemma pass_message: "rec_message (snd (request_filter s rec)) = rec_message rec" "rec_message (snd (run_filter s rec)) = rec_message rec"
  by (simp_all add: request_filter_def run_filter_def run_fields_def progress_fields_def Let_def split: option.split)

lemma pass_plain_message: "plain_filters fs \<Longrightarrow> rec_message (snd (pass_filters s fs rec)) = rec_message rec"
  by (induction fs arbitrary: rec)
     (auto simp: plain_filters_def filter_record_def pass_message split_beta split: prod.split bool.split)

text \<open>After the installation every handler has the two filters, and once is enough.\<close>

definition context_ready :: "log_handler \<Rightarrow> bool" where
  "context_ready h \<longleftrightarrow> plain_filters (hd_filters h) \<and> set [RequestContextFilter, RunContextFilter] \<subseteq> set (hd_filters h)"

lemma install_list:
  "fold (install_missing fs) [RequestContextFilter, RunContextFilter] fs =
   fs @ filter (\<lambda>f. f \<notin> set fs) [RequestContextFilter, RunContextFilter]"
  by (simp add: install_missing_def)

lemma install_ready:
  "\<forall>h \<in> set (lg_handlers s). plain_filters (hd_filters h) \<Longrightarrow> \<forall>h \<in> set (lg_handlers (install_context_filters s)). context_ready h"
  unfolding install_context_filters_def install_list by (auto simp: context_ready_def plain_filters_def)

lemma install_idempotent: "install_context_filters (install_context_filters s) = install_context_filters s"
  unfolding install_context_filters_def install_list by simp

lemma emit_same_filters: "map hd_filters (lg_handlers (emit name n msg s)) = map hd_filters (lg_handlers s)"
proof -
  have "map hd_filters (handle_record s hs rec) = map hd_filters hs" for hs rec
    by (induction hs arbitrary: rec) (auto split: prod.split bool.split)
  then show ?thesis by (simp add: emit_def)
qed

lemma ready_cong: "map hd_filters hs = map hd_filters hs' \<Longrightarrow> (\<forall>h \<in> set hs. context_ready h) = (\<forall>h \<in> set hs'. context_ready h)"
proof -
  have "(\<forall>h \<in> set hs. context_ready h) \<longleftrightarrow> (\<forall>fs \<in> set (map hd_filters hs).
      plain_filters fs \<and> set [RequestContextFilter, RunContextFilter] \<subseteq> set fs)" for hs
    by (simp add: context_ready_def)
  then show "map hd_filters hs = map hd_filters hs' \<Longrightarrow> ?thesis" by (simp only:)
qed

text \<open>A record emitted while a run is in scope is written by every handler, and names the run.\<close>

lemma handle_record_names:
  assumes "\<forall>h \<in> set hs. context_ready h" and "cv_run (lg_vars s) = Some a"
  shows "list_all2 (\<lambda>h h'. \<exists>r. h' = h\<lparr>hd_written := hd_written h @ [r]\<rparr> \<and> rec_message r = rec_message rec \<and> names_run (lg_runs s a) r)
    hs (handle_record s hs rec)"
  using assms(1)
proof (induction hs arbitrary: rec)
  case (Cons h hs)
  then have h: "plain_filters (hd_filters h)" "RunContextFilter \<in> set (hd_filters h)" by (simp_all add: context_ready_def)
  then obtain r where "pass_filters s (hd_filters h) rec = (True, r)" "names_run (lg_runs s a) r"
    using pass_plain_names [OF h(1) assms(2)] by blast
  moreover from this(1) have "rec_message r = rec_message rec" using pass_plain_message [OF h(1), of s rec] by simp
  ultimately show ?case using Cons.IH [of r] Cons.prems by auto
qed simp

lemma configure_ready:
  assumes "configure_logging level file path s = (r, t)" and "r = Inr ()"
    and "\<forall>doc. file = Some (Inr doc) \<longrightarrow> (\<forall>h \<in> set (dc_handlers doc). plain_filters (hd_filters h))"
  shows "\<forall>h \<in> set (lg_handlers t). context_ready h"
proof -
  obtain source s1 where shape: "shape_logging file path s = (Inr source, s1)"
    using assms(1,2) by (cases "shape_logging file path s"; cases "fst (shape_logging file path s)")
      (auto simp: configure_logging_def bindE_def)
  then have "\<forall>h \<in> set (lg_handlers s1). plain_filters (hd_filters h)"
    using assms(3) by (auto simp: shape_logging_def plain_filters_def split: option.splits sum.splits)
  then have "\<forall>h \<in> set (lg_handlers (install_context_filters (set_levels n s1))). context_ready h" for n
    by (intro install_ready) (simp add: set_levels_def)
  moreover have "map hd_filters (lg_handlers t) = map hd_filters (lg_handlers (install_context_filters (set_levels (resolved_level level) s1)))"
    using assms(1) shape
    by (auto simp: configure_logging_def eff_basic emit_same_filters whenE_def split: if_splits)
  ultimately show ?thesis using ready_cong by blast
qed

section \<open>The property\<close>


definition logged_run :: workflow_run where
  "logged_run = \<lparr>run_id = ''r1'', run_run_type = RT_LEGACY, run_status = RS_RUNNING, run_current_step = Some ''submitting_legacy'',
     run_workflow_identifier = ''old'', run_created_by = ''ann'', run_max_retries = 3, run_scheduled_at = Some 0,
     run_created_at = 0, run_updated_at = 0, run_version = 2,
     run_run_state = new_run_state \<lparr>rw_identifier = ''old'', rw_name = None, rw_engine_type = WE_LEGACY,
       rw_automation_id = ''old'', rw_ticket_template_id = []\<rparr>\<rparr>"

definition started_logging :: "unit logging" where
  "started_logging = \<lparr>lg_vars = \<lparr>cv_request = None, cv_run = None, cv_worker = Some 4\<rparr>,
     lg_requests = (\<lambda>_. \<lparr>in_method = [], in_path = [], in_url = [], in_query = [], in_path_params = []\<rparr>),
     lg_runs = (\<lambda>_. logged_run), lg_handlers = [], lg_levels = [], lg_other = (\<lambda>_ rec. (True, rec)), lg_world = ()\<rparr>"

definition configured_logging :: "unit logging" where
  "configured_logging = snd (configure_logging ''info'' None ''p'' started_logging)"

definition driving_logging :: "unit logging" where
  "driving_logging = configured_logging\<lparr>lg_vars := (lg_vars configured_logging)\<lparr>cv_run := Some 0\<rparr>\<rparr>"


section \<open>What a transport tells the log\<close>

lemma handle_record_world: "handle_record (s\<lparr>lg_world := w\<rparr>) hs rec = handle_record s hs rec"
proof -
  have "filter_record (s\<lparr>lg_world := w\<rparr>) f rec = filter_record s f rec" for f rec
    by (simp add: filter_record_def request_filter_def run_filter_def Let_def split: filter_class.split option.split)
  then have "pass_filters (s\<lparr>lg_world := w\<rparr>) fs rec = pass_filters s fs rec" for fs rec
    by (induction fs arbitrary: rec) (simp_all split: prod.split bool.split)
  then show ?thesis by (induction hs arbitrary: rec) (simp_all split: prod.split bool.split)
qed

definition call_outcome :: "exn + response \<Rightarrow> nat option" where
  "call_outcome r = (case r of Inl _ \<Rightarrow> None | Inr resp \<Rightarrow> Some (rsp_status resp))"

text \<open>What the log is told of a call: nothing of one that succeeds, the request line and the status of the others.\<close>

definition transport_record :: "string \<Rightarrow> verb \<Rightarrow> string \<Rightarrow> nat option \<Rightarrow> (nat \<times> string) option" where
  "transport_record provider v path outcome = (case outcome of
     None \<Rightarrow> Some (40, provider @ '' call failed: '' @ verb_text v @ '' '' @ path @ '' did not complete.'')
   | Some n \<Rightarrow> if 400 \<le> n
       then Some (30, provider @ '' call returned '' @ str_nat n @ '': '' @ verb_text v @ '' '' @ path @ ''.'') else None)"

definition noted :: "(nat \<times> string) option \<Rightarrow> 'w logging \<Rightarrow> 'w logging" where
  "noted note s = (case note of None \<Rightarrow> s | Some (n, m) \<Rightarrow> emit ''orchestrator.adapters.logging_transport'' n m s)"


end
