(* ===== verification/Entrypoints.thy ===== *)
theory Entrypoints
  imports Bootstrap Logging
begin

text \<open>
  The processes: the two commands of \<open>src/orchestrator/cli.py\<close>, the lifespan of \<open>api.py\<close> and the release of the
  provider clients in \<open>bootstrap.py\<close>. Reading the settings, installing signal handlers, running the pool,
  serving and closing a client are the parameters \<open>entry\<close>; what is modelled is in which order they come, and
  what happens when one of them fails.
\<close>

datatype signal = SIGINT | SIGTERM

record ('s, 'w) entry =
  en_settings :: "('s logging, exn, settings) eff"
  en_log_file :: "(exn + log_document) option"
  en_log_path :: string
  en_surroundings :: "'w surroundings"
  en_add_handler :: "signal \<Rightarrow> ('s logging, exn, unit) eff"
  en_start :: "'w container \<Rightarrow> ('s logging, exn, unit) eff"
  en_serve :: "'w container \<Rightarrow> ('s logging, exn, unit) eff"
  en_close :: "client_config \<Rightarrow> ('s logging, exn, unit) eff"
  en_uvicorn :: "string \<Rightarrow> nat \<Rightarrow> bool \<Rightarrow> string option \<Rightarrow> ('s logging, exn, unit) eff"

text \<open>\<open>try: m finally: n\<close>: an exception of \<open>n\<close> takes the place of whatever \<open>m\<close> did.\<close>

definition finallyE :: "('s, 'e, 'a) eff \<Rightarrow> ('s, 'e, unit) eff \<Rightarrow> ('s, 'e, 'a) eff" where
  "finallyE m n = (\<lambda>s. case m s of (r, t) \<Rightarrow> (case n t of (Inl e, u) \<Rightarrow> (Inl e, u) | (Inr _, u) \<Rightarrow> (r, u)))"

text \<open>\<open>Container.aclose\<close>: one client after the other.\<close>

definition aclose :: "(client_config \<Rightarrow> ('s, exn, unit) eff) \<Rightarrow> 'w container \<Rightarrow> ('s, exn, unit) eff" where
  "aclose close C = foldr (\<lambda>c. thenE (close c)) (co_http_clients C) (ret ())"

definition is_not_implemented :: "exn \<Rightarrow> bool" where
  "is_not_implemented e = (case e of OtherError name _ \<Rightarrow> name = ''NotImplementedError'' | _ \<Rightarrow> False)"

definition add_handlers :: "('s, 'w) entry \<Rightarrow> ('s logging, exn, unit) eff" where
  "add_handlers E = foldr (\<lambda>sig. thenE (catchE (en_add_handler E sig)
     (\<lambda>e. if is_not_implemented e then ret () else raise e))) [SIGINT, SIGTERM] (ret ())"

definition worker_process :: "('s, 'w) entry \<Rightarrow> ('s logging, exn, unit) eff" where
  "worker_process E =
     bindE (en_settings E) (\<lambda>st.
     thenE (configure_logging (se_log_level st) (en_log_file E) (en_log_path E)) (let C = build st (en_surroundings E) in
     thenE (add_handlers E) (finallyE (en_start E C) (aclose (en_close E) C))))"

text \<open>A signal: every loop of the pool is asked to stop.\<close>

definition request_shutdown :: "'w container \<Rightarrow> (nat \<Rightarrow> bool) \<Rightarrow> nat \<Rightarrow> bool" where
  "request_shutdown C stops = request_stop_all [0..<length (co_workers C)] stops"

text \<open>The API process: what uvicorn is told of logging, and the lifespan of the application.\<close>

definition uvicorn_log_config :: "bool \<Rightarrow> string \<Rightarrow> string option" where
  "uvicorn_log_config config_there path = (if config_there then Some path else None)"

definition api_process :: "('s, 'w) entry \<Rightarrow> string \<Rightarrow> nat \<Rightarrow> bool \<Rightarrow> ('s logging, exn, unit) eff" where
  "api_process E host p reload =
     bindE (en_settings E) (\<lambda>st.
     thenE (configure_logging (se_log_level st) (en_log_file E) (en_log_path E))
     (en_uvicorn E host p reload (uvicorn_log_config (en_log_file E \<noteq> None) (en_log_path E))))"

definition lifespan :: "('s, 'w) entry \<Rightarrow> ('s logging, exn, unit) eff" where
  "lifespan E =
     bindE (en_settings E) (\<lambda>st.
     thenE (configure_logging (se_log_level st) (en_log_file E) (en_log_path E)) (let C = build st (en_surroundings E) in
     thenE (en_serve E C) (aclose (en_close E) C)))"

section \<open>Laws\<close>

text \<open>Clients that close without an exception are all closed, in order.\<close>

lemma closes_all:
  assumes "\<And>c s. fst (close c s) = Inr ()"
  shows "foldr (\<lambda>c. thenE (close c)) cs (ret ()) s = (Inr (), fold (\<lambda>c. snd \<circ> close c) cs s)"
proof (induction cs arbitrary: s)
  case (Cons c cs)
  obtain t where "close c s = (Inr (), t)" using assms [of c s] by (cases "close c s") auto
  then show ?case using Cons by (simp add: eff_basic)
qed (simp add: eff_basic)

lemma aclose_closes:
  "(\<And>c s. fst (close c s) = Inr ()) \<Longrightarrow> aclose close C s = (Inr (), fold (\<lambda>c. snd \<circ> close c) (co_http_clients C) s)"
  by (simp add: aclose_def closes_all)

text \<open>Every loop is asked to stop by a signal.\<close>

lemma shutdown_reaches_all:
  "request_shutdown (build st U) stops k \<longleftrightarrow> k < se_worker_concurrency_limit st \<or> stops k"
  by (simp add: request_shutdown_def build_def request_stop_all_iff)

text \<open>However the pool ends, the four provider clients are released, and the process ends as the pool did.\<close>

lemma worker_process_drains:
  assumes "en_settings E s = (Inr st, s1)" and "configure_logging (se_log_level st) (en_log_file E) (en_log_path E) s1 = (Inr (), s2)"
    and "add_handlers E s2 = (Inr (), s3)" and "en_start E (build st (en_surroundings E)) s3 = (r, s4)"
    and "\<And>c s. fst (en_close E c s) = Inr ()"
  shows "worker_process E s = (r, fold (\<lambda>c. snd \<circ> en_close E c)
    [servicenow_http st, pm_http st, airflow_http st, legacy_http st] s4)"
  using assms by (simp add: worker_process_def Let_def eff_basic finallyE_def aclose_closes) (simp add: build_def)

end
