(* ===== verification/Console.thy ===== *)
theory Console
  imports Dag_Callbacks Api
begin

text \<open>
  The development console, \<open>src/dev/ui/server.py\<close>: a server of static files that forwards calls to the
  orchestrator API with its own key. The API behind it and the file server are parameters; header names
  are written as the code writes them.
\<close>

section \<open>Base64\<close>

definition b64_digit :: "nat \<Rightarrow> char" where
  "b64_digit n = (if n < 26 then char_of (65 + n) else if n < 52 then char_of (71 + n) else if n < 62 then char_of (n - 4)
     else if n = 62 then CHR ''+'' else CHR ''/'')"

fun b64 :: "nat list \<Rightarrow> string" where
  "b64 [] = []"
| "b64 [a] = [b64_digit (a div 4), b64_digit (a mod 4 * 16), CHR ''='', CHR ''='']"
| "b64 [a, b] = [b64_digit (a div 4), b64_digit (a mod 4 * 16 + b div 16), b64_digit (b mod 16 * 4), CHR ''='']"
| "b64 (a # b # c # bs) = [b64_digit (a div 4), b64_digit (a mod 4 * 16 + b div 16), b64_digit (b mod 16 * 4 + c div 64),
     b64_digit (c mod 64)] @ b64 bs"

definition b64encode :: "string \<Rightarrow> string" where
  "b64encode t = b64 (map of_char t)"

section \<open>Settings\<close>

record console =
  cn_api_base :: string
  cn_username :: string
  cn_password :: string
  cn_api_key :: string

definition console_of :: "(string, string) dict \<Rightarrow> console" where
  "console_of env = \<lparr>cn_api_base = rstrip_slash (dget env ''ORCH_API_BASE'' ''http://localhost:8000''),
     cn_username = dget env ''UI_USERNAME'' ''admin'', cn_password = dget env ''UI_PASSWORD'' [],
     cn_api_key = dget env ''UI_API_KEY'' []\<rparr>"

definition expected_auth :: "console \<Rightarrow> string" where
  "expected_auth C = (if cn_password C \<noteq> [] then ''Basic '' @ b64encode (cn_username C @ '':'' @ cn_password C) else [])"

section \<open>Requests and answers\<close>

record console_request =
  cq_method :: string
  cq_path :: string
  cq_headers :: "(string, string) dict"
  cq_body :: string

text \<open>What is sent on, and what comes back: an answer, an answer of status 400 or more, no connection, or an
  error the code does not catch.\<close>

record forwarded =
  fw_method :: string
  fw_url :: string
  fw_headers :: "(string, string) dict"
  fw_body :: "string option"

datatype upstream =
  Answered nat string string
| Http_error nat string
| Url_error string
| Broken

datatype console_answer =
  Relayed nat string string
| Unauthorized
| Static
| Unsupported
| Crashed

section \<open>The handler\<close>

definition authorized_request :: "console \<Rightarrow> console_request \<Rightarrow> bool" where
  "authorized_request C q \<longleftrightarrow> expected_auth C = [] \<or> dget (cq_headers q) ''Authorization'' [] = expected_auth C"

text \<open>\<open>int(...)\<close> of a text: blanks around, a sign, digits with single underscores between them; anything else is
  a \<open>ValueError\<close>. The length of the body; a negative one reads to its end.\<close>

definition digits :: "string \<Rightarrow> bool" where
  "digits t \<longleftrightarrow> t \<noteq> [] \<and> list_all (\<lambda>c. let n = of_char c :: nat in 48 \<le> n \<and> n \<le> 57) t"

definition py_nat :: "string \<Rightarrow> nat option" where
  "py_nat t = (let parts = split_on CHR 0x5F t in if list_all digits parts then Some (read_nat (concat parts)) else None)"

definition py_int :: "string \<Rightarrow> int option" where
  "py_int t = (case strip t of
     [] \<Rightarrow> None
   | c # cs \<Rightarrow> if c = CHR ''-'' then map_option (\<lambda>n. - int n) (py_nat cs)
       else map_option int (py_nat (if c = CHR ''+'' then cs else c # cs)))"

definition content_length :: "console_request \<Rightarrow> int option" where
  "content_length q = (case map_of (cq_headers q) ''Content-Length'' of None \<Rightarrow> Some 0 | Some t \<Rightarrow> py_int t)"

definition read_body :: "console_request \<Rightarrow> int \<Rightarrow> string option" where
  "read_body q n = (if n = 0 then None else if n < 0 then Some (cq_body q) else Some (take (nat n) (cq_body q)))"

definition forward_request :: "console \<Rightarrow> console_request \<Rightarrow> int \<Rightarrow> forwarded" where
  "forward_request C q n = \<lparr>fw_method = cq_method q, fw_url = cn_api_base C @ cq_path q,
     fw_headers =
       (let t = dget (cq_headers q) ''Content-Type'' [] in if t \<noteq> [] then [(''Content-Type'', t)] else []) @
       (if cn_api_key C \<noteq> [] then [(''X-API-Key'', cn_api_key C)] else []),
     fw_body = read_body q n\<rparr>"

definition relay :: "nat \<Rightarrow> string \<Rightarrow> string \<Rightarrow> console_answer" where
  "relay status content_type body = Relayed status (if content_type \<noteq> [] then content_type else ''application/json'') body"

definition unreachable_body :: "console \<Rightarrow> string \<Rightarrow> string" where
  "unreachable_body C reason = ''{'' @ [CHR 0x22] @ ''detail'' @ [CHR 0x22] @ '': '' @ [CHR 0x22] @
     ''orchestrator API unreachable at '' @ cn_api_base C @ '': '' @ reason @ [CHR 0x22] @ ''}''"

text \<open>The calls it makes are recorded.\<close>

type_synonym 'w console_state = "'w \<times> forwarded list"

definition console_proxy ::
  "(forwarded \<Rightarrow> 'w \<Rightarrow> upstream \<times> 'w) \<Rightarrow> console \<Rightarrow> console_request \<Rightarrow> 'w console_state \<Rightarrow> console_answer \<times> 'w console_state" where
  "console_proxy urlopen C q s =
     (if cq_method q \<noteq> ''GET'' \<and> \<not> authorized_request C q then (Unauthorized, s)
      else case content_length q of
        None \<Rightarrow> (Crashed, s)
      | Some n \<Rightarrow> (let f = forward_request C q n in
          case urlopen f (fst s) of (r, w) \<Rightarrow>
            (case r of
               Answered status ct body \<Rightarrow> relay status ct body
             | Http_error status body \<Rightarrow> relay status ''application/json'' body
             | Url_error reason \<Rightarrow> relay 502 ''application/json'' (unreachable_body C reason)
             | Broken \<Rightarrow> Crashed, (w, snd s @ [f]))))"

definition console_handle ::
  "(forwarded \<Rightarrow> 'w \<Rightarrow> upstream \<times> 'w) \<Rightarrow> console \<Rightarrow> console_request \<Rightarrow> 'w console_state \<Rightarrow> console_answer \<times> 'w console_state" where
  "console_handle urlopen C q s =
     (if cq_method q = ''GET'' then
        (if \<not> authorized_request C q then (Unauthorized, s)
         else if take 5 (cq_path q) = ''/api/'' then console_proxy urlopen C q s
         else (Static, s))
      else if cq_method q = ''HEAD'' then (if authorized_request C q then Static else Unauthorized, s)
      else if cq_method q \<in> {''POST'', ''PATCH'', ''PUT'', ''DELETE''} then console_proxy urlopen C q s
      else (Unsupported, s))"

section \<open>The gate\<close>

lemma b64_not_Nil: "bs \<noteq> [] \<Longrightarrow> b64 bs \<noteq> []"
  by (induction bs rule: b64.induct) simp_all

lemma expected_auth_set: "expected_auth C = [] \<longleftrightarrow> cn_password C = []"
  by (simp add: expected_auth_def)


definition sample_console :: console where
  "sample_console = console_of [(''UI_PASSWORD'', ''pw''), (''UI_API_KEY'', ''k'')]"

definition sample_call :: console_request where
  "sample_call = \<lparr>cq_method = ''POST'', cq_path = ''/api/v1/runs'', cq_headers = [(''Authorization'', ''Basic YWRtaW46cHc='')], cq_body = []\<rparr>"


end
