(* ===== verification/Persistence.thy ===== *)
theory Persistence
  imports Samples
begin

text \<open>
  How a run's state goes through its column: \<open>PydanticJSONB\<close> of \<open>src/orchestrator/domain.py\<close> dumps the model on the
  way in and validates it on the way out, and in between Postgres keeps the JSON as \<open>jsonb\<close>. What is the libraries' is
  a parameter (\<open>codec\<close>): how pydantic writes a time and reads it back, the order the database keeps an object's keys
  in (it does not keep the order they were written in), what becomes of the text of a float, and which documents it
  refuses, with which error (a character \<open>NUL\<close>, for one). A validator is given for the shapes that a dump has; the
  coercions pydantic makes of other shapes are not modelled, since the column holds none.

  The lemmas show that a validator reads back what the dump wrote, for each model and then for the whole state, and that
  a second save and load changes nothing more (\<open>normal_state_idem\<close>); the property is about one save and the load after it.
\<close>

record codec =
  cd_iso :: "datetime \<Rightarrow> string"
  cd_of_iso :: "string \<Rightarrow> datetime option"
  cd_rank :: "string \<Rightarrow> nat"
  cd_float :: "string \<Rightarrow> json"
  cd_refuses :: "json \<Rightarrow> exn option"

section \<open>The column\<close>

definition key_sort :: "codec \<Rightarrow> (string \<times> 'a) list \<Rightarrow> (string \<times> 'a) list" where
  "key_sort c d = sort_key (\<lambda>(k, _). cd_rank c k) d"

fun jsonb :: "codec \<Rightarrow> json \<Rightarrow> json" where
  "jsonb c (JFloat t) = cd_float c t"
| "jsonb c (JList xs) = JList (map (jsonb c) xs)"
| "jsonb c (JDict d) = JDict (key_sort c (map (\<lambda>(k, v). (k, jsonb c v)) d))"
| "jsonb c v = v"

definition jsonb_in :: "codec \<Rightarrow> json \<Rightarrow> exn + json" where
  "jsonb_in c v = (case cd_refuses c v of Some e \<Rightarrow> Inl e | None \<Rightarrow> Inr (jsonb c v))"

section \<open>Dumping\<close>

definition opt_json :: "('a \<Rightarrow> json) \<Rightarrow> 'a option \<Rightarrow> json" where
  "opt_json f x = (case x of None \<Rightarrow> JNull | Some v \<Rightarrow> f v)"

definition strs_json :: "string list \<Rightarrow> json" where
  "strs_json xs = JList (map JStr xs)"

definition steps_json :: "('a \<Rightarrow> json) \<Rightarrow> (step_name, 'a) dict \<Rightarrow> json" where
  "steps_json f d = JDict (map (\<lambda>(k, v). (step_value k, f v)) d)"

definition workflow_json :: "resolved_workflow \<Rightarrow> json" where
  "workflow_json w = JDict [(''identifier'', JStr (rw_identifier w)), (''name'', opt_json JStr (rw_name w)),
     (''engine_type'', JStr (engine_type_value (rw_engine_type w))), (''automation_id'', JStr (rw_automation_id w)),
     (''ticket_template_id'', JStr (rw_ticket_template_id w))]"

definition resource_json :: "resource_spec \<Rightarrow> json" where
  "resource_json r = JDict [(''project_id'', JStr (rs_project_id r)), (''resource_type'', JStr (rs_resource_type r)),
     (''vendor_id'', JStr (rs_vendor_id r)), (''resource_id'', JStr (rs_resource_id r)), (''name'', JStr (rs_name r)),
     (''region'', opt_json JStr (rs_region r)), (''environment'', opt_json JStr (rs_environment r)),
     (''description'', JStr (rs_description r)), (''tags'', strs_json (rs_tags r)), (''data'', JDict (rs_data r)),
     (''alert_groups'', strs_json (rs_alert_groups r))]"

definition legacy_json :: "legacy_request \<Rightarrow> json" where
  "legacy_json q = JDict [(''flow_type'', JStr (lr_flow_type q)), (''project_id'', opt_json JStr (lr_project_id q)),
     (''resource_type'', opt_json JStr (lr_resource_type q)), (''variables'', JDict (lr_variables q)),
     (''db_operation'', JStr (lr_db_operation q)), (''name'', JStr (lr_name q)), (''region'', JStr (lr_region q))]"

definition ticket_json :: "ticket_ref \<Rightarrow> json" where
  "ticket_json t = JDict [(''ticket_id'', JStr (tr_ticket_id t)), (''native_id'', JStr (tr_native_id t))]"

fun kind_value :: "failure_kind \<Rightarrow> string" where
  "kind_value FK_VALIDATION = ''validation''"
| "kind_value FK_INFRA_PRECHECK = ''infra_precheck''"
| "kind_value FK_TASK = ''task''"

definition failure_json :: "engine_failure \<Rightarrow> json" where
  "failure_json f = JDict [(''failed_task'', opt_json JStr (ef_failed_task f)),
     (''responsible_group'', opt_json JStr (ef_responsible_group f)), (''detail'', opt_json JStr (ef_detail f)),
     (''exception_name'', opt_json JStr (ef_exception_name f)), (''kind'', JStr (kind_value (ef_kind f)))]"

definition result_json :: "step_result \<Rightarrow> json" where
  "result_json r = JDict [(''final_vendor_id'', opt_json JStr (sr_final_vendor_id r))]"

text \<open>\<open>value.model_dump(mode="json")\<close> of a \<open>RunState\<close>.\<close>

definition state_fields :: "codec \<Rightarrow> run_state \<Rightarrow> payload" where
  "state_fields c st =
     [(''workflow'', workflow_json (st_workflow st)), (''ticket_params'', JDict (st_ticket_params st)),
      (''workflow_params'', JDict (st_workflow_params st)), (''resource'', opt_json resource_json (st_resource st)),
      (''operation'', JStr (operation_value (st_operation st))), (''legacy'', opt_json legacy_json (st_legacy st)),
      (''ticket'', opt_json ticket_json (st_ticket st)), (''engine_run_id'', opt_json JStr (st_engine_run_id st)),
      (''resource_configured'', JBool (st_resource_configured st)), (''resource_finalized'', JBool (st_resource_finalized st)),
      (''ticket_closed'', JBool (st_ticket_closed st)), (''legacy_submitted'', JBool (st_legacy_submitted st)),
      (''legacy_reference'', opt_json JStr (st_legacy_reference st)),
      (''step_attempts'', steps_json (JInt \<circ> int) (st_step_attempts st)),
      (''step_started_at'', steps_json (JStr \<circ> cd_iso c) (st_step_started_at st)),
      (''attempt_started_at'', opt_json (JStr \<circ> cd_iso c) (st_attempt_started_at st)),
      (''errors'', steps_json JStr (st_errors st)), (''step_results'', steps_json result_json (st_step_results st)),
      (''engine_failure'', opt_json failure_json (st_engine_failure st)), (''incident_id'', opt_json JStr (st_incident_id st))]"

definition dump_state :: "codec \<Rightarrow> run_state \<Rightarrow> json" where
  "dump_state c st = JDict (state_fields c st)"

section \<open>Validating\<close>

fun of_str :: "json \<Rightarrow> string option" where
  "of_str (JStr s) = Some s" | "of_str _ = None"

fun of_boolean :: "json \<Rightarrow> bool option" where
  "of_boolean (JBool b) = Some b" | "of_boolean _ = None"

fun of_count :: "json \<Rightarrow> nat option" where
  "of_count (JInt i) = (if 0 \<le> i then Some (nat i) else None)" | "of_count _ = None"

fun of_dict :: "json \<Rightarrow> payload option" where
  "of_dict (JDict d) = Some d" | "of_dict _ = None"

text \<open>\<open>T | None\<close>.\<close>

definition of_opt :: "(json \<Rightarrow> 'a option) \<Rightarrow> json \<Rightarrow> 'a option option" where
  "of_opt f v = (if v = JNull then Some None else map_option Some (f v))"

definition of_list :: "(json \<Rightarrow> 'a option) \<Rightarrow> json \<Rightarrow> 'a list option" where
  "of_list f v = (case v of JList xs \<Rightarrow> those (map f xs) | _ \<Rightarrow> None)"

text \<open>An enum by its value.\<close>

definition of_enum :: "('a \<Rightarrow> string) \<Rightarrow> 'a list \<Rightarrow> json \<Rightarrow> 'a option" where
  "of_enum val members v = Option.bind (of_str v) (\<lambda>s. List.find (\<lambda>m. val m = s) members)"

definition of_steps :: "(json \<Rightarrow> 'a option) \<Rightarrow> json \<Rightarrow> (step_name, 'a) dict option" where
  "of_steps f v = Option.bind (of_dict v) (\<lambda>d. those (map (\<lambda>(k, x).
     Option.bind (step_of_value k) (\<lambda>s. map_option (Pair s) (f x))) d))"

text \<open>A required field, and one with a default.\<close>

definition req :: "payload \<Rightarrow> string \<Rightarrow> (json \<Rightarrow> 'a option) \<Rightarrow> 'a option" where
  "req d k f = Option.bind (map_of d k) f"

definition dflt :: "payload \<Rightarrow> string \<Rightarrow> (json \<Rightarrow> 'a option) \<Rightarrow> 'a \<Rightarrow> 'a option" where
  "dflt d k f x = (case map_of d k of None \<Rightarrow> Some x | Some v \<Rightarrow> f v)"

definition engine_types :: "workflow_engine_type list" where
  "engine_types = [WE_AIRFLOW, WE_LEGACY]"

definition operations :: "resource_operation list" where
  "operations = [RO_CREATE, RO_UPDATE, RO_DELETE]"

definition kinds :: "failure_kind list" where
  "kinds = [FK_VALIDATION, FK_INFRA_PRECHECK, FK_TASK]"

definition of_workflow :: "json \<Rightarrow> resolved_workflow option" where
  "of_workflow v =
     Option.bind (of_dict v) (\<lambda>d.
     Option.bind (req d ''identifier'' of_str) (\<lambda>i.
     Option.bind (dflt d ''name'' (of_opt of_str) None) (\<lambda>n.
     Option.bind (req d ''engine_type'' (of_enum engine_type_value engine_types)) (\<lambda>e.
     Option.bind (req d ''automation_id'' of_str) (\<lambda>a.
     Option.bind (req d ''ticket_template_id'' of_str) (\<lambda>t.
     Some \<lparr>rw_identifier = i, rw_name = n, rw_engine_type = e, rw_automation_id = a, rw_ticket_template_id = t\<rparr>))))))"

definition of_resource :: "json \<Rightarrow> resource_spec option" where
  "of_resource v =
     Option.bind (of_dict v) (\<lambda>d.
     Option.bind (req d ''project_id'' of_str) (\<lambda>p.
     Option.bind (req d ''resource_type'' of_str) (\<lambda>y.
     Option.bind (dflt d ''vendor_id'' of_str []) (\<lambda>vi.
     Option.bind (dflt d ''resource_id'' of_str []) (\<lambda>ri.
     Option.bind (req d ''name'' of_str) (\<lambda>n.
     Option.bind (dflt d ''region'' (of_opt of_str) None) (\<lambda>rg.
     Option.bind (dflt d ''environment'' (of_opt of_str) None) (\<lambda>en.
     Option.bind (dflt d ''description'' of_str []) (\<lambda>de.
     Option.bind (dflt d ''tags'' (of_list of_str) []) (\<lambda>ta.
     Option.bind (dflt d ''data'' of_dict []) (\<lambda>da.
     Option.bind (dflt d ''alert_groups'' (of_list of_str) []) (\<lambda>ag.
     Some \<lparr>rs_project_id = p, rs_resource_type = y, rs_vendor_id = vi, rs_resource_id = ri, rs_name = n, rs_region = rg,
       rs_environment = en, rs_description = de, rs_tags = ta, rs_data = da, rs_alert_groups = ag\<rparr>))))))))))))"

definition of_legacy :: "json \<Rightarrow> legacy_request option" where
  "of_legacy v =
     Option.bind (of_dict v) (\<lambda>d.
     Option.bind (req d ''flow_type'' of_str) (\<lambda>f.
     Option.bind (dflt d ''project_id'' (of_opt of_str) None) (\<lambda>p.
     Option.bind (dflt d ''resource_type'' (of_opt of_str) None) (\<lambda>y.
     Option.bind (dflt d ''variables'' of_dict []) (\<lambda>vs.
     Option.bind (req d ''db_operation'' of_str) (\<lambda>o'.
     Option.bind (req d ''name'' of_str) (\<lambda>n.
     Option.bind (req d ''region'' of_str) (\<lambda>rg.
     Some \<lparr>lr_flow_type = f, lr_project_id = p, lr_resource_type = y, lr_variables = vs, lr_db_operation = o',
       lr_name = n, lr_region = rg\<rparr>))))))))"

definition of_ticket :: "json \<Rightarrow> ticket_ref option" where
  "of_ticket v =
     Option.bind (of_dict v) (\<lambda>d.
     Option.bind (req d ''ticket_id'' of_str) (\<lambda>t.
     Option.bind (req d ''native_id'' of_str) (\<lambda>n.
     Some \<lparr>tr_ticket_id = t, tr_native_id = n\<rparr>)))"

definition of_failure :: "json \<Rightarrow> engine_failure option" where
  "of_failure v =
     Option.bind (of_dict v) (\<lambda>d.
     Option.bind (dflt d ''failed_task'' (of_opt of_str) None) (\<lambda>t.
     Option.bind (dflt d ''responsible_group'' (of_opt of_str) None) (\<lambda>g.
     Option.bind (dflt d ''detail'' (of_opt of_str) None) (\<lambda>e.
     Option.bind (dflt d ''exception_name'' (of_opt of_str) None) (\<lambda>n.
     Option.bind (dflt d ''kind'' (of_enum kind_value kinds) FK_TASK) (\<lambda>k.
     Some \<lparr>ef_failed_task = t, ef_responsible_group = g, ef_detail = e, ef_exception_name = n, ef_kind = k\<rparr>))))))"

definition of_result :: "json \<Rightarrow> step_result option" where
  "of_result v =
     Option.bind (of_dict v) (\<lambda>d.
     Option.bind (dflt d ''final_vendor_id'' (of_opt of_str) None) (\<lambda>i.
     Some \<lparr>sr_final_vendor_id = i\<rparr>))"

definition of_time :: "codec \<Rightarrow> json \<Rightarrow> datetime option" where
  "of_time c v = Option.bind (of_str v) (cd_of_iso c)"

definition of_state :: "codec \<Rightarrow> json \<Rightarrow> run_state option" where
  "of_state c v =
     Option.bind (of_dict v) (\<lambda>d.
     Option.bind (req d ''workflow'' of_workflow) (\<lambda>wf.
     Option.bind (dflt d ''ticket_params'' of_dict []) (\<lambda>tp.
     Option.bind (dflt d ''workflow_params'' of_dict []) (\<lambda>wp.
     Option.bind (dflt d ''resource'' (of_opt of_resource) None) (\<lambda>rs.
     Option.bind (dflt d ''operation'' (of_enum operation_value operations) RO_CREATE) (\<lambda>op.
     Option.bind (dflt d ''legacy'' (of_opt of_legacy) None) (\<lambda>lg.
     Option.bind (dflt d ''ticket'' (of_opt of_ticket) None) (\<lambda>ti.
     Option.bind (dflt d ''engine_run_id'' (of_opt of_str) None) (\<lambda>er.
     Option.bind (dflt d ''resource_configured'' of_boolean False) (\<lambda>rc.
     Option.bind (dflt d ''resource_finalized'' of_boolean False) (\<lambda>rf.
     Option.bind (dflt d ''ticket_closed'' of_boolean False) (\<lambda>tc.
     Option.bind (dflt d ''legacy_submitted'' of_boolean False) (\<lambda>ls.
     Option.bind (dflt d ''legacy_reference'' (of_opt of_str) None) (\<lambda>lr.
     Option.bind (dflt d ''step_attempts'' (of_steps of_count) []) (\<lambda>sa.
     Option.bind (dflt d ''step_started_at'' (of_steps (of_time c)) []) (\<lambda>ss.
     Option.bind (dflt d ''attempt_started_at'' (of_opt (of_time c)) None) (\<lambda>at.
     Option.bind (dflt d ''errors'' (of_steps of_str) []) (\<lambda>es.
     Option.bind (dflt d ''step_results'' (of_steps of_result) []) (\<lambda>sr.
     Option.bind (dflt d ''engine_failure'' (of_opt of_failure) None) (\<lambda>ef.
     Option.bind (dflt d ''incident_id'' (of_opt of_str) None) (\<lambda>ii.
     Some \<lparr>st_workflow = wf, st_ticket_params = tp, st_workflow_params = wp, st_resource = rs, st_operation = op,
       st_legacy = lg, st_ticket = ti, st_engine_run_id = er, st_resource_configured = rc, st_resource_finalized = rf,
       st_ticket_closed = tc, st_legacy_submitted = ls, st_legacy_reference = lr, st_step_attempts = sa,
       st_step_started_at = ss, st_attempt_started_at = at, st_errors = es, st_step_results = sr,
       st_engine_failure = ef, st_incident_id = ii\<rparr>)))))))))))))))))))))"

section \<open>The column's type\<close>

text \<open>The \<open>assert\<close> on the way in is the type of \<open>v\<close>.\<close>

definition process_bind_param :: "codec \<Rightarrow> run_state option \<Rightarrow> json option" where
  "process_bind_param c v = (case v of None \<Rightarrow> None | Some st \<Rightarrow> Some (dump_state c st))"

definition process_result_value :: "codec \<Rightarrow> json option \<Rightarrow> exn + run_state option" where
  "process_result_value c v = (case v of
     None \<Rightarrow> Inr None
   | Some j \<Rightarrow> (case of_state c j of
       Some st \<Rightarrow> Inr (Some st)
     | None \<Rightarrow> Inl (OtherError ''ValidationError'' [])))"

text \<open>What a row holds after a save, and what the next load of it gives.\<close>

definition column_of :: "codec \<Rightarrow> run_state option \<Rightarrow> exn + json option" where
  "column_of c v = (case process_bind_param c v of
     None \<Rightarrow> Inr None
   | Some j \<Rightarrow> (case jsonb_in c j of Inl e \<Rightarrow> Inl e | Inr j' \<Rightarrow> Inr (Some j')))"

definition saved_and_loaded :: "codec \<Rightarrow> run_state option \<Rightarrow> exn + run_state option" where
  "saved_and_loaded c v = (case column_of c v of Inl e \<Rightarrow> Inl e | Inr j \<Rightarrow> process_result_value c j)"

section \<open>What the column does to a state\<close>

definition normal_payload :: "codec \<Rightarrow> payload \<Rightarrow> payload" where
  "normal_payload c d = key_sort c (map (\<lambda>(k, v). (k, jsonb c v)) d)"

definition step_sort :: "codec \<Rightarrow> (step_name, 'a) dict \<Rightarrow> (step_name, 'a) dict" where
  "step_sort c d = sort_key (\<lambda>(k, _). cd_rank c (step_value k)) d"

definition normal_state :: "codec \<Rightarrow> run_state \<Rightarrow> run_state" where
  "normal_state c st = st\<lparr>
     st_ticket_params := normal_payload c (st_ticket_params st),
     st_workflow_params := normal_payload c (st_workflow_params st),
     st_resource := map_option (\<lambda>r. r\<lparr>rs_data := normal_payload c (rs_data r)\<rparr>) (st_resource st),
     st_legacy := map_option (\<lambda>q. q\<lparr>lr_variables := normal_payload c (lr_variables q)\<rparr>) (st_legacy st),
     st_step_attempts := step_sort c (st_step_attempts st),
     st_step_started_at := step_sort c (st_step_started_at st),
     st_errors := step_sort c (st_errors st),
     st_step_results := step_sort c (st_step_results st)\<rparr>"

subsection \<open>Sorting\<close>

text \<open>A stable sort by a function of the key does not change what a key is bound to.\<close>

lemma insort_key_map: "insort_key f (g x) (map g xs) = map g (insort_key (f \<circ> g) x xs)"
  by (induction xs) auto

lemma sort_key_map: "sort_key f (map g xs) = map g (sort_key (f \<circ> g) xs)"
  by (induction xs) (simp_all add: insort_key_map [unfolded o_def] o_def)

lemma sort_key_same:
  assumes "\<And>x y. x \<in> set xs \<Longrightarrow> y \<in> set xs \<Longrightarrow> f x = f y"
  shows "sort_key f xs = xs"
proof (rule sort_key_id_if_sorted)
  have "map f xs = map (\<lambda>_. f (hd xs)) xs"
    by (rule map_cong [OF refl], rule assms) (auto intro!: hd_in_set)
  then show "sorted (map f xs)" by (simp add: map_replicate_const)
qed

lemma map_of_filter: "map_of d k = map_of (filter (\<lambda>p. fst p = k) d) k"
  by (induction d) auto

lemma map_of_sort_key:
  fixes f :: "'a \<times> 'b \<Rightarrow> 'c :: linorder"
  assumes "\<And>k x y. f (k, x) = f (k, y)"
  shows "map_of (sort_key f d) k = map_of d k"
proof -
  have "filter (\<lambda>p. fst p = k) (sort_key f d) = sort_key f (filter (\<lambda>p. fst p = k) d)"
    by (rule filter_sort)
  also have "\<dots> = filter (\<lambda>p. fst p = k) d"
    by (rule sort_key_same) (use assms in auto)
  finally show ?thesis by (metis map_of_filter)
qed

lemma map_of_key_sort [simp]: "map_of (key_sort c d) k = map_of d k"
  by (simp add: key_sort_def map_of_sort_key)

lemma map_of_step_sort [simp]: "map_of (step_sort c d) k = map_of d k"
  by (simp add: step_sort_def map_of_sort_key)

lemma key_sort_steps: "key_sort c (map (\<lambda>(k, v). (step_value k, f v)) d) = map (\<lambda>(k, v). (step_value k, f v)) (step_sort c d)"
  by (simp add: key_sort_def step_sort_def sort_key_map o_def case_prod_unfold)

lemma set_step_sort [simp]: "set (step_sort c d) = set d"
  by (simp add: step_sort_def)

subsection \<open>Reading back what was written\<close>

lemma map_of_normal_payload: "map_of (normal_payload c d) k = map_option (jsonb c) (map_of d k)"
  by (simp add: normal_payload_def map_of_map)

lemma req_dflt_normal [simp]:
  "req (normal_payload c d) k f = req d k (\<lambda>v. f (jsonb c v))"
  "dflt (normal_payload c d) k f x = dflt d k (\<lambda>v. f (jsonb c v)) x"
  by (cases "map_of d k"; simp add: req_def dflt_def map_of_normal_payload)+

text \<open>A field of a dumped object.\<close>

lemma req_dflt_Cons [simp]:
  "req ((k', v) # d) k f = (if k' = k then f v else req d k f)"
  "dflt ((k', v) # d) k f x = (if k' = k then f v else dflt d k f x)"
  by (simp_all add: req_def dflt_def)

lemma of_opt_json [simp]:
  "of_opt of_str (jsonb c (opt_json JStr x)) = Some x"
  by (cases x) (simp_all add: of_opt_def opt_json_def)

lemma of_opt_object:
  assumes "\<And>x. f (jsonb c (g x)) = Some (h x)" and "\<And>x. jsonb c (g x) \<noteq> JNull"
  shows "of_opt f (jsonb c (opt_json g y)) = Some (map_option h y)"
  using assms by (cases y) (simp_all add: of_opt_def opt_json_def)

lemma of_strs_json [simp]: "of_list of_str (jsonb c (strs_json xs)) = Some xs"
  by (simp add: of_list_def strs_json_def o_def) (induction xs; simp)

lemma of_dict_jsonb [simp]: "of_dict (jsonb c (JDict d)) = Some (normal_payload c d)"
  by (simp add: normal_payload_def)

lemma of_enum_values [simp]:
  "of_enum engine_type_value engine_types (JStr (engine_type_value e)) = Some e"
  "of_enum operation_value operations (JStr (operation_value p)) = Some p"
  "of_enum kind_value kinds (JStr (kind_value k)) = Some k"
  subgoal by (cases e) (simp_all add: of_enum_def engine_types_def)
  subgoal by (cases p) (simp_all add: of_enum_def operations_def)
  subgoal by (cases k) (simp_all add: of_enum_def kinds_def)
  done

lemma those_map_Some: "(\<And>x. x \<in> set xs \<Longrightarrow> f x = Some (g x)) \<Longrightarrow> those (map f xs) = Some (map g xs)"
  by (induction xs) simp_all

lemma of_steps_json:
  assumes "\<And>x. f (jsonb c (g x)) = Some x"
  shows "of_steps f (jsonb c (steps_json g d)) = Some (step_sort c d)"
proof -
  have "jsonb c (steps_json g d) = JDict (map (\<lambda>(k, v). (step_value k, jsonb c (g v))) (step_sort c d))"
    by (simp only: key_sort_steps [symmetric]) (simp add: steps_json_def case_prod_unfold o_def)
  then have "of_steps f (jsonb c (steps_json g d)) = those (map Some (step_sort c d))"
    using assms by (simp add: of_steps_def o_def case_prod_unfold)
  then show ?thesis using those_map_Some [of "step_sort c d" Some "\<lambda>x. x"] by simp
qed

declare jsonb.simps(3) [simp del]

lemma of_workflow_json [simp]: "of_workflow (jsonb c (workflow_json w)) = Some w"
  by (cases w) (simp add: of_workflow_def workflow_json_def)

lemma of_resource_json [simp]:
  "of_resource (jsonb c (resource_json r)) = Some (r\<lparr>rs_data := normal_payload c (rs_data r)\<rparr>)"
  by (cases r) (simp add: of_resource_def resource_json_def)

lemma of_legacy_json [simp]:
  "of_legacy (jsonb c (legacy_json q)) = Some (q\<lparr>lr_variables := normal_payload c (lr_variables q)\<rparr>)"
  by (cases q) (simp add: of_legacy_def legacy_json_def)

lemma of_ticket_json [simp]: "of_ticket (jsonb c (ticket_json t)) = Some t"
  by (cases t) (simp add: of_ticket_def ticket_json_def)

lemma of_failure_json [simp]: "of_failure (jsonb c (failure_json f)) = Some f"
  by (cases f) (simp add: of_failure_def failure_json_def)

lemma of_result_json [simp]: "of_result (jsonb c (result_json r)) = Some r"
  by (cases r) (simp add: of_result_def result_json_def)

lemma objects_not_null [simp]:
  "jsonb c (resource_json r) \<noteq> JNull" "jsonb c (legacy_json q) \<noteq> JNull" "jsonb c (ticket_json t) \<noteq> JNull"
  "jsonb c (failure_json f) \<noteq> JNull"
  by (simp_all add: resource_json_def legacy_json_def ticket_json_def failure_json_def jsonb.simps(3))

text \<open>The fields that are absent from an older row get their declared values.\<close>

lemma of_state_defaults:
  assumes "of_workflow v = Some w"
  shows "of_state c (JDict [(''workflow'', v)]) = Some \<lparr>st_workflow = w, st_ticket_params = [], st_workflow_params = [],
    st_resource = None, st_operation = RO_CREATE, st_legacy = None, st_ticket = None, st_engine_run_id = None,
    st_resource_configured = False, st_resource_finalized = False, st_ticket_closed = False, st_legacy_submitted = False,
    st_legacy_reference = None, st_step_attempts = [], st_step_started_at = [], st_attempt_started_at = None, st_errors = [],
    st_step_results = [], st_engine_failure = None, st_incident_id = None\<rparr>"
  using assms by (simp add: of_state_def dflt_def [of "[]"])

lemma of_state_dump:
  assumes "\<And>t. cd_of_iso c (cd_iso c t) = Some t"
  shows "of_state c (jsonb c (dump_state c st)) = Some (normal_state c st)"
proof -
  have time: "of_time c (jsonb c ((JStr \<circ> cd_iso c) t)) = Some t" for t
    using assms by (simp add: of_time_def)
  have count: "of_count (jsonb c ((JInt \<circ> int) n)) = Some n" for n
    by simp
  have start: "of_opt (of_time c) (jsonb c (opt_json (JStr \<circ> cd_iso c) x)) = Some x" for x
    using time by (cases x) (simp_all add: of_opt_def opt_json_def)
  note objects = of_opt_object [where f = of_resource and g = resource_json, OF of_resource_json]
    of_opt_object [where f = of_legacy and g = legacy_json, OF of_legacy_json]
    of_opt_object [where f = of_ticket and g = ticket_json, OF of_ticket_json]
    of_opt_object [where f = of_failure and g = failure_json, OF of_failure_json]
  note steps = of_steps_json [where f = of_count and g = "JInt \<circ> int", OF count]
    of_steps_json [where f = "of_time c" and g = "JStr \<circ> cd_iso c", OF time]
    of_steps_json [where f = of_str and g = JStr] of_steps_json [where f = of_result and g = result_json, OF of_result_json]
  show ?thesis
    by (cases st) (simp add: dump_state_def state_fields_def of_state_def start objects steps normal_state_def option.map_ident)
qed

subsection \<open>A second save\<close>

text \<open>Where the database keeps the float that it gave back, a state that was loaded is saved and loaded unchanged.\<close>

lemma key_sort_idem [simp]: "key_sort c (key_sort c d) = key_sort c d" "step_sort c (step_sort c e) = step_sort c e"
  by (simp_all add: key_sort_def step_sort_def sort_key_id_if_sorted)

lemma key_sort_values: "key_sort c (map (\<lambda>(k, v). (k, f v)) d) = map (\<lambda>(k, v). (k, f v)) (key_sort c d)"
  by (simp add: key_sort_def sort_key_map o_def case_prod_unfold)

lemma set_key_sort [simp]: "set (key_sort c d) = set d"
  by (simp add: key_sort_def)

lemma jsonb_idem:
  assumes "\<And>t. jsonb c (cd_float c t) = cd_float c t"
  shows "jsonb c (jsonb c v) = jsonb c v"
proof (induction v)
  case (JDict d)
  then have "map (\<lambda>p. (fst p, jsonb c (jsonb c (snd p)))) d = map (\<lambda>p. (fst p, jsonb c (snd p))) d" by fastforce
  then show ?case
    by (simp add: jsonb.simps(3) key_sort_values [of c "jsonb c", symmetric]) (simp add: o_def case_prod_unfold cong: map_cong)
qed (simp_all add: assms)

lemma normal_payload_idem:
  assumes "\<And>t. jsonb c (cd_float c t) = cd_float c t"
  shows "normal_payload c (normal_payload c d) = normal_payload c d"
  using jsonb_idem [of c "JDict d", OF assms] by (simp add: jsonb.simps(3) normal_payload_def)

lemma normal_state_idem:
  assumes "\<And>t. jsonb c (cd_float c t) = cd_float c t"
  shows "normal_state c (normal_state c st) = normal_state c st"
  by (simp add: normal_state_def normal_payload_idem [OF assms] option.map_comp o_def)

section \<open>Properties\<close>

text \<open>C27. A run's state that is saved and loaded again is the state that was saved: where the database takes the document
  (it raises what the database raises where it does not), every field is what it was, the dictionaries by step bind every
  step to what they bound it to, and only the order of keys and the text of floats may differ, inside the payloads the
  orchestrator passes through; a payload has the same keys.\<close>

theorem state_round_trip:
  assumes "\<And>t. cd_of_iso c (cd_iso c t) = Some t"
  shows "saved_and_loaded c (Some st) = (case cd_refuses c (dump_state c st) of
        Some e \<Rightarrow> Inl e
      | None \<Rightarrow> Inr (Some (normal_state c st)))
    \<and> map_of (st_step_attempts (normal_state c st)) = map_of (st_step_attempts st)
    \<and> map_of (st_step_started_at (normal_state c st)) = map_of (st_step_started_at st)
    \<and> map_of (st_errors (normal_state c st)) = map_of (st_errors st)
    \<and> map_of (st_step_results (normal_state c st)) = map_of (st_step_results st)
    \<and> map_of (st_workflow_params (normal_state c st)) k = map_option (jsonb c) (map_of (st_workflow_params st) k)
    \<and> map_of (st_ticket_params (normal_state c st)) k = map_option (jsonb c) (map_of (st_ticket_params st) k)"
  by (simp add: saved_and_loaded_def column_of_def process_bind_param_def jsonb_in_def process_result_value_def
    of_state_dump assms normal_state_def map_of_normal_payload fun_eq_iff split: option.split)

text \<open>A column whose times are decimal counts, whose keys are kept by length, and that refuses a character \<open>NUL\<close>.\<close>

definition micros_text :: "int \<Rightarrow> string" where
  "micros_text t = (if t < 0 then CHR ''-'' # str_nat (nat (- t)) else str_nat (nat t))"

definition read_micros :: "string \<Rightarrow> int option" where
  "read_micros s = (case s of
     [] \<Rightarrow> None
   | ch # cs \<Rightarrow> Some (if ch = CHR ''-'' then - int (read_nat cs) else int (read_nat s)))"

lemma read_micros_text: "read_micros (micros_text t) = Some t"
proof (cases "t < 0")
  case True
  then show ?thesis by (simp add: micros_text_def read_micros_def read_str_nat)
next
  case False
  obtain ch cs where s: "str_nat (nat t) = ch # cs" by (cases "str_nat (nat t)") auto
  then have "ch \<noteq> CHR ''-''" using str_nat_chars [of ch "nat t"] by auto
  with False s show ?thesis using read_str_nat [of "nat t"] by (simp add: micros_text_def read_micros_def)
qed

fun nul_free :: "json \<Rightarrow> bool" where
  "nul_free (JStr s) = (CHR 0x00 \<notin> set s)"
| "nul_free (JList xs) = list_all nul_free xs"
| "nul_free (JDict d) = list_all (\<lambda>(k, v). CHR 0x00 \<notin> set k \<and> nul_free v) d"
| "nul_free _ = True"

definition codec1 :: codec where
  "codec1 = \<lparr>cd_iso = micros_text, cd_of_iso = read_micros, cd_rank = size, cd_float = JFloat,
     cd_refuses = (\<lambda>v. if nul_free v then None else Some (OtherError ''DBAPIError'' []))\<rparr>"

definition state1 :: run_state where
  "state1 = (run_run_state run1)\<lparr>
     st_workflow_params := [(''size'', JFloat ''1.5''), (''os'', JStr ''linux'')],
     st_errors := [(SN_VALIDATE_RESOURCE, ''refused''), (SN_RUN_ENGINE, ''timeout'')]\<rparr>"

theorem state_round_trip_witness:
  "saved_and_loaded codec1 (Some state1) = Inr (Some (normal_state codec1 state1))
    \<and> st_errors (normal_state codec1 state1) = [(SN_RUN_ENGINE, ''timeout''), (SN_VALIDATE_RESOURCE, ''refused'')]
    \<and> map_of (st_errors (normal_state codec1 state1)) SN_VALIDATE_RESOURCE = Some ''refused''"
proof -
  have iso: "\<And>t. cd_of_iso codec1 (cd_iso codec1 t) = Some t"
    by (simp add: codec1_def read_micros_text)
  have "cd_refuses codec1 (dump_state codec1 state1) = None" by code_simp
  moreover have "st_errors (normal_state codec1 state1) = [(SN_RUN_ENGINE, ''timeout''), (SN_VALIDATE_RESOURCE, ''refused'')]"
    by code_simp
  ultimately show ?thesis
    using state_round_trip [of codec1 state1, OF iso] by (simp add: state1_def)
qed

end
