(* ===== verification/Spec2Isabelle.thy ===== *)
theory Spec2Isabelle
  imports Drive_Properties Failure_Properties Completion Step_Properties Service_Properties System_Properties
    Adapter_Properties Exchanges Dag_Runs Deadlines Daemon_Properties Api_Properties Entrypoints Console Persistence
begin

text \<open>
  CloudIO orchestrator: a development over the Python program under \<open>src/\<close>.

  \<^bold>\<open>The program.\<close> A caller triggers a run of a registered workflow over HTTP (\<open>api.py\<close>, \<open>services.py\<close>); the run is
  a row of a Postgres table (\<open>adapters/database.py\<close>). Workers (\<open>worker.py\<close>) claim due rows under a lease and
  drive them (\<open>orchestration/executor.py\<close>) through the steps of the plan of their type (\<open>plans.py\<close>, \<open>steps.py\<close>): a
  ticket is opened, the record registered, the approval awaited, the request validated, the workflow engine run,
  the record finalized, the ticket closed. A step that must wait reschedules the run; a failed one is retried with
  backoff, and a permanent failure is escalated (\<open>failure_policy.py\<close>, \<open>escalator.py\<close>). The providers are behind
  ports (\<open>ports.py\<close>) with HTTP adapters (\<open>adapters/\<close>), bound in \<open>bootstrap.py\<close>.

  \<^bold>\<open>How it is modelled.\<close> A coroutine is an effect \<open>'s \<Rightarrow> ('e + 'a) \<times> 's\<close> (\<open>Prelude\<close>): an exception is a value, the
  state survives it, and \<open>try\<close>, \<open>except\<close> and \<open>finally\<close> are combinators. Its rules are a weakest-precondition
  calculus (\<open>wpE\<close>, the collection \<open>wp\<close>), and \<open>keeps R m\<close> says that \<open>m\<close> keeps the relation \<open>R\<close> whatever it returns; the
  locale \<open>kept\<close> has the closure rules of such relations once for all. Integers are unbounded as Python's, times
  are counts of microseconds, strings are the bytes of their UTF-8 encoding, and a \<open>dict\<close> is an association list
  in insertion order.

  \<^bold>\<open>Theories and sources.\<close>
  \<^item> \<open>Domain\<close> (\<open>domain.py\<close>): enums with their values, exceptions, value objects, the run and its state. \<open>Ports\<close>
    (\<open>ports.py\<close>): a provider is a record of effects on a world \<open>'w\<close>; a drive keeps the run, the world and the record of
    its calls (\<open>event\<close>), over which the properties of order are stated.
  \<^item> \<open>Steps\<close>, \<open>Plans\<close>, \<open>Failure_Policy\<close>, \<open>Escalator\<close>, \<open>Executor\<close> (\<open>orchestration/\<close>): one definition per method.
    \<open>Step_Contract\<close> has the contract of a handler as the locale \<open>step_contract\<close>, interpreted on all eight, and
    \<open>Plans\<close> that of the handler table; \<open>Calls\<close>, \<open>Executor_Laws\<close>, \<open>Call_Order\<close>, \<open>Endings\<close>, \<open>Budget\<close> and \<open>Positions\<close> have the laws of whole
    drives: what is called, that a drive ends settled and saves it, that the engine waits for the approval, that the
    retry budget holds over any number of drives, that a
    run stands at a step of its plan with what the step needs.
  \<^item> \<open>Run_Store\<close> (\<open>database.py\<close>): the repositories as transactions on a table, with their laws in the locale
    \<open>run_repository\<close>. \<open>Session\<close> runs them in a session that may fail before or after its commit.
    \<open>Services\<close> (\<open>services.py\<close>), \<open>Api\<close> and \<open>Routes\<close> (\<open>api.py\<close>, \<open>auth.py\<close>): the use cases, the routes, and the application
    with its gate.
  \<^item> \<open>Http\<close>: an exchange with a provider, and Python's operations on JSON. \<open>Service_Now\<close>, \<open>Airflow\<close>,
    \<open>Project_Manager\<close>, \<open>Legacy_Runner\<close> (\<open>adapters/\<close>): every call of the four clients over a service that is a parameter.
    \<open>Json_Codec\<close>: the JSON encoder and decoder that a failure passes through, proved to be inverse.
  \<^item> \<open>Resource_Manager\<close> has what the steps ask of a resource manager as a locale; \<open>Dev_PM\<close>
    (\<open>dev/project_manager/app.py\<close>) is the mock, and interprets it. \<open>Dag_Callbacks\<close> (\<open>airflow/dags\<close>): what a DAG publishes.
  \<^item> \<open>Worker\<close> (\<open>worker.py\<close>): the loop of one worker, a partial function. \<open>System\<close>: workers, triggers and callbacks
    over one database as a step relation, a step per transaction, with its invariant.
  \<^item> \<open>Bootstrap\<close> (\<open>bootstrap.py\<close>, \<open>config.py\<close>): settings, clients, adapters, executor and workers put together.
    \<open>Logging\<close> (\<open>log.py\<close>, \<open>logging_transport.py\<close>), \<open>Entrypoints\<close> (\<open>cli.py\<close>), \<open>Schema\<close> (the migrations and the
    entities' tables), \<open>Persistence\<close> (\<open>PydanticJSONB\<close> of \<open>domain.py\<close>: the column a run's state is kept in), \<open>Console\<close> (\<open>dev/ui/server.py\<close>).
  \<^item> \<open>Traversal\<close> and \<open>Wire\<close> are the two locales through which facts about single calls become facts about the program:
    a relation that every port call keeps is kept by the whole of \<open>handle\<close>, and one that every HTTP exchange
    keeps by every call of the four adapters. \<open>Exchanges\<close> uses both to explain a drive's calls by its HTTP traffic, and
    \<open>Daemon\<close> to show that a worker of the composition root refines \<open>System\<close>.
  \<^item> \<open>Samples\<close> has the providers and runs that the witnesses are evaluated on.

  \<^bold>\<open>What is shown.\<close> \<open>Drive_Properties\<close>, \<open>Failure_Properties\<close>, \<open>Completion\<close>, \<open>Step_Properties\<close>: one drive, whatever the
  providers do: it ends, settles and saves the run, opens two incidents at most, triggers the engine only
  after approval and validation; retries, backoff, escalation; accommodating providers bring a run to its end.
  \<open>Deadlines\<close>: a step that is polled past its time is given up.
  \<open>System_Properties\<close>: any interleaving: no run is forgotten, a terminal run is final, identities are kept,
  rows are well-typed, an abandoned run is claimed again. \<open>Daemon_Properties\<close>: the concrete worker keeps to this.
  \<open>Exchanges\<close>: no DAG run is started without an approval and a verdict in the traffic before. \<open>Dag_Runs\<close>: over its
  whole life a run starts no more DAG runs than its budget has attempts. \<open>Service_Properties\<close>,
  \<open>Api_Properties\<close>: the repositories, the use cases, the gate, and that rows fit the migrated schema.
  \<open>Adapter_Properties\<close>: idempotency against the mock, tickets and incidents, the classification of engine
  failures from the DAG to the step, the loop of a worker. \<open>Logging\<close>, \<open>Schema\<close>, \<open>Persistence\<close> and \<open>Console\<close>
  hold their own.

  \<^bold>\<open>Bounds.\<close> The drive loop needs no fuel: the rank of the step grows with every turn. The JSON decoder takes fuel, twice
  the length of its input, and its round trip is proved with it. The worker's loop has no bound and is a
  \<open>partial_function\<close>; that it returns exactly when its stop event is found set is a property.

  \<^bold>\<open>Not modelled.\<close> FastAPI's parsing and rendering, typer, uvicorn, alembic's environment, SQLAlchemy's mapping,
  what pydantic's validation coerces; the sockets, timeouts, pools and TLS of the HTTP clients (a call's failure is a value);
  percent-encoding of paths; the formatting of log records, and the records that the modelled code itself emits; the
  file server of the console; Python's limits on recursion and on the digits of an integer. A transaction is one
  step, as Postgres' row locks make it, and a claim's \<open>SKIP LOCKED\<close> is a set of rows that others hold.
\<close>

end
